(* ===== verification/Rita_Prelude.thy ===== *)
theory Rita_Prelude
  imports Main "HOL-Library.Word" "HOL-Library.Monad_Syntax"
begin

text \<open>
  Shared vocabulary of the development: the machine integer types of the Rust sources, time,
  the two ways a Rust call can fail (a \<open>Result\<close> value and a panic), \<open>HashMap\<close> entries, and
  the generic list, map and option lemmas the components use.

  Conventions used in every theory:
  \<^item> \<open>Result<T, E>\<close> is the sum \<open>'e + 'a\<close>; \<open>Err\<close> and \<open>Ok\<close> abbreviate the injections.
  \<^item> A call that may panic returns an option and \<open>None\<close> is the panic. Panics are never
    caught inside a handler: under a write lock they poison the lock.
  \<^item> \<open>Instant\<close> and \<open>Duration\<close> are natural numbers of nanoseconds. \<open>Instant - Instant\<close>
    saturates at zero, as \<open>-\<close> on \<open>nat\<close> does; every reading of the clock is an argument.
  \<^item> A \<open>HashMap\<close> that is only looked up and updated is a map; one whose iteration order
    or size matters is an association list, or comes with the list of its keys in the order
    the iterator yields them, so that a theorem covers every order.
\<close>

section \<open>Machine integers, time\<close>

type_synonym u8 = "8 word"
type_synonym u16 = "16 word"
type_synonym u32 = "32 word"
type_synonym u64 = "64 word"
type_synonym u128 = "128 word"

type_synonym instant = nat
type_synonym duration = nat

definition from_secs :: "nat \<Rightarrow> duration" where
  "from_secs s = s * 1000000000"

definition as_secs :: "duration \<Rightarrow> nat" where
  "as_secs d = d div 1000000000"

text \<open>\<open>Instant::checked_duration_since\<close>: \<open>None\<close> when the argument is later.\<close>

definition checked_duration_since :: "instant \<Rightarrow> instant \<Rightarrow> duration option" where
  "checked_duration_since now t = (if t \<le> now then Some (now - t) else None)"

section \<open>Results\<close>

abbreviation Ok :: "'a \<Rightarrow> 'e + 'a" where
  "Ok \<equiv> Inr"

abbreviation Err :: "'e \<Rightarrow> 'e + 'a" where
  "Err \<equiv> Inl"

definition is_ok :: "'e + 'a \<Rightarrow> bool" where
  "is_ok r = (case r of Inl _ \<Rightarrow> False | Inr _ \<Rightarrow> True)"

definition unwrap_or :: "'a option \<Rightarrow> 'a \<Rightarrow> 'a" where
  "unwrap_or r d = (case r of Some x \<Rightarrow> x | None \<Rightarrow> d)"

lemma is_ok_simps [simp]: "is_ok (Inr x)" "\<not> is_ok (Inl e)"
  by (simp_all add: is_ok_def)

lemma unwrap_or_simps [simp]: "unwrap_or (Some x) d = x" "unwrap_or None d = d"
  by (simp_all add: unwrap_or_def)

section \<open>Options\<close>

named_theorems rita_splits \<open>case splits shared by the component proofs\<close>

lemmas [rita_splits] = option.splits sum.splits prod.splits if_splits

lemma bind_SomeE:
  assumes "Option.bind m f = Some y"
  obtains x where "m = Some x" and "f x = Some y"
  using assms by (cases m) auto

section \<open>Lists\<close>

text \<open>Flattening an option, and inserting into a set that is kept as a list.\<close>

definition option_list :: "'a option \<Rightarrow> 'a list" where
  "option_list m = (case m of None \<Rightarrow> [] | Some x \<Rightarrow> [x])"

definition set_insert :: "'a \<Rightarrow> 'a list \<Rightarrow> 'a list" where
  "set_insert x xs = (if x \<in> set xs then xs else xs @ [x])"

lemma option_list_simps [simp]: "option_list None = []" "option_list (Some x) = [x]"
  by (simp_all add: option_list_def)

lemma set_option_list [simp]: "set (option_list m) = set_option m"
  by (cases m) simp_all

lemma set_set_insert [simp]: "set (set_insert x xs) = insert x (set xs)"
  by (auto simp: set_insert_def)

lemma distinct_set_insert [simp]: "distinct (set_insert x xs) = distinct xs"
  by (auto simp: set_insert_def)

lemma distinct_map_filter: "distinct (map f xs) \<Longrightarrow> distinct (map f (filter P xs))"
  by (induction xs) auto

lemma find_SomeD: "find P xs = Some x \<Longrightarrow> x \<in> set xs \<and> P x"
  by (induction xs) (auto split: if_splits)

lemma find_NoneD: "find P xs = None \<Longrightarrow> x \<in> set xs \<Longrightarrow> \<not> P x"
  by (induction xs) (auto split: if_splits)

end
