(* ===== verification/Num256.thy ===== *)
theory Num256
  imports Rita_Prelude
begin

text \<open>
  The crate \<open>num256\<close> provides the 256 bit integers of every money amount. It is a third
  party package, so its operations are a parameter: a record \<open>num256\<close>, an argument of every
  definition that computes with amounts. An \<open>Int256\<close> is represented by its value, an
  \<open>int\<close>; a \<open>Uint256\<close> by its value, a \<open>nat\<close>. The operators \<open>+\<close>, \<open>-\<close>, \<open>*\<close> and
  \<open>abs\<close> are described by what they make of the exact result: \<open>i256\<close> for signed and
  \<open>u256\<close> for unsigned arithmetic, \<open>None\<close> being a panic.

  The locale \<open>num256_laws\<close> states the documented behaviour the code relies on: a
  representable result is returned, conversions and checked multiplication answer \<open>None\<close>
  exactly when the value is not representable, a division by zero panics. What happens on
  overflow is left open. Two instances show that the laws can hold: one panics on overflow,
  the other wraps around.
\<close>

record num256 =
  i256 :: "int \<Rightarrow> int option"
  u256 :: "int \<Rightarrow> nat option"
  to_int256 :: "nat \<Rightarrow> int option"
  to_uint256 :: "int \<Rightarrow> nat option"
  udiv :: "nat \<Rightarrow> nat \<Rightarrow> nat option"
  checked_umul :: "nat \<Rightarrow> nat \<Rightarrow> nat option"

definition i256_range :: "int \<Rightarrow> bool" where
  "i256_range x \<longleftrightarrow> - (2 ^ 255) \<le> x \<and> x < 2 ^ 255"

definition u256_range :: "int \<Rightarrow> bool" where
  "u256_range x \<longleftrightarrow> 0 \<le> x \<and> x < 2 ^ 256"

locale num256_laws =
  fixes N :: num256
  assumes i256_exact: "i256_range x \<Longrightarrow> i256 N x = Some x"
    and u256_exact: "u256_range x \<Longrightarrow> u256 N x = Some (nat x)"
    and to_int256_exact: "to_int256 N v = (if int v < 2 ^ 255 then Some (int v) else None)"
    and to_uint256_exact: "to_uint256 N x = (if 0 \<le> x then Some (nat x) else None)"
    and udiv_exact: "udiv N a b = (if b = 0 then None else Some (a div b))"
    and checked_umul_exact:
      "checked_umul N a b = (if int a * int b < 2 ^ 256 then Some (a * b) else None)"
begin

lemma u256_nat: "int v < 2 ^ 256 \<Longrightarrow> u256 N (int v) = Some v"
  by (simp add: u256_exact u256_range_def)

lemma u256_add: "int a + int b < 2 ^ 256 \<Longrightarrow> u256 N (int a + int b) = Some (a + b)"
  using u256_nat [of "a + b"] by simp

lemma u256_sub: "b \<le> a \<Longrightarrow> int a < 2 ^ 256 \<Longrightarrow> u256 N (int a - int b) = Some (a - b)"
  using u256_nat [of "a - b"] by (simp add: of_nat_diff)

lemma i256_abs: "- (2 ^ 255) < x \<Longrightarrow> x < 2 ^ 255 \<Longrightarrow> i256 N \<bar>x\<bar> = Some \<bar>x\<bar>"
  by (simp add: i256_exact i256_range_def abs_if)

lemma to_uint256_abs: "to_uint256 N \<bar>x\<bar> = Some (nat \<bar>x\<bar>)"
  by (simp add: to_uint256_exact)

lemmas num256_exact = i256_exact u256_exact to_int256_exact to_uint256_exact udiv_exact
  checked_umul_exact

end

text \<open>An instance that panics on overflow.\<close>

definition checked_num256 :: num256 where
  "checked_num256 =
     \<lparr>i256 = (\<lambda>x. if - (2 ^ 255) \<le> x \<and> x < 2 ^ 255 then Some x else None),
      u256 = (\<lambda>x. if 0 \<le> x \<and> x < 2 ^ 256 then Some (nat x) else None),
      to_int256 = (\<lambda>v. if int v < 2 ^ 255 then Some (int v) else None),
      to_uint256 = (\<lambda>x. if 0 \<le> x then Some (nat x) else None),
      udiv = (\<lambda>a b. if b = 0 then None else Some (a div b)),
      checked_umul = (\<lambda>a b. if int a * int b < 2 ^ 256 then Some (a * b) else None)\<rparr>"

text \<open>An instance that wraps around, as two's complement arithmetic does.\<close>

definition wrapping_num256 :: num256 where
  "wrapping_num256 =
     checked_num256\<lparr>i256 := (\<lambda>x. Some ((x + 2 ^ 255) mod 2 ^ 256 - 2 ^ 255)),
       u256 := (\<lambda>x. Some (nat (x mod 2 ^ 256)))\<rparr>"

interpretation checked256: num256_laws checked_num256
  by unfold_locales (auto simp: checked_num256_def i256_range_def u256_range_def)

interpretation wrapping256: num256_laws wrapping_num256
  by unfold_locales
    (auto simp: wrapping_num256_def checked_num256_def i256_range_def u256_range_def)

lemma checked_num256_simps [simp]:
  "i256 checked_num256 x = (if - (2 ^ 255) \<le> x \<and> x < 2 ^ 255 then Some x else None)"
  "u256 checked_num256 x = (if 0 \<le> x \<and> x < 2 ^ 256 then Some (nat x) else None)"
  "to_int256 checked_num256 v = (if int v < 2 ^ 255 then Some (int v) else None)"
  "to_uint256 checked_num256 x = (if 0 \<le> x then Some (nat x) else None)"
  "udiv checked_num256 a b = (if b = 0 then None else Some (a div b))"
  "checked_umul checked_num256 a b = (if int a * int b < 2 ^ 256 then Some (a * b) else None)"
  by (simp_all add: checked_num256_def)

end
