(* ===== verification/Althea_Types.thy ===== *)
theory Althea_Types
  imports Num256
begin

text \<open>
  The data the components exchange: \<open>althea_types/src/interop.rs\<close> (identities, payments,
  denominations, chains) and the error values of \<open>rita_common/src/error.rs\<close>.

  An identity is compared and hashed by its mesh address, Ethereum address and WireGuard key
  only; its nickname is display data that no modelled operation reads, so it is not part of
  the record and the equality of HOL is the \<open>Eq\<close> of the code.
\<close>

section \<open>Addresses and identities\<close>

datatype ip_addr = V4 u32 | V6 u128

type_synonym address = "160 word"
type_synonym wg_key = "256 word"

record identity =
  mesh_ip :: ip_addr
  eth_address :: address
  wg_public_key :: wg_key

record local_identity =
  wg_port :: u16
  have_tunnel :: "bool option"
  global_id :: identity

section \<open>Denominations and chains\<close>

record denom =
  denom_name :: string
  denom_decimal :: u64

datatype system_chain = Ethereum | Sepolia | Xdai | AltheaL1

definition chain_to_u8 :: "system_chain \<Rightarrow> u8" where
  "chain_to_u8 c = (case c of AltheaL1 \<Rightarrow> 1 | Ethereum \<Rightarrow> 2 | Sepolia \<Rightarrow> 3 | Xdai \<Rightarrow> 4)"

definition chain_from_u8 :: "u8 \<Rightarrow> system_chain" where
  "chain_from_u8 v =
     (if v = 1 then AltheaL1 else if v = 2 then Ethereum else if v = 3 then Sepolia
      else if v = 4 then Xdai else AltheaL1)"

definition chain_display :: "system_chain \<Rightarrow> string" where
  "chain_display c = (case c of Ethereum \<Rightarrow> ''Ethereum'' | Sepolia \<Rightarrow> ''Rinkeby''
     | Xdai \<Rightarrow> ''Xdai'' | AltheaL1 \<Rightarrow> ''Althea'')"

definition chain_from_str :: "string \<Rightarrow> unit + system_chain" where
  "chain_from_str s =
     (if s = ''Ethereum'' then Ok Ethereum
      else if s = ''Rinkeby'' then Ok Sepolia
      else if s = ''Sepolia'' then Ok Sepolia
      else if s = ''Testnet'' then Ok Sepolia
      else if s = ''Test'' then Ok Sepolia
      else if s = ''Xdai'' then Ok Xdai
      else if s = ''xdai'' then Ok Xdai
      else if s = ''gnosis'' then Ok Xdai
      else if s = ''gnosischain'' then Ok Xdai
      else if s = ''Althea'' then Ok AltheaL1
      else if s = ''althea'' then Ok AltheaL1
      else if s = ''altheachain'' then Ok AltheaL1
      else if s = ''GnosisChain'' then Ok Xdai
      else if s = ''Gnosis'' then Ok Xdai
      else if s = ''AltheaL1'' then Ok AltheaL1
      else if s = ''altheal1'' then Ok AltheaL1
      else Err ())"

definition DEBT_KEEPER_DENOM :: string where
  "DEBT_KEEPER_DENOM = ''wei''"

definition DEBT_KEEPER_DENOM_DECIMAL :: u64 where
  "DEBT_KEEPER_DENOM_DECIMAL = 1000000000000000000"

section \<open>Payments\<close>

record payment_tx =
  pmt_to :: identity
  pmt_from :: identity
  pmt_amount :: nat
  pmt_txid :: nat

record unpublished_payment_tx =
  upmt_to :: identity
  upmt_from :: identity
  upmt_amount :: nat

definition publish :: "unpublished_payment_tx \<Rightarrow> nat \<Rightarrow> payment_tx" where
  "publish p txid = \<lparr>pmt_to = upmt_to p, pmt_from = upmt_from p, pmt_amount = upmt_amount p,
     pmt_txid = txid\<rparr>"

section \<open>Errors\<close>

text \<open>
  Error values keep their constructors. The message texts some of them carry are only logged,
  no caller matches on them, and they are left out.
\<close>

datatype kernel_interface_error =
    RuntimeError | NoInterfaceError | AddressNotReadyError | WgExistsError
  | FailedToGetMemoryUsage | FailedToGetMemoryInfo | FailedToGetLoadAverage
  | NoAltheaReleaseFeedFound | EmptyRouteString | InvalidRouteString | TrafficControlError
  | InvalidArchString | FailedToGetSystemTime | FailedToGetSystemKernelVersion | ParseError

datatype babel_monitor_error =
    VariableNotFound | InvalidPreamble | LocalFeeNotFound | CommandFailed | ReadFailed
  | NoTerminator | NoNeighbor | TcpError | BabelParseError | ReadFunctionError
  | BoolParseError | ParseAddrError | IntParseError | FloatParseError | NetworkError
  | TokioError | NoRoute | BabelMiscStringError | FromUtf8Error

datatype tunnel_manager_error =
    TmKernelInterfaceError kernel_interface_error | NoFreePortsError

datatype rita_common_error =
    ConversionError | LoggerError | SetLoggerError | UCIError kernel_interface_error
  | ToggleError | NicknameError | SettingsError | CapacityError | MiscStringError
  | KernelInterfaceError kernel_interface_error | StdError | Lowest20Error
  | BabelMonitorError babel_monitor_error | SysTimeError | OldSendRequestError
  | BincodeError | SendRequestError | JsonPayloadError | DuplicatePayment | PaymentFailed
  | TunnelManagerError tunnel_manager_error

section \<open>Facts\<close>

lemma chain_u8_roundtrip: "chain_from_u8 (chain_to_u8 c) = c"
  by (cases c) (simp_all add: chain_from_u8_def chain_to_u8_def)

lemma chain_str_roundtrip: "chain_from_str (chain_display c) = Ok c"
  by (cases c) (simp_all add: chain_from_str_def chain_display_def)

end
