(* ===== verification/Settings.thy ===== *)
theory Settings
  imports Althea_Types
begin

text \<open>
  The configuration: \<open>settings/src/payment.rs\<close>, \<open>settings/src/network.rs\<close> and the settings
  record the shared code sees (\<open>settings/src/lib.rs\<close>), with the option records they hold of
  \<open>babel_monitor/src/structs.rs\<close> and \<open>althea_kernel_interface/src/ip_route.rs\<close>. A region
  is represented by the name of its variant.
\<close>

section \<open>Payment settings\<close>

record token_bridge_addresses =
  xdai_bridge_on_eth :: address
  helper_on_xdai :: address
  xdai_bridge_on_xdai :: address
  eth_full_node_url :: string
  xdai_full_node_url :: string

record payment_settings =
  local_fee :: "u32 option"
  max_fee :: u32
  free_tier_throughput :: u32
  client_can_use_free_tier :: bool
  balance_warning_level :: nat
  payment_threshold :: int
  enable_enforcement :: bool
  eth_private_key :: "256 word option"
  pay_eth_address :: "address option"
  althea_l1_accepted_denoms :: "denom list"
  althea_l1_payment_denom :: denom
  althea_grpc_list :: "string list"
  eth_node_list :: "string list"
  pay_system_chain :: system_chain
  withdraw_chain :: system_chain
  debts_file :: string
  bridge_enabled :: bool
  apply_incoming_credit_immediately :: bool
  debt_limit_enabled :: bool
  bridge_addresses :: token_bridge_addresses
  simulated_transaction_fee_address :: address
  simulated_transaction_fee :: u8
  forgive_on_reboot :: bool
  min_gas :: nat

definition default_bridge_addresses :: token_bridge_addresses where
  "default_bridge_addresses =
     \<lparr>xdai_bridge_on_eth = 0x4aa42145Aa6Ebf72e164C9bBC74fbD3788045016,
      helper_on_xdai = 0x6A92e97A568f5F58590E8b1f56484e6268CdDC51,
      xdai_bridge_on_xdai = 0x7301CFA0e1756B71869E93d4e4Dca5c7d0eb0AA6,
      eth_full_node_url = ''https://eth.althea.org'',
      xdai_full_node_url = ''https://dai.althea.org''\<rparr>"

definition default_max_fee :: "u32" where [simp]: "default_max_fee = 200000000"
definition default_free_tier_throughput :: "u32" where [simp]: "default_free_tier_throughput = 1000"
definition default_client_can_use_free_tier :: "bool" where [simp]: "default_client_can_use_free_tier = True"
definition default_bridge_enabled :: "bool" where [simp]: "default_bridge_enabled = True"
definition default_debt_limit_enabled :: "bool" where [simp]: "default_debt_limit_enabled = True"
definition default_apply_incoming_credit :: "bool" where [simp]: "default_apply_incoming_credit = False"
definition default_balance_warning_level :: "nat" where [simp]: "default_balance_warning_level = 10000000000000000"
definition default_node_list :: "string list" where [simp]: "default_node_list = [''https://dai.althea.org:443'']"
definition default_system_chain :: "system_chain" where [simp]: "default_system_chain = Xdai"
definition default_debts_file :: "string" where [simp]: "default_debts_file = ''/etc/rita-debts.bincode''"
definition default_simulated_transaction_fee_address :: "address" where [simp]: "default_simulated_transaction_fee_address = 0xee8bba37508cd6f9db7c8ad0ae2b3de0168c1b36"
definition default_simulated_transaction_fee :: "u8" where [simp]: "default_simulated_transaction_fee = 10"
definition default_forgive_on_reboot :: "bool" where [simp]: "default_forgive_on_reboot = True"
definition default_min_gas :: "nat" where [simp]: "default_min_gas = 2000000000"
definition default_node_grpc :: "string list" where [simp]: "default_node_grpc = [''https://althea.zone:9090'']"

definition default_payment_threshold :: int where
  "default_payment_threshold = 300000000000000000"

definition default_althea_l1_payment_denom :: denom where
  "default_althea_l1_payment_denom = \<lparr>denom_name = ''uUSDC'', denom_decimal = 1000000\<rparr>"

definition payment_settings_default :: payment_settings where
  "payment_settings_default =
     \<lparr>local_fee = None, max_fee = default_max_fee, free_tier_throughput = default_free_tier_throughput,
      client_can_use_free_tier = default_client_can_use_free_tier,
      balance_warning_level = default_balance_warning_level,
      payment_threshold = default_payment_threshold, enable_enforcement = True,
      eth_private_key = None, pay_eth_address = None,
      althea_l1_accepted_denoms = [default_althea_l1_payment_denom],
      althea_l1_payment_denom = default_althea_l1_payment_denom,
      althea_grpc_list = default_node_grpc, eth_node_list = default_node_list,
      pay_system_chain = default_system_chain, withdraw_chain = default_system_chain,
      debts_file = default_debts_file, bridge_enabled = default_bridge_enabled,
      apply_incoming_credit_immediately = default_apply_incoming_credit,
      debt_limit_enabled = default_debt_limit_enabled,
      bridge_addresses = default_bridge_addresses,
      simulated_transaction_fee_address = default_simulated_transaction_fee_address,
      simulated_transaction_fee = default_simulated_transaction_fee,
      forgive_on_reboot = default_forgive_on_reboot, min_gas = default_min_gas\<rparr>"

section \<open>Options of the routing daemon and the default route\<close>

record babeld_interface_config =
  link_quality :: bool
  max_rtt_penalty :: u16
  rtt_min :: u16
  rtt_max :: u16
  hello_interval :: u16
  update_interval :: u16
  split_horizon :: bool

record babeld_config =
  kernel_check_interval :: "duration option"
  babeld_local_fee :: u32
  babeld_metric_factor :: u32
  interface_defaults :: babeld_interface_config

definition default_babeld_config :: babeld_config where
  "default_babeld_config =
     \<lparr>kernel_check_interval = None, babeld_local_fee = 0, babeld_metric_factor = 1900,
      interface_defaults = \<lparr>link_quality = True, max_rtt_penalty = 200, rtt_min = 50, rtt_max = 500,
        hello_interval = 5, update_interval = 20, split_horizon = True\<rparr>\<rparr>"

record default_route =
  dr_via :: ip_addr
  dr_nic :: string
  dr_proto :: "string option"
  dr_src :: "ip_addr option"
  dr_metric :: "u16 option"

section \<open>Network settings\<close>

record shaper_settings =
  shaper_enabled :: bool
  max_speed :: nat
  min_speed :: nat

type_synonym regions = string

record network_settings =
  babeld_settings :: babeld_config
  net_metric_factor :: "u32 option"
  net_mesh_ip :: "ip_addr option"
  net_mesh_ip_v2 :: "ip_addr option"
  discovery_ip :: u128
  babel_port :: u16
  rita_hello_port :: u16
  rita_contact_port :: u16
  rita_dashboard_port :: u16
  rita_dashboard_password :: "string option"
  rita_tick_interval :: u64
  net_wg_private_key :: "wg_key option"
  wg_private_key_path :: string
  net_wg_public_key :: "wg_key option"
  wg_start_port :: u16
  peer_interfaces :: "string set"
  manual_peers :: "string list"
  last_default_route :: "default_route option"
  external_nic :: "string option"
  device :: "string option"
  net_nickname :: "string option"
  usage_tracker_file :: string
  backup_created :: bool
  shaper :: shaper_settings
  user_bandwidth_limit :: "nat option"
  allowed_countries :: "regions set"
  payment_chains :: "system_chain set"

definition default_discovery_ip :: u128 where
  "default_discovery_ip = 0xff020000000000000000000000010008"

definition default_usage_tracker_file :: string where
  "default_usage_tracker_file = ''/etc/rita-usage-tracker.bincode''"

definition default_shaper_settings :: shaper_settings where
  "default_shaper_settings = \<lparr>shaper_enabled = True, max_speed = 10000, min_speed = 50\<rparr>"

definition default_allowed_countries :: "regions set" where
  "default_allowed_countries = {''UnitedStates''}"

definition network_settings_default :: network_settings where
  "network_settings_default =
     \<lparr>babeld_settings = default_babeld_config, net_metric_factor = None, net_mesh_ip = None,
      net_mesh_ip_v2 = None, discovery_ip = default_discovery_ip, babel_port = 6872,
      rita_hello_port = 4876, rita_contact_port = 4874, rita_dashboard_port = 4877,
      rita_dashboard_password = None, rita_tick_interval = 5, net_wg_private_key = None,
      wg_private_key_path = ''/tmp/priv'', net_wg_public_key = None, wg_start_port = 60000,
      peer_interfaces = {}, manual_peers = [], last_default_route = None, external_nic = None,
      device = None, net_nickname = None, usage_tracker_file = default_usage_tracker_file,
      backup_created = False, shaper = default_shaper_settings, user_bandwidth_limit = None,
      allowed_countries = default_allowed_countries, payment_chains = {}\<rparr>"

text \<open>The settings record of the shared code: the identity is absent until a mesh address is
  configured.\<close>

record rita_settings =
  payment :: payment_settings
  network :: network_settings
  settings_identity :: "identity option"

end
