(* ===== verification/Kernel_Interface.thy ===== *)
theory Kernel_Interface
  imports Settings Str_Util
begin

text \<open>
  The crate \<open>althea_kernel_interface\<close>: every operation on the operating system is a command
  line program run through \<open>run_command\<close> or a file under \<open>/proc\<close> or \<open>/sys\<close>. Those
  programs, files and the TCP connection to the routing daemon are not part of the
  repository, so they are the parameter \<open>world\<close>, a record of functions on a state
  \<open>'w\<close>; the operations of the crate are definitions over it, issuing the commands the
  sources issue.

  Operations live in a state, error and panic monad: \<open>('w, 'e, 'a) rio\<close> maps a world to
  \<open>None\<close> (a panic, or no return) or to a \<open>Result\<close> and the new world.
\<close>

section \<open>The monad and the world\<close>

type_synonym ('w, 'e, 'a) rio = "'w \<Rightarrow> (('e + 'a) \<times> 'w) option"

definition rret :: "'a \<Rightarrow> ('w, 'e, 'a) rio" where
  "rret x = (\<lambda>w. Some (Inr x, w))"

definition rraise :: "'e \<Rightarrow> ('w, 'e, 'a) rio" where
  "rraise e = (\<lambda>w. Some (Inl e, w))"

definition rlift :: "'e + 'a \<Rightarrow> ('w, 'e, 'a) rio" where
  "rlift r = (\<lambda>w. Some (r, w))"

text \<open>\<open>rbind\<close> is sequencing with the \<open>?\<close> operator; \<open>rattempt\<close> gives the result as a
  value for a \<open>match\<close>; \<open>rmap_err\<close> is the \<open>From\<close> conversion of errors.\<close>

definition rbind :: "('w, 'e, 'a) rio \<Rightarrow> ('a \<Rightarrow> ('w, 'e, 'b) rio) \<Rightarrow> ('w, 'e, 'b) rio" where
  "rbind m f = (\<lambda>w. case m w of None \<Rightarrow> None
     | Some (r, w') \<Rightarrow> (case r of Inl e \<Rightarrow> Some (Inl e, w') | Inr x \<Rightarrow> f x w'))"

definition rattempt :: "('w, 'e, 'a) rio \<Rightarrow> ('w, 'd, 'e + 'a) rio" where
  "rattempt m = (\<lambda>w. case m w of None \<Rightarrow> None | Some (r, w') \<Rightarrow> Some (Inr r, w'))"

definition rmap_err :: "('e \<Rightarrow> 'd) \<Rightarrow> ('w, 'e, 'a) rio \<Rightarrow> ('w, 'd, 'a) rio" where
  "rmap_err h m = (\<lambda>w. case m w of None \<Rightarrow> None
     | Some (r, w') \<Rightarrow> Some (case r of Inl e \<Rightarrow> Inl (h e) | Inr x \<Rightarrow> Inr x, w'))"

lemmas rio_defs = rret_def rraise_def rlift_def rbind_def rattempt_def rmap_err_def

text \<open>
  The output of a process: whether its exit status is success and the two streams, \<open>None\<close>
  standing for bytes that are not UTF-8.
\<close>

record cmd_output =
  co_success :: bool
  co_stdout :: "string option"
  co_stderr :: "string option"

datatype tcp_read = ReadWouldBlock | ReadIoError | ReadBytes nat "string option"

record 'w world =
  run_command :: "string \<Rightarrow> string list \<Rightarrow> 'w \<Rightarrow> (kernel_interface_error + cmd_output) \<times> 'w"
  sys_class_net :: "'w \<Rightarrow> kernel_interface_error + string list"
  proc_net_udp :: "'w \<Rightarrow> kernel_interface_error + string"
  tcp_connect :: "u16 \<Rightarrow> 'w \<Rightarrow> (unit + unit) \<times> 'w"
  tcp_write :: "string \<Rightarrow> 'w \<Rightarrow> (unit + unit) \<times> 'w"
  tcp_read_op :: "'w \<Rightarrow> tcp_read \<times> 'w"

text \<open>A world in which nothing can be run, read or connected to.\<close>

definition dead_world :: "unit world" where
  "dead_world = \<lparr>run_command = (\<lambda>_ _ w. (Inl RuntimeError, w)), sys_class_net = (\<lambda>_. Inl RuntimeError),
     proc_net_udp = (\<lambda>_. Inl RuntimeError), tcp_connect = (\<lambda>_ w. (Inl (), w)),
     tcp_write = (\<lambda>_ w. (Inl (), w)), tcp_read_op = (\<lambda>w. (ReadIoError, w))\<rparr>"

type_synonym ('w, 'a) kio = "('w, kernel_interface_error, 'a) rio"

definition cmd :: "'w world \<Rightarrow> string \<Rightarrow> string list \<Rightarrow> ('w, cmd_output) kio" where
  "cmd W prog args = (\<lambda>w. Some (run_command W prog args w))"

definition from_utf8 :: "string option \<Rightarrow> ('w, string) kio" where
  "from_utf8 b = (case b of Some s \<Rightarrow> rret s | None \<Rightarrow> rraise RuntimeError)"

definition stream_is_empty :: "string option \<Rightarrow> bool" where
  "stream_is_empty b = (b = Some [])"

text \<open>The two ways the sources fail after a command: the text of the standard error stream is
  decoded for the message first, so bytes that are not UTF-8 win over the intended error.\<close>

definition fail_with_stderr :: "kernel_interface_error \<Rightarrow> cmd_output \<Rightarrow> ('w, 'a) kio" where
  "fail_with_stderr e out = rbind (from_utf8 (co_stderr out)) (\<lambda>_. rraise e)"

section \<open>Traffic control\<close>

definition has_qdisc :: "'w world \<Rightarrow> string \<Rightarrow> ('w, bool) kio" where
  "has_qdisc W iface =
     rbind (cmd W ''tc'' [''qdisc'', ''show'', ''dev'', iface]) (\<lambda>out.
       if \<not> co_success out then fail_with_stderr TrafficControlError out
       else rbind (from_utf8 (co_stdout out)) (\<lambda>s. rret (\<not> contains_str s ''noqueue'')))"

definition get_class_id :: "u32 \<Rightarrow> u32" where
  "get_class_id ip = ip mod 9999"

definition class_tag :: "u32 \<Rightarrow> string" where
  "class_tag ip = ''1:'' @ dec (unat (get_class_id ip))"

definition has_flow :: "'w world \<Rightarrow> u32 \<Rightarrow> string \<Rightarrow> ('w, bool) kio" where
  "has_flow W ip iface =
     rbind (cmd W ''tc'' [''filter'', ''show'', ''dev'', iface]) (\<lambda>out.
       if \<not> co_success out then fail_with_stderr TrafficControlError out
       else rbind (from_utf8 (co_stdout out)) (\<lambda>s. rret (contains_str s (class_tag ip))))"

definition get_flows :: "'w world \<Rightarrow> string \<Rightarrow> ('w, string) kio" where
  "get_flows W iface =
     rbind (cmd W ''tc'' [''filter'', ''show'', ''dev'', iface]) (\<lambda>out.
       if \<not> co_success out then fail_with_stderr TrafficControlError out
       else from_utf8 (co_stdout out))"

definition has_flow_bulk :: "u32 \<Rightarrow> string \<Rightarrow> bool" where
  "has_flow_bulk ip tc_out = contains_str tc_out (class_tag ip)"

definition has_class :: "'w world \<Rightarrow> u32 \<Rightarrow> string \<Rightarrow> ('w, bool) kio" where
  "has_class W ip iface =
     rbind (cmd W ''tc'' [''class'', ''show'', ''dev'', iface]) (\<lambda>out.
       if \<not> co_success out then fail_with_stderr TrafficControlError out
       else rbind (from_utf8 (co_stdout out)) (\<lambda>s.
         rret (\<exists>l \<in> set (lines_of s). class_tag ip \<in> set (split_whitespace l))))"

definition has_limit :: "'w world \<Rightarrow> string \<Rightarrow> ('w, bool) kio" where
  "has_limit W iface =
     rbind (cmd W ''tc'' [''qdisc'', ''show'', ''dev'', iface]) (\<lambda>out.
       if \<not> co_success out then fail_with_stderr TrafficControlError out
       else rbind (from_utf8 (co_stdout out)) (\<lambda>s.
         rret ((contains_str s ''htb'' \<or> contains_str s ''tbf'')
           \<and> \<not> contains_str s ''codel'' \<and> \<not> contains_str s ''cake''
           \<and> \<not> contains_str s ''noqueue'')))"

definition has_cake :: "'w world \<Rightarrow> string \<Rightarrow> ('w, bool) kio" where
  "has_cake W iface =
     rbind (cmd W ''tc'' [''qdisc'', ''show'', ''dev'', iface]) (\<lambda>out.
       if \<not> co_success out then fail_with_stderr TrafficControlError out
       else rbind (from_utf8 (co_stdout out)) (\<lambda>s.
         rret ((contains_str s ''codel'' \<or> contains_str s ''cake'')
           \<and> \<not> contains_str s ''tbf'' \<and> \<not> contains_str s ''noqueue''
           \<and> \<not> contains_str s ''htb'')))"

text \<open>Cake, then fq_codel, then fifo, each tried when the one before is refused.\<close>

definition set_codel_shaping :: "'w world \<Rightarrow> string \<Rightarrow> nat option \<Rightarrow> ('w, unit) kio" where
  "set_codel_shaping W iface speed =
     rbind (has_qdisc W iface) (\<lambda>q.
       let operator = (if q then ''change'' else ''add'');
           root = [''qdisc'', operator, ''dev'', iface, ''root'', ''handle'', ''1:'']
       in rbind (cmd W ''tc'' (root @ [''cake'']
              @ (case speed of Some v \<Rightarrow> [''bandwidth'', dec v @ ''mbit'']
                 | None \<Rightarrow> [''unlimited''])
              @ [''internet'', ''diffserv4''])) (\<lambda>out1.
            if co_success out1 then rret ()
            else rbind (cmd W ''tc'' (root @ [''fq_codel'', ''target'', ''100ms''])) (\<lambda>out2.
              if co_success out2 then rret ()
              else rbind (cmd W ''tc'' (root @ [''fifo''])) (\<lambda>out3.
                if co_success out3 then rret ()
                else fail_with_stderr TrafficControlError out3))))"

definition delete_qdisc :: "'w world \<Rightarrow> string \<Rightarrow> ('w, unit) kio" where
  "delete_qdisc W iface =
     rbind (cmd W ''tc'' [''qdisc'', ''del'', ''dev'', iface, ''root'']) (\<lambda>out.
       if co_success out then rret () else rraise TrafficControlError)"

definition set_classless_limit :: "'w world \<Rightarrow> string \<Rightarrow> u32 \<Rightarrow> ('w, unit) kio" where
  "set_classless_limit W iface bw =
     rbind (has_qdisc W iface) (\<lambda>q.
     rbind (if q then delete_qdisc W iface else rret ()) (\<lambda>_.
     rbind (cmd W ''tc'' [''qdisc'', ''add'', ''dev'', iface, ''root'', ''handle'', ''1:'', ''tbf'',
              ''latency'', ''40ms'', ''burst'', dec (unat (bw * 1000)), ''rate'',
              dec (unat bw) @ ''kbit'']) (\<lambda>out.
       if co_success out then rret () else fail_with_stderr TrafficControlError out)))"

definition create_root_classful_limit :: "'w world \<Rightarrow> string \<Rightarrow> ('w, unit) kio" where
  "create_root_classful_limit W iface =
     rbind (cmd W ''tc'' [''qdisc'', ''add'', ''dev'', iface, ''root'', ''handle'', ''1:'', ''htb'',
              ''default'', ''0'', ''r2q'', ''1'', ''direct_qlen'', ''1000000'']) (\<lambda>out.
       if co_success out then rret () else fail_with_stderr TrafficControlError out)"

definition delete_class :: "'w world \<Rightarrow> string \<Rightarrow> u32 \<Rightarrow> ('w, unit) kio" where
  "delete_class W iface ip =
     rbind (has_class W ip iface) (\<lambda>present.
       if present then
         rbind (cmd W ''tc'' [''class'', ''del'', ''dev'', iface, ''parent'', ''1:'', ''classid'',
                  class_tag ip]) (\<lambda>_. rret ())
       else rret ())"

definition set_class_limit :: "'w world \<Rightarrow> string \<Rightarrow> u32 \<Rightarrow> u32 \<Rightarrow> u32 \<Rightarrow> ('w, unit) kio" where
  "set_class_limit W iface min_bw max_bw ip =
     rbind (has_class W ip iface) (\<lambda>present.
     rbind (cmd W ''tc'' [''class'', if present then ''change'' else ''add'', ''dev'', iface,
              ''parent'', ''1:'', ''classid'', class_tag ip, ''htb'', ''rate'',
              dec (unat min_bw) @ ''kbit'', ''ceil'', dec (unat max_bw) @ ''kbit'']) (\<lambda>out.
       if co_success out then rret () else fail_with_stderr TrafficControlError out))"

definition show_ipv4 :: "u32 \<Rightarrow> string" where
  "show_ipv4 ip =
     (let n = unat ip
      in dec (n div 2 ^ 24 mod 256) @ ''.'' @ dec (n div 2 ^ 16 mod 256) @ ''.''
         @ dec (n div 2 ^ 8 mod 256) @ ''.'' @ dec (n mod 256))"

definition create_flow_by_ip :: "'w world \<Rightarrow> string \<Rightarrow> u32 \<Rightarrow> ('w, unit) kio" where
  "create_flow_by_ip W iface ip =
     rbind (cmd W ''tc'' [''filter'', ''add'', ''dev'', iface, ''parent'', ''1:'', ''protocol'', ''ip'',
              ''u32'', ''match'', ''ip'', ''dst'', show_ipv4 ip @ ''/32'', ''flowid'', class_tag ip])
       (\<lambda>out. if co_success out then rret () else fail_with_stderr TrafficControlError out)"

text \<open>The network is given by its text, which the crate \<open>ipnetwork\<close> prints.\<close>

definition create_flow_by_ipv6 :: "'w world \<Rightarrow> string \<Rightarrow> string \<Rightarrow> u32 \<Rightarrow> ('w, unit) kio" where
  "create_flow_by_ipv6 W iface ip_net ip =
     rbind (cmd W ''tc'' [''filter'', ''add'', ''dev'', iface, ''parent'', ''1:'', ''protocol'', ''ipv6'',
              ''u32'', ''match'', ''ip6'', ''dst'', ip_net, ''flowid'', class_tag ip])
       (\<lambda>out. if co_success out then rret () else fail_with_stderr TrafficControlError out)"

section \<open>Interfaces\<close>

definition del_interface :: "'w world \<Rightarrow> string \<Rightarrow> ('w, unit) kio" where
  "del_interface W name =
     rbind (cmd W ''ip'' [''link'', ''del'', ''dev'', name]) (\<lambda>_. rret ())"

definition get_interfaces :: "'w world \<Rightarrow> ('w, string list) kio" where
  "get_interfaces W = (\<lambda>w. Some (sys_class_net W w, w))"

definition create_blank_wg_interface :: "'w world \<Rightarrow> string \<Rightarrow> ('w, unit) kio" where
  "create_blank_wg_interface W name =
     rbind (cmd W ''ip'' [''link'', ''add'', name, ''type'', ''wireguard'']) (\<lambda>out.
     rbind (from_utf8 (co_stderr out)) (\<lambda>stderr.
       if stderr \<noteq> [] then
         (if contains_str stderr ''exists'' then rraise WgExistsError else rraise RuntimeError)
       else rret ()))"

definition wg_name :: "nat \<Rightarrow> string" where
  "wg_name n = ''wg'' @ dec n"

lemma wg_name_inject [simp]: "wg_name m = wg_name n \<longleftrightarrow> m = n"
  by (simp add: wg_name_def dec_inject)

text \<open>The scan for the first number whose interface does not exist yet.\<close>

lemma finite_wg_numbers: "finite {m. wg_name m \<in> set links}"
proof -
  have "inj wg_name" by (rule injI) simp
  then show ?thesis by (rule finite_vimageI [OF finite_set, unfolded vimage_def])
qed

function first_free_wg :: "string list \<Rightarrow> nat \<Rightarrow> nat" where
  "first_free_wg links n = (if wg_name n \<in> set links then first_free_wg links (n + 1) else n)"
  by auto
termination
proof (relation "measure (\<lambda>(links, n). card {m. n \<le> m \<and> wg_name m \<in> set links})", goal_cases)
  case (2 links n)
  have "n \<in> {m. n \<le> m \<and> wg_name m \<in> set links} - {m. n + 1 \<le> m \<and> wg_name m \<in> set links}"
    using 2 by simp
  then have "{m. n + 1 \<le> m \<and> wg_name m \<in> set links} \<subset> {m. n \<le> m \<and> wg_name m \<in> set links}"
    by (metis (no_types, lifting) Collect_mono DiffE add_leD1 psubsetI)
  then show ?case
    by (auto intro!: psubset_card_mono finite_subset [OF _ finite_wg_numbers [of links]])
qed simp

declare first_free_wg.simps [simp del]

text \<open>The retry loop: six more attempts, each with the next number, while the kernel says that
  the interface exists.\<close>

fun wg_retry :: "'w world \<Rightarrow> nat \<Rightarrow> nat \<Rightarrow> kernel_interface_error + unit \<Rightarrow> ('w, string) kio" where
  "wg_retry W 0 n r = rbind (rlift r) (\<lambda>_. rret (wg_name n))"
| "wg_retry W (Suc k) n r =
     (if r = Inl WgExistsError
      then rbind (rattempt (create_blank_wg_interface W (wg_name (n + 1)))) (wg_retry W k (n + 1))
      else rbind (rlift r) (\<lambda>_. rret (wg_name n)))"

definition MAX_RETRY :: nat where "MAX_RETRY = 5"

definition create_blank_wg_numbered_wg_interface :: "'w world \<Rightarrow> ('w, string) kio" where
  "create_blank_wg_numbered_wg_interface W =
     rbind (get_interfaces W) (\<lambda>links.
       let if_num = first_free_wg links 0
       in rbind (rattempt (create_blank_wg_interface W (wg_name if_num)))
            (wg_retry W (MAX_RETRY + 1) if_num))"

section \<open>The UDP socket table\<close>

definition parse_local_port :: "string \<Rightarrow> kernel_interface_error + u16" where
  "parse_local_port s =
     (case nth_opt (split_whitespace s) 1 of None \<Rightarrow> Err RuntimeError
      | Some local_addr \<Rightarrow>
        (case nth_opt (split_on (CHR '':'') local_addr) 1 of None \<Rightarrow> Err RuntimeError
         | Some port \<Rightarrow>
           (case parse_uint 16 65535 port of Some v \<Rightarrow> Ok (word_of_nat v)
            | None \<Rightarrow> Err RuntimeError)))"

definition udp_ports :: "string \<Rightarrow> u16 list" where
  "udp_ports table =
     List.map_filter (\<lambda>l. case parse_local_port l of Inr p \<Rightarrow> Some p | Inl _ \<Rightarrow> None)
       (takeWhile (\<lambda>l. l \<noteq> []) (tl (split_on LF table)))"

definition used_ports :: "'w world \<Rightarrow> ('w, u16 list) kio" where
  "used_ports W = rbind (\<lambda>w. Some (proc_net_udp W w, w)) (\<lambda>table. rret (udp_ports table))"

section \<open>Handshakes\<close>

text \<open>
  The output of \<open>wg show <iface> latest-handshakes\<close>: one line per peer, the key and the
  time in seconds since the epoch, separated by a tab. \<open>parse_key\<close> reads a WireGuard key
  from Base64 text.
\<close>

fun handshake_lines ::
  "(string \<Rightarrow> wg_key option) \<Rightarrow> string list \<Rightarrow> kernel_interface_error + (wg_key \<times> instant) list" where
  "handshake_lines parse_key [] = Ok []"
| "handshake_lines parse_key (l # ls) =
     (case split_on TAB l of
        key # rest \<Rightarrow>
          (case parse_key key of None \<Rightarrow> Err RuntimeError
           | Some k \<Rightarrow>
             (case rest of [] \<Rightarrow> Err RuntimeError
              | ts # _ \<Rightarrow>
                (case parse_uint 10 (2 ^ 64 - 1) ts of None \<Rightarrow> Err RuntimeError
                 | Some secs \<Rightarrow>
                   (case handshake_lines parse_key ls of Inl e \<Rightarrow> Err e
                    | Inr r \<Rightarrow> Ok ((k, from_secs secs) # r)))))
      | [] \<Rightarrow> Err RuntimeError)"

definition get_last_handshake_time ::
  "'w world \<Rightarrow> (string \<Rightarrow> wg_key option) \<Rightarrow> string \<Rightarrow> ('w, (wg_key \<times> instant) list) kio" where
  "get_last_handshake_time W parse_key iface =
     rbind (cmd W ''wg'' [''show'', iface, ''latest-handshakes'']) (\<lambda>out.
     rbind (from_utf8 (co_stdout out)) (\<lambda>s.
       rlift (handshake_lines parse_key (lines_of s))))"

section \<open>Facts\<close>

lemma rbind_rret [simp]: "rbind (rret x) f = f x"
  by (simp add: rio_defs)

lemma rbind_rraise [simp]: "rbind (rraise e) f = rraise e"
  by (simp add: rio_defs)

lemma rbind_Some_iff:
  "rbind m f w = Some (r, w') \<longleftrightarrow>
     (\<exists>e. m w = Some (Inl e, w') \<and> r = Inl e)
     \<or> (\<exists>x w1. m w = Some (Inr x, w1) \<and> f x w1 = Some (r, w'))"
  by (auto simp: rbind_def split: rita_splits)

lemma first_free_wg_free: "wg_name (first_free_wg links n) \<notin> set links"
proof (induction links n rule: first_free_wg.induct)
  case (1 links n)
  then show ?case by (subst first_free_wg.simps) auto
qed

lemma first_free_wg_least:
  "n \<le> first_free_wg links n \<and> (\<forall>m. n \<le> m \<and> m < first_free_wg links n \<longrightarrow> wg_name m \<in> set links)"
proof (induction links n rule: first_free_wg.induct)
  case (1 links n)
  show ?case
  proof (cases "wg_name n \<in> set links")
    case True
    with 1 have IH: "n + 1 \<le> first_free_wg links (n + 1)"
      "\<forall>m. n + 1 \<le> m \<and> m < first_free_wg links (n + 1) \<longrightarrow> wg_name m \<in> set links" by auto
    have "first_free_wg links n = first_free_wg links (n + 1)"
      using True by (subst first_free_wg.simps) simp
    with IH True show ?thesis
      by (metis Suc_eq_plus1 le_antisym le_trans not_less_eq_eq le_add1)
  next
    case False
    then show ?thesis by (subst (1 2) first_free_wg.simps) auto
  qed
qed

end
