(* ===== verification/Babel_Monitor.thy ===== *)
theory Babel_Monitor
  imports Kernel_Interface
begin

text \<open>
  The crate \<open>babel_monitor\<close>, the client of the routing daemon's management socket: finding
  and parsing values in its output (\<open>parsing.rs\<close>), the read loop and the commands
  (\<open>lib.rs\<close>). Texts of \<open>f32\<close> numbers are read by a parameter \<open>pf\<close> into an abstract
  type \<open>'f\<close>, and networks by a parameter \<open>pn\<close> that stands for the crate \<open>ipnetwork\<close>;
  addresses are parsed here, as the standard library does.

  The read loop may run forever, so it is a partial function whose value \<open>None\<close> is "does
  not return".
\<close>

section \<open>Data\<close>

datatype ip_network = Net4 u32 nat | Net6 u128 nat

record interface =
  if_name :: string
  if_up :: bool
  if_ipv6 :: "ip_addr option"
  if_ipv4 :: "ip_addr option"

record 'f route =
  rt_id :: string
  rt_iface :: string
  rt_xroute :: bool
  rt_installed :: bool
  rt_neigh_ip :: ip_addr
  rt_prefix :: ip_network
  rt_metric :: u16
  rt_refmetric :: u16
  rt_full_path_rtt :: 'f
  rt_price :: u32
  rt_fee :: u32

record 'f neighbor =
  nb_id :: string
  nb_address :: ip_addr
  nb_iface :: string
  nb_reach :: u16
  nb_txcost :: u16
  nb_rxcost :: u16
  nb_rtt :: 'f
  nb_rttcost :: u16
  nb_cost :: u16

section \<open>Addresses\<close>

definition parse_octet :: "string \<Rightarrow> nat option" where
  "parse_octet s =
     (if s = [] \<or> 3 < length s \<or> (1 < length s \<and> hd s = CHR ''0'') then None
      else case digits_val 10 0 s of Some v \<Rightarrow> if v \<le> 255 then Some v else None | None \<Rightarrow> None)"

definition parse_ipv4 :: "string \<Rightarrow> u32 option" where
  "parse_ipv4 s =
     (case map parse_octet (split_on (CHR ''.'') s) of
        [Some a, Some b, Some c, Some d] \<Rightarrow> Some (word_of_nat (((a * 256 + b) * 256 + c) * 256 + d))
      | _ \<Rightarrow> None)"

definition parse_group :: "string \<Rightarrow> nat option" where
  "parse_group s = (if s = [] \<or> 4 < length s then None else digits_val 16 0 s)"

text \<open>The groups of an IPv6 text; with \<open>v4\<close> the last piece may be an IPv4 address, which
  stands for two groups.\<close>

fun parse_groups :: "bool \<Rightarrow> string list \<Rightarrow> nat list option" where
  "parse_groups v4 [] = Some []"
| "parse_groups v4 [w] =
     (case parse_group w of Some g \<Rightarrow> Some [g]
      | None \<Rightarrow>
        (if v4 then case parse_ipv4 w of Some a \<Rightarrow> Some [unat a div 65536, unat a mod 65536]
                    | None \<Rightarrow> None
         else None))"
| "parse_groups v4 (w # ws) =
     (case parse_group w of None \<Rightarrow> None
      | Some g \<Rightarrow> (case parse_groups v4 ws of None \<Rightarrow> None | Some gs \<Rightarrow> Some (g # gs)))"

definition groups_of :: "bool \<Rightarrow> string \<Rightarrow> nat list option" where
  "groups_of v4 s = (if s = [] then Some [] else parse_groups v4 (split_on (CHR '':'') s))"

fun split_double_colon :: "string \<Rightarrow> (string \<times> string) option" where
  "split_double_colon [] = None"
| "split_double_colon (c # cs) =
     (if starts_with (c # cs) ''::'' then Some ([], tl cs)
      else map_option (\<lambda>(h, t). (c # h, t)) (split_double_colon cs))"

definition groups_to_u128 :: "nat list \<Rightarrow> u128" where
  "groups_to_u128 gs = word_of_nat (foldl (\<lambda>a g. a * 65536 + g) 0 gs)"

definition parse_ipv6 :: "string \<Rightarrow> u128 option" where
  "parse_ipv6 s =
     (case split_double_colon s of
        None \<Rightarrow> (case groups_of True s of
                   Some gs \<Rightarrow> if length gs = 8 then Some (groups_to_u128 gs) else None
                 | None \<Rightarrow> None)
      | Some (h, t) \<Rightarrow>
          (case (groups_of False h, groups_of True t) of
             (Some gh, Some gt) \<Rightarrow>
               if length gh + length gt \<le> 7
               then Some (groups_to_u128 (gh @ replicate (8 - length gh - length gt) 0 @ gt))
               else None
           | _ \<Rightarrow> None))"

definition parse_ip :: "string \<Rightarrow> ip_addr option" where
  "parse_ip s = (case parse_ipv4 s of Some a \<Rightarrow> Some (V4 a)
     | None \<Rightarrow> map_option V6 (parse_ipv6 s))"

definition parse_u16 :: "string \<Rightarrow> u16 option" where
  "parse_u16 s = map_option word_of_nat (parse_uint 10 65535 s)"

definition parse_u32 :: "string \<Rightarrow> u32 option" where
  "parse_u32 s = map_option word_of_nat (parse_uint 10 4294967295 s)"

section \<open>Values in a line of output\<close>

fun find_val_in :: "string \<Rightarrow> string list \<Rightarrow> string option" where
  "find_val_in val [] = None"
| "find_val_in val [e] = None"
| "find_val_in val (e # v # rest) = (if e = val then Some v else find_val_in val (v # rest))"

definition find_babel_val :: "string \<Rightarrow> string \<Rightarrow> babel_monitor_error + string" where
  "find_babel_val val line =
     (case find_val_in val (split_on (CHR 0x20) line) of
        Some v \<Rightarrow> Ok v | None \<Rightarrow> Err VariableNotFound)"

definition find_and_parse_babel_val ::
  "(string \<Rightarrow> 'a option) \<Rightarrow> babel_monitor_error \<Rightarrow> string \<Rightarrow> string \<Rightarrow> babel_monitor_error + 'a" where
  "find_and_parse_babel_val parse err val line =
     (case find_babel_val val line of
        Inr s \<Rightarrow> (case parse s of Some x \<Rightarrow> Ok x | None \<Rightarrow> Err err)
      | Inl e \<Rightarrow> Err e)"

definition ok_opt :: "'e + 'a \<Rightarrow> 'a option" where
  "ok_opt r = (case r of Inr x \<Rightarrow> Some x | Inl _ \<Rightarrow> None)"

section \<open>The terminator of an answer\<close>

fun read_babel_lines :: "string list \<Rightarrow> string \<Rightarrow> babel_monitor_error + string" where
  "read_babel_lines [] ret = Err NoTerminator"
| "read_babel_lines (line # ls) ret =
     (let ret' = ret @ line @ [LF]
      in if trim line = ''ok'' then Ok ret'
         else if trim line = ''bad'' \<or> trim line = ''no'' then Err ReadFailed
         else read_babel_lines ls ret')"

definition read_babel_sync :: "string \<Rightarrow> babel_monitor_error + string" where
  "read_babel_sync output = read_babel_lines (lines_of output) []"

definition validate_preamble :: "string \<Rightarrow> babel_monitor_error + unit" where
  "validate_preamble preamble =
     (if contains_str preamble ''ALTHEA 0.1'' then Ok () else Err InvalidPreamble)"

section \<open>Tables\<close>

definition parse_interface_entry :: "string \<Rightarrow> interface option" where
  "parse_interface_entry entry =
     do {
       name \<leftarrow> ok_opt (find_babel_val ''interface'' entry);
       up \<leftarrow> ok_opt (find_and_parse_babel_val parse_bool BoolParseError ''up'' entry);
       Some \<lparr>if_name = name, if_up = up,
             if_ipv6 = ok_opt (find_and_parse_babel_val parse_ip ParseAddrError ''ipv6'' entry),
             if_ipv4 = ok_opt (find_and_parse_babel_val parse_ip ParseAddrError ''ipv4'' entry)\<rparr>
     }"

text \<open>The shape the three table parsers share: keep the entries that mention the key phrase,
  drop those that do not parse, fail when there were entries and all of them were dropped.\<close>

definition parse_table ::
  "string \<Rightarrow> (string \<Rightarrow> 'a option) \<Rightarrow> string \<Rightarrow> babel_monitor_error + 'a list" where
  "parse_table phrase parse output =
     (let entries = filter (\<lambda>e. contains_str e phrase) (split_on LF output);
          vector = List.map_filter parse entries
      in if vector = [] \<and> entries \<noteq> [] then Err BabelParseError else Ok vector)"

definition parse_interfaces_sync :: "string \<Rightarrow> babel_monitor_error + interface list" where
  "parse_interfaces_sync output = parse_table ''add interface'' parse_interface_entry output"

definition get_local_fee_sync :: "string \<Rightarrow> babel_monitor_error + u32" where
  "get_local_fee_sync output =
     (let fee_entry = hd (split_on LF output)
      in if contains_str fee_entry ''local fee''
         then find_and_parse_babel_val parse_u32 IntParseError ''fee'' fee_entry
         else Err LocalFeeNotFound)"

definition parse_hex_u16 :: "string \<Rightarrow> u16 option" where
  "parse_hex_u16 s = map_option word_of_nat (parse_uint 16 65535 s)"

definition parse_neigh_entry :: "(string \<Rightarrow> 'f option) \<Rightarrow> 'f \<Rightarrow> string \<Rightarrow> 'f neighbor option" where
  "parse_neigh_entry pf zero entry =
     do {
       i \<leftarrow> ok_opt (find_babel_val ''neighbour'' entry);
       address \<leftarrow> ok_opt (find_and_parse_babel_val parse_ip ParseAddrError ''address'' entry);
       iface \<leftarrow> ok_opt (find_babel_val ''if'' entry);
       reach \<leftarrow> ok_opt (find_and_parse_babel_val parse_hex_u16 IntParseError ''reach'' entry);
       txcost \<leftarrow> ok_opt (find_and_parse_babel_val parse_u16 IntParseError ''txcost'' entry);
       rxcost \<leftarrow> ok_opt (find_and_parse_babel_val parse_u16 IntParseError ''rxcost'' entry);
       cost \<leftarrow> ok_opt (find_and_parse_babel_val parse_u16 IntParseError ''cost'' entry);
       Some \<lparr>nb_id = i, nb_address = address, nb_iface = iface, nb_reach = reach,
             nb_txcost = txcost, nb_rxcost = rxcost,
             nb_rtt = unwrap_or (ok_opt (find_and_parse_babel_val pf FloatParseError ''rtt'' entry)) zero,
             nb_rttcost =
               unwrap_or (ok_opt (find_and_parse_babel_val parse_u16 IntParseError ''rttcost'' entry)) 0,
             nb_cost = cost\<rparr>
     }"

definition parse_neighs_sync ::
  "(string \<Rightarrow> 'f option) \<Rightarrow> 'f \<Rightarrow> string \<Rightarrow> babel_monitor_error + 'f neighbor list" where
  "parse_neighs_sync pf zero output = parse_table ''add neighbour'' (parse_neigh_entry pf zero) output"

definition parse_route_entry ::
  "(string \<Rightarrow> 'f option) \<Rightarrow> (string \<Rightarrow> ip_network option) \<Rightarrow> string \<Rightarrow> 'f route option" where
  "parse_route_entry pf pn entry =
     do {
       i \<leftarrow> ok_opt (find_babel_val ''route'' entry);
       iface \<leftarrow> ok_opt (find_babel_val ''if'' entry);
       installed \<leftarrow> ok_opt (find_babel_val ''installed'' entry);
       via \<leftarrow> ok_opt (find_and_parse_babel_val parse_ip ParseAddrError ''via'' entry);
       pre \<leftarrow> ok_opt (find_and_parse_babel_val pn NetworkError ''prefix'' entry);
       metric \<leftarrow> ok_opt (find_and_parse_babel_val parse_u16 IntParseError ''metric'' entry);
       refmetric \<leftarrow> ok_opt (find_and_parse_babel_val parse_u16 IntParseError ''refmetric'' entry);
       fpr \<leftarrow> ok_opt (find_and_parse_babel_val pf FloatParseError ''full-path-rtt'' entry);
       price \<leftarrow> ok_opt (find_and_parse_babel_val parse_u32 IntParseError ''price'' entry);
       fee \<leftarrow> ok_opt (find_and_parse_babel_val parse_u32 IntParseError ''fee'' entry);
       Some \<lparr>rt_id = i, rt_iface = iface, rt_xroute = False,
             rt_installed = contains_str installed ''yes'', rt_neigh_ip = via, rt_prefix = pre,
             rt_metric = metric, rt_refmetric = refmetric, rt_full_path_rtt = fpr,
             rt_price = price, rt_fee = fee\<rparr>
     }"

definition parse_routes_sync ::
  "(string \<Rightarrow> 'f option) \<Rightarrow> (string \<Rightarrow> ip_network option) \<Rightarrow> string
     \<Rightarrow> babel_monitor_error + 'f route list" where
  "parse_routes_sync pf pn output = parse_table ''add route'' (parse_route_entry pf pn) output"

section \<open>Looking up routes\<close>

text \<open>\<open>IpNetwork::V6(ip)\<close> with \<open>ip.ip() == addr\<close>.\<close>

definition v6_net_ip :: "'f route \<Rightarrow> ip_addr \<Rightarrow> bool" where
  "v6_net_ip r a = (case rt_prefix r of Net6 ip _ \<Rightarrow> V6 ip = a | Net4 _ _ \<Rightarrow> False)"

fun route_via :: "ip_addr \<Rightarrow> 'f route list \<Rightarrow> 'f route list \<Rightarrow> ip_addr \<Rightarrow> 'f route option" where
  "route_via neigh [] routes dest = None"
| "route_via neigh (n # ns) routes dest =
     (if v6_net_ip n neigh
      then (case find (\<lambda>r. v6_net_ip r dest \<and> rt_neigh_ip r = rt_neigh_ip n) routes of
              Some r \<Rightarrow> Some r | None \<Rightarrow> route_via neigh ns routes dest)
      else route_via neigh ns routes dest)"

definition get_route_via_neigh ::
  "ip_addr \<Rightarrow> ip_addr \<Rightarrow> 'f route list \<Rightarrow> babel_monitor_error + 'f route" where
  "get_route_via_neigh neigh dest routes =
     (case route_via neigh routes routes dest of Some r \<Rightarrow> Ok r | None \<Rightarrow> Err NoNeighbor)"

definition get_neigh_given_route :: "'f route \<Rightarrow> 'f neighbor list \<Rightarrow> 'f neighbor option" where
  "get_neigh_given_route route neighs = find (\<lambda>n. rt_neigh_ip route = nb_address n) neighs"

definition do_we_have_route :: "ip_addr \<Rightarrow> 'f route list \<Rightarrow> babel_monitor_error + bool" where
  "do_we_have_route mesh routes = Ok (\<exists>r \<in> set routes. v6_net_ip r mesh \<and> rt_installed r)"

definition get_installed_route :: "ip_addr \<Rightarrow> 'f route list \<Rightarrow> babel_monitor_error + 'f route" where
  "get_installed_route mesh routes =
     (case find (\<lambda>r. (case rt_prefix r of
                        Net6 ip pre \<Rightarrow> pre = 128 \<and> rt_installed r \<and> V6 ip = mesh
                      | Net4 _ _ \<Rightarrow> False)) routes of
        Some r \<Rightarrow> Ok r | None \<Rightarrow> Err NoRoute)"

section \<open>The management socket\<close>

type_synonym ('w, 'a) bio = "('w, babel_monitor_error, 'a) rio"

definition BUFFER_SIZE :: nat where "BUFFER_SIZE = 500000"

definition trim_nul :: "string \<Rightarrow> string" where
  "trim_nul s = rev (dropWhile (\<lambda>c. c = CHR 0x00) (rev (dropWhile (\<lambda>c. c = CHR 0x00) s)))"

partial_function (option) read_babel ::
  "'w world \<Rightarrow> string \<Rightarrow> nat \<Rightarrow> 'w \<Rightarrow> ((babel_monitor_error + string) \<times> 'w) option" where
  "read_babel W previous_contents depth w =
     (case tcp_read_op W w of (r, w') \<Rightarrow>
      (case r of
         ReadWouldBlock \<Rightarrow> read_babel W previous_contents (depth + 1) w'
       | ReadIoError \<Rightarrow> Some (Inl ReadFunctionError, w')
       | ReadBytes bytes text \<Rightarrow>
         (case text of
            None \<Rightarrow> Some (Inl TcpError, w')
          | Some output \<Rightarrow>
            (let full_message = previous_contents @ trim_nul output;
                 babel_data = read_babel_sync full_message
             in if depth > 50 then Some (Inl ReadFailed, w')
                else if bytes = BUFFER_SIZE then read_babel W full_message depth w'
                else if babel_data = Inl NoTerminator
                then read_babel W full_message (depth + 1) w'
                else (case babel_data of
                        Inl e \<Rightarrow> Some (Inl ReadFailed, w')
                      | Inr d \<Rightarrow> Some (Inr d, w'))))))"

definition open_babel_stream :: "'w world \<Rightarrow> u16 \<Rightarrow> ('w, unit) bio" where
  "open_babel_stream W port =
     rbind (\<lambda>w. case tcp_connect W port w of (r, w') \<Rightarrow>
              Some (case r of Inl _ \<Rightarrow> Inl ReadFunctionError | Inr _ \<Rightarrow> Inr (), w'))
       (\<lambda>_. rbind (read_babel W [] 0) (\<lambda>preamble. rlift (validate_preamble preamble)))"

definition babel_run_command :: "'w world \<Rightarrow> string \<Rightarrow> ('w, string) bio" where
  "babel_run_command W c =
     rbind (\<lambda>w. case tcp_write W (c @ [LF]) w of (r, w') \<Rightarrow>
              Some (case r of Inl _ \<Rightarrow> Inl CommandFailed | Inr _ \<Rightarrow> Inr (), w'))
       (\<lambda>_. read_babel W [] 0)"

definition parse_interfaces :: "'w world \<Rightarrow> ('w, interface list) bio" where
  "parse_interfaces W =
     rbind (babel_run_command W ''dump'') (\<lambda>out. rlift (parse_interfaces_sync out))"

definition get_local_fee :: "'w world \<Rightarrow> ('w, u32) bio" where
  "get_local_fee W = rbind (babel_run_command W ''dump'') (\<lambda>out. rlift (get_local_fee_sync out))"

definition set_local_fee :: "'w world \<Rightarrow> u32 \<Rightarrow> ('w, unit) bio" where
  "set_local_fee W new_fee =
     rbind (babel_run_command W (''fee '' @ dec (unat new_fee))) (\<lambda>_. rret ())"

definition set_metric_factor :: "'w world \<Rightarrow> u32 \<Rightarrow> ('w, unit) bio" where
  "set_metric_factor W new_factor =
     rbind (babel_run_command W (''metric-factor '' @ dec (unat new_factor))) (\<lambda>_. rret ())"

text \<open>The interval the daemon is sent: milliseconds divided by 100, truncated to 16 bits.\<close>

definition kernel_check_units :: "duration option \<Rightarrow> u16" where
  "kernel_check_units d = (case d of Some d \<Rightarrow> word_of_nat (d div 1000000 div 100) | None \<Rightarrow> 0)"

definition set_kernel_check_interval :: "'w world \<Rightarrow> duration option \<Rightarrow> ('w, unit) bio" where
  "set_kernel_check_interval W d =
     rbind (babel_run_command W (''kernel-check-interval '' @ dec (unat (kernel_check_units d))))
       (\<lambda>_. rret ())"

definition build_interface_config_string :: "babeld_interface_config \<Rightarrow> string" where
  "build_interface_config_string c =
     (if link_quality c then ''link-quality yes '' else ''link-quality no '')
     @ (if split_horizon c then ''split-horizon yes '' else ''split-horizon no '')
     @ ''max-rtt-penalty '' @ dec (unat (max_rtt_penalty c)) @ '' ''
     @ ''rtt-min '' @ dec (unat (rtt_min c)) @ '' ''
     @ ''rtt-max '' @ dec (unat (rtt_max c)) @ '' ''
     @ ''hello-interval '' @ dec (unat (hello_interval c)) @ '' ''
     @ ''update-interval '' @ dec (unat (update_interval c)) @ '' ''
     @ ''enable-timestamps true''"

definition set_interface_defaults :: "'w world \<Rightarrow> babeld_interface_config \<Rightarrow> ('w, unit) bio" where
  "set_interface_defaults W defaults =
     rbind (babel_run_command W (''default '' @ build_interface_config_string defaults))
       (\<lambda>_. rret ())"

definition monitor :: "'w world \<Rightarrow> string \<Rightarrow> babeld_interface_config option \<Rightarrow> ('w, unit) bio" where
  "monitor W iface options =
     rbind (babel_run_command W (''interface '' @ iface @ '' ''
              @ (case options of Some c \<Rightarrow> build_interface_config_string c | None \<Rightarrow> [])))
       (\<lambda>_. rret ())"

definition unmonitor :: "'w world \<Rightarrow> string \<Rightarrow> ('w, unit) bio" where
  "unmonitor W iface = rbind (babel_run_command W (''flush interface '' @ iface)) (\<lambda>_. rret ())"

definition parse_neighs ::
  "'w world \<Rightarrow> (string \<Rightarrow> 'f option) \<Rightarrow> 'f \<Rightarrow> ('w, 'f neighbor list) bio" where
  "parse_neighs W pf zero =
     rbind (babel_run_command W ''dump'') (\<lambda>out. rlift (parse_neighs_sync pf zero out))"

definition parse_routes ::
  "'w world \<Rightarrow> (string \<Rightarrow> 'f option) \<Rightarrow> (string \<Rightarrow> ip_network option) \<Rightarrow> ('w, 'f route list) bio" where
  "parse_routes W pf pn =
     rbind (babel_run_command W ''dump'') (\<lambda>out. rlift (parse_routes_sync pf pn out))"

section \<open>Facts\<close>

lemma find_val_in_pair:
  "e \<notin> set pre \<Longrightarrow> find_val_in e (pre @ e # v # rest) = Some v"
proof (induction pre)
  case (Cons p ps)
  then show ?case by (cases ps) auto
qed simp

lemma find_val_in_SomeD: "find_val_in val ws = Some v \<Longrightarrow> \<exists>pre rest. ws = pre @ val # v # rest"
proof (induction val ws rule: find_val_in.induct)
  case (3 val e v' rest)
  show ?case
  proof (cases "e = val")
    case True
    with 3(2) have "e # v' # rest = [] @ val # v # rest" by simp
    then show ?thesis by (intro exI)
  next
    case False
    with 3 obtain pre post where "v' # rest = pre @ val # v # post" by auto
    then have "e # v' # rest = (e # pre) @ val # v # post" by simp
    then show ?thesis by (intro exI)
  qed
qed auto

lemma read_babel_lines_append:
  "read_babel_lines ls ret \<noteq> Inl NoTerminator \<Longrightarrow>
     read_babel_lines (ls @ ms) ret = read_babel_lines ls ret"
  by (induction ls ret rule: read_babel_lines.induct) (auto simp: Let_def)

definition plain_line :: "string \<Rightarrow> bool" where
  "plain_line l \<longleftrightarrow> trim l \<notin> {''ok'', ''bad'', ''no''}"

lemma read_babel_lines_okI:
  "\<forall>x \<in> set pre. plain_line x \<Longrightarrow> trim l = ''ok'' \<Longrightarrow>
     read_babel_lines (pre @ l # post) ret = Inr (ret @ concat (map (\<lambda>x. x @ [LF]) (pre @ [l])))"
  by (induction pre arbitrary: ret) (auto simp: Let_def plain_line_def)

lemma read_babel_lines_okD:
  "read_babel_lines ls ret = Inr d \<Longrightarrow>
     \<exists>pre l post. ls = pre @ l # post \<and> (\<forall>x \<in> set pre. plain_line x) \<and> trim l = ''ok''"
proof (induction ls ret rule: read_babel_lines.induct)
  case (2 line ls ret)
  show ?case
  proof (cases "trim line = ''ok''")
    case True
    then have "line # ls = [] @ line # ls \<and> (\<forall>x \<in> set []. plain_line x) \<and> trim line = ''ok''" by simp
    then show ?thesis by (intro exI)
  next
    case False
    with 2(2) have pl: "plain_line line" and r: "read_babel_lines ls (ret @ line @ [LF]) = Inr d"
      by (auto simp: Let_def plain_line_def split: if_splits)
    from False pl have "trim line \<noteq> ''ok''" "\<not> (trim line = ''bad'' \<or> trim line = ''no'')"
      by (auto simp: plain_line_def)
    from 2(1) [OF refl this r] obtain pre l post where
      "ls = pre @ l # post" "\<forall>x \<in> set pre. plain_line x" "trim l = ''ok''" by (elim exE conjE)
    with pl have "line # ls = (line # pre) @ l # post \<and> (\<forall>x \<in> set (line # pre). plain_line x)
        \<and> trim l = ''ok''" by simp
    then show ?thesis by (intro exI)
  qed
qed simp

end
