(* ===== verification/Ip_Text.thy ===== *)
theory Ip_Text
  imports Babel_Monitor
begin

text \<open>
  How the standard library prints addresses, and the string operations of the firewall and
  routing code: lower case, replacing a text, the items of a tagged list.
\<close>

unbundle bit_operations_syntax

section \<open>Strings\<close>

fun drop_prefix :: "string \<Rightarrow> string \<Rightarrow> string option" where
  "drop_prefix [] s = Some s"
| "drop_prefix (p # ps) [] = None"
| "drop_prefix (p # ps) (c # cs) = (if p = c then drop_prefix ps cs else None)"

lemma drop_prefix_length: "drop_prefix p s = Some t \<Longrightarrow> length t \<le> length s"
  by (induction p s rule: drop_prefix.induct) (auto split: if_splits)

text \<open>\<open>str::replace\<close> with a text that is not empty.\<close>

function replace_str :: "string \<Rightarrow> string \<Rightarrow> string \<Rightarrow> string" where
  "replace_str pat to [] = []"
| "replace_str pat to (c # cs) =
     (case drop_prefix pat (c # cs) of
        Some rest \<Rightarrow> if pat = [] then c # cs else to @ replace_str pat to rest
      | None \<Rightarrow> c # replace_str pat to cs)"
  by pat_completeness auto
termination
proof (relation "measure (\<lambda>(pat, to, s). length s)", goal_cases)
  case (3 pat to c cs rest)
  then obtain p ps where "pat = p # ps" by (cases pat) auto
  with 3 have "drop_prefix ps cs = Some rest" by (auto split: if_splits)
  then show ?case by (auto dest: drop_prefix_length)
qed auto

definition remove_char :: "char \<Rightarrow> string \<Rightarrow> string" where
  "remove_char c s = filter (\<lambda>x. x \<noteq> c) s"

text \<open>The ASCII white space does not contain the vertical tab.\<close>

definition is_ascii_whitespace :: "char \<Rightarrow> bool" where
  "is_ascii_whitespace c \<longleftrightarrow> c = CHR 0x20 \<or> c = TAB \<or> c = LF \<or> c = CHR 0x0C \<or> c = CR"

definition split_ascii_whitespace :: "string \<Rightarrow> string list" where
  "split_ascii_whitespace s =
     filter (\<lambda>w. w \<noteq> []) (split_on (CHR 0x20) (map (\<lambda>c. if is_ascii_whitespace c then CHR 0x20 else c) s))"

definition to_lower :: "char \<Rightarrow> char" where
  "to_lower c = (let n = (of_char c :: nat) in if 65 \<le> n \<and> n \<le> 90 then char_of (n + 32) else c)"

definition to_lowercase :: "string \<Rightarrow> string" where
  "to_lowercase s = map to_lower s"

section \<open>Addresses\<close>

definition hex_char :: "nat \<Rightarrow> char" where
  "hex_char d = (if d < 10 then char_of (48 + d) else char_of (87 + d))"

fun hex :: "nat \<Rightarrow> string" where
  "hex n = (if n < 16 then [hex_char n] else hex (n div 16) @ [hex_char (n mod 16)])"

declare hex.simps [simp del]

definition segments :: "u128 \<Rightarrow> nat list" where
  "segments a = map (\<lambda>i. unat (drop_bit (112 - 16 * i) a) mod 65536) [0..<8]"

text \<open>The first longest run of zero segments, as start and length.\<close>

fun zero_run :: "nat \<Rightarrow> nat \<times> nat \<Rightarrow> nat \<times> nat \<Rightarrow> nat list \<Rightarrow> nat \<times> nat" where
  "zero_run i current longest [] = longest"
| "zero_run i current longest (s # ss) =
     (if s = 0 then
        let current' = (if snd current = 0 then i else fst current, snd current + 1)
        in zero_run (Suc i) current' (if snd current' > snd longest then current' else longest) ss
      else zero_run (Suc i) (0, 0) longest ss)"

definition fmt_segments :: "nat list \<Rightarrow> string" where
  "fmt_segments ss = join_with (CHR '':'') (map hex ss)"

definition show_ipv6 :: "u128 \<Rightarrow> string" where
  "show_ipv6 a =
     (let ss = segments a
      in if take 6 ss = [0, 0, 0, 0, 0, 0xffff]
         then ''::ffff:'' @ show_ipv4 (ucast a)
         else case zero_run 0 (0, 0) (0, 0) ss of (start, len) \<Rightarrow>
           if len > 1 then fmt_segments (take start ss) @ ''::'' @ fmt_segments (drop (start + len) ss)
           else fmt_segments ss)"

definition show_ip :: "ip_addr \<Rightarrow> string" where
  "show_ip a = (case a of V4 x \<Rightarrow> show_ipv4 x | V6 x \<Rightarrow> show_ipv6 x)"

definition is_link_local :: "ip_addr \<Rightarrow> bool" where
  "is_link_local ip = (case ip of V6 a \<Rightarrow> (ucast (drop_bit 112 a) AND 0xffc0 :: u16) = 0xfe80 | V4 _ \<Rightarrow> False)"

text \<open>The standard library: 224.0.0.0/4 and ff00::/8.\<close>

definition is_multicast :: "ip_addr \<Rightarrow> bool" where
  "is_multicast ip = (case ip of V6 a \<Rightarrow> drop_bit 120 a = 0xff | V4 a \<Rightarrow> drop_bit 28 a = 0xe)"

end
