(* ===== verification/Netfilter.thy ===== *)
theory Netfilter
  imports Ip_Text
begin

text \<open>
  The firewall part of \<open>althea_kernel_interface\<close>: \<open>netfilter.rs\<close> and \<open>iptables.rs\<close> set up
  rules, \<open>counter.rs\<close> and \<open>wg_iface_counter.rs\<close> read the byte counters of a billing round. The
  regular expressions of the crate \<open>regex\<close> are parameters that give the captured texts.
\<close>

section \<open>nftables\<close>

definition nft :: "'w world \<Rightarrow> string list \<Rightarrow> ('w, cmd_output) kio" where
  "nft W args = cmd W ''nft'' args"

text \<open>\<open>String::from_utf8(..).expect\<close>.\<close>

definition expect_utf8 :: "string option \<Rightarrow> ('w, string) kio" where
  "expect_utf8 b = (\<lambda>w. case b of Some s \<Rightarrow> Some (Inr s, w) | None \<Rightarrow> None)"

definition does_nftables_exist :: "'w world \<Rightarrow> ('w, bool) kio" where
  "does_nftables_exist W =
     rbind (rattempt (nft W [''-v''])) (\<lambda>r. case r of
        Inl _ \<Rightarrow> rret False
      | Inr out \<Rightarrow> rret (case co_stdout out of None \<Rightarrow> False | Some s \<Rightarrow> contains_str s ''nftables''))"

definition create_fwd_rule :: "'w world \<Rightarrow> ('w, unit) kio" where
  "create_fwd_rule W =
     rbind (nft W [''insert'', ''rule'', ''inet'', ''fw4'', ''forward_lan'', ''accept'']) (\<lambda>_. rret ())"

definition create_nft_set :: "'w world \<Rightarrow> string \<Rightarrow> ('w, unit) kio" where
  "create_nft_set W set_name =
     rbind (rattempt (nft W [''add'', ''set'', ''inet'', ''fw4'', set_name, ''{'', ''type'', ''ipv6_addr'', ''.'',
        ''ifname;'', ''flags'', ''dynamic;'', ''counter;'', ''size'', ''65535;'', ''}''])) (\<lambda>_. rret ())"

definition create_nat_table :: "'w world \<Rightarrow> string \<Rightarrow> ('w, unit) kio" where
  "create_nat_table W ex_nic =
     rbind (nft W [''create'', ''table'', ''ip'', ''nat'']) (\<lambda>_.
     rbind (nft W [''create'', ''chain'', ''ip'', ''nat'', ''postrouting'', ''{'', ''type'', ''nat'', ''hook'',
        ''postrouting'', ''priority'', ''100'', '';'', ''policy'', ''accept'', '';'', ''}'']) (\<lambda>_.
     rbind (nft W [''add'', ''rule'', ''ip'', ''nat'', ''postrouting'', ''oifname'', ex_nic, ''masquerade'']) (\<lambda>_.
       rret ())))"

definition is_lan_fwd_present :: "'w world \<Rightarrow> ('w, bool) kio" where
  "is_lan_fwd_present W =
     rbind (nft W [''list'', ''chain'', ''inet'', ''fw4'', ''forward_lan'']) (\<lambda>out.
     rbind (expect_utf8 (co_stdout out)) (\<lambda>s.
       rret (\<exists>line \<in> set (lines_of s). trim line = ''accept'')))"

text \<open>The handle is the last word of the first line that mentions the rule.\<close>

definition reject_handle :: "string \<Rightarrow> u32 option" where
  "reject_handle s =
     (case find (\<lambda>line. contains_str line ''reject'') (lines_of s) of
        None \<Rightarrow> None
      | Some line \<Rightarrow> parse_u32 (last (split_on (CHR '' '') line)))"

definition get_reject_rule_handle :: "'w world \<Rightarrow> ('w, u32 option) kio" where
  "get_reject_rule_handle W =
     rbind (nft W [''-a'', ''list'', ''chain'', ''inet'', ''fw4'', ''forward_lan'']) (\<lambda>out.
     rbind (expect_utf8 (co_stdout out)) (\<lambda>s. rret (reject_handle s)))"

definition is_nat_table_present :: "'w world \<Rightarrow> ('w, bool) kio" where
  "is_nat_table_present W =
     rbind (nft W [''list'', ''table'', ''ip'', ''nat'']) (\<lambda>out. rret (co_success out))"

definition insert_reject_rule :: "'w world \<Rightarrow> ('w, unit) kio" where
  "insert_reject_rule W =
     rbind (get_reject_rule_handle W) (\<lambda>h. case h of
        None \<Rightarrow> rbind (nft W [''insert'', ''rule'', ''inet'', ''fw4'', ''forward_lan'', ''reject'']) (\<lambda>_. rret ())
      | Some _ \<Rightarrow> rret ())"

definition delete_reject_rule :: "'w world \<Rightarrow> ('w, unit) kio" where
  "delete_reject_rule W =
     rbind (get_reject_rule_handle W) (\<lambda>h. case h of
        Some handle \<Rightarrow> rbind (nft W [''delete'', ''rule'', ''inet'', ''fw4'', ''forward_lan'', ''handle'',
            dec (unat handle)]) (\<lambda>_. rret ())
      | None \<Rightarrow> rret ())"

definition init_nat_chain :: "'w world \<Rightarrow> string \<Rightarrow> ('w, unit) kio" where
  "init_nat_chain W ex_nic =
     rbind (is_nat_table_present W) (\<lambda>present.
       if \<not> present then create_nat_table W ex_nic else rret ())"

definition set_nft_lan_fwd_rule :: "'w world \<Rightarrow> ('w, unit) kio" where
  "set_nft_lan_fwd_rule W =
     rbind (is_lan_fwd_present W) (\<lambda>present. if \<not> present then create_fwd_rule W else rret ())"

definition are_nft_exit_forward_rules_present :: "'w world \<Rightarrow> string \<Rightarrow> string \<Rightarrow> ('w, bool) kio" where
  "are_nft_exit_forward_rules_present W iface ex_nic =
     rbind (nft W [''list'', ''chain'', ''inet'', ''fw4'', ''forward'']) (\<lambda>out.
     rbind (expect_utf8 (co_stdout out)) (\<lambda>s.
       rret (\<exists>line \<in> set (lines_of s). contains_str line (''iifname '' @ iface @ '' oifname '' @ ex_nic))))"

definition insert_nft_exit_forward_rules ::
  "'w world \<Rightarrow> string \<Rightarrow> string \<Rightarrow> (ip_addr \<times> u8) option \<Rightarrow> ('w, unit) kio" where
  "insert_nft_exit_forward_rules W iface ex_nic external_v6 =
     rbind (are_nft_exit_forward_rules_present W iface ex_nic) (\<lambda>present.
       if present then rret ()
       else
         rbind (nft W [''add'', ''rule'', ''inet'', ''fw4'', ''forward'', ''iifname'', iface, ''oifname'', ex_nic,
            ''counter'', ''accept'']) (\<lambda>_.
         rbind (nft W [''add'', ''rule'', ''inet'', ''fw4'', ''forward'', ''meta'', ''nfproto'', ''ipv4'', ''iifname'',
            ex_nic, ''oifname'', iface, ''ct'', ''state'', ''related,established'', ''counter'', ''accept'']) (\<lambda>_.
           case external_v6 of
             Some (ip, netmask) \<Rightarrow>
               rbind (nft W [''add'', ''rule'', ''inet'', ''fw4'', ''forward'', ''iifname'', ex_nic, ''oifname'', iface,
                  ''ip'', ''daddr'', show_ip ip @ ''/'' @ dec (unat netmask), ''counter'', ''accept'']) (\<lambda>_. rret ())
           | None \<Rightarrow> rret ())))"

text \<open>A command that can not be run makes this one panic.\<close>

definition is_nft_set_present :: "'w world \<Rightarrow> string \<Rightarrow> ('w, bool) kio" where
  "is_nft_set_present W set_name =
     (\<lambda>w. case nft W [''list'', ''set'', ''inet'', ''fw4'', set_name] w of
        Some (Inr out, w') \<Rightarrow> Some (Inr (co_success out), w')
      | _ \<Rightarrow> None)"

definition create_nft_insert_chain :: "'w world \<Rightarrow> string \<Rightarrow> string \<Rightarrow> string \<Rightarrow> ('w, unit) kio" where
  "create_nft_insert_chain W set_name chain iface =
     rbind (rattempt (nft W [''insert'', ''rule'', ''inet'', ''fw4'', chain, ''ip6'', ''daddr'', ''.'', ''meta'', iface,
        ''@'' @ set_name])) (\<lambda>_.
     rbind (rattempt (nft W [''insert'', ''rule'', ''inet'', ''fw4'', chain, ''ip6'', ''daddr'', ''.'', ''meta'', iface,
        ''!='', ''@'' @ set_name, ''add'', ''@'' @ set_name, ''{'', ''ip6'', ''daddr'', ''.'', ''meta'', iface,
        ''counter'', ''}''])) (\<lambda>_. rret ()))"

definition nft_init_counters :: "'w world \<Rightarrow> string \<Rightarrow> string \<Rightarrow> string \<Rightarrow> ('w, unit) kio" where
  "nft_init_counters W set_name chain iface =
     rbind (is_nft_set_present W set_name) (\<lambda>present.
       if \<not> present then
         rbind (create_nft_set W set_name) (\<lambda>_. create_nft_insert_chain W set_name chain iface)
       else rret ())"

section \<open>iptables\<close>

text \<open>The check command for a rule: the adding option is replaced by the checking one, the index after
  an inserting option and its chain is left out. Looking two places past the end panics.\<close>

fun check_args :: "string list \<Rightarrow> string list \<Rightarrow> nat \<Rightarrow> nat option \<Rightarrow> string list option" where
  "check_args rule [] i skip = Some []"
| "check_args rule (r # rs) i skip =
     (if skip = Some i then check_args rule rs (Suc i) skip
      else if r = ''-I'' then
        (case nth_opt rule (i + 2) of
           None \<Rightarrow> None
         | Some idx \<Rightarrow> map_option (Cons ''-C'')
             (check_args rule rs (Suc i) (if parse_u32 idx \<noteq> None then Some (i + 2) else skip)))
      else if r = ''-A'' then map_option (Cons ''-C'') (check_args rule rs (Suc i) skip)
      else map_option (Cons r) (check_args rule rs (Suc i) skip))"

definition add_iptables_rule :: "'w world \<Rightarrow> string \<Rightarrow> string list \<Rightarrow> ('w, unit) kio" where
  "add_iptables_rule W command rule = (\<lambda>w.
     if \<not> (''-A'' \<in> set rule \<or> ''-I'' \<in> set rule \<or> ''-D'' \<in> set rule) then None
     else case check_args rule rule 0 None of
       None \<Rightarrow> None
     | Some new_command \<Rightarrow>
         rbind (cmd W command new_command) (\<lambda>check.
           if \<not> co_success check then rbind (cmd W command rule) (\<lambda>_. rret ()) else rret ()) w)"

definition check_iptable_rule :: "'w world \<Rightarrow> string \<Rightarrow> string list \<Rightarrow> ('w, bool) kio" where
  "check_iptable_rule W command rule = (\<lambda>w.
     if ''-C'' \<notin> set rule then None
     else rbind (cmd W command rule) (\<lambda>check. rret (co_success check)) w)"

section \<open>Counters\<close>

datatype filter_target = Input | Output | ForwardInput | ForwardOutput

definition ft_interface :: "filter_target \<Rightarrow> string" where
  "ft_interface t = (case t of Input \<Rightarrow> ''src'' | ForwardInput \<Rightarrow> ''src'' | Output \<Rightarrow> ''dst'' | ForwardOutput \<Rightarrow> ''dst'')"

definition nft_interface :: "filter_target \<Rightarrow> string" where
  "nft_interface t =
     (case t of Input \<Rightarrow> ''iifname'' | ForwardInput \<Rightarrow> ''iifname'' | Output \<Rightarrow> ''oifname'' | ForwardOutput \<Rightarrow> ''oifname'')"

definition set_name :: "filter_target \<Rightarrow> string" where
  "set_name t =
     (case t of Input \<Rightarrow> ''rita_input'' | Output \<Rightarrow> ''rita_output'' | ForwardInput \<Rightarrow> ''rita_fwd_input''
      | ForwardOutput \<Rightarrow> ''rita_fwd_output'')"

definition ft_table :: "filter_target \<Rightarrow> string" where
  "ft_table t = (case t of Input \<Rightarrow> ''INPUT'' | Output \<Rightarrow> ''OUTPUT'' | ForwardOutput \<Rightarrow> ''FORWARD'' | ForwardInput \<Rightarrow> ''FORWARD'')"

definition ft_chain :: "filter_target \<Rightarrow> string" where
  "ft_chain t = (case t of Input \<Rightarrow> ''input'' | Output \<Rightarrow> ''output'' | ForwardOutput \<Rightarrow> ''forward'' | ForwardInput \<Rightarrow> ''forward'')"

text \<open>The counters of a round: bytes by destination and interface. An association list whose order is the
  iteration order of the hash map; a later entry for a key replaces the value of the earlier one.\<close>

type_synonym counters = "((ip_addr \<times> string) \<times> u64) list"

fun map_insert :: "'k \<Rightarrow> 'v \<Rightarrow> ('k \<times> 'v) list \<Rightarrow> ('k \<times> 'v) list" where
  "map_insert k v [] = [(k, v)]"
| "map_insert k v ((k', v') # m) = (if k = k' then (k, v) # m else (k', v') # map_insert k v m)"

definition parse_u64 :: "string \<Rightarrow> u64 option" where
  "parse_u64 s = map_option of_nat (parse_uint 10 (2 ^ 64 - 1) s)"

text \<open>\<open>caps\<close> are the groups of the matches: address, interface, packets and bytes.\<close>

fun parse_ipset_caps :: "(string \<times> string \<times> string \<times> string) list \<Rightarrow> counters \<Rightarrow> kernel_interface_error + counters" where
  "parse_ipset_caps [] m = Ok m"
| "parse_ipset_caps ((ip, iface, packets, bytes) # caps) m =
     (case parse_ip ip of None \<Rightarrow> Err RuntimeError
      | Some a \<Rightarrow>
        (case parse_u64 bytes of None \<Rightarrow> Err RuntimeError
         | Some b \<Rightarrow>
           (case parse_u64 packets of None \<Rightarrow> Err RuntimeError
            | Some p \<Rightarrow> parse_ipset_caps caps (map_insert (a, iface) (b + p * 40) m))))"

definition parse_ipset ::
  "(string \<Rightarrow> (string \<times> string \<times> string \<times> string) list) \<Rightarrow> string \<Rightarrow> kernel_interface_error + counters" where
  "parse_ipset captures input = parse_ipset_caps (captures input) []"

definition init_counter :: "'w world \<Rightarrow> filter_target \<Rightarrow> ('w, unit) kio" where
  "init_counter W target =
     rbind (does_nftables_exist W) (\<lambda>nftables.
       if nftables then nft_init_counters W (set_name target) (ft_chain target) (nft_interface target)
       else
         rbind (cmd W ''ipset'' [''create'', set_name target, ''hash:net,iface'', ''family'', ''inet6'', ''counters'']) (\<lambda>_.
           add_iptables_rule W ''ip6tables'' [''-w'', ''-I'', ft_table target, ''1'', ''-m'', ''set'', ''!'', ''--match-set'',
             set_name target, ''dst,'' @ ft_interface target, ''-j'', ''SET'', ''--add-set'', set_name target,
             ''dst,'' @ ft_interface target]))"

text \<open>One element of a listed set, \<open>ff02::1:6 . "wg0" counter packets 3 bytes 204,\<close>, the first of them
  after \<open>elements = { \<close>.\<close>

definition parse_nft_line :: "string \<Rightarrow> kernel_interface_error + ((ip_addr \<times> string) \<times> u64)" where
  "parse_nft_line line =
     (let ws = split_ascii_whitespace (replace_str ''elements = { '' [] line)
      in case parse_ip (unwrap_or (nth_opt ws 0) []) of
           None \<Rightarrow> Err RuntimeError
         | Some ip_addr \<Rightarrow>
           (case nth_opt ws 2 of
              None \<Rightarrow> Err ParseError
            | Some iface \<Rightarrow>
              (case parse_u64 (unwrap_or (nth_opt ws 5) []) of
                 None \<Rightarrow> Err RuntimeError
               | Some packets \<Rightarrow>
                 (case parse_u64 (remove_char (CHR '','') (unwrap_or (nth_opt ws 7) [])) of
                    None \<Rightarrow> Err RuntimeError
                  | Some bytes \<Rightarrow> Ok ((ip_addr, remove_char (CHR 0x22) iface), packets * 40 + bytes)))))"

fun parse_nft_lines :: "string list \<Rightarrow> counters \<Rightarrow> kernel_interface_error + counters" where
  "parse_nft_lines [] m = Ok m"
| "parse_nft_lines (l # ls) m =
     (if contains_str l ''packets'' then
        (case parse_nft_line l of
           Inl e \<Rightarrow> Err e
         | Inr (k, v) \<Rightarrow> parse_nft_lines ls (map_insert k v m))
      else parse_nft_lines ls m)"

definition parse_nft_set_counters :: "'w world \<Rightarrow> string \<Rightarrow> ('w, counters) kio" where
  "parse_nft_set_counters W name =
     rbind (nft W [''list'', ''set'', ''inet'', ''fw4'', name]) (\<lambda>out.
     rbind (nft W [''flush'', ''set'', ''inet'', ''fw4'', name]) (\<lambda>_.
     rbind (expect_utf8 (co_stdout out)) (\<lambda>s. rlift (parse_nft_lines (lines_of s) []))))"

definition read_counters ::
  "'w world \<Rightarrow> (string \<Rightarrow> (string \<times> string \<times> string \<times> string) list) \<Rightarrow> filter_target \<Rightarrow> ('w, counters) kio" where
  "read_counters W captures target =
     rbind (does_nftables_exist W) (\<lambda>nftables.
       if nftables then parse_nft_set_counters W (set_name target)
       else
         rbind (cmd W ''ipset'' [''create'', ''tmp_'' @ set_name target, ''hash:net,iface'', ''family'', ''inet6'',
            ''counters'']) (\<lambda>_.
         rbind (cmd W ''ipset'' [''swap'', ''tmp_'' @ set_name target, set_name target]) (\<lambda>_.
         rbind (cmd W ''ipset'' [''save'', ''tmp_'' @ set_name target]) (\<lambda>output.
         rbind (from_utf8 (co_stdout output)) (\<lambda>s.
         rbind (cmd W ''ipset'' [''destroy'', ''tmp_'' @ set_name target]) (\<lambda>_.
           rlift (parse_ipset captures s)))))))"

section \<open>WireGuard counters\<close>

record wg_usage =
  wu_upload :: u64
  wu_download :: u64

type_synonym wg_counters = "(wg_key \<times> wg_usage) list"

definition prepare_entry :: "wg_usage \<Rightarrow> wg_usage \<Rightarrow> wg_usage" where
  "prepare_entry bytes history =
     (let h1 = (if wu_download history > wu_download bytes then history\<lparr>wu_download := 0\<rparr> else history)
      in if wu_upload h1 > wu_upload bytes then h1\<lparr>wu_upload := 0\<rparr> else h1)"

definition prepare_usage_history :: "wg_counters \<Rightarrow> wg_counters \<Rightarrow> wg_counters" where
  "prepare_usage_history counters usage_history =
     foldl (\<lambda>h (k, bytes). case map_of h k of
          Some history \<Rightarrow> map_insert k (prepare_entry bytes history) h
        | None \<Rightarrow> map_insert k bytes h) usage_history counters"

text \<open>\<open>caps\<close> are the groups key, download and upload; \<open>parse_key\<close> reads a key from Base64 text.\<close>

fun parse_wg_caps ::
  "(string \<Rightarrow> wg_key option) \<Rightarrow> (string \<times> string \<times> string) list \<Rightarrow> wg_counters \<Rightarrow> kernel_interface_error + wg_counters" where
  "parse_wg_caps parse_key [] m = Ok m"
| "parse_wg_caps parse_key ((key, down, up) # caps) m =
     (case parse_u64 up of None \<Rightarrow> Err RuntimeError
      | Some u \<Rightarrow>
        (case parse_u64 down of None \<Rightarrow> Err RuntimeError
         | Some d \<Rightarrow>
           (case parse_key key of
              Some k \<Rightarrow> parse_wg_caps parse_key caps (map_insert k \<lparr>wu_upload = u, wu_download = d\<rparr> m)
            | None \<Rightarrow> parse_wg_caps parse_key caps m)))"

definition read_wg_counters ::
  "'w world \<Rightarrow> (string \<Rightarrow> wg_key option) \<Rightarrow> (string \<Rightarrow> (string \<times> string \<times> string) list) \<Rightarrow> string \<Rightarrow> ('w, wg_counters) kio" where
  "read_wg_counters W parse_key captures wg =
     rbind (cmd W ''wg'' [''show'', wg, ''transfer'']) (\<lambda>output.
       if \<not> stream_is_empty (co_stderr output) then fail_with_stderr RuntimeError output
       else rbind (from_utf8 (co_stdout output)) (\<lambda>s. rlift (parse_wg_caps parse_key (captures s) [])))"

end
