(* ===== verification/Kernel_Routes.thy ===== *)
theory Kernel_Routes
  imports Netfilter
begin

text \<open>
  Routes and addresses of the operating system: \<open>ip_route.rs\<close>, \<open>get_neighbors.rs\<close>,
  \<open>link_local_tools.rs\<close>, \<open>ip_addr.rs\<close>, \<open>open_tunnel.rs\<close> and the rest of \<open>interface_tools.rs\<close> and
  \<open>setup_wg_if.rs\<close>. The captures of the regular expressions, the files under \<open>/proc\<close> and \<open>/sys\<close>
  (\<open>files\<close>, by path) and the Base64 text of keys (\<open>show_key\<close>, \<open>parse_key\<close>) are parameters.
\<close>

unbundle bit_operations_syntax

text \<open>Reading the lines of a file, \<open>file_io.rs\<close>.\<close>

type_synonym 'w files = "string \<Rightarrow> 'w \<Rightarrow> kernel_interface_error + string list"

definition get_lines :: "'w files \<Rightarrow> string \<Rightarrow> ('w, string list) kio" where
  "get_lines files path = (\<lambda>w. Some (files path w, w))"

text \<open>\<open>Result::unwrap\<close> and \<open>expect\<close> on the result of an operation: an error panics.\<close>

definition rexpect :: "('w, 'e, 'a) rio \<Rightarrow> ('w, 'd, 'a) rio" where
  "rexpect m = (\<lambda>w. case m w of Some (Inr x, w') \<Rightarrow> Some (Inr x, w') | _ \<Rightarrow> None)"

section \<open>Routes\<close>

record to_subnet =
  ts_dst :: ip_addr
  ts_subnet :: u16
  ts_via :: "ip_addr option"
  ts_nic :: string
  ts_proto :: "string option"
  ts_src :: "ip_addr option"
  ts_metric :: "u16 option"
  ts_scope :: "string option"

datatype ip_route = DefaultRoute default_route | ToSubnet to_subnet

definition is_althea_default_route :: "default_route \<Rightarrow> bool" where
  "is_althea_default_route r = contains_str (to_lowercase (dr_nic r)) ''wg_exit''"

definition route_is_althea_default :: "ip_route \<Rightarrow> bool" where
  "route_is_althea_default r =
     (case r of DefaultRoute d \<Rightarrow> contains_str (to_lowercase (dr_nic d)) ''wg_exit'' | ToSubnet _ \<Rightarrow> False)"

text \<open>The word after the first one that contains the tag.\<close>

fun get_item :: "string list \<Rightarrow> string \<Rightarrow> string option" where
  "get_item [] item = None"
| "get_item (value # rest) item =
     (if contains_str (to_lowercase value) (to_lowercase item)
      then (case rest of val # _ \<Rightarrow> Some val | [] \<Rightarrow> None)
      else get_item rest item)"

definition get_and_parse_item :: "(string \<Rightarrow> 'a option) \<Rightarrow> string list \<Rightarrow> string \<Rightarrow> 'a option" where
  "get_and_parse_item parse list item =
     (case get_item list item of Some s \<Rightarrow> parse s | None \<Rightarrow> None)"

definition default_route_from :: "string list \<Rightarrow> kernel_interface_error + ip_route" where
  "default_route_from list =
     (case (get_item list ''via'', get_item list ''dev'') of
        (Some via, Some nic) \<Rightarrow>
          (case parse_ip via of
             None \<Rightarrow> Err RuntimeError
           | Some v \<Rightarrow> Ok (DefaultRoute \<lparr>dr_via = v, dr_nic = nic, dr_proto = get_item list ''proto'',
               dr_src = get_and_parse_item parse_ip list ''src'',
               dr_metric = get_and_parse_item parse_u16 list ''metric''\<rparr>))
      | _ \<Rightarrow> Err InvalidRouteString)"

definition subnet_route_from :: "string list \<Rightarrow> kernel_interface_error + ip_route" where
  "subnet_route_from list =
     (let addr_and_subnet = split_on (CHR ''/'') (hd list) in
      case parse_ip (hd addr_and_subnet) of
        None \<Rightarrow> Err RuntimeError
      | Some dst \<Rightarrow>
        (case (case nth_opt addr_and_subnet 1 of Some s \<Rightarrow> parse_u16 s | None \<Rightarrow> Some 32) of
           None \<Rightarrow> Err RuntimeError
         | Some subnet \<Rightarrow>
           (case get_item list ''dev'' of
              None \<Rightarrow> Err InvalidRouteString
            | Some nic \<Rightarrow> Ok (ToSubnet \<lparr>ts_dst = dst, ts_subnet = subnet,
                ts_via = get_and_parse_item parse_ip list ''via'', ts_nic = nic,
                ts_proto = get_item list ''proto'', ts_src = get_and_parse_item parse_ip list ''src'',
                ts_metric = get_and_parse_item parse_u16 list ''metric'',
                ts_scope = get_item list ''scope''\<rparr>))))"

definition route_from_str :: "string \<Rightarrow> kernel_interface_error + ip_route" where
  "route_from_str s =
     (let list = split_whitespace s
      in if list = [] then Err EmptyRouteString
         else if \<exists>a \<in> set list. contains_str (to_lowercase a) ''default'' then default_route_from list
         else subnet_route_from list)"

definition route_display :: "ip_route \<Rightarrow> string" where
  "route_display r =
     (case r of
        DefaultRoute d \<Rightarrow>
          ''default via '' @ show_ip (dr_via d) @ '' dev '' @ dr_nic d @ '' proto static''
          @ (case dr_src d of Some src \<Rightarrow> '' src '' @ show_ip src | None \<Rightarrow> [])
      | ToSubnet t \<Rightarrow>
          (if ts_subnet t = 32 then show_ip (ts_dst t)
           else show_ip (ts_dst t) @ ''/'' @ dec (unat (ts_subnet t)))
          @ (case ts_via t of Some via \<Rightarrow> '' via '' @ show_ip via | None \<Rightarrow> [])
          @ '' dev '' @ ts_nic t @ '' proto static''
          @ (case ts_src t of Some src \<Rightarrow> '' src '' @ show_ip src | None \<Rightarrow> []))"

text \<open>The first line that reads as a default route; lines that do not read are skipped.\<close>

fun first_default_route :: "string list \<Rightarrow> default_route option" where
  "first_default_route [] = None"
| "first_default_route (l # ls) =
     (case route_from_str l of Inr (DefaultRoute d) \<Rightarrow> Some d | _ \<Rightarrow> first_default_route ls)"

definition get_default_route :: "'w world \<Rightarrow> ('w, default_route option) kio" where
  "get_default_route W =
     rbind (cmd W ''ip'' [''route'', ''list'', ''default'']) (\<lambda>out.
     rbind (expect_utf8 (co_stdout out)) (\<lambda>s. rret (first_default_route (lines_of s))))"

definition set_route :: "'w world \<Rightarrow> ip_route \<Rightarrow> ('w, unit) kio" where
  "set_route W to =
     rbind (cmd W ''ip'' ([''route'', ''add''] @ split_whitespace (route_display to))) (\<lambda>_. rret ())"

text \<open>The operations below return the settings route, which the code updates through a reference, also
  when they fail.\<close>

definition update_settings_route ::
  "'w world \<Rightarrow> default_route option \<Rightarrow> ('w, bool \<times> default_route option) kio" where
  "update_settings_route W settings =
     rbind (get_default_route W) (\<lambda>r. case r of
        None \<Rightarrow> rret (False, settings)
      | Some d \<Rightarrow> if \<not> is_althea_default_route d then rret (True, Some d) else rret (False, settings))"

definition manual_peers_route ::
  "'w world \<Rightarrow> ip_addr \<Rightarrow> default_route option \<Rightarrow> ('w, (kernel_interface_error + bool) \<times> default_route option) kio" where
  "manual_peers_route W endpoint_ip settings =
     rbind (rattempt (update_settings_route W settings)) (\<lambda>r. case r of
        Inl e \<Rightarrow> rret (Err e, settings)
      | Inr (changed, settings') \<Rightarrow>
        (case settings' of
           None \<Rightarrow> rret (Ok changed, settings')
         | Some d \<Rightarrow>
             rbind (rattempt (set_route W (ToSubnet \<lparr>ts_dst = endpoint_ip, ts_subnet = 32,
                ts_via = Some (dr_via d), ts_nic = dr_nic d, ts_proto = Some ''static'', ts_src = None,
                ts_metric = None, ts_scope = None\<rparr>)))
               (\<lambda>r. rret (case r of Inl e \<Rightarrow> Err e | Inr () \<Rightarrow> Ok changed, settings'))))"

definition restore_default_route ::
  "'w world \<Rightarrow> default_route option \<Rightarrow> ('w, (kernel_interface_error + unit) \<times> default_route option) kio" where
  "restore_default_route W settings =
     (let put_back = (case settings of
          Some route \<Rightarrow> rbind (rattempt (set_route W (DefaultRoute route))) (\<lambda>r. rret (r, settings))
        | None \<Rightarrow> rret (Ok (), settings))
      in rbind (rattempt (get_default_route W)) (\<lambda>r. case r of
           Inl e \<Rightarrow> rret (Err e, settings)
         | Inr (Some d) \<Rightarrow> if is_althea_default_route d then put_back else rret (Ok (), Some d)
         | Inr None \<Rightarrow> put_back))"

section \<open>Neighbors and addresses\<close>

text \<open>\<open>neigh_caps\<close> gives the groups address and device of the lines of \<open>ip neigh\<close> that match.\<close>

fun parse_neighbors :: "(string \<times> string) list \<Rightarrow> kernel_interface_error + (ip_addr \<times> string) list" where
  "parse_neighbors [] = Ok []"
| "parse_neighbors ((ip, dev) # caps) =
     (case parse_ip ip of
        None \<Rightarrow> Err RuntimeError
      | Some a \<Rightarrow> (case parse_neighbors caps of Inl e \<Rightarrow> Err e | Inr r \<Rightarrow> Ok ((a, dev) # r)))"

definition get_neighbors ::
  "'w world \<Rightarrow> (string \<Rightarrow> (string \<times> string) list) \<Rightarrow> ('w, (ip_addr \<times> string) list) kio" where
  "get_neighbors W neigh_caps =
     rbind (cmd W ''ip'' [''neigh'']) (\<lambda>out.
     rbind (from_utf8 (co_stdout out)) (\<lambda>s. rlift (parse_neighbors (neigh_caps s))))"

fun trigger_neighbor_disc :: "'w world \<Rightarrow> string list \<Rightarrow> ('w, unit) kio" where
  "trigger_neighbor_disc W [] = rret ()"
| "trigger_neighbor_disc W (iface # ifaces) =
     rbind (cmd W ''ping6'' [''-c1'', ''-I'', iface, ''ff02::1'']) (\<lambda>_. trigger_neighbor_disc W ifaces)"

text \<open>A line of \<open>/proc/net/if_inet6\<close>: 32 hexadecimal digits without colons, which are put in after
  every fourth.\<close>

fun insert_colons :: "nat \<Rightarrow> string \<Rightarrow> string" where
  "insert_colons i [] = []"
| "insert_colons i (c # cs) = (if i \<noteq> 0 \<and> i mod 4 = 0 then [CHR '':'', c] else [c]) @ insert_colons (Suc i) cs"

definition parse_if_inet6_addr :: "string \<Rightarrow> bool \<Rightarrow> kernel_interface_error + u128" where
  "parse_if_inet6_addr line is_local =
     (if is_local \<and> starts_with line ''fe80'' \<or> \<not> is_local \<and> \<not> starts_with line ''fe80''
      then (case parse_ipv6 (insert_colons 0 (take 32 line)) of Some a \<Rightarrow> Ok a | None \<Rightarrow> Err ParseError)
      else Err RuntimeError)"

fun get_link_local_device_ip_internal :: "string list \<Rightarrow> string \<Rightarrow> bool \<Rightarrow> kernel_interface_error + u128" where
  "get_link_local_device_ip_internal [] dev is_local = Err AddressNotReadyError"
| "get_link_local_device_ip_internal (line # lines) dev is_local =
     (let ws = split_ascii_whitespace line
      in if ws \<noteq> [] \<and> last ws = dev
         then (case parse_if_inet6_addr line is_local of
                 Inr a \<Rightarrow> Ok a | Inl _ \<Rightarrow> get_link_local_device_ip_internal lines dev is_local)
         else get_link_local_device_ip_internal lines dev is_local)"

definition get_proc_net_path :: string where
  "get_proc_net_path = ''/proc/net/if_inet6''"

definition get_link_local_device_ip :: "'w files \<Rightarrow> string \<Rightarrow> ('w, u128) kio" where
  "get_link_local_device_ip files dev =
     rbind (get_lines files get_proc_net_path) (\<lambda>ls. rlift (get_link_local_device_ip_internal ls dev True))"

definition get_global_device_ip :: "'w files \<Rightarrow> string \<Rightarrow> ('w, u128) kio" where
  "get_global_device_ip files dev =
     rbind (get_lines files get_proc_net_path) (\<lambda>ls. rlift (get_link_local_device_ip_internal ls dev False))"

text \<open>\<open>inet_cap\<close> is the first group of the first match of the pattern for a global IPv4 address.\<close>

definition get_global_device_ip_v4 :: "'w world \<Rightarrow> (string \<Rightarrow> string option) \<Rightarrow> string \<Rightarrow> ('w, u32) kio" where
  "get_global_device_ip_v4 W inet_cap dev =
     rbind (cmd W ''ip'' [''addr'', ''show'', ''dev'', dev, ''scope'', ''global'']) (\<lambda>out.
     rbind (from_utf8 (co_stdout out)) (\<lambda>s. case inet_cap s of
        None \<Rightarrow> rraise RuntimeError
      | Some c \<Rightarrow> (case parse_ipv4 c of Some a \<Rightarrow> rret a | None \<Rightarrow> rraise RuntimeError)))"

definition get_device_name ::
  "'w world \<Rightarrow> (string \<Rightarrow> (string \<times> string) list) \<Rightarrow> ip_addr \<Rightarrow> ('w, string) kio" where
  "get_device_name W neigh_caps their_ip =
     rbind (get_neighbors W neigh_caps) (\<lambda>neigh.
       case find (\<lambda>(ip, dev). ip = their_ip) neigh of
         Some (_, dev) \<Rightarrow> rret dev | None \<Rightarrow> rraise RuntimeError)"

definition get_reply_ip ::
  "'w world \<Rightarrow> 'w files \<Rightarrow> (string \<Rightarrow> (string \<times> string) list) \<Rightarrow> u128 \<Rightarrow> string option \<Rightarrow> ('w, u128) kio" where
  "get_reply_ip W files neigh_caps their_ip external_interface =
     rbind (get_neighbors W neigh_caps) (\<lambda>neigh.
       case find (\<lambda>(ip, dev). ip = V6 their_ip) neigh of
         Some (_, dev) \<Rightarrow> get_link_local_device_ip files dev
       | None \<Rightarrow> (case external_interface of
           Some iface \<Rightarrow> get_global_device_ip files iface
         | None \<Rightarrow> rraise RuntimeError))"

section \<open>Opening a tunnel\<close>

text \<open>The link local address of a mesh address. Another prefix than \<open>fd00\<close>, or IPv4, panics.\<close>

definition to_wg_local :: "ip_addr \<Rightarrow> u128 option" where
  "to_wg_local ip =
     (case ip of
        V6 a \<Rightarrow> if (ucast (drop_bit 112 a) AND 0xfd00 :: u16) = 0xfd00
                then Some (push_bit 112 0xfe80 OR (a AND mask 64)) else None
      | V4 _ \<Rightarrow> None)"

datatype socket_addr = SocketV4 u32 u16 | SocketV6 u128 u16

definition socket_new :: "ip_addr \<Rightarrow> u16 \<Rightarrow> socket_addr" where
  "socket_new ip p = (case ip of V4 a \<Rightarrow> SocketV4 a p | V6 a \<Rightarrow> SocketV6 a p)"

definition socket_ip :: "socket_addr \<Rightarrow> ip_addr" where
  "socket_ip s = (case s of SocketV4 a _ \<Rightarrow> V4 a | SocketV6 a _ \<Rightarrow> V6 a)"

definition socket_port :: "socket_addr \<Rightarrow> u16" where
  "socket_port s = (case s of SocketV4 _ p \<Rightarrow> p | SocketV6 _ p \<Rightarrow> p)"

definition socket_to_string :: "socket_addr \<Rightarrow> string option \<Rightarrow> kernel_interface_error + string" where
  "socket_to_string endpoint interface_name =
     (case endpoint of
        SocketV6 a p \<Rightarrow>
          if is_link_local (V6 a)
          then (case interface_name of
                  Some name \<Rightarrow> Ok (''['' @ show_ipv6 a @ ''%'' @ name @ '']:'' @ dec (unat p))
                | None \<Rightarrow> Err NoInterfaceError)
          else Ok (''['' @ show_ipv6 a @ '']:'' @ dec (unat p))
      | SocketV4 a p \<Rightarrow> Ok (show_ipv4 a @ '':'' @ dec (unat p)))"

record tunnel_open_args =
  oa_interface :: string
  oa_port :: u16
  oa_endpoint :: socket_addr
  oa_remote_pub_key :: wg_key
  oa_private_key_path :: string
  oa_own_ip :: ip_addr
  oa_own_ip_v2 :: "ip_addr option"
  oa_external_nic :: "string option"

definition ip_address_add :: "'w world \<Rightarrow> string \<Rightarrow> string \<Rightarrow> ('w, cmd_output) kio" where
  "ip_address_add W address dev = cmd W ''ip'' [''address'', ''add'', address, ''dev'', dev]"

definition link_local_text :: "ip_addr \<Rightarrow> ('w, string) kio" where
  "link_local_text ip = (\<lambda>w. case to_wg_local ip of None \<Rightarrow> None | Some a \<Rightarrow> Some (Inr (show_ipv6 a @ ''/64''), w))"

definition peer_device ::
  "'w world \<Rightarrow> (string \<Rightarrow> (string \<times> string) list) \<Rightarrow> tunnel_open_args \<Rightarrow> ('w, string \<times> bool) kio" where
  "peer_device W neigh_caps args =
     (if is_link_local (socket_ip (oa_endpoint args))
      then rbind (get_device_name W neigh_caps (socket_ip (oa_endpoint args))) (\<lambda>d. rret (d, False))
      else case oa_external_nic args of Some nic \<Rightarrow> rret (nic, True) | None \<Rightarrow> rraise NoInterfaceError)"

definition wg_set_peer :: "'w world \<Rightarrow> (wg_key \<Rightarrow> string) \<Rightarrow> tunnel_open_args \<Rightarrow> string \<Rightarrow> ('w, unit) kio" where
  "wg_set_peer W show_key args connect_str =
     rbind (cmd W ''wg'' [''set'', oa_interface args, ''listen-port'', dec (unat (oa_port args)), ''private-key'',
        oa_private_key_path args, ''peer'', show_key (oa_remote_pub_key args), ''endpoint'', connect_str,
        ''allowed-ips'', ''::/0'', ''persistent-keepalive'', ''5'']) (\<lambda>out.
       if \<not> stream_is_empty (co_stderr out) then fail_with_stderr RuntimeError out else rret ())"

text \<open>The result is paired with the route of the settings, which an external peer updates.\<close>

definition kernel_open_tunnel ::
  "'w world \<Rightarrow> (string \<Rightarrow> (string \<times> string) list) \<Rightarrow> (wg_key \<Rightarrow> string) \<Rightarrow> tunnel_open_args \<Rightarrow> default_route option
     \<Rightarrow> ('w, (kernel_interface_error + unit) \<times> default_route option) kio" where
  "kernel_open_tunnel W neigh_caps show_key args settings =
     rbind (rattempt (
       rbind (peer_device W neigh_caps args) (\<lambda>(phy_name, external_peer).
       rbind (rlift (socket_to_string (oa_endpoint args) (Some phy_name))) (\<lambda>connect_str.
       rbind (wg_set_peer W show_key args connect_str) (\<lambda>_.
       rbind (ip_address_add W (show_ip (oa_own_ip args)) (oa_interface args)) (\<lambda>_.
       rbind (case oa_own_ip_v2 args of
                Some ip \<Rightarrow> rbind (ip_address_add W (show_ip ip) (oa_interface args)) (\<lambda>_. rret ())
              | None \<Rightarrow> rret ()) (\<lambda>_.
       rbind (link_local_text (oa_own_ip args)) (\<lambda>ll.
       rbind (ip_address_add W ll (oa_interface args)) (\<lambda>_. rret external_peer)))))))))
       (\<lambda>r. case r of
          Inl e \<Rightarrow> rret (Err e, settings)
        | Inr external_peer \<Rightarrow>
            rbind (if external_peer then manual_peers_route W (socket_ip (oa_endpoint args)) settings
                   else rret (Ok False, settings)) (\<lambda>(r, settings'). case r of
               Inl e \<Rightarrow> rret (Err e, settings')
             | Inr _ \<Rightarrow>
                 rbind (rattempt (rbind (cmd W ''ip'' [''link'', ''set'', ''dev'', oa_interface args, ''up'']) (\<lambda>out.
                     if \<not> stream_is_empty (co_stderr out) then fail_with_stderr RuntimeError out else rret ())))
                   (\<lambda>r. rret (r, settings'))))"

definition delete_tunnel :: "'w world \<Rightarrow> string \<Rightarrow> ('w, unit) kio" where
  "delete_tunnel W iface =
     rbind (cmd W ''ip'' [''link'', ''del'', iface]) (\<lambda>out.
       if \<not> stream_is_empty (co_stderr out) then fail_with_stderr RuntimeError out else rret ())"

section \<open>WireGuard\<close>

definition get_peers :: "'w world \<Rightarrow> (string \<Rightarrow> wg_key option) \<Rightarrow> string \<Rightarrow> ('w, wg_key list) kio" where
  "get_peers W parse_key iface_name =
     rbind (cmd W ''wg'' [''show'', iface_name, ''peers'']) (\<lambda>out.
     rbind (from_utf8 (co_stdout out)) (\<lambda>s. rret (List.map_filter parse_key (lines_of s))))"

fun active_handshake_lines ::
  "(string \<Rightarrow> wg_key option) \<Rightarrow> string list \<Rightarrow> kernel_interface_error + (wg_key \<times> instant) list" where
  "active_handshake_lines parse_key [] = Ok []"
| "active_handshake_lines parse_key (l # ls) =
     (case split_on TAB l of
        key # rest \<Rightarrow>
          (case parse_key key of None \<Rightarrow> Err RuntimeError
           | Some k \<Rightarrow>
             (case rest of [] \<Rightarrow> Err RuntimeError
              | ts # _ \<Rightarrow>
                (case parse_uint 10 (2 ^ 64 - 1) ts of None \<Rightarrow> Err RuntimeError
                 | Some secs \<Rightarrow>
                   (case active_handshake_lines parse_key ls of Inl e \<Rightarrow> Err e
                    | Inr r \<Rightarrow> Ok (if secs = 0 then r else (k, from_secs secs) # r)))))
      | [] \<Rightarrow> Err RuntimeError)"

definition get_last_active_handshake_time ::
  "'w world \<Rightarrow> (string \<Rightarrow> wg_key option) \<Rightarrow> string \<Rightarrow> ('w, (wg_key \<times> instant) list) kio" where
  "get_last_active_handshake_time W parse_key ifname =
     rbind (cmd W ''wg'' [''show'', ifname, ''latest-handshakes'']) (\<lambda>out.
     rbind (from_utf8 (co_stdout out)) (\<lambda>s. rlift (active_handshake_lines parse_key (lines_of s))))"

text \<open>\<open>endpoint_cap\<close> is the first match of the pattern for an endpoint: the group of an IPv6 address and
  the group of an IPv4 address.\<close>

definition get_wg_remote_ip ::
  "'w world \<Rightarrow> (string \<Rightarrow> (string option \<times> string option) option) \<Rightarrow> string \<Rightarrow> ('w, ip_addr) kio" where
  "get_wg_remote_ip W endpoint_cap name =
     rbind (cmd W ''wg'' [''show'', name, ''endpoints'']) (\<lambda>out.
     rbind (from_utf8 (co_stdout out)) (\<lambda>s.
       let ip_str = (case endpoint_cap s of
             None \<Rightarrow> None
           | Some (Some c, _) \<Rightarrow> Some c
           | Some (None, Some c) \<Rightarrow> Some c
           | Some (None, None) \<Rightarrow> None)
       in case ip_str of
            None \<Rightarrow> rraise RuntimeError
          | Some c \<Rightarrow> (case parse_ip c of Some a \<Rightarrow> rret a | None \<Rightarrow> rraise RuntimeError)))"

end
