(* ===== verification/Blockchain_Oracle.thy ===== *)
theory Blockchain_Oracle
  imports Settings
begin

text \<open>
  \<open>rita_common/src/blockchain_oracle\<close>: the payment thresholds and the cached view of the
  chain (balance, last block, time of the last update). The answers of the full node are
  arguments of the update functions. Conversion between denominations, which the debt
  keeper and the oracle share, is here as well (\<open>debt_keeper/mod.rs\<close>).
\<close>

section \<open>Denominations\<close>

text \<open>A panic is \<open>None\<close>: the product overflows, or the source denomination has decimal 0.\<close>

definition normalize_payment_amount :: "num256 \<Rightarrow> nat \<Rightarrow> denom \<Rightarrow> denom \<Rightarrow> nat option" where
  "normalize_payment_amount N amount from_denom to_denom =
     (if denom_name from_denom \<noteq> denom_name to_denom
      then do {
        unit_factor \<leftarrow> checked_umul N amount (unat (denom_decimal to_denom));
        udiv N unit_factor (unat (denom_decimal from_denom))
      }
      else Some amount)"

definition wei_denom :: denom where
  "wei_denom = \<lparr>denom_name = DEBT_KEEPER_DENOM, denom_decimal = DEBT_KEEPER_DENOM_DECIMAL\<rparr>"

section \<open>Thresholds\<close>

definition CLOSE_THRESH_MULT :: int where "CLOSE_THRESH_MULT = 10"

definition get_pay_thresh :: "payment_settings \<Rightarrow> int" where
  "get_pay_thresh P = payment_threshold P"

definition calculate_close_thresh :: "num256 \<Rightarrow> payment_settings \<Rightarrow> int option" where
  "calculate_close_thresh N P =
     do {
       m \<leftarrow> i256 N (-1 * CLOSE_THRESH_MULT);
       i256 N (m * get_pay_thresh P)
     }"

section \<open>The oracle\<close>

record blockchain_oracle =
  or_balance :: "nat option"
  or_last_seen_block :: "nat option"
  or_last_updated :: "instant option"

definition blockchain_oracle_new :: blockchain_oracle where
  "blockchain_oracle_new = \<lparr>or_balance = None, or_last_seen_block = None, or_last_updated = None\<rparr>"

definition OUTDATED_TIME :: duration where "OUTDATED_TIME = from_secs 300"

definition potential_payment_issues_detected :: "instant \<Rightarrow> blockchain_oracle \<Rightarrow> bool" where
  "potential_payment_issues_detected now orc =
     (case or_last_updated orc of Some time \<Rightarrow> now - time > OUTDATED_TIME | None \<Rightarrow> True)"

definition update_balance :: "nat \<Rightarrow> blockchain_oracle \<Rightarrow> blockchain_oracle" where
  "update_balance new_balance orc = orc\<lparr>or_balance := Some new_balance\<rparr>"

text \<open>The check both update functions start with: a block older than the last one seen is stale
  and nothing is updated, not even the balance.\<close>

definition accept_block :: "instant \<Rightarrow> nat \<Rightarrow> blockchain_oracle \<Rightarrow> blockchain_oracle option" where
  "accept_block now block orc =
     (case or_last_seen_block orc of
        Some seen \<Rightarrow> if block < seen then None
          else Some (orc\<lparr>or_last_seen_block := Some block, or_last_updated := Some now\<rparr>)
      | None \<Rightarrow> Some (orc\<lparr>or_last_seen_block := Some block, or_last_updated := Some now\<rparr>))"

datatype chain_status = Moving nat | NotMoving

definition update_blockchain_info_althea ::
  "num256 \<Rightarrow> instant \<Rightarrow> denom \<Rightarrow> unit + chain_status \<Rightarrow> unit + nat option
     \<Rightarrow> blockchain_oracle \<Rightarrow> blockchain_oracle option" where
  "update_blockchain_info_althea N now denom status balance orc =
     (case status of
        Inr (Moving block) \<Rightarrow>
          (case accept_block now block orc of
             None \<Rightarrow> Some orc
           | Some orc' \<Rightarrow>
             (case balance of
                Inr (Some amount) \<Rightarrow>
                  do { b \<leftarrow> normalize_payment_amount N amount denom wei_denom;
                       Some (update_balance b orc') }
              | Inr None \<Rightarrow> Some (update_balance 0 orc')
              | Inl _ \<Rightarrow> Some orc'))
      | _ \<Rightarrow> Some orc)"

definition update_blockchain_info_gnosis ::
  "instant \<Rightarrow> unit + nat \<Rightarrow> unit + nat \<Rightarrow> blockchain_oracle \<Rightarrow> blockchain_oracle" where
  "update_blockchain_info_gnosis now latest_block balance orc =
     (case latest_block of
        Inr block \<Rightarrow>
          (case accept_block now block orc of
             None \<Rightarrow> orc
           | Some orc' \<Rightarrow> (case balance of Inr b \<Rightarrow> update_balance b orc' | Inl _ \<Rightarrow> orc'))
      | Inl _ \<Rightarrow> orc)"

text \<open>The answers of the configured full node during one update.\<close>

record node_answers =
  na_block :: "unit + nat"
  na_balance :: "unit + nat"
  na_status :: "unit + chain_status"
  na_althea_balance :: "unit + nat option"

definition oracle_update ::
  "num256 \<Rightarrow> instant \<Rightarrow> rita_settings \<Rightarrow> node_answers \<Rightarrow> blockchain_oracle
     \<Rightarrow> blockchain_oracle option" where
  "oracle_update N now S A orc =
     do {
       _ \<leftarrow> pay_eth_address (payment S);
       _ \<leftarrow> settings_identity S;
       (case pay_system_chain (payment S) of
          AltheaL1 \<Rightarrow> update_blockchain_info_althea N now (althea_l1_payment_denom (payment S))
                        (na_status A) (na_althea_balance A) orc
        | _ \<Rightarrow> Some (update_blockchain_info_gnosis now (na_block A) (na_balance A) orc))
     }"

definition low_balance :: "payment_settings \<Rightarrow> blockchain_oracle \<Rightarrow> bool" where
  "low_balance P orc =
     (case or_balance orc of Some val \<Rightarrow> val < balance_warning_level P | None \<Rightarrow> False)"

section \<open>Facts\<close>

context num256_laws
begin

lemma calculate_close_thresh_exact:
  "i256_range (10 * payment_threshold P) \<Longrightarrow> payment_threshold P \<noteq> 0 \<Longrightarrow> 0 \<le> payment_threshold P
     \<Longrightarrow> calculate_close_thresh N P = Some (- 10 * payment_threshold P)"
  by (simp add: calculate_close_thresh_def CLOSE_THRESH_MULT_def get_pay_thresh_def i256_exact
      i256_range_def)

lemma calculate_close_thresh_small:
  "0 \<le> payment_threshold P \<Longrightarrow> payment_threshold P < 2 ^ 251
     \<Longrightarrow> calculate_close_thresh N P = Some (- 10 * payment_threshold P)"
  by (simp add: calculate_close_thresh_def CLOSE_THRESH_MULT_def get_pay_thresh_def i256_exact
      i256_range_def)

lemma normalize_same [simp]:
  "denom_name d = denom_name e \<Longrightarrow> normalize_payment_amount N a d e = Some a"
  by (simp add: normalize_payment_amount_def)

lemma normalize_exact:
  "denom_name d \<noteq> denom_name e \<Longrightarrow> 0 < unat (denom_decimal d)
   \<Longrightarrow> int a * int (unat (denom_decimal e)) < 2 ^ 256
   \<Longrightarrow> normalize_payment_amount N a d e
         = Some (a * unat (denom_decimal e) div unat (denom_decimal d))"
  by (simp add: normalize_payment_amount_def checked_umul_exact udiv_exact)

end

lemma accept_block_Some:
  "accept_block now b orc = Some orc' \<Longrightarrow>
     (\<forall>l. or_last_seen_block orc = Some l \<longrightarrow> l \<le> b) \<and>
     orc' = orc\<lparr>or_last_seen_block := Some b, or_last_updated := Some now\<rparr>"
  by (auto simp: accept_block_def split: rita_splits)

text \<open>The view of the chain a node has never moves backwards.\<close>

definition block_le :: "nat option \<Rightarrow> nat option \<Rightarrow> bool" where
  "block_le a b = (case a of None \<Rightarrow> True | Some x \<Rightarrow> (case b of None \<Rightarrow> False | Some y \<Rightarrow> x \<le> y))"

lemma block_le_refl [simp]: "block_le a a"
  by (simp add: block_le_def split: option.splits)

lemma block_le_trans: "block_le a b \<Longrightarrow> block_le b c \<Longrightarrow> block_le a c"
  by (auto simp: block_le_def split: option.splits)

lemma accept_block_mono:
  "accept_block now b orc = Some orc' \<Longrightarrow> block_le (or_last_seen_block orc) (or_last_seen_block orc')"
  by (auto simp: block_le_def dest!: accept_block_Some split: option.splits)

lemma gnosis_mono:
  "block_le (or_last_seen_block orc)
     (or_last_seen_block (update_blockchain_info_gnosis now bl ba orc))"
  by (auto simp: update_blockchain_info_gnosis_def update_balance_def dest: accept_block_mono
      split: rita_splits)

lemma althea_mono:
  "update_blockchain_info_althea N now d st ba orc = Some orc' \<Longrightarrow>
     block_le (or_last_seen_block orc) (or_last_seen_block orc')"
  by (auto simp: update_blockchain_info_althea_def update_balance_def dest: accept_block_mono
      elim!: bind_SomeE split: rita_splits chain_status.splits)

lemma oracle_update_mono:
  "oracle_update N now S A orc = Some orc' \<Longrightarrow>
     block_le (or_last_seen_block orc) (or_last_seen_block orc')"
  by (auto simp: oracle_update_def gnosis_mono dest: althea_mono elim!: bind_SomeE
      split: system_chain.splits)

end
