(* ===== verification/Tunnel_Manager.thy ===== *)
theory Tunnel_Manager
  imports Kernel_Routes Blockchain_Oracle
begin

text \<open>
  \<open>rita_common/src/tunnel_manager\<close>: the table of WireGuard tunnels per neighbor, their
  creation and deletion (\<open>mod.rs\<close>), the payment state that enforcement sets and the
  bandwidth limit it leads to, garbage collection (\<open>gc.rs\<close>), shaping (\<open>shaping.rs\<close>) and the
  neighbor status (\<open>neighbor_status.rs\<close>).

  The \<open>HashMap\<close> of tunnels is an association list whose order is the iteration order. An
  operation that changes the table and talks to the system works on the pair of the table
  and the world. The command sequence of \<open>KI.open_tunnel\<close> is the parameter \<open>ot\<close>.
\<close>

section \<open>Data\<close>

datatype tunnel_action = PaymentOverdue | PaidOnTime

datatype payment_state = Paid | Overdue

record tunnel =
  tn_ip :: ip_addr
  tn_iface_name :: string
  tn_listen_ifidx :: u32
  tn_listen_port :: u16
  tn_neigh_id :: local_identity
  tn_last_contact :: instant
  tn_created :: instant
  tn_speed_limit :: "nat option"
  tn_payment_state :: payment_state

datatype shaping_adjust_action = IncreaseSpeed | ReduceSpeed

record shaping_adjust =
  sa_iface :: string
  sa_action :: shaping_adjust_action

type_synonym tunnel_map = "(identity \<times> tunnel list) list"

record tunnel_manager =
  tunnels :: tunnel_map
  reset_flag :: bool
  to_shape :: "shaping_adjust list"

record tunnel_change =
  tc_identity :: identity
  tc_action :: tunnel_action

record peer =
  peer_ifidx :: u32
  peer_ip :: ip_addr
  peer_port :: u16

record neigh =
  neigh_identity :: local_identity
  neigh_iface_name :: string
  neigh_tunnel_ip :: ip_addr
  neigh_speed_limit :: "nat option"

definition tunnel_manager_new :: tunnel_manager where
  "tunnel_manager_new = \<lparr>tunnels = [], reset_flag = False, to_shape = []\<rparr>"

definition all_tunnels :: "tunnel_map \<Rightarrow> tunnel list" where
  "all_tunnels m = concat (map snd m)"

definition tm_get_neighbors :: "tunnel_manager \<Rightarrow> neigh list" where
  "tm_get_neighbors tm =
     map (\<lambda>t. \<lparr>neigh_identity = tn_neigh_id t, neigh_iface_name = tn_iface_name t,
                neigh_tunnel_ip = tn_ip t, neigh_speed_limit = tn_speed_limit t\<rparr>)
       (all_tunnels (tunnels tm))"

section \<open>Loops and lifting\<close>

type_synonym ('w, 'a) tmio = "(tunnel_manager \<times> 'w, rita_common_error, 'a) rio"

definition on_world :: "('w, 'e, 'a) rio \<Rightarrow> ('s \<times> 'w, 'e, 'a) rio" where
  "on_world m = (\<lambda>(s, w). case m w of None \<Rightarrow> None | Some (r, w') \<Rightarrow> Some (r, (s, w')))"

definition get_tm :: "('w, tunnel_manager) tmio" where
  "get_tm = (\<lambda>(tm, w). Some (Inr tm, (tm, w)))"

definition put_tm :: "tunnel_manager \<Rightarrow> ('w, unit) tmio" where
  "put_tm tm' = (\<lambda>(tm, w). Some (Inr (), (tm', w)))"

fun rfor :: "'a list \<Rightarrow> ('a \<Rightarrow> ('w, 'e, unit) rio) \<Rightarrow> ('w, 'e, unit) rio" where
  "rfor [] f = rret ()"
| "rfor (x # xs) f = rbind (f x) (\<lambda>_. rfor xs f)"

text \<open>A call whose error is only logged.\<close>

definition rignore :: "('w, 'e, 'a) rio \<Rightarrow> ('w, 'd, unit) rio" where
  "rignore m = rbind (rattempt m) (\<lambda>_. rret ())"

section \<open>One tunnel\<close>

definition tunnel_monitor :: "'w world \<Rightarrow> rita_settings \<Rightarrow> tunnel \<Rightarrow> ('w, unit) bio" where
  "tunnel_monitor W S t =
     rbind (open_babel_stream W (babel_port (network S))) (\<lambda>_. monitor W (tn_iface_name t) None)"

definition tunnel_unmonitor ::
  "'w world \<Rightarrow> rita_settings \<Rightarrow> tunnel \<Rightarrow> ('w, rita_common_error, unit) rio" where
  "tunnel_unmonitor W S t =
     rbind (rmap_err BabelMonitorError (open_babel_stream W (babel_port (network S)))) (\<lambda>_.
     rbind (rmap_err BabelMonitorError (unmonitor W (tn_iface_name t))) (\<lambda>_.
       rmap_err KernelInterfaceError (del_interface W (tn_iface_name t))))"

definition tunnel_new ::
  "'w world \<Rightarrow> (tunnel_open_args \<Rightarrow> ('w, unit) kio) \<Rightarrow> rita_settings \<Rightarrow> instant
     \<Rightarrow> ip_addr \<Rightarrow> u16 \<Rightarrow> u32 \<Rightarrow> local_identity \<Rightarrow> ('w, rita_common_error, tunnel) rio" where
  "tunnel_new W ot S now ip our_listen_port ifidx neigh_id =
     (case net_mesh_ip (network S) of
        None \<Rightarrow> rraise MiscStringError
      | Some own_ip \<Rightarrow>
        rbind (rmap_err KernelInterfaceError (create_blank_wg_numbered_wg_interface W)) (\<lambda>iface.
        rbind (rattempt (ot \<lparr>oa_interface = iface, oa_port = our_listen_port,
                 oa_endpoint = socket_new ip (wg_port neigh_id),
                 oa_remote_pub_key = wg_public_key (global_id neigh_id),
                 oa_private_key_path = wg_private_key_path (network S), oa_own_ip = own_ip,
                 oa_own_ip_v2 = net_mesh_ip_v2 (network S),
                 oa_external_nic = external_nic (network S)\<rparr>)) (\<lambda>opened.
          (case opened of
             Inl e \<Rightarrow>
               rbind (rmap_err KernelInterfaceError (del_interface W iface)) (\<lambda>_.
                 rraise (KernelInterfaceError e))
           | Inr _ \<Rightarrow>
               rbind (rignore (set_codel_shaping W iface None)) (\<lambda>_.
               let t = \<lparr>tn_ip = ip, tn_iface_name = iface, tn_listen_ifidx = ifidx,
                        tn_listen_port = our_listen_port, tn_neigh_id = neigh_id,
                        tn_last_contact = now, tn_created = now, tn_speed_limit = None,
                        tn_payment_state = Paid\<rparr>
               in rbind (rattempt (tunnel_monitor W S t)) (\<lambda>monitored.
                 (case monitored of
                    Inl e \<Rightarrow>
                      rbind (rmap_err KernelInterfaceError (del_interface W iface)) (\<lambda>_.
                        rraise (BabelMonitorError e))
                  | Inr _ \<Rightarrow> rret t)))))))"

section \<open>Ports\<close>

definition get_all_used_ports :: "tunnel_manager \<Rightarrow> u16 list" where
  "get_all_used_ports tm = map tn_listen_port (all_tunnels (tunnels tm))"

definition first_free_port :: "u16 list \<Rightarrow> u16 list \<Rightarrow> u16 \<Rightarrow> u16 option" where
  "first_free_port udp_table used start =
     find (\<lambda>p. \<not> (p \<in> set udp_table \<or> p \<in> set used)) (map word_of_nat [unat start..<65535])"

definition get_next_available_port ::
  "'w world \<Rightarrow> rita_settings \<Rightarrow> tunnel_manager \<Rightarrow> ('w, tunnel_manager_error, u16) rio" where
  "get_next_available_port W S tm =
     rbind (rmap_err TmKernelInterfaceError (used_ports W)) (\<lambda>udp_table.
       (case first_free_port udp_table (get_all_used_ports tm) (wg_start_port (network S)) of
          Some p \<Rightarrow> rret p | None \<Rightarrow> rraise NoFreePortsError))"

section \<open>The table\<close>

fun insert_into_tunnel_list :: "tunnel \<Rightarrow> tunnel_map \<Rightarrow> tunnel_map" where
  "insert_into_tunnel_list t [] = [(global_id (tn_neigh_id t), [t])]"
| "insert_into_tunnel_list t ((i, ts) # rest) =
     (if i = global_id (tn_neigh_id t) then (i, ts @ [t]) # rest
      else (i, ts) # insert_into_tunnel_list t rest)"

text \<open>The tunnel an incoming hello refers to: same physical interface, address and identity, filed
  under that identity.\<close>

definition is_tunnel_for :: "u32 \<Rightarrow> ip_addr \<Rightarrow> identity \<Rightarrow> tunnel \<Rightarrow> bool" where
  "is_tunnel_for ifidx ip i t \<longleftrightarrow>
     tn_listen_ifidx t = ifidx \<and> global_id (tn_neigh_id t) = i \<and> tn_ip t = ip"

fun get_tunnel_mut :: "u32 \<Rightarrow> ip_addr \<Rightarrow> identity \<Rightarrow> tunnel_map \<Rightarrow> tunnel option" where
  "get_tunnel_mut ifidx ip i [] = None"
| "get_tunnel_mut ifidx ip i ((k, ts) # rest) =
     (case find (\<lambda>t. is_tunnel_for ifidx ip i t \<and> k = i) ts of
        Some t \<Rightarrow> Some t | None \<Rightarrow> get_tunnel_mut ifidx ip i rest)"

text \<open>Writing through the reference \<open>get_tunnel_mut\<close> returns: the first matching tunnel.\<close>

fun update_first :: "('a \<Rightarrow> bool) \<Rightarrow> ('a \<Rightarrow> 'a) \<Rightarrow> 'a list \<Rightarrow> 'a list" where
  "update_first P f [] = []"
| "update_first P f (x # xs) = (if P x then f x # xs else x # update_first P f xs)"

fun set_tunnel_mut ::
  "u32 \<Rightarrow> ip_addr \<Rightarrow> identity \<Rightarrow> (tunnel \<Rightarrow> tunnel) \<Rightarrow> tunnel_map \<Rightarrow> tunnel_map" where
  "set_tunnel_mut ifidx ip i f [] = []"
| "set_tunnel_mut ifidx ip i f ((k, ts) # rest) =
     (if k = i \<and> (\<exists>t \<in> set ts. is_tunnel_for ifidx ip i t)
      then (k, update_first (is_tunnel_for ifidx ip i) f ts) # rest
      else (k, ts) # set_tunnel_mut ifidx ip i f rest)"

definition same_tunnel :: "tunnel \<Rightarrow> tunnel \<Rightarrow> bool" where
  "same_tunnel target t \<longleftrightarrow>
     tn_listen_ifidx target = tn_listen_ifidx t \<and> tn_ip target = tn_ip t
     \<and> global_id (tn_neigh_id target) = global_id (tn_neigh_id t)"

definition del_tunnel :: "tunnel \<Rightarrow> tunnel_map \<Rightarrow> tunnel_map" where
  "del_tunnel target m =
     map (\<lambda>(i, ts).
       let to_delete = filter (same_tunnel target) ts
       in (i, foldl (\<lambda>l d. filter (\<lambda>v. v \<noteq> d) l) ts to_delete)) m"

definition add_new_tunnel_to_list ::
  "'w world \<Rightarrow> (tunnel_open_args \<Rightarrow> ('w, unit) kio) \<Rightarrow> rita_settings \<Rightarrow> instant
     \<Rightarrow> ip_addr \<Rightarrow> u32 \<Rightarrow> local_identity \<Rightarrow> ('w, tunnel) tmio" where
  "add_new_tunnel_to_list W ot S now ip ifidx their_id =
     rbind get_tm (\<lambda>tm.
     rbind (on_world (rmap_err TunnelManagerError (get_next_available_port W S tm))) (\<lambda>port.
     rbind (on_world (tunnel_new W ot S now ip port ifidx their_id)) (\<lambda>t.
     rbind (put_tm (tm\<lparr>tunnels := insert_into_tunnel_list t (tunnels tm)\<rparr>)) (\<lambda>_. rret t))))"

definition open_tunnel ::
  "'w world \<Rightarrow> (tunnel_open_args \<Rightarrow> ('w, unit) kio) \<Rightarrow> rita_settings \<Rightarrow> instant
     \<Rightarrow> local_identity \<Rightarrow> peer \<Rightarrow> ('w, tunnel \<times> bool) tmio" where
  "open_tunnel W ot S now their_id p =
     rbind get_tm (\<lambda>tm.
       let they_have_tunnel = unwrap_or (have_tunnel their_id) True
       in (case get_tunnel_mut (peer_ifidx p) (peer_ip p) (global_id their_id) (tunnels tm) of
             Some our_tunnel \<Rightarrow>
               let our_tunnel' = our_tunnel\<lparr>tn_last_contact := now\<rparr>;
                   touched = set_tunnel_mut (peer_ifidx p) (peer_ip p) (global_id their_id)
                     (\<lambda>t. t\<lparr>tn_last_contact := now\<rparr>) (tunnels tm)
               in rbind (put_tm (tm\<lparr>tunnels := touched\<rparr>)) (\<lambda>_.
                 if they_have_tunnel then rret (our_tunnel', True)
                 else
                   rbind (on_world (rignore (tunnel_unmonitor W S our_tunnel'))) (\<lambda>_.
                   rbind (put_tm (tm\<lparr>tunnels := del_tunnel our_tunnel' touched\<rparr>)) (\<lambda>_.
                   rbind (add_new_tunnel_to_list W ot S now (peer_ip p) (peer_ifidx p) their_id)
                     (\<lambda>t. rret (t, True)))))
           | None \<Rightarrow>
               rbind (add_new_tunnel_to_list W ot S now (peer_ip p) (peer_ifidx p) their_id)
                 (\<lambda>t. rret (t, False))))"

section \<open>Payment state\<close>

definition tunnel_bw_limit_update ::
  "'w world \<Rightarrow> payment_settings \<Rightarrow> instant \<Rightarrow> blockchain_oracle \<Rightarrow> tunnel list \<Rightarrow> ('w, unit) kio" where
  "tunnel_bw_limit_update W P now orc ts =
     rfor ts (\<lambda>t.
       rbind (has_limit W (tn_iface_name t)) (\<lambda>limited.
         if tn_payment_state t = Overdue \<and> \<not> limited \<and> \<not> potential_payment_issues_detected now orc
         then set_classless_limit W (tn_iface_name t) (free_tier_throughput P)
         else if tn_payment_state t = Paid \<and> limited
         then set_codel_shaping W (tn_iface_name t) None
         else rret ()))"

definition apply_action :: "tunnel_action \<Rightarrow> tunnel \<Rightarrow> tunnel" where
  "apply_action a t =
     (case a of
        PaidOnTime \<Rightarrow> (case tn_payment_state t of
            Paid \<Rightarrow> t
          | Overdue \<Rightarrow> t\<lparr>tn_payment_state := Paid, tn_speed_limit := None\<rparr>)
      | PaymentOverdue \<Rightarrow> (case tn_payment_state t of
            Paid \<Rightarrow> t\<lparr>tn_payment_state := Overdue\<rparr>
          | Overdue \<Rightarrow> t))"

definition tunnel_payment_state_change ::
  "'w world \<Rightarrow> payment_settings \<Rightarrow> instant \<Rightarrow> blockchain_oracle \<Rightarrow> tunnel_change \<Rightarrow> ('w, unit) tmio" where
  "tunnel_payment_state_change W P now orc msg =
     rbind get_tm (\<lambda>tm.
       (case map_of (tunnels tm) (tc_identity msg) of
          Some ts \<Rightarrow>
            let ts' = map (apply_action (tc_action msg)) ts
            in rbind (put_tm (tm\<lparr>tunnels :=
                   map (\<lambda>(i, l). (i, if i = tc_identity msg then ts' else l)) (tunnels tm)\<rparr>))
                 (\<lambda>_. on_world (rignore (tunnel_bw_limit_update W P now orc ts')))
        | None \<Rightarrow> rret ()))"

definition tm_tunnel_state_change ::
  "'w world \<Rightarrow> payment_settings \<Rightarrow> instant \<Rightarrow> blockchain_oracle \<Rightarrow> tunnel_change list \<Rightarrow> ('w, unit) tmio" where
  "tm_tunnel_state_change W P now orc msgs = rfor msgs (tunnel_payment_state_change W P now orc)"

section \<open>Garbage collection\<close>

definition into_interfaces_hashmap :: "interface list \<Rightarrow> string \<Rightarrow> bool option" where
  "into_interfaces_hashmap is = foldl (\<lambda>m i. m(if_name i \<mapsto> if_up i)) (\<lambda>_. None) is"

definition tunnel_up :: "(string \<Rightarrow> bool option) \<Rightarrow> string \<Rightarrow> bool" where
  "tunnel_up interfaces name = (case interfaces name of Some up \<Rightarrow> up | None \<Rightarrow> True)"

text \<open>The clock of \<open>SystemTime\<close> is \<open>sysnow\<close>; a handshake in the future counts as recent.\<close>

definition handshake_recent :: "instant \<Rightarrow> duration \<Rightarrow> (wg_key \<times> instant) list \<Rightarrow> bool" where
  "handshake_recent sysnow timeout hs = (\<exists>(k, t) \<in> set hs. sysnow < t \<or> sysnow - t < timeout)"

definition check_handshake_time ::
  "'w world \<Rightarrow> (string \<Rightarrow> wg_key option) \<Rightarrow> instant \<Rightarrow> duration \<Rightarrow> string \<Rightarrow> ('w, 'e, bool) rio" where
  "check_handshake_time W pk sysnow timeout ifname =
     rbind (rattempt (get_last_handshake_time W pk ifname)) (\<lambda>res.
       rret (case res of Inr hs \<Rightarrow> handshake_recent sysnow timeout hs | Inl _ \<Rightarrow> False))"

text \<open>The decision table, on created recently, contact timeout, handshake timeout, tunnel up.\<close>

fun gc_table :: "bool \<Rightarrow> bool \<Rightarrow> bool \<Rightarrow> bool \<Rightarrow> bool" where
  "gc_table True _ _ _ = True"
| "gc_table False False False True = True"
| "gc_table False True False True = True"
| "gc_table False True True _ = False"
| "gc_table False False True _ = False"
| "gc_table False False False False = False"
| "gc_table False True False False = False"

definition tunnel_should_be_kept ::
  "'w world \<Rightarrow> (string \<Rightarrow> wg_key option) \<Rightarrow> instant \<Rightarrow> instant \<Rightarrow> identity \<Rightarrow> tunnel \<Rightarrow> duration
     \<Rightarrow> duration \<Rightarrow> (string \<Rightarrow> bool option) \<Rightarrow> ('w, 'e, bool) rio" where
  "tunnel_should_be_kept W pk now sysnow category t handshake_timeout timeout interfaces =
     (if category \<noteq> global_id (tn_neigh_id t) then rret False
      else case (checked_duration_since now (tn_created t),
                 checked_duration_since now (tn_last_contact t)) of
        (Some since_created, Some since_last_contact) \<Rightarrow>
          rbind (check_handshake_time W pk sysnow handshake_timeout (tn_iface_name t)) (\<lambda>hs.
            rret (gc_table (since_created < timeout) (since_last_contact > timeout) (\<not> hs)
              (tunnel_up interfaces (tn_iface_name t))))
      | _ \<Rightarrow> rret True)"

text \<open>One pass over the table with the lists of kept and deleted tunnels as accumulators.\<close>

fun gc_split ::
  "(identity \<Rightarrow> tunnel \<Rightarrow> ('w, 'e, bool) rio) \<Rightarrow> (identity \<times> tunnel) list \<Rightarrow> tunnel_map \<Rightarrow> tunnel_map
     \<Rightarrow> ('w, 'e, tunnel_map \<times> tunnel_map) rio" where
  "gc_split keep [] good to_delete = rret (good, to_delete)"
| "gc_split keep ((i, t) # rest) good to_delete =
     rbind (keep i t) (\<lambda>k.
       if k then gc_split keep rest (insert_into_tunnel_list t good) to_delete
       else gc_split keep rest good (insert_into_tunnel_list t to_delete))"

definition tunnel_entries :: "tunnel_map \<Rightarrow> (identity \<times> tunnel) list" where
  "tunnel_entries m = concat (map (\<lambda>(i, ts). map (Pair i) ts) m)"

definition unmonitor_tunnels :: "'w world \<Rightarrow> rita_settings \<Rightarrow> tunnel_map \<Rightarrow> ('w, 'e, unit) rio" where
  "unmonitor_tunnels W S to_delete =
     rfor (all_tunnels to_delete) (\<lambda>t. rignore (tunnel_unmonitor W S t))"

definition tunnel_gc ::
  "'w world \<Rightarrow> (string \<Rightarrow> wg_key option) \<Rightarrow> rita_settings \<Rightarrow> instant \<Rightarrow> instant \<Rightarrow> duration \<Rightarrow> duration
     \<Rightarrow> interface list \<Rightarrow> ('w, unit) tmio" where
  "tunnel_gc W pk S now sysnow timeout handshake_timeout babel_interfaces =
     rbind get_tm (\<lambda>tm.
     rbind (on_world (gc_split
         (\<lambda>i t. tunnel_should_be_kept W pk now sysnow i t handshake_timeout timeout
                  (into_interfaces_hashmap babel_interfaces))
         (tunnel_entries (tunnels tm)) [] [])) (\<lambda>(good, to_delete).
     rbind (put_tm (tm\<lparr>tunnels := good\<rparr>)) (\<lambda>_.
       on_world (unmonitor_tunnels W S to_delete))))"

definition monitor_check ::
  "'w world \<Rightarrow> rita_settings \<Rightarrow> interface list \<Rightarrow> ('w, unit) tmio" where
  "monitor_check W S interface_list =
     rbind get_tm (\<lambda>tm.
       on_world (rfor (all_tunnels (tunnels tm)) (\<lambda>t.
         if tn_iface_name t \<notin> if_name ` set interface_list
         then rignore (tunnel_monitor W S t) else rret ())))"

definition TUNNEL_TIMEOUT :: duration where "TUNNEL_TIMEOUT = from_secs 900"
definition TUNNEL_HANDSHAKE_TIMEOUT :: duration where "TUNNEL_HANDSHAKE_TIMEOUT = TUNNEL_TIMEOUT"

definition tm_common_slow_loop_helper ::
  "'w world \<Rightarrow> (string \<Rightarrow> wg_key option) \<Rightarrow> rita_settings \<Rightarrow> instant \<Rightarrow> instant \<Rightarrow> interface list
     \<Rightarrow> ('w, unit) tmio" where
  "tm_common_slow_loop_helper W pk S now sysnow babel_interfaces =
     rbind (monitor_check W S babel_interfaces) (\<lambda>_.
       tunnel_gc W pk S now sysnow TUNNEL_TIMEOUT TUNNEL_HANDSHAKE_TIMEOUT babel_interfaces)"

section \<open>Shaping\<close>

text \<open>
  The speeds are computed in \<open>f32\<close>. A positive value is a pair \<open>m * 2 ^ (- e)\<close> rounded to 24
  significant bits, ties to even; \<open>0.8f32\<close> is \<open>13421773 / 2 ^ 24\<close> and \<open>1.05f32\<close> is
  \<open>8808038 / 2 ^ 23\<close>. The cast back to \<open>usize\<close> truncates and saturates.
\<close>

fun bit_len :: "nat \<Rightarrow> nat" where
  "bit_len n = (if n = 0 then 0 else 1 + bit_len (n div 2))"

declare bit_len.simps [simp del]

definition round24 :: "nat \<Rightarrow> nat" where
  "round24 m =
     (let s = bit_len m - 24; q = m div 2 ^ s; r = m mod 2 ^ s
      in if s = 0 then m
         else (if 2 * r > 2 ^ s \<or> (2 * r = 2 ^ s \<and> odd q) then q + 1 else q) * 2 ^ s)"

definition f32_scale :: "nat \<Rightarrow> nat \<Rightarrow> nat \<Rightarrow> nat" where
  "f32_scale v m e = min (2 ^ 64 - 1) (round24 (round24 v * m) div 2 ^ e)"

definition reduce_speed :: "nat \<Rightarrow> nat" where
  "reduce_speed v = f32_scale v 13421773 24"

definition increase_speed :: "nat \<Rightarrow> nat" where
  "increase_speed v =
     (let new = f32_scale v 8808038 23 in if new = v then (v + 1) mod 2 ^ 64 else new)"

definition shape_tunnel ::
  "'w world \<Rightarrow> shaper_settings \<Rightarrow> shaping_adjust \<Rightarrow> tunnel \<Rightarrow> ('w, 'e, tunnel) rio" where
  "shape_tunnel W C c t =
     (if tn_iface_name t = sa_iface c then
        (case (tn_speed_limit t, sa_action c) of
           (None, IncreaseSpeed) \<Rightarrow> rret t
         | (None, ReduceSpeed) \<Rightarrow>
             rbind (rignore (set_codel_shaping W (sa_iface c) (Some (max_speed C)))) (\<lambda>_.
               rret (t\<lparr>tn_speed_limit := Some (max_speed C)\<rparr>))
         | (Some val, ReduceSpeed) \<Rightarrow>
             let new_val = reduce_speed val
             in if new_val < min_speed C then rret t
                else rbind (rignore (set_codel_shaping W (sa_iface c) (Some new_val))) (\<lambda>_.
                  rret (t\<lparr>tn_speed_limit := Some new_val\<rparr>))
         | (Some val, IncreaseSpeed) \<Rightarrow>
             let new_val = increase_speed val
             in if new_val < max_speed C
                then rbind (rignore (set_codel_shaping W (sa_iface c) (Some new_val))) (\<lambda>_.
                  rret (t\<lparr>tn_speed_limit := Some new_val\<rparr>))
                else rret t)
      else rret t)"

definition unshape_tunnel :: "'w world \<Rightarrow> tunnel \<Rightarrow> ('w, 'e, tunnel) rio" where
  "unshape_tunnel W t =
     (if tn_speed_limit t \<noteq> None
      then rbind (rignore (set_codel_shaping W (tn_iface_name t) None)) (\<lambda>_.
        rret (t\<lparr>tn_speed_limit := None\<rparr>))
      else rret t)"

fun rmap_list :: "('a \<Rightarrow> ('w, 'e, 'b) rio) \<Rightarrow> 'a list \<Rightarrow> ('w, 'e, 'b list) rio" where
  "rmap_list f [] = rret []"
| "rmap_list f (x # xs) = rbind (f x) (\<lambda>y. rbind (rmap_list f xs) (\<lambda>ys. rret (y # ys)))"

definition rmap_tunnels ::
  "(tunnel \<Rightarrow> ('w, 'e, tunnel) rio) \<Rightarrow> tunnel_map \<Rightarrow> ('w, 'e, tunnel_map) rio" where
  "rmap_tunnels f m =
     rmap_list (\<lambda>(i, ts). rbind (rmap_list f ts) (\<lambda>ts'. rret (i, ts'))) m"

fun shape_all ::
  "'w world \<Rightarrow> shaper_settings \<Rightarrow> shaping_adjust list \<Rightarrow> tunnel_map \<Rightarrow> ('w, 'e, tunnel_map) rio" where
  "shape_all W C [] m = rret m"
| "shape_all W C (c # cs) m = rbind (rmap_tunnels (shape_tunnel W C c) m) (shape_all W C cs)"

definition handle_shaping :: "'w world \<Rightarrow> rita_settings \<Rightarrow> ('w, unit) tmio" where
  "handle_shaping W S =
     rbind get_tm (\<lambda>tm.
       let C = shaper (network S)
       in if \<not> shaper_enabled C \<or> reset_flag tm then
            rbind (on_world (rmap_tunnels (unshape_tunnel W) (tunnels tm))) (\<lambda>m.
              put_tm (tm\<lparr>tunnels := m, reset_flag := False\<rparr>))
          else
            rbind (on_world (shape_all W C (to_shape tm) (tunnels tm))) (\<lambda>m.
              put_tm (tm\<lparr>tunnels := m\<rparr>)))"

definition flag_reset_shaper :: "tunnel_manager \<Rightarrow> tunnel_manager" where
  "flag_reset_shaper tm = tm\<lparr>reset_flag := True\<rparr>"

definition set_to_shape :: "shaping_adjust list \<Rightarrow> tunnel_manager \<Rightarrow> tunnel_manager" where
  "set_to_shape input tm = tm\<lparr>to_shape := input\<rparr>"

section \<open>Neighbor status\<close>

record neighbor_status =
  ns_id :: identity
  shaper_speed :: "nat option"
  enforced :: bool

definition lower_speed :: "nat option \<Rightarrow> nat option \<Rightarrow> nat option" where
  "lower_speed lowest new =
     (case (new, lowest) of
        (Some n, Some c) \<Rightarrow> if n < c then Some n else lowest
      | (Some n, None) \<Rightarrow> Some n
      | (None, _) \<Rightarrow> lowest)"

definition status_of :: "identity \<Rightarrow> tunnel list \<Rightarrow> neighbor_status" where
  "status_of i ts =
     \<lparr>ns_id = i, shaper_speed = foldl (\<lambda>l t. lower_speed l (tn_speed_limit t)) None ts,
      enforced = (\<exists>t \<in> set ts. tn_payment_state t = Overdue)\<rparr>"

definition get_neighbor_status :: "tunnel_manager \<Rightarrow> identity \<Rightarrow> neighbor_status option" where
  "get_neighbor_status tm =
     foldl (\<lambda>m (i, ts). m(i \<mapsto> status_of i ts)) (\<lambda>_. None) (tunnels tm)"

end
