(* ===== verification/Usage_Tracker.thy ===== *)
theory Usage_Tracker
  imports Althea_Types Str_Util
begin

text \<open>
  \<open>rita_common/src/usage_tracker\<close>: hourly bandwidth histories and the payment history, with
  their size bounds, and writing them to disk. The maps from hours and the set of payments
  are lists whose order is the iteration order. Serialisation, compression and the file
  are parameters of the save operation; \<open>hour\<close> is the current hour, \<open>None\<close> when the clock is
  before the epoch.
\<close>

section \<open>Data\<close>

datatype usage_type = Client | Relay | Exit

record usage =
  us_up :: u64
  us_down :: u64
  us_price :: u32

record indexed_usage_hour =
  iu_index :: nat
  iu_up :: u64
  iu_down :: u64
  iu_price :: u32

type_synonym usage_history = "(nat \<times> usage) list"

record usage_tracker_payment =
  utp_to :: identity
  utp_from :: identity
  utp_amount :: nat
  utp_txid :: nat
  utp_index :: nat

record usage_tracker_storage =
  last_save_hour :: nat
  client_bandwidth :: usage_history
  relay_bandwidth :: usage_history
  exit_bandwidth :: usage_history
  ut_payments :: "usage_tracker_payment list"

record throughput_data =
  last_sample_time :: "instant option"
  duration_of_this_sample :: duration
  bytes_used :: u64

record throughput_tracker =
  tp_client :: throughput_data
  tp_relay :: throughput_data
  tp_exit :: throughput_data

record update_usage =
  uu_kind :: usage_type
  uu_up :: u64
  uu_down :: u64
  uu_price :: u32

definition MAX_USAGE_ENTRIES :: nat where "MAX_USAGE_ENTRIES = 8760"
definition MAX_TX_ENTRIES :: nat where "MAX_TX_ENTRIES = 5000"
definition MAX_UNSAVED_USAGE :: u64 where "MAX_UNSAVED_USAGE = 10000000000"

section \<open>Histories\<close>

fun record_usage :: "nat \<Rightarrow> update_usage \<Rightarrow> usage_history \<Rightarrow> usage_history" where
  "record_usage hour msg [] = [(hour, \<lparr>us_up = uu_up msg, us_down = uu_down msg, us_price = uu_price msg\<rparr>)]"
| "record_usage hour msg ((h, u) # rest) =
     (if h = hour then (h, u\<lparr>us_up := us_up u + uu_up msg, us_down := us_down u + uu_down msg\<rparr>) # rest
      else (h, u) # record_usage hour msg rest)"

definition remove_hour :: "nat \<Rightarrow> usage_history \<Rightarrow> usage_history" where
  "remove_hour h hist = filter (\<lambda>(k, _). k \<noteq> h) hist"

text \<open>The eviction loop: while there are too many entries the smallest hour goes.\<close>

function evict_usage :: "nat \<Rightarrow> usage_history \<Rightarrow> usage_history" where
  "evict_usage mx hist =
     (if length hist > mx then evict_usage mx (remove_hour (Min (fst ` set hist)) hist) else hist)"
  by auto
termination
proof (relation "measure (\<lambda>(mx, hist). length hist)", goal_cases)
  case (2 mx hist)
  then have "hist \<noteq> []" by auto
  then have "Min (fst ` set hist) \<in> fst ` set hist" by (intro Min_in) auto
  then obtain x where "x \<in> set hist" "\<not> (case x of (k, _) \<Rightarrow> k \<noteq> Min (fst ` set hist))" by force
  then have "length (remove_hour (Min (fst ` set hist)) hist) < length hist"
    unfolding remove_hour_def by (rule length_filter_less)
  then show ?case by simp
qed simp

declare evict_usage.simps [simp del]

definition upd_history :: "usage_type \<Rightarrow> (usage_history \<Rightarrow> usage_history) \<Rightarrow> usage_tracker_storage
     \<Rightarrow> usage_tracker_storage" where
  "upd_history k f s = (case k of
     Client \<Rightarrow> s\<lparr>client_bandwidth := f (client_bandwidth s)\<rparr>
   | Relay \<Rightarrow> s\<lparr>relay_bandwidth := f (relay_bandwidth s)\<rparr>
   | Exit \<Rightarrow> s\<lparr>exit_bandwidth := f (exit_bandwidth s)\<rparr>)"

definition process_usage_update ::
  "nat \<Rightarrow> update_usage \<Rightarrow> usage_tracker_storage \<Rightarrow> usage_tracker_storage" where
  "process_usage_update hour msg s =
     upd_history (uu_kind msg) (\<lambda>h. evict_usage MAX_USAGE_ENTRIES (record_usage hour msg h)) s"

section \<open>Throughput\<close>

definition throughput_step :: "instant \<Rightarrow> update_usage \<Rightarrow> throughput_data \<Rightarrow> throughput_data" where
  "throughput_step now msg d =
     \<lparr>last_sample_time = Some now,
      duration_of_this_sample =
        (case last_sample_time d of
           Some t \<Rightarrow> if now > t then now - t else duration_of_this_sample d
         | None \<Rightarrow> duration_of_this_sample d),
      bytes_used = (if uu_kind msg = Client then uu_up msg + uu_down msg else uu_up msg)\<rparr>"

definition throughput_update ::
  "instant \<Rightarrow> update_usage \<Rightarrow> throughput_tracker \<Rightarrow> throughput_tracker" where
  "throughput_update now msg t = (case uu_kind msg of
     Client \<Rightarrow> t\<lparr>tp_client := throughput_step now msg (tp_client t)\<rparr>
   | Relay \<Rightarrow> t\<lparr>tp_relay := throughput_step now msg (tp_relay t)\<rparr>
   | Exit \<Rightarrow> t\<lparr>tp_exit := throughput_step now msg (tp_exit t)\<rparr>)"

definition get_current_throughput :: "usage_type \<Rightarrow> throughput_tracker \<Rightarrow> u64 option" where
  "get_current_throughput k t =
     (let d = (case k of Client \<Rightarrow> tp_client t | Relay \<Rightarrow> tp_relay t | Exit \<Rightarrow> tp_exit t)
      in if last_sample_time d \<noteq> None \<and> as_secs (duration_of_this_sample d) > 0
         then Some (bytes_used d div word_of_nat (as_secs (duration_of_this_sample d)))
         else None)"

definition update_usage_data ::
  "nat option \<Rightarrow> instant \<Rightarrow> update_usage \<Rightarrow> usage_tracker_storage \<times> throughput_tracker
     \<Rightarrow> usage_tracker_storage \<times> throughput_tracker" where
  "update_usage_data hour now msg st =
     (case hour of
        Some h \<Rightarrow> (process_usage_update h msg (fst st), throughput_update now msg (snd st))
      | None \<Rightarrow> st)"

section \<open>Payments\<close>

definition from_payment_tx :: "payment_tx \<Rightarrow> nat \<Rightarrow> usage_tracker_payment" where
  "from_payment_tx p index =
     \<lparr>utp_to = pmt_to p, utp_from = pmt_from p, utp_amount = pmt_amount p, utp_txid = pmt_txid p,
      utp_index = index\<rparr>"

definition get_txids :: "usage_tracker_storage \<Rightarrow> nat set" where
  "get_txids s = utp_txid ` set (ut_payments s)"

text \<open>\<open>Iterator::min_by\<close> returns the first of several least elements.\<close>

fun oldest_payment :: "usage_tracker_payment list \<Rightarrow> usage_tracker_payment option" where
  "oldest_payment [] = None"
| "oldest_payment (p # ps) =
     (case oldest_payment ps of
        None \<Rightarrow> Some p | Some q \<Rightarrow> if utp_index q < utp_index p then Some q else Some p)"

definition remove_oldest :: "usage_tracker_payment list \<Rightarrow> usage_tracker_payment list" where
  "remove_oldest ps = (case oldest_payment ps of Some q \<Rightarrow> remove1 q ps | None \<Rightarrow> ps)"

definition trim_payments :: "nat \<Rightarrow> usage_tracker_payment list \<Rightarrow> usage_tracker_payment list" where
  "trim_payments n ps = (remove_oldest ^^ (length ps - n)) ps"

definition insert_payment ::
  "usage_tracker_payment \<Rightarrow> usage_tracker_payment list \<Rightarrow> usage_tracker_payment list" where
  "insert_payment p ps = (if p \<in> set ps then ps else ps @ [p])"

definition handle_payments ::
  "nat option \<Rightarrow> payment_tx \<Rightarrow> usage_tracker_storage \<Rightarrow> usage_tracker_storage" where
  "handle_payments hour p s =
     (case hour of
        Some h \<Rightarrow> s\<lparr>ut_payments :=
          trim_payments MAX_TX_ENTRIES (insert_payment (from_payment_tx p h) (ut_payments s))\<rparr>
      | None \<Rightarrow> s)"

definition update_payments ::
  "nat option \<Rightarrow> payment_tx \<Rightarrow> usage_tracker_storage \<Rightarrow> usage_tracker_storage" where
  "update_payments hour p s =
     (if pmt_txid p \<in> get_txids s then s else handle_payments hour p s)"

section \<open>Saving\<close>

text \<open>The models with little flash, as the one string the code searches.\<close>

definition small_storage_models :: string where
  "small_storage_models =
     ''linksys_e5600|'' @ LF # ''    tplink_archer-a6-v3|'' @ LF # ''    cudy_wr2100|''
     @ LF # ''    mikrotik_hap-ac2|'' @ LF # ''    mikrotik_routerboard-750gr3|''
     @ LF # ''    mikrotik_routerboard-760igs|'' @ LF # ''    netgear_ex6100v2''"

definition lower_char :: "char \<Rightarrow> char" where
  "lower_char c = (let n = (of_char c :: nat) in if 65 \<le> n \<and> n \<le> 90 then char_of (n + 32) else c)"

definition is_router_storage_small :: "string \<Rightarrow> bool" where
  "is_router_storage_small model = contains_str small_storage_models (map lower_char model)"

definition get_minimum_number_of_transactions_to_store :: "string option \<Rightarrow> nat" where
  "get_minimum_number_of_transactions_to_store device =
     (if is_router_storage_small (unwrap_or device ''x86_64'') then 75 else 5)"

definition check_unsaved_usage :: "usage_tracker_storage \<Rightarrow> bool" where
  "check_unsaved_usage s =
     (foldl (\<lambda>total (h, u). if h > last_save_hour s then total + us_up u + us_down u else total) 0
        (client_bandwidth s @ relay_bandwidth s @ exit_bandwidth s) > MAX_UNSAVED_USAGE)"

definition check_unsaved_payments :: "string option \<Rightarrow> usage_tracker_storage \<Rightarrow> bool" where
  "check_unsaved_payments device s =
     (length (filter (\<lambda>p. utp_index p > last_save_hour s) (ut_payments s))
        > get_minimum_number_of_transactions_to_store device)"

text \<open>
  The write loop. \<open>ser\<close> serialises, \<open>zip_bytes\<close> compresses (an error is \<open>None\<close>), \<open>wr k bytes\<close>
  says whether the \<open>k\<close>-th write succeeds. The result is the bytes written last, or the error.
\<close>

definition serialize_compress ::
  "(usage_tracker_storage \<Rightarrow> 'b option) \<Rightarrow> ('b \<Rightarrow> 'b option) \<Rightarrow> usage_tracker_storage
     \<Rightarrow> rita_common_error + 'b" where
  "serialize_compress ser zip_bytes s =
     (case ser s of None \<Rightarrow> Err BincodeError
      | Some raw \<Rightarrow> (case zip_bytes raw of None \<Rightarrow> Err StdError | Some bytes \<Rightarrow> Ok bytes))"

function save_loop ::
  "(usage_tracker_storage \<Rightarrow> 'b option) \<Rightarrow> ('b \<Rightarrow> 'b option) \<Rightarrow> (nat \<Rightarrow> 'b \<Rightarrow> bool) \<Rightarrow> nat \<Rightarrow> nat \<Rightarrow> 'b
     \<Rightarrow> usage_tracker_storage \<Rightarrow> (rita_common_error + 'b) \<times> usage_tracker_storage" where
  "save_loop ser zip_bytes wr k newsize bytes s =
     (if wr k bytes then (Ok bytes, s)
      else if newsize \<ge> 1000 then
        (let newsize' = newsize div 2;
             s' = s\<lparr>ut_payments := trim_payments newsize' (ut_payments s)\<rparr>
         in case serialize_compress ser zip_bytes s' of
              Inl e \<Rightarrow> (Err e, s')
            | Inr bytes' \<Rightarrow> save_loop ser zip_bytes wr (k + 1) newsize' bytes' s')
      else (Err StdError, s))"
  by pat_completeness auto
termination by (relation "measure (\<lambda>(ser, zip_bytes, wr, k, n, b, s). n)") auto

declare save_loop.simps [simp del]

definition usage_save ::
  "(usage_tracker_storage \<Rightarrow> 'b option) \<Rightarrow> ('b \<Rightarrow> 'b option) \<Rightarrow> (nat \<Rightarrow> 'b \<Rightarrow> bool) \<Rightarrow> bool
     \<Rightarrow> string option \<Rightarrow> usage_tracker_storage
     \<Rightarrow> (rita_common_error + 'b) \<times> usage_tracker_storage" where
  "usage_save ser zip_bytes wr created device s =
     (if check_unsaved_payments device s \<or> check_unsaved_usage s then (Err StdError, s)
      else case ser s of
        None \<Rightarrow> (Err BincodeError, s)
      | Some raw \<Rightarrow>
          if \<not> created then (Err StdError, s)
          else (case zip_bytes raw of
                  None \<Rightarrow> (Err StdError, s)
                | Some bytes \<Rightarrow> save_loop ser zip_bytes wr 0 MAX_TX_ENTRIES bytes s))"

section \<open>Conversions\<close>

definition merge_usage_hour :: "(nat \<Rightarrow> usage option) \<Rightarrow> indexed_usage_hour \<Rightarrow> nat \<Rightarrow> usage option" where
  "merge_usage_hour out h =
     out(iu_index h \<mapsto> (case out (iu_index h) of
        Some u \<Rightarrow> \<lparr>us_up = max (us_up u) (iu_up h), us_down = max (us_down u) (iu_down h),
                   us_price = max (us_price u) (iu_price h)\<rparr>
      | None \<Rightarrow> \<lparr>us_up = iu_up h, us_down = iu_down h, us_price = iu_price h\<rparr>))"

definition convert_flat_to_map_usage_data :: "indexed_usage_hour list \<Rightarrow> nat \<Rightarrow> usage option" where
  "convert_flat_to_map_usage_data input = foldl merge_usage_hour (\<lambda>_. None) input"

definition convert_map_to_flat_usage_data :: "usage_history \<Rightarrow> indexed_usage_hour list" where
  "convert_map_to_flat_usage_data input =
     sort_key iu_index (map (\<lambda>(h, u). \<lparr>iu_index = h, iu_up = us_up u, iu_down = us_down u,
       iu_price = us_price u\<rparr>) input)"

end
