(* ===== verification/Simulated_Txfee.thy ===== *)
theory Simulated_Txfee
  imports Blockchain_Oracle Usage_Tracker
begin

text \<open>
  \<open>rita_common/src/simulated_txfee_manager\<close>: a fraction of every successful payment is added
  to an amount owed to the maintainers, which is paid once it exceeds the pay threshold. The
  answers of the full node are arguments. The tick awaits the node between reading the
  amount owed and updating it, so it is two definitions with other calls possible in between.
\<close>

definition add_tx_to_total :: "num256 \<Rightarrow> payment_settings \<Rightarrow> nat \<Rightarrow> nat \<Rightarrow> nat option" where
  "add_tx_to_total N P amount amount_owed =
     do {
       to_add \<leftarrow> udiv N amount (unat (simulated_transaction_fee P));
       u256 N (int amount_owed + int to_add)
     }"

text \<open>The identity payments of the fee are recorded under. The key has no meaning and is
  the parameter \<open>key\<close>.\<close>

definition txfee_identity :: "payment_settings \<Rightarrow> wg_key \<Rightarrow> identity" where
  "txfee_identity P key =
     \<lparr>mesh_ip = V6 1, eth_address = simulated_transaction_fee_address P, wg_public_key = key\<rparr>"

text \<open>Up to the first request to the full node: the amount to pay, if the tick goes on.\<close>

definition tick_simulated_tx_start :: "num256 \<Rightarrow> rita_settings \<Rightarrow> nat \<Rightarrow> (identity \<times> nat) option option" where
  "tick_simulated_tx_start N S amount_owed =
     do {
       _ \<leftarrow> eth_private_key (payment S);
       (case settings_identity S of
          None \<Rightarrow> Some None
        | Some our_id \<Rightarrow>
            do {
              a \<leftarrow> i256 N \<bar>get_pay_thresh (payment S)\<bar>;
              t \<leftarrow> to_uint256 N a;
              Some (if amount_owed > t then Some (our_id, amount_owed) else None)
            })
     }"

text \<open>After the node has answered: \<open>prepared\<close> is whether the transaction could be prepared and
  \<open>sent\<close> the transaction id, if it was accepted.\<close>

definition tick_simulated_tx_finish ::
  "num256 \<Rightarrow> rita_settings \<Rightarrow> wg_key \<Rightarrow> nat option \<Rightarrow> identity \<times> nat \<Rightarrow> bool \<Rightarrow> nat option
     \<Rightarrow> nat \<times> usage_tracker_storage \<Rightarrow> (nat \<times> usage_tracker_storage) option" where
  "tick_simulated_tx_finish N S key hour pay prepared sent st =
     (case (prepared, sent) of
        (True, Some txid) \<Rightarrow>
          (let ut' = update_payments hour
                 \<lparr>pmt_to = txfee_identity (payment S) key, pmt_from = fst pay, pmt_amount = snd pay,
                  pmt_txid = txid\<rparr> (snd st)
           in if snd pay \<le> fst st
              then do { owed' \<leftarrow> u256 N (int (fst st) - int (snd pay)); Some (owed', ut') }
              else Some (fst st, ut'))
      | _ \<Rightarrow> Some st)"

context num256_laws
begin

lemma add_tx_to_total_exact:
  "0 < unat (simulated_transaction_fee P) \<Longrightarrow> int owed + int amount < 2 ^ 256 \<Longrightarrow>
     add_tx_to_total N P amount owed
       = Some (owed + amount div unat (simulated_transaction_fee P))"
proof -
  assume fee: "0 < unat (simulated_transaction_fee P)" and b: "int owed + int amount < 2 ^ 256"
  have "int (amount div unat (simulated_transaction_fee P)) \<le> int amount" by simp
  with b have "int owed + int (amount div unat (simulated_transaction_fee P)) < 2 ^ 256" by linarith
  with fee show ?thesis by (simp add: add_tx_to_total_def udiv_exact u256_add)
qed

lemma add_tx_to_total_zero_fee:
  "simulated_transaction_fee P = 0 \<Longrightarrow> add_tx_to_total N P amount owed = None"
  by (simp add: add_tx_to_total_def udiv_exact)

end

end
