(* ===== verification/Debt_Keeper.thy ===== *)
theory Debt_Keeper
  imports Tunnel_Manager Simulated_Txfee
begin

text \<open>
  \<open>rita_common/src/debt_keeper/mod.rs\<close>: who owes whom how much. A positive debt is what we
  owe the peer, a negative one what the peer owes us. Overpayments wait in
  \<open>incoming_payments\<close>. Each round every peer is sent through \<open>send_update\<close>, which suspends or
  opens its tunnels or asks for a payment.

  The operations on one entry have the prefix \<open>nd\<close>, those of the keeper \<open>dk\<close>. An operation
  that can return an error returns the \<open>Result\<close> and the new entry, since the changes made
  before an early return stay.
\<close>

section \<open>Data\<close>

datatype debt_action = SuspendTunnel | OpenTunnel | MakePayment identity nat

record node_debt_data =
  total_payment_received :: nat
  total_payment_sent :: nat
  debt :: int
  incoming_payments :: nat
  action :: debt_action
  payment_in_flight :: bool
  payment_in_flight_start :: "instant option"
  last_successful_payment :: "instant option"

definition node_debt_data_new :: node_debt_data where
  "node_debt_data_new =
     \<lparr>total_payment_received = 0, total_payment_sent = 0, debt = 0, incoming_payments = 0,
      action = OpenTunnel, payment_in_flight = False, payment_in_flight_start = None,
      last_successful_payment = None\<rparr>"

type_synonym debt_map = "identity \<Rightarrow> node_debt_data option"
type_synonym debt_data_ser = "(identity \<times> node_debt_data) list"

record debt_keeper =
  last_save :: "instant option"
  debt_data :: debt_map

record traffic =
  tr_from :: identity
  tr_amount :: int

definition ETH_PAYMENT_SEND_TIMEOUT :: duration where
  "ETH_PAYMENT_SEND_TIMEOUT = from_secs 600"

section \<open>One entry\<close>

definition debt_limit :: "num256 \<Rightarrow> int \<Rightarrow> int \<Rightarrow> int option" where
  "debt_limit N d close_threshold =
     (if d < close_threshold then i256 N (close_threshold - 1)
      else do {
        a \<leftarrow> i256 N \<bar>close_threshold\<bar>;
        if d > a then i256 N (a + 1) else Some d
      })"

definition nd_payment_failed :: "node_debt_data \<Rightarrow> node_debt_data" where
  "nd_payment_failed d = d\<lparr>payment_in_flight := False, payment_in_flight_start := None\<rparr>"

definition nd_payment_succeeded ::
  "num256 \<Rightarrow> instant \<Rightarrow> nat \<Rightarrow> node_debt_data \<Rightarrow> ((rita_common_error + unit) \<times> node_debt_data) option" where
  "nd_payment_succeeded N now amount d =
     do {
       sent \<leftarrow> u256 N (int (total_payment_sent d) + int amount);
       let d' = d\<lparr>payment_in_flight := False, payment_in_flight_start := None,
                  total_payment_sent := sent, last_successful_payment := Some now\<rparr>;
       (case to_int256 N amount of
          Some val \<Rightarrow> do { new \<leftarrow> i256 N (debt d' - val); Some (Ok (), d'\<lparr>debt := new\<rparr>) }
        | None \<Rightarrow> Some (Err ConversionError, d'))
     }"

definition nd_payment_received ::
  "num256 \<Rightarrow> nat \<Rightarrow> node_debt_data \<Rightarrow> ((rita_common_error + unit) \<times> node_debt_data) option" where
  "nd_payment_received N amount d =
     do {
       total \<leftarrow> u256 N (int (total_payment_received d) + int amount);
       incoming \<leftarrow> u256 N (int (incoming_payments d) + int amount);
       let d1 = d\<lparr>total_payment_received := total, incoming_payments := incoming\<rparr>;
       let they_owe_us = debt d1 < 0;
       a \<leftarrow> i256 N \<bar>debt d1\<bar>;
       owed \<leftarrow> to_uint256 N a;
       let incoming_greater_than_debt = incoming_payments d1 > owed;
       (if they_owe_us \<and> incoming_greater_than_debt then
          do { rest \<leftarrow> u256 N (int (incoming_payments d1) - int owed);
               Some (Ok (), d1\<lparr>incoming_payments := rest, debt := 0\<rparr>) }
        else if they_owe_us then
          (case to_int256 N (incoming_payments d1) of
             None \<Rightarrow> Some (Err MiscStringError, d1)
           | Some signed_incoming \<Rightarrow>
               do { new \<leftarrow> i256 N (debt d1 + signed_incoming);
                    Some (Ok (), d1\<lparr>debt := new, incoming_payments := 0\<rparr>) })
        else Some (Ok (), d1))
     }"

definition nd_traffic_update :: "num256 \<Rightarrow> int \<Rightarrow> node_debt_data \<Rightarrow> node_debt_data option" where
  "nd_traffic_update N amount d = do { new \<leftarrow> i256 N (debt d + amount); Some (d\<lparr>debt := new\<rparr>) }"

definition nd_traffic_replace :: "instant \<Rightarrow> int \<Rightarrow> node_debt_data \<Rightarrow> node_debt_data" where
  "nd_traffic_replace now amount d =
     (if payment_in_flight d then d
      else case last_successful_payment d of
        Some val \<Rightarrow> if now - val > from_secs 15 then d\<lparr>debt := amount\<rparr> else d
      | None \<Rightarrow> d\<lparr>debt := amount\<rparr>)"

text \<open>The credit branches share this: the action is set, a payment of zero applies the credit.\<close>

definition nd_apply_credit ::
  "num256 \<Rightarrow> node_debt_data \<Rightarrow> ((rita_common_error + debt_action) \<times> node_debt_data) option" where
  "nd_apply_credit N d =
     do {
       (r, d') \<leftarrow> nd_payment_received N 0 (d\<lparr>action := OpenTunnel\<rparr>);
       Some (case r of Inl e \<Rightarrow> Err e | Inr _ \<Rightarrow> Ok OpenTunnel, d')
     }"

text \<open>The \<open>match\<close> on whether to close, whether to pay and whether a payment is in flight.\<close>

definition nd_decide ::
  "num256 \<Rightarrow> payment_settings \<Rightarrow> instant \<Rightarrow> identity \<Rightarrow> bool \<Rightarrow> bool \<Rightarrow> node_debt_data
     \<Rightarrow> ((rita_common_error + debt_action) \<times> node_debt_data) option" where
  "nd_decide N P now ident should_close should_pay d =
     (case (should_close, should_pay, payment_in_flight d) of
        (True, True, _) \<Rightarrow> None
      | (True, False, _) \<Rightarrow>
          (if incoming_payments d > 0 then nd_apply_credit N d
           else if enable_enforcement P
           then Some (Ok SuspendTunnel, d\<lparr>action := SuspendTunnel\<rparr>)
           else Some (Ok OpenTunnel, d\<lparr>action := OpenTunnel\<rparr>))
      | (False, True, False) \<Rightarrow>
          (case to_uint256 N (debt d) of
             None \<Rightarrow> Some (Err ConversionError, d)
           | Some to_pay \<Rightarrow>
               Some (Ok (MakePayment ident to_pay),
                 d\<lparr>payment_in_flight := True, payment_in_flight_start := Some now,
                    action := MakePayment ident to_pay\<rparr>))
      | (False, False, _) \<Rightarrow>
          (if apply_incoming_credit_immediately P \<and> incoming_payments d > 0
           then nd_apply_credit N d
           else Some (Ok OpenTunnel, d\<lparr>action := OpenTunnel\<rparr>))
      | (False, True, True) \<Rightarrow>
          (let d' = (case payment_in_flight_start d of
                Some start_time \<Rightarrow>
                  if now - start_time > ETH_PAYMENT_SEND_TIMEOUT
                  then d\<lparr>payment_in_flight := False, payment_in_flight_start := None\<rparr>
                  else d
              | None \<Rightarrow> d\<lparr>payment_in_flight := False\<rparr>)
           in Some (Ok OpenTunnel, d'\<lparr>action := OpenTunnel\<rparr>)))"

definition nd_send_update ::
  "num256 \<Rightarrow> payment_settings \<Rightarrow> instant \<Rightarrow> identity \<Rightarrow> node_debt_data
     \<Rightarrow> ((rita_common_error + debt_action) \<times> node_debt_data) option" where
  "nd_send_update N P now ident d =
     do {
       close_threshold \<leftarrow> calculate_close_thresh N P;
       let pay_threshold = get_pay_thresh P;
       let should_close = debt d < close_threshold;
       let should_pay = debt d > pay_threshold;
       d1 \<leftarrow> (if debt_limit_enabled P
               then do { l \<leftarrow> debt_limit N (debt d) close_threshold; Some (d\<lparr>debt := l\<rparr>) }
               else Some d);
       nd_decide N P now ident should_close should_pay d1
     }"

section \<open>The keeper\<close>

definition get_debt_data_mut :: "identity \<Rightarrow> debt_keeper \<Rightarrow> node_debt_data" where
  "get_debt_data_mut ident dk = unwrap_or (debt_data dk ident) node_debt_data_new"

definition put_debt_data :: "identity \<Rightarrow> node_debt_data \<Rightarrow> debt_keeper \<Rightarrow> debt_keeper" where
  "put_debt_data ident d dk = dk\<lparr>debt_data := (debt_data dk)(ident \<mapsto> d)\<rparr>"

definition with_peer ::
  "identity \<Rightarrow> (node_debt_data \<Rightarrow> ((rita_common_error + 'a) \<times> node_debt_data) option) \<Rightarrow> debt_keeper
     \<Rightarrow> ((rita_common_error + 'a) \<times> debt_keeper) option" where
  "with_peer ident f dk =
     do { (r, d) \<leftarrow> f (get_debt_data_mut ident dk); Some (r, put_debt_data ident d dk) }"

definition dk_payment_failed :: "identity \<Rightarrow> debt_keeper \<Rightarrow> debt_keeper" where
  "dk_payment_failed to dk = put_debt_data to (nd_payment_failed (get_debt_data_mut to dk)) dk"

definition dk_payment_succeeded ::
  "num256 \<Rightarrow> instant \<Rightarrow> identity \<Rightarrow> nat \<Rightarrow> debt_keeper
     \<Rightarrow> ((rita_common_error + unit) \<times> debt_keeper) option" where
  "dk_payment_succeeded N now to amount dk = with_peer to (nd_payment_succeeded N now amount) dk"

definition dk_payment_received ::
  "num256 \<Rightarrow> identity \<Rightarrow> nat \<Rightarrow> debt_keeper \<Rightarrow> ((rita_common_error + unit) \<times> debt_keeper) option" where
  "dk_payment_received N ident amount dk = with_peer ident (nd_payment_received N amount) dk"

definition dk_traffic_update :: "num256 \<Rightarrow> identity \<Rightarrow> int \<Rightarrow> debt_keeper \<Rightarrow> debt_keeper option" where
  "dk_traffic_update N ident amount dk =
     do { d \<leftarrow> nd_traffic_update N amount (get_debt_data_mut ident dk);
          Some (put_debt_data ident d dk) }"

definition dk_traffic_replace :: "instant \<Rightarrow> identity \<Rightarrow> int \<Rightarrow> debt_keeper \<Rightarrow> debt_keeper" where
  "dk_traffic_replace now ident amount dk =
     put_debt_data ident (nd_traffic_replace now amount (get_debt_data_mut ident dk)) dk"

definition dk_send_update ::
  "num256 \<Rightarrow> payment_settings \<Rightarrow> instant \<Rightarrow> identity \<Rightarrow> debt_keeper
     \<Rightarrow> ((rita_common_error + debt_action) \<times> debt_keeper) option" where
  "dk_send_update N P now ident dk = with_peer ident (nd_send_update N P now ident) dk"

section \<open>The functions other modules call\<close>

definition payment_received ::
  "num256 \<Rightarrow> identity \<Rightarrow> nat \<Rightarrow> denom \<Rightarrow> debt_keeper \<Rightarrow> ((rita_common_error + unit) \<times> debt_keeper) option" where
  "payment_received N from amount denom dk =
     do { a \<leftarrow> normalize_payment_amount N amount denom wei_denom; dk_payment_received N from a dk }"

definition payment_failed :: "identity \<Rightarrow> debt_keeper \<Rightarrow> debt_keeper" where
  "payment_failed to dk = dk_payment_failed to dk"

definition payment_succeeded ::
  "num256 \<Rightarrow> payment_settings \<Rightarrow> instant \<Rightarrow> identity \<Rightarrow> nat \<Rightarrow> denom \<Rightarrow> debt_keeper \<times> nat
     \<Rightarrow> ((rita_common_error + unit) \<times> debt_keeper \<times> nat) option" where
  "payment_succeeded N P now to amount denom st =
     do {
       a \<leftarrow> normalize_payment_amount N amount denom wei_denom;
       owed \<leftarrow> add_tx_to_total N P a (snd st);
       (r, dk') \<leftarrow> dk_payment_succeeded N now to a (fst st);
       Some (r, dk', owed)
     }"

fun traffic_update :: "num256 \<Rightarrow> traffic list \<Rightarrow> debt_keeper \<Rightarrow> debt_keeper option" where
  "traffic_update N [] dk = Some dk"
| "traffic_update N (t # ts) dk =
     do { dk' \<leftarrow> dk_traffic_update N (tr_from t) (tr_amount t) dk; traffic_update N ts dk' }"

definition gateway_traffic_update :: "num256 \<Rightarrow> traffic \<Rightarrow> debt_keeper \<Rightarrow> debt_keeper option" where
  "gateway_traffic_update N t dk =
     (if debt_data dk (tr_from t) \<noteq> None then dk_traffic_update N (tr_from t) (tr_amount t) dk
      else Some dk)"

definition traffic_replace :: "instant \<Rightarrow> traffic \<Rightarrow> debt_keeper \<Rightarrow> debt_keeper" where
  "traffic_replace now t dk = dk_traffic_replace now (tr_from t) (tr_amount t) dk"

text \<open>The round over all peers, in the order \<open>ks\<close> in which the map yields them.\<close>

fun debt_update_loop ::
  "num256 \<Rightarrow> rita_settings \<Rightarrow> instant \<Rightarrow> blockchain_oracle \<Rightarrow> identity list \<Rightarrow> tunnel_change list
     \<Rightarrow> unpublished_payment_tx list \<Rightarrow> debt_keeper
     \<Rightarrow> ((rita_common_error + (tunnel_change list \<times> unpublished_payment_tx list)) \<times> debt_keeper) option" where
  "debt_update_loop N S now orc [] msgs pays dk = Some (Ok (msgs, pays), dk)"
| "debt_update_loop N S now orc (k # ks) msgs pays dk =
     (case dk_send_update N (payment S) now k dk of
        None \<Rightarrow> None
      | Some (Inl e, dk') \<Rightarrow> Some (Err e, dk')
      | Some (Inr SuspendTunnel, dk') \<Rightarrow>
          debt_update_loop N S now orc ks
            (msgs @ [\<lparr>tc_identity = k, tc_action = PaymentOverdue\<rparr>]) pays dk'
      | Some (Inr OpenTunnel, dk') \<Rightarrow>
          debt_update_loop N S now orc ks
            (msgs @ [\<lparr>tc_identity = k, tc_action = PaidOnTime\<rparr>]) pays dk'
      | Some (Inr (MakePayment to amount), dk') \<Rightarrow>
          (if pay_system_chain (payment S) = Xdai \<and> potential_payment_issues_detected now orc
           then Some (Err MiscStringError, dk')
           else case settings_identity S of
             None \<Rightarrow> Some (Err MiscStringError, dk')
           | Some i \<Rightarrow>
               debt_update_loop N S now orc ks msgs
                 (pays @ [\<lparr>upmt_to = to, upmt_from = i, upmt_amount = amount\<rparr>]) dk'))"

definition send_debt_update ::
  "num256 \<Rightarrow> 'w world \<Rightarrow> rita_settings \<Rightarrow> instant \<Rightarrow> blockchain_oracle \<Rightarrow> identity list
     \<Rightarrow> debt_keeper \<Rightarrow> tunnel_manager \<times> 'w
     \<Rightarrow> ((rita_common_error + unpublished_payment_tx list) \<times> debt_keeper \<times> tunnel_manager \<times> 'w) option" where
  "send_debt_update N W S now orc ks dk tw =
     (case debt_update_loop N S now orc ks [] [] dk of
        None \<Rightarrow> None
      | Some (Inl e, dk') \<Rightarrow> Some (Err e, dk', tw)
      | Some (Inr (msgs, pays), dk') \<Rightarrow>
          (case tm_tunnel_state_change W (payment S) now orc msgs tw of
             None \<Rightarrow> None
           | Some (_, tw') \<Rightarrow> Some (Ok pays, dk', tw')))"

section \<open>Storage\<close>

definition debt_data_to_ser :: "identity list \<Rightarrow> debt_map \<Rightarrow> debt_data_ser" where
  "debt_data_to_ser order m = List.map_filter (\<lambda>i. map_option (Pair i) (m i)) order"

text \<open>What serialisation keeps of an entry: the fields marked \<open>skip\<close> come back as defaults.\<close>

definition stored_entry :: "node_debt_data \<Rightarrow> node_debt_data" where
  "stored_entry d = d\<lparr>payment_in_flight := False, payment_in_flight_start := None,
     last_successful_payment := None\<rparr>"

definition ser_entry :: "payment_settings \<Rightarrow> debt_map \<Rightarrow> identity \<times> node_debt_data \<Rightarrow> debt_map" where
  "ser_entry P m e =
     (case e of (i, d) \<Rightarrow>
        if forgive_on_reboot P then
          (if debt d \<le> 0 \<and> incoming_payments d = 0 then m
           else if debt d \<le> 0 then m(i \<mapsto> d\<lparr>debt := 0\<rparr>) else m(i \<mapsto> d))
        else m(i \<mapsto> d))"

definition ser_to_debt_data :: "payment_settings \<Rightarrow> debt_data_ser \<Rightarrow> debt_map" where
  "ser_to_debt_data P input = foldl (ser_entry P) (\<lambda>_. None) input"

text \<open>\<open>bincode\<close> and \<open>serde_json\<close> are parameters. A file that can not be read is \<open>None\<close>; for
  JSON its text may also fail to be UTF-8.\<close>

definition deserialize_from_binary ::
  "('b \<Rightarrow> debt_data_ser option) \<Rightarrow> 'b option \<Rightarrow> debt_data_ser option" where
  "deserialize_from_binary bincode_de file =
     (case file of
        Some bytes \<Rightarrow> Some (case bincode_de bytes of Some v \<Rightarrow> v | None \<Rightarrow> [])
      | None \<Rightarrow> None)"

definition deserialize_from_json ::
  "('b \<Rightarrow> string option) \<Rightarrow> (string \<Rightarrow> debt_data_ser option) \<Rightarrow> 'b option \<Rightarrow> debt_data_ser option" where
  "deserialize_from_json utf8 json_de file =
     (case file of
        Some bytes \<Rightarrow>
          (case utf8 bytes of
             Some contents \<Rightarrow> Some (case json_de contents of Some v \<Rightarrow> v | None \<Rightarrow> [])
           | None \<Rightarrow> None)
      | None \<Rightarrow> None)"

definition debt_keeper_default ::
  "num256 \<Rightarrow> payment_settings \<Rightarrow> ('b \<Rightarrow> debt_data_ser option) \<Rightarrow> ('b \<Rightarrow> string option)
     \<Rightarrow> (string \<Rightarrow> debt_data_ser option) \<Rightarrow> 'b option \<Rightarrow> debt_keeper option" where
  "debt_keeper_default N P bincode_de utf8 json_de file =
     do {
       close \<leftarrow> calculate_close_thresh N P;
       if get_pay_thresh P \<ge> 0 \<and> close \<le> 0
       then Some (case (deserialize_from_binary bincode_de file,
                        deserialize_from_json utf8 json_de file) of
              (None, None) \<Rightarrow> \<lparr>last_save = None, debt_data = \<lambda>_. None\<rparr>
            | (None, Some val) \<Rightarrow> \<lparr>last_save = None, debt_data = ser_to_debt_data P val\<rparr>
            | (Some val, _) \<Rightarrow> \<lparr>last_save = None, debt_data = ser_to_debt_data P val\<rparr>)
       else None
     }"

definition save_path :: "string \<Rightarrow> string" where
  "save_path file_path =
     (if ends_with file_path ''json'' then drop (length file_path - 4) file_path @ ''bincode''
      else file_path)"

text \<open>The settings with the new path, the path written and its contents.\<close>

definition dk_save ::
  "(debt_data_ser \<Rightarrow> 'b) \<Rightarrow> identity list \<Rightarrow> payment_settings \<Rightarrow> debt_keeper
     \<Rightarrow> payment_settings \<times> string \<times> 'b" where
  "dk_save bincode_ser order P dk =
     (let path = save_path (debts_file P)
      in (P\<lparr>debts_file := path\<rparr>, path, bincode_ser (debt_data_to_ser order (debt_data dk))))"

text \<open>\<open>written\<close> is whether creating and writing the file succeeds. The result is the new state
  and what was saved, if a save was attempted.\<close>

definition save_if_needed ::
  "(debt_data_ser \<Rightarrow> 'b) \<Rightarrow> identity list \<Rightarrow> instant \<Rightarrow> duration \<Rightarrow> bool \<Rightarrow> payment_settings \<times> debt_keeper
     \<Rightarrow> (string \<times> 'b) option \<times> payment_settings \<times> debt_keeper" where
  "save_if_needed bincode_ser order now save_frequency written st =
     (if (case last_save (snd st) of Some val \<Rightarrow> now - val > save_frequency | None \<Rightarrow> True)
      then (let (P', path, bytes) = dk_save bincode_ser order (fst st) (snd st)
            in (Some (path, bytes), P',
                if written then (snd st)\<lparr>last_save := Some now\<rparr> else snd st))
      else (None, st))"

definition get_debts_list :: "identity list \<Rightarrow> debt_keeper \<Rightarrow> debt_data_ser" where
  "get_debts_list order dk = debt_data_to_ser order (debt_data dk)"

end
