(* ===== verification/Debt_Safety.thy ===== *)
theory Debt_Safety
  imports Debt_Keeper
begin

text \<open>
  What the debt keeper guarantees of one peer's entry: closed forms of its operations over
  exact integers while the amounts stay within 254 bits, conservation of value on received
  payments, the thresholds of suspension and payment, at most one payment in flight, and what
  a reboot keeps.
\<close>

section \<open>Amounts within range\<close>

definition nd_small :: "node_debt_data \<Rightarrow> bool" where
  "nd_small d \<longleftrightarrow> - (2 ^ 254) < debt d \<and> debt d < 2 ^ 254 \<and> int (incoming_payments d) < 2 ^ 254
     \<and> int (total_payment_received d) < 2 ^ 255 \<and> int (total_payment_sent d) < 2 ^ 255"

definition thresh_ok :: "payment_settings \<Rightarrow> bool" where
  "thresh_ok P \<longleftrightarrow> 0 \<le> payment_threshold P \<and> payment_threshold P < 2 ^ 250"

text \<open>A peer for the concrete instances below.\<close>

definition sample_peer :: identity where
  "sample_peer = \<lparr>mesh_ip = V6 1, eth_address = 2, wg_public_key = 3\<rparr>"

section \<open>Closed forms\<close>

definition received_spec :: "nat \<Rightarrow> node_debt_data \<Rightarrow> node_debt_data" where
  "received_spec amount d =
     (let pool = int (incoming_payments d) + int amount
      in d\<lparr>total_payment_received := total_payment_received d + amount,
           debt := (if debt d < 0 then min 0 (debt d + pool) else debt d),
           incoming_payments := nat (if debt d < 0 then max 0 (debt d + pool) else pool)\<rparr>)"

definition limit_spec :: "int \<Rightarrow> int \<Rightarrow> int" where
  "limit_spec d close =
     (if d < close then close - 1 else if d > \<bar>close\<bar> then \<bar>close\<bar> + 1 else d)"

definition limited :: "payment_settings \<Rightarrow> node_debt_data \<Rightarrow> node_debt_data" where
  "limited P d = (if debt_limit_enabled P
     then d\<lparr>debt := limit_spec (debt d) (- 10 * payment_threshold P)\<rparr> else d)"

context num256_laws
begin

lemma payment_received_exact:
  assumes "nd_small d" and "int amount < 2 ^ 254"
  shows "nd_payment_received N amount d = Some (Ok (), received_spec amount d)"
proof -
  have total: "u256 N (int (total_payment_received d) + int amount)
      = Some (total_payment_received d + amount)"
    using assms by (intro u256_add) (simp add: nd_small_def)
  have inc: "u256 N (int (incoming_payments d) + int amount) = Some (incoming_payments d + amount)"
    using assms by (intro u256_add) (simp add: nd_small_def)
  have ab: "i256 N \<bar>debt d\<bar> = Some \<bar>debt d\<bar>"
    using assms by (intro i256_abs) (simp_all add: nd_small_def)
  have sub: "u256 N (int (incoming_payments d + amount) + debt d)
      = Some (nat (debt d + (int (incoming_payments d) + int amount)))"
    if "debt d < 0" "nat (- debt d) < incoming_payments d + amount"
  proof -
    have "u256_range (int (incoming_payments d + amount) + debt d)"
      using assms that by (auto simp: u256_range_def nd_small_def)
    then show ?thesis by (simp add: u256_exact algebra_simps)
  qed
  have add: "i256 N (debt d + int (incoming_payments d + amount))
      = Some (debt d + int (incoming_payments d + amount))" if "debt d < 0"
    using assms that by (intro i256_exact) (simp add: nd_small_def i256_range_def)
  have conv: "to_int256 N (incoming_payments d + amount) = Some (int (incoming_payments d + amount))"
    using assms by (simp add: to_int256_exact nd_small_def)
  note defs = nd_payment_received_def received_spec_def Let_def total inc to_uint256_exact
  consider (over) "debt d < 0" "nat (- debt d) < incoming_payments d + amount"
    | (under) "debt d < 0" "\<not> nat (- debt d) < incoming_payments d + amount"
    | (none) "\<not> debt d < 0" by blast
  then show ?thesis
  proof cases
    case over
    then have "incoming_payments d + amount - nat (- debt d)
        = nat (max 0 (debt d + (int (incoming_payments d) + int amount)))"
      and "min 0 (debt d + (int (incoming_payments d) + int amount)) = 0" by linarith+
    with over ab show ?thesis by (simp add: defs sub [OF over] del: of_nat_add)
  next
    case under
    then have "nat (max 0 (debt d + (int (incoming_payments d) + int amount))) = 0"
      and "min 0 (debt d + (int (incoming_payments d) + int amount))
        = debt d + int (incoming_payments d + amount)" by linarith+
    with under ab show ?thesis by (simp add: defs conv add [OF under(1)] del: of_nat_add)
  next
    case none
    with ab show ?thesis by (simp add: defs nat_add_distrib)
  qed
qed

lemma payment_succeeded_exact:
  assumes "nd_small d" and "int amount < 2 ^ 254"
  shows "nd_payment_succeeded N now amount d =
     Some (Ok (), d\<lparr>payment_in_flight := False, payment_in_flight_start := None,
       total_payment_sent := total_payment_sent d + amount,
       last_successful_payment := Some now, debt := debt d - int amount\<rparr>)"
proof -
  have "u256 N (int (total_payment_sent d) + int amount) = Some (total_payment_sent d + amount)"
    using assms by (intro u256_add) (simp add: nd_small_def)
  moreover have "to_int256 N amount = Some (int amount)"
    using assms by (simp add: to_int256_exact)
  moreover have "i256 N (debt d - int amount) = Some (debt d - int amount)"
    using assms by (intro i256_exact) (simp add: nd_small_def i256_range_def)
  ultimately show ?thesis by (simp add: nd_payment_succeeded_def Let_def)
qed

lemma debt_limit_exact:
  assumes "\<bar>close\<bar> < 2 ^ 254"
  shows "debt_limit N d close = Some (limit_spec d close)"
proof -
  have "i256 N (close - 1) = Some (close - 1)" "i256 N (\<bar>close\<bar> + 1) = Some (\<bar>close\<bar> + 1)"
    "i256 N \<bar>close\<bar> = Some \<bar>close\<bar>"
    using assms by (auto intro!: i256_exact simp: i256_range_def)
  then show ?thesis by (simp add: debt_limit_def limit_spec_def)
qed

lemma close_thresh_exact:
  "thresh_ok P \<Longrightarrow> calculate_close_thresh N P = Some (- 10 * payment_threshold P)"
  by (rule calculate_close_thresh_small) (simp_all add: thresh_ok_def)

lemma limited_small: "thresh_ok P \<Longrightarrow> nd_small d \<Longrightarrow> nd_small (limited P d)"
  by (auto simp: thresh_ok_def nd_small_def limited_def limit_spec_def)

text \<open>The state \<open>send_update\<close> works on after the debt limit.\<close>

lemma send_update_unfold:
  assumes "thresh_ok P"
  shows "nd_send_update N P now ident d =
     (let close = - 10 * payment_threshold P; pay = payment_threshold P; d1 = limited P d in
      if debt d < close then
        (if incoming_payments d > 0 then nd_apply_credit N d1
         else if enable_enforcement P then Some (Ok SuspendTunnel, d1\<lparr>action := SuspendTunnel\<rparr>)
         else Some (Ok OpenTunnel, d1\<lparr>action := OpenTunnel\<rparr>))
      else if debt d > pay then
        (if payment_in_flight d
         then Some (Ok OpenTunnel, (case payment_in_flight_start d of
             Some t \<Rightarrow> if now - t > ETH_PAYMENT_SEND_TIMEOUT
               then d1\<lparr>payment_in_flight := False, payment_in_flight_start := None\<rparr> else d1
           | None \<Rightarrow> d1\<lparr>payment_in_flight := False\<rparr>)\<lparr>action := OpenTunnel\<rparr>)
         else Some (Ok (MakePayment ident (nat (debt d1))),
             d1\<lparr>payment_in_flight := True, payment_in_flight_start := Some now,
                action := MakePayment ident (nat (debt d1))\<rparr>))
      else (if apply_incoming_credit_immediately P \<and> incoming_payments d > 0
            then nd_apply_credit N d1 else Some (Ok OpenTunnel, d1\<lparr>action := OpenTunnel\<rparr>)))"
proof -
  have pay0: "0 \<le> payment_threshold P" "payment_threshold P < 2 ^ 250"
    using assms by (simp_all add: thresh_ok_def)
  have lim: "(if debt_limit_enabled P
      then do { l \<leftarrow> debt_limit N (debt d) (- 10 * payment_threshold P); Some (d\<lparr>debt := l\<rparr>) }
      else Some d) = Some (limited P d)"
    using pay0 debt_limit_exact [of "- 10 * payment_threshold P" "debt d"] by (simp add: limited_def)
  have fields: "incoming_payments (limited P d) = incoming_payments d"
    "payment_in_flight_start (limited P d) = payment_in_flight_start d"
    "payment_in_flight (limited P d) = payment_in_flight d"
    by (simp_all add: limited_def)
  have pos: "payment_threshold P < debt d \<Longrightarrow> 0 \<le> debt (limited P d)"
    using pay0 by (simp add: limited_def limit_spec_def)
  show ?thesis
    unfolding nd_send_update_def close_thresh_exact [OF assms] Let_def get_pay_thresh_def
      Option.bind.bind_lunit lim nd_decide_def
    using pay0 pos by (auto simp: fields to_uint256_exact split: option.splits)
qed

lemma apply_credit_exact:
  assumes "nd_small d"
  shows "nd_apply_credit N d = Some (Ok OpenTunnel, received_spec 0 (d\<lparr>action := OpenTunnel\<rparr>))"
proof -
  have "nd_small (d\<lparr>action := OpenTunnel\<rparr>)" using assms by (simp add: nd_small_def)
  from payment_received_exact [OF this, of 0] show ?thesis by (simp add: nd_apply_credit_def)
qed

end

section \<open>Payments received\<close>

text \<open>C2: A payment from a peer conserves value: what the peer is credited with, debt and unapplied
  pool together, grows by exactly the amount, the call succeeds, the payment is first used up
  on what the peer owes us, and it never turns into something we owe the peer.\<close>

theorem payment_received_conserves:
  assumes "num256_laws N" and "nd_small d" and "int amount < 2 ^ 254"
  shows "\<exists>d'. nd_payment_received N amount d = Some (Ok (), d')
     \<and> debt d' + int (incoming_payments d') = debt d + int (incoming_payments d) + int amount
     \<and> total_payment_received d' = total_payment_received d + amount
     \<and> (if debt d < 0 then debt d \<le> debt d' \<and> debt d' \<le> 0 \<and> (debt d' < 0 \<longrightarrow> incoming_payments d' = 0)
        else debt d' = debt d)
     \<and> payment_in_flight d' = payment_in_flight d
     \<and> payment_in_flight_start d' = payment_in_flight_start d"
  unfolding num256_laws.payment_received_exact [OF assms]
  by (auto simp: received_spec_def Let_def)

lemma payment_received_conserves_witness:
  "\<exists>d'. nd_payment_received checked_num256 150 (node_debt_data_new\<lparr>debt := -100\<rparr>) = Some (Ok (), d')
     \<and> debt d' + int (incoming_payments d') = 50"
  using payment_received_conserves [OF checked256.num256_laws_axioms,
      of "node_debt_data_new\<lparr>debt := -100\<rparr>" 150]
  by (auto simp: nd_small_def node_debt_data_new_def)

section \<open>One round for one peer\<close>

context num256_laws
begin

lemma send_update_total:
  assumes "thresh_ok P" and "nd_small d"
  shows "\<exists>act d'. nd_send_update N P now ident d = Some (Ok act, d')"
  unfolding send_update_unfold [OF assms(1)] Let_def
    apply_credit_exact [OF limited_small [OF assms]] by auto

lemma send_update_suspend:
  assumes "thresh_ok P" and "nd_small d"
  shows "nd_send_update N P now ident d = Some (Ok SuspendTunnel, d') \<longleftrightarrow>
     debt d < - 10 * payment_threshold P \<and> incoming_payments d = 0 \<and> enable_enforcement P
     \<and> d' = (limited P d)\<lparr>action := SuspendTunnel\<rparr>"
  unfolding send_update_unfold [OF assms(1)] Let_def
    apply_credit_exact [OF limited_small [OF assms]] by auto

lemma send_update_pay:
  assumes "thresh_ok P" and "nd_small d"
  shows "nd_send_update N P now ident d = Some (Ok (MakePayment to a), d') \<longleftrightarrow>
     debt d > payment_threshold P \<and> \<not> payment_in_flight d
     \<and> to = ident \<and> a = nat (debt (limited P d))
     \<and> d' = (limited P d)\<lparr>payment_in_flight := True, payment_in_flight_start := Some now,
                action := MakePayment to a\<rparr>"
  using assms(1) unfolding send_update_unfold [OF assms(1)] Let_def
    apply_credit_exact [OF limited_small [OF assms]] by (auto simp: thresh_ok_def)

lemma send_update_open:
  assumes "thresh_ok P" and "nd_small d"
    and "- 10 * payment_threshold P \<le> debt d" and "debt d \<le> payment_threshold P"
  shows "\<exists>d'. nd_send_update N P now ident d = Some (Ok OpenTunnel, d')"
  using assms(3,4) unfolding send_update_unfold [OF assms(1)] Let_def
    apply_credit_exact [OF limited_small [OF assms(1,2)]] by auto

end

text \<open>C3: The round never panics and never fails for a peer, and it suspends exactly the peers
  that owe more than ten pay thresholds, have no credit left to apply and are under enforcement.\<close>

theorem send_update_suspends_iff:
  assumes "num256_laws N" and "thresh_ok P" and "nd_small d"
  shows "(\<exists>act d'. nd_send_update N P now ident d = Some (Ok act, d'))
     \<and> ((\<exists>d'. nd_send_update N P now ident d = Some (Ok SuspendTunnel, d'))
          \<longleftrightarrow> debt d < - 10 * payment_threshold P \<and> incoming_payments d = 0 \<and> enable_enforcement P)"
  using num256_laws.send_update_total [OF assms] num256_laws.send_update_suspend [OF assms] by blast

lemma send_update_suspends_iff_witness:
  "\<exists>d'. nd_send_update checked_num256 payment_settings_default 0 sample_peer
     (node_debt_data_new\<lparr>debt := - 3000000000000000001\<rparr>) = Some (Ok SuspendTunnel, d')"
  using send_update_suspends_iff [OF checked256.num256_laws_axioms,
      of payment_settings_default "node_debt_data_new\<lparr>debt := - 3000000000000000001\<rparr>" 0 sample_peer]
  by (simp add: thresh_ok_def nd_small_def node_debt_data_new_def payment_settings_default_def
      default_payment_threshold_def)

text \<open>A payment the round asks for goes to the peer itself, is more than the pay threshold, is
  the whole debt unless the debt limit caps it at one more than ten thresholds, and leaves the
  entry marked as having a payment in flight since now.\<close>

theorem send_update_payment_amount:
  assumes "num256_laws N" and "thresh_ok P" and "nd_small d"
    and "nd_send_update N P now ident d = Some (Ok (MakePayment to a), d')"
  shows "to = ident \<and> payment_threshold P < int a
     \<and> int a = (if debt_limit_enabled P then min (debt d) (10 * payment_threshold P + 1) else debt d)
     \<and> payment_in_flight d' \<and> payment_in_flight_start d' = Some now \<and> debt d' = int a"
  using assms(2,4) unfolding num256_laws.send_update_pay [OF assms(1-3)]
  by (auto simp: limited_def limit_spec_def thresh_ok_def)

lemma send_update_payment_amount_witness:
  "payment_threshold payment_settings_default < int 400000000000000000"
  using send_update_payment_amount [OF checked256.num256_laws_axioms,
      of payment_settings_default "node_debt_data_new\<lparr>debt := 400000000000000000\<rparr>" 7
        sample_peer
        sample_peer 400000000000000000]
  by (simp add: thresh_ok_def nd_small_def node_debt_data_new_def payment_settings_default_def
      default_payment_threshold_def num256_laws.send_update_pay [OF checked256.num256_laws_axioms]
      limited_def limit_spec_def)

text \<open>C4: Enforcement ends with a payment: after a suspension, a payment that brings the debt back
  to the close threshold leads to the tunnel being opened in the next round; with the debt limit
  enabled, which forgives all but one unit beyond the threshold, every payment does.\<close>

theorem suspension_ends_with_payment:
  assumes "num256_laws N" and "thresh_ok P" and "nd_small d"
    and "nd_send_update N P now ident d = Some (Ok SuspendTunnel, d1)"
    and "0 < p" and "int p < 2 ^ 253" and "debt_limit_enabled P \<or> 0 \<le> debt d + 10 * payment_threshold P + int p"
    and "nd_payment_received N p d1 = Some (r, d2)"
    and "int (total_payment_received d) + int p < 2 ^ 255"
  shows "r = Ok () \<and> (\<exists>d3. nd_send_update N P now' ident d2 = Some (Ok OpenTunnel, d3))"
proof -
  note susp = assms(4) [unfolded num256_laws.send_update_suspend [OF assms(1-3)]]
  have small1: "nd_small d1"
    using num256_laws.limited_small [OF assms(1-3)] susp by (simp add: nd_small_def)
  have "int p < 2 ^ 254" using assms(6) by simp
  note rec = num256_laws.payment_received_exact [OF assms(1) small1 this]
  from rec assms(8) have r: "r = Ok ()" and d2: "d2 = received_spec p d1" by simp_all
  have inc1: "incoming_payments d1 = 0" using susp by (simp add: limited_def)
  have d1: "debt d1 < - 10 * payment_threshold P" "- 10 * payment_threshold P \<le> debt d1 + int p"
    using susp assms(2,5,7) by (auto simp: limited_def limit_spec_def thresh_ok_def)
  have "total_payment_received d1 = total_payment_received d" using susp by (simp add: limited_def)
  then have "nd_small d2" using small1 d1 assms(2,6,9) inc1 unfolding d2
    by (auto simp: nd_small_def received_spec_def Let_def thresh_ok_def)
  moreover have "- 10 * payment_threshold P \<le> debt d2" "debt d2 \<le> payment_threshold P"
    using d1 assms(2) inc1 unfolding d2 by (auto simp: received_spec_def Let_def thresh_ok_def)
  ultimately show ?thesis
    using r num256_laws.send_update_open [OF assms(1,2)] by blast
qed

lemma suspension_ends_with_payment_witness:
  "\<exists>d3. nd_send_update checked_num256 payment_settings_default 9
     sample_peer
     (received_spec 1 (node_debt_data_new\<lparr>debt := - 3000000000000000001, action := SuspendTunnel\<rparr>))
     = Some (Ok OpenTunnel, d3)"
proof -
  let ?d = "node_debt_data_new\<lparr>debt := - 5000000000000000000\<rparr>"
  let ?d1 = "node_debt_data_new\<lparr>debt := - 3000000000000000001, action := SuspendTunnel\<rparr>"
  have "nd_send_update checked_num256 payment_settings_default 5
      sample_peer ?d = Some (Ok SuspendTunnel, ?d1)"
    by (simp add: num256_laws.send_update_suspend [OF checked256.num256_laws_axioms] thresh_ok_def
        nd_small_def node_debt_data_new_def payment_settings_default_def
        default_payment_threshold_def limited_def limit_spec_def)
  moreover have "nd_payment_received checked_num256 1 ?d1 = Some (Ok (), received_spec 1 ?d1)"
    by (rule num256_laws.payment_received_exact [OF checked256.num256_laws_axioms])
      (simp_all add: nd_small_def node_debt_data_new_def)
  ultimately show ?thesis
    using suspension_ends_with_payment [OF checked256.num256_laws_axioms,
        of payment_settings_default ?d 5 _ ?d1 1]
    by (simp add: thresh_ok_def nd_small_def node_debt_data_new_def payment_settings_default_def
        default_payment_threshold_def)
qed

section \<open>The debt limit\<close>

text \<open>The debt limit keeps every debt within one unit of ten pay thresholds in either
  direction and leaves debts inside the thresholds alone; applying it again changes nothing.\<close>

theorem debt_limit_bounds:
  assumes "num256_laws N" and "close \<le> 0" and "- (2 ^ 254) < close"
  shows "\<exists>l. debt_limit N d close = Some l \<and> close - 1 \<le> l \<and> l \<le> 1 - close
     \<and> (close \<le> d \<and> d \<le> - close \<longrightarrow> l = d) \<and> debt_limit N l close = Some l"
proof -
  have "\<bar>close\<bar> < 2 ^ 254" using assms(2,3) by simp
  from num256_laws.debt_limit_exact [OF assms(1) this] show ?thesis
    using assms(2) by (auto simp: limit_spec_def)
qed

lemma debt_limit_bounds_witness:
  "\<exists>l. debt_limit wrapping_num256 (-1000) (-10) = Some l \<and> -11 \<le> l"
  using debt_limit_bounds [OF wrapping256.num256_laws_axioms, of "-10" "-1000"] by auto

end
