(* ===== verification/Debt_Traces.thy ===== *)
theory Debt_Traces
  imports Debt_Safety
begin

text \<open>
  Properties of the debt keeper over time and over all peers: payments to a peer are separated
  by a settlement or the timeout, a round visits every peer once and touches nobody else, what
  an aborted round leaves behind, and what survives a reboot.
\<close>

section \<open>The life of one entry\<close>

datatype peer_event = Received nat | TrafficSeen int | Replaced int | Failed | Succeeded nat | Round

definition nd_event ::
  "num256 \<Rightarrow> payment_settings \<Rightarrow> identity \<Rightarrow> instant \<times> peer_event \<Rightarrow> node_debt_data
     \<Rightarrow> (debt_action option \<times> node_debt_data) option" where
  "nd_event N P i e d =
     (case e of (now, ev) \<Rightarrow>
       (case ev of
          Received a \<Rightarrow> map_option (\<lambda>(r, d'). (None, d')) (nd_payment_received N a d)
        | TrafficSeen a \<Rightarrow> map_option (Pair None) (nd_traffic_update N a d)
        | Replaced a \<Rightarrow> Some (None, nd_traffic_replace now a d)
        | Failed \<Rightarrow> Some (None, nd_payment_failed d)
        | Succeeded a \<Rightarrow> map_option (\<lambda>(r, d'). (None, d')) (nd_payment_succeeded N now a d)
        | Round \<Rightarrow> map_option (\<lambda>(r, d'). (case r of Inr act \<Rightarrow> Some act | Inl _ \<Rightarrow> None, d'))
            (nd_send_update N P now i d)))"

fun nd_run ::
  "num256 \<Rightarrow> payment_settings \<Rightarrow> identity \<Rightarrow> (instant \<times> peer_event) list \<Rightarrow> node_debt_data
     \<Rightarrow> (debt_action option list \<times> node_debt_data) option" where
  "nd_run N P i [] d = Some ([], d)"
| "nd_run N P i (e # es) d =
     do { (out, d') \<leftarrow> nd_event N P i e d; (outs, d'') \<leftarrow> nd_run N P i es d'; Some (out # outs, d'') }"

definition settles :: "instant \<Rightarrow> instant \<times> peer_event \<Rightarrow> bool" where
  "settles start e = (case e of (now, ev) \<Rightarrow>
     (case ev of Failed \<Rightarrow> True | Succeeded _ \<Rightarrow> True
      | Round \<Rightarrow> now - start > ETH_PAYMENT_SEND_TIMEOUT | _ \<Rightarrow> False))"

definition flying :: "instant \<Rightarrow> node_debt_data \<Rightarrow> bool" where
  "flying start d \<longleftrightarrow> payment_in_flight d \<and> payment_in_flight_start d = Some start"

definition is_payment :: "debt_action option \<Rightarrow> bool" where
  "is_payment out = (case out of Some (MakePayment _ _) \<Rightarrow> True | _ \<Rightarrow> False)"

lemma received_flying:
  "nd_payment_received N a d = Some (r, d') \<Longrightarrow> flying s d \<Longrightarrow> flying s d'"
  by (auto simp: nd_payment_received_def Let_def flying_def elim!: bind_SomeE split: rita_splits)

lemma apply_credit_flying:
  assumes "nd_apply_credit N d = Some (r, d')" and "flying s d"
  shows "flying s d' \<and> (\<forall>i a. r \<noteq> Ok (MakePayment i a))"
proof -
  have "flying s (d\<lparr>action := OpenTunnel\<rparr>)" using assms(2) by (simp add: flying_def)
  with assms(1) show ?thesis
    by (auto simp: nd_apply_credit_def dest: received_flying elim!: bind_SomeE split: rita_splits)
qed

lemma decide_flying:
  assumes "nd_decide N P now i c p d = Some (r, d')" and "flying s d"
    and "now - s \<le> ETH_PAYMENT_SEND_TIMEOUT"
  shows "flying s d' \<and> (\<forall>j a. r \<noteq> Ok (MakePayment j a))"
proof -
  have fl: "payment_in_flight d" "payment_in_flight_start d = Some s"
    using assms(2) by (simp_all add: flying_def)
  show ?thesis
  proof (cases c)
    case True
    with assms(1) show ?thesis
      by (cases p) (auto simp: nd_decide_def flying_def fl dest: apply_credit_flying [OF _ assms(2)]
          split: if_splits)
  next
    case False
    with assms(1,3) show ?thesis
      by (cases p) (auto simp: nd_decide_def flying_def fl dest: apply_credit_flying [OF _ assms(2)]
          split: if_splits)
  qed
qed

text \<open>The entry the decision is made on: the same one, up to the debt limit.\<close>

lemma send_update_decide:
  assumes "nd_send_update N P now i d = Some (r, d')"
  obtains c p d1 where "nd_decide N P now i c p d1 = Some (r, d')" and "d1 = d \<or> (\<exists>l. d1 = d\<lparr>debt := l\<rparr>)"
  using assms unfolding nd_send_update_def Let_def
  by (elim bind_SomeE) (auto elim!: bind_SomeE split: if_splits)

lemma send_update_flying:
  assumes "nd_send_update N P now i d = Some (r, d')" and "flying s d"
    and "now - s \<le> ETH_PAYMENT_SEND_TIMEOUT"
  shows "flying s d' \<and> (\<forall>j a. r \<noteq> Ok (MakePayment j a))"
proof -
  obtain c p d1 where dec: "nd_decide N P now i c p d1 = Some (r, d')"
    and d1: "d1 = d \<or> (\<exists>l. d1 = d\<lparr>debt := l\<rparr>)" using assms(1) by (rule send_update_decide)
  have "flying s d1" using d1 assms(2) by (auto simp: flying_def)
  from decide_flying [OF dec this assms(3)] show ?thesis .
qed

lemma decide_pays:
  assumes "nd_decide N P now i c p d = Some (Ok (MakePayment j a), d')"
  shows "\<not> payment_in_flight d \<and> flying now d'"
  using assms
  by (cases c; cases p; cases "payment_in_flight d")
    (auto simp: nd_decide_def nd_apply_credit_def flying_def elim!: bind_SomeE split: rita_splits)

lemma send_update_pays_only_grounded:
  assumes "nd_send_update N P now i d = Some (Ok (MakePayment j a), d')"
  shows "\<not> payment_in_flight d \<and> flying now d'"
proof -
  obtain c p d1 where dec: "nd_decide N P now i c p d1 = Some (Ok (MakePayment j a), d')"
    and d1: "d1 = d \<or> (\<exists>l. d1 = d\<lparr>debt := l\<rparr>)" using assms by (rule send_update_decide)
  from decide_pays [OF dec] d1 show ?thesis by auto
qed

lemma is_payment_iff: "is_payment out \<longleftrightarrow> (\<exists>i a. out = Some (MakePayment i a))"
  by (simp add: is_payment_def split: option.splits debt_action.splits)

lemma nd_event_Round:
  "nd_event N P i (t, Round) d = Some (out, d') \<longleftrightarrow>
     (\<exists>act. nd_send_update N P t i d = Some (Ok act, d') \<and> out = Some act)
     \<or> (\<exists>e. nd_send_update N P t i d = Some (Err e, d') \<and> out = None)"
proof (cases "nd_send_update N P t i d")
  case (Some rd)
  obtain r d1 where "rd = (r, d1)" by (cases rd)
  with Some show ?thesis by (cases r) (auto simp: nd_event_def)
qed (simp add: nd_event_def)

lemma event_flying:
  assumes "nd_event N P i e d = Some (out, d')" and "flying s d" and "\<not> settles s e"
  shows "flying s d' \<and> \<not> is_payment out"
proof -
  obtain now ev where e: "e = (now, ev)" by (cases e)
  show ?thesis
  proof (cases ev)
    case Round
    with assms e have "now - s \<le> ETH_PAYMENT_SEND_TIMEOUT" by (simp add: settles_def)
    with Round assms e show ?thesis
      by (auto simp: nd_event_Round is_payment_iff dest!: send_update_flying)
  qed (use assms e in \<open>auto simp: nd_event_def settles_def is_payment_def nd_traffic_update_def
      nd_traffic_replace_def flying_def dest: received_flying elim!: bind_SomeE
      split: rita_splits\<close>)
qed

lemma run_flying:
  "nd_run N P i es d = Some (outs, d') \<Longrightarrow> flying s d \<Longrightarrow> \<forall>e \<in> set es. \<not> settles s e
     \<Longrightarrow> flying s d' \<and> length outs = length es \<and> (\<forall>out \<in> set outs. \<not> is_payment out)"
proof (induction es arbitrary: d outs)
  case (Cons e es)
  from Cons.prems(1) obtain out d1 outs1 where ev: "nd_event N P i e d = Some (out, d1)"
    and run: "nd_run N P i es d1 = Some (outs1, d')" and outs: "outs = out # outs1"
    by (auto elim!: bind_SomeE split: prod.splits)
  from event_flying [OF ev Cons.prems(2)] Cons.prems(3) have "flying s d1" "\<not> is_payment out" by auto
  with Cons.IH [OF run] Cons.prems(3) outs show ?case by auto
qed simp

lemma nd_run_append:
  "nd_run N P i (es @ fs) d =
     do { (a, d1) \<leftarrow> nd_run N P i es d; (b, d2) \<leftarrow> nd_run N P i fs d1; Some (a @ b, d2) }"
  by (induction es arbitrary: d) (auto split: Option.bind_splits prod.splits)

text \<open>C1: A peer is never paid twice for the same debt while a payment is under way: whatever
  happens between two rounds that both ask for a payment to the peer, some event in between
  reported the first payment as failed or succeeded, or a round found it older than the
  timeout of 600 seconds.\<close>

theorem payments_are_separated:
  assumes "nd_run N P i ((t1, Round) # mid @ [(t2, Round)]) d = Some (outs, d')"
    and "is_payment (hd outs)" and "is_payment (last outs)"
  shows "\<exists>e \<in> set mid. settles t1 e"
proof (rule ccontr)
  assume "\<not> (\<exists>e \<in> set mid. settles t1 e)"
  then have quiet: "\<forall>e \<in> set mid. \<not> settles t1 e" by blast
  from assms(1) obtain o1 d1 o2 d2 o3 where
    first: "nd_event N P i (t1, Round) d = Some (o1, d1)" and
    run: "nd_run N P i mid d1 = Some (o2, d2)" and
    end_: "nd_event N P i (t2, Round) d2 = Some (o3, d')" and outs: "outs = o1 # o2 @ [o3]"
    by (auto simp: nd_run_append elim!: bind_SomeE split: prod.splits)
  from first assms(2) outs have "flying t1 d1"
    by (auto simp: nd_event_Round is_payment_iff dest!: send_update_pays_only_grounded)
  with run_flying [OF run _ quiet] have "payment_in_flight d2" by (simp add: flying_def)
  with end_ assms(3) outs show False
    by (auto simp: nd_event_Round is_payment_iff dest!: send_update_pays_only_grounded)
qed

lemma payments_are_separated_witness:
  "\<exists>e \<in> set [(7, Failed)]. settles 5 e"
proof -
  let ?d = "node_debt_data_new\<lparr>debt := 400000000000000000\<rparr>"
  let ?p = "MakePayment sample_peer 400000000000000000"
  let ?f = "?d\<lparr>payment_in_flight := True, payment_in_flight_start := Some 5, action := ?p\<rparr>"
  let ?g = "nd_payment_failed ?f"
  have small: "nd_small ?d" "nd_small ?g"
    by (simp_all add: nd_small_def node_debt_data_new_def nd_payment_failed_def)
  have P: "thresh_ok payment_settings_default"
    by (simp add: thresh_ok_def payment_settings_default_def default_payment_threshold_def)
  note pay = num256_laws.send_update_pay [OF checked256.num256_laws_axioms P]
  have "nd_send_update checked_num256 payment_settings_default 5 sample_peer ?d = Some (Ok ?p, ?f)"
    unfolding pay [OF small(1)] by (simp add: limited_def limit_spec_def node_debt_data_new_def
        payment_settings_default_def default_payment_threshold_def)
  moreover have "\<exists>d'. nd_send_update checked_num256 payment_settings_default 9 sample_peer ?g = Some (Ok ?p, d')"
    unfolding pay [OF small(2)] by (simp add: limited_def limit_spec_def node_debt_data_new_def
        payment_settings_default_def default_payment_threshold_def nd_payment_failed_def)
  ultimately obtain d' where "nd_run checked_num256 payment_settings_default sample_peer
      ((5, Round) # [(7, Failed)] @ [(9, Round)]) ?d = Some ([Some ?p, None, Some ?p], d')"
    by (auto simp: nd_event_def)
  from payments_are_separated [OF this] show ?thesis by (simp add: is_payment_def)
qed

section \<open>A round over all peers\<close>

definition suspend_due :: "payment_settings \<Rightarrow> node_debt_data \<Rightarrow> bool" where
  "suspend_due P d \<longleftrightarrow>
     debt d < - 10 * payment_threshold P \<and> incoming_payments d = 0 \<and> enable_enforcement P"

definition pay_due :: "payment_settings \<Rightarrow> node_debt_data \<Rightarrow> bool" where
  "pay_due P d \<longleftrightarrow> debt d > payment_threshold P \<and> \<not> payment_in_flight d"

definition round_change :: "payment_settings \<Rightarrow> debt_keeper \<Rightarrow> identity \<Rightarrow> tunnel_change" where
  "round_change P dk k = \<lparr>tc_identity = k,
     tc_action = (if suspend_due P (get_debt_data_mut k dk) then PaymentOverdue else PaidOnTime)\<rparr>"

definition round_payment :: "payment_settings \<Rightarrow> identity \<Rightarrow> debt_keeper \<Rightarrow> identity \<Rightarrow> unpublished_payment_tx" where
  "round_payment P me dk k = \<lparr>upmt_to = k, upmt_from = me,
     upmt_amount = nat (debt (limited P (get_debt_data_mut k dk)))\<rparr>"

definition payments_blocked :: "rita_settings \<Rightarrow> instant \<Rightarrow> blockchain_oracle \<Rightarrow> bool" where
  "payments_blocked S now orc \<longleftrightarrow>
     (pay_system_chain (payment S) = Xdai \<and> potential_payment_issues_detected now orc)
     \<or> settings_identity S = None"

lemma get_put_same [simp]: "get_debt_data_mut k (put_debt_data k d dk) = d"
  by (simp add: get_debt_data_mut_def put_debt_data_def)

lemma get_put_other [simp]: "k \<noteq> j \<Longrightarrow> get_debt_data_mut k (put_debt_data j d dk) = get_debt_data_mut k dk"
  by (simp add: get_debt_data_mut_def put_debt_data_def)

text \<open>What a round returns, in terms of the entries it starts from.\<close>

definition round_result ::
  "rita_settings \<Rightarrow> instant \<Rightarrow> blockchain_oracle \<Rightarrow> identity list \<Rightarrow> debt_keeper
     \<Rightarrow> rita_common_error + (tunnel_change list \<times> unpublished_payment_tx list)" where
  "round_result S now orc ks dk =
     (let P = payment S; due = (\<lambda>k. pay_due P (get_debt_data_mut k dk))
      in if payments_blocked S now orc \<and> (\<exists>k \<in> set ks. due k) then Err MiscStringError
         else Ok (map (round_change P dk) (filter (\<lambda>k. \<not> due k) ks),
                  map (round_payment P (the (settings_identity S)) dk) (filter due ks)))"

definition prepend_result ::
  "'a list \<Rightarrow> 'b list \<Rightarrow> 'e + ('a list \<times> 'b list) \<Rightarrow> 'e + ('a list \<times> 'b list)" where
  "prepend_result m p r = (case r of Inl e \<Rightarrow> Inl e | Inr (a, b) \<Rightarrow> Inr (m @ a, p @ b))"

lemma round_result_Cons:
  "round_result S now orc (k # ks) dk =
     (if pay_due (payment S) (get_debt_data_mut k dk)
      then (if payments_blocked S now orc then Err MiscStringError
            else prepend_result [] [round_payment (payment S) (the (settings_identity S)) dk k]
                   (round_result S now orc ks dk))
      else prepend_result [round_change (payment S) dk k] [] (round_result S now orc ks dk))"
  by (auto simp: round_result_def prepend_result_def Let_def)

lemma round_result_cong:
  "\<forall>k \<in> set ks. get_debt_data_mut k dk = get_debt_data_mut k dk' \<Longrightarrow>
     round_result S now orc ks dk = round_result S now orc ks dk'"
proof (induction ks)
  case Nil
  then show ?case by (simp add: round_result_def Let_def)
next
  case (Cons k ks)
  then show ?case by (simp add: round_result_Cons round_change_def round_payment_def)
qed

lemma prepend_prepend:
  "prepend_result m p (prepend_result m' p' r) = prepend_result (m @ m') (p @ p') r"
  by (auto simp: prepend_result_def split: sum.splits)

context num256_laws
begin

lemma send_update_outcome:
  assumes "thresh_ok P" and "nd_small d"
  shows "\<exists>d'. nd_send_update N P now k d = Some (Ok
     (if pay_due P d then MakePayment k (nat (debt (limited P d)))
      else if suspend_due P d then SuspendTunnel else OpenTunnel), d')"
  using assms(1) unfolding send_update_unfold [OF assms(1)] Let_def
    apply_credit_exact [OF limited_small [OF assms]]
  by (auto simp: suspend_due_def pay_due_def thresh_ok_def)

lemma debt_update_loop_spec:
  assumes "thresh_ok (payment S)" and "distinct ks" and "\<forall>k \<in> set ks. nd_small (get_debt_data_mut k dk)"
  shows "\<exists>dk'. debt_update_loop N S now orc ks msgs pays dk
       = Some (prepend_result msgs pays (round_result S now orc ks dk), dk')
     \<and> (\<forall>k. k \<notin> set ks \<longrightarrow> debt_data dk' k = debt_data dk k)"
  using assms(2,3)
proof (induction ks arbitrary: dk msgs pays)
  case Nil
  then show ?case by (simp add: round_result_def prepend_result_def Let_def)
next
  case (Cons k ks)
  let ?d = "get_debt_data_mut k dk" and ?P = "payment S"
  obtain d' where u: "nd_send_update N ?P now k ?d = Some (Ok
     (if pay_due ?P ?d then MakePayment k (nat (debt (limited ?P ?d)))
      else if suspend_due ?P ?d then SuspendTunnel else OpenTunnel), d')"
    using send_update_outcome [OF assms(1), of ?d now k] Cons.prems(2) by auto
  let ?dk = "put_debt_data k d' dk"
  have step: "dk_send_update N ?P now k dk = Some (Ok
     (if pay_due ?P ?d then MakePayment k (nat (debt (limited ?P ?d)))
      else if suspend_due ?P ?d then SuspendTunnel else OpenTunnel), ?dk)"
    by (simp add: dk_send_update_def with_peer_def u)
  have same: "\<forall>j \<in> set ks. get_debt_data_mut j ?dk = get_debt_data_mut j dk"
    using Cons.prems(1) by (auto intro!: get_put_other)
  have frame: "debt_data ?dk j = debt_data dk j" if "j \<noteq> k" for j
    using that by (simp add: put_debt_data_def)
  have "\<forall>j \<in> set ks. nd_small (get_debt_data_mut j ?dk)" using same Cons.prems(2) by auto
  then have IH: "\<exists>dk'. debt_update_loop N S now orc ks m p ?dk
       = Some (prepend_result m p (round_result S now orc ks dk), dk')
     \<and> (\<forall>k. k \<notin> set ks \<longrightarrow> debt_data dk' k = debt_data ?dk k)" for m p
    using Cons.IH [of ?dk m p] Cons.prems(1) unfolding round_result_cong [OF same] by simp
  show ?case
  proof (cases "pay_due ?P ?d")
    case due: True
    show ?thesis
    proof (cases "payments_blocked S now orc")
      case True
      with due frame show ?thesis
        by (auto simp: step payments_blocked_def round_result_Cons prepend_result_def
            split: option.splits)
    next
      case False
      then obtain me where me: "settings_identity S = Some me"
        and nb: "\<not> (pay_system_chain ?P = Xdai \<and> potential_payment_issues_detected now orc)"
        by (auto simp: payments_blocked_def)
      have eq: "debt_update_loop N S now orc (k # ks) msgs pays dk
          = debt_update_loop N S now orc ks msgs (pays @ [round_payment ?P me dk k]) ?dk"
        using due me nb by (auto simp: step round_payment_def)
      obtain dk' where "debt_update_loop N S now orc ks msgs (pays @ [round_payment ?P me dk k]) ?dk
          = Some (prepend_result msgs (pays @ [round_payment ?P me dk k]) (round_result S now orc ks dk), dk')"
        and "\<forall>j. j \<notin> set ks \<longrightarrow> debt_data dk' j = debt_data ?dk j"
        using IH [of msgs "pays @ [round_payment ?P me dk k]"] by blast
      with due False me frame show ?thesis
        unfolding eq by (intro exI [of _ dk']) (simp add: round_result_Cons prepend_prepend)
    qed
  next
    case nd: False
    have eq: "debt_update_loop N S now orc (k # ks) msgs pays dk
        = debt_update_loop N S now orc ks (msgs @ [round_change ?P dk k]) pays ?dk"
      using nd by (simp add: step round_change_def)
    obtain dk' where "debt_update_loop N S now orc ks (msgs @ [round_change ?P dk k]) pays ?dk
        = Some (prepend_result (msgs @ [round_change ?P dk k]) pays (round_result S now orc ks dk), dk')"
      and "\<forall>j. j \<notin> set ks \<longrightarrow> debt_data dk' j = debt_data ?dk j"
      using IH [of "msgs @ [round_change ?P dk k]" pays] by blast
    with nd frame show ?thesis
      unfolding eq by (intro exI [of _ dk']) (simp add: round_result_Cons prepend_prepend)
  qed
qed

end

text \<open>C5: One round of the debt keeper visits every peer once: the peers a payment is due to, and
  only those, get a payment request over what is owed after the debt limit, every other peer
  gets one tunnel change that suspends it exactly when it is beyond the close threshold with no
  credit, and entries of other identities stay as they are. Nothing is returned if a payment is
  due while payments are blocked by an outdated oracle or a missing identity.\<close>

theorem debt_round_result:
  assumes "num256_laws N" and "thresh_ok (payment S)" and "distinct ks"
    and "\<forall>k \<in> set ks. nd_small (get_debt_data_mut k dk)"
  shows "\<exists>dk'. debt_update_loop N S now orc ks [] [] dk = Some (round_result S now orc ks dk, dk')
     \<and> (\<forall>k. k \<notin> set ks \<longrightarrow> debt_data dk' k = debt_data dk k)"
proof -
  have "prepend_result [] [] r = r" for r :: "rita_common_error + (tunnel_change list \<times> unpublished_payment_tx list)"
    by (auto simp: prepend_result_def split: sum.splits)
  with num256_laws.debt_update_loop_spec [OF assms, of now orc "[]" "[]"] show ?thesis by simp
qed

definition sample_settings :: rita_settings where
  "sample_settings = \<lparr>payment = payment_settings_default, network = network_settings_default,
     settings_identity = Some \<lparr>mesh_ip = V6 9, eth_address = 9, wg_public_key = 9\<rparr>\<rparr>"

definition sample_oracle :: blockchain_oracle where
  "sample_oracle = \<lparr>or_balance = Some 5, or_last_seen_block = Some 10, or_last_updated = Some 100\<rparr>"

definition sample_keeper :: "int \<Rightarrow> debt_keeper" where
  "sample_keeper x = \<lparr>last_save = None,
     debt_data = (\<lambda>_. None)(sample_peer \<mapsto> node_debt_data_new\<lparr>debt := x\<rparr>)\<rparr>"

lemmas sample_defs = sample_settings_def sample_oracle_def sample_keeper_def thresh_ok_def
  payment_settings_default_def default_payment_threshold_def nd_small_def node_debt_data_new_def
  get_debt_data_mut_def

lemma debt_round_result_witness:
  "\<exists>dk'. debt_update_loop checked_num256 sample_settings 100 sample_oracle [sample_peer] [] []
       (sample_keeper 400000000000000000)
     = Some (Ok ([], [\<lparr>upmt_to = sample_peer,
         upmt_from = \<lparr>mesh_ip = V6 9, eth_address = 9, wg_public_key = 9\<rparr>,
         upmt_amount = 400000000000000000\<rparr>]), dk')"
  using debt_round_result [OF checked256.num256_laws_axioms, of sample_settings "[sample_peer]"
      "sample_keeper 400000000000000000" 100 sample_oracle]
  by (auto simp: sample_defs round_result_def Let_def payments_blocked_def
      potential_payment_issues_detected_def OUTDATED_TIME_def from_secs_def pay_due_def
      round_payment_def limited_def limit_spec_def)

text \<open>A round that is aborted because payments are blocked still marks the payment it was
  about to return as in flight: the entry of the peer says so although no payment was requested,
  and the peer is not paid before a settlement or the timeout.\<close>

theorem aborted_round_leaves_payment_in_flight:
  assumes "num256_laws N" and "thresh_ok (payment S)" and "nd_small (get_debt_data_mut k dk)"
    and "pay_due (payment S) (get_debt_data_mut k dk)" and "payments_blocked S now orc"
  shows "\<exists>dk'. send_debt_update N W S now orc (k # ks) dk tw = Some (Err MiscStringError, dk', tw)
     \<and> flying now (get_debt_data_mut k dk')"
proof -
  obtain d' where u: "nd_send_update N (payment S) now k (get_debt_data_mut k dk) = Some (Ok
      (MakePayment k (nat (debt (limited (payment S) (get_debt_data_mut k dk))))), d')"
    using num256_laws.send_update_outcome [OF assms(1,2,3), of now k] assms(4) by auto
  then have "flying now d'" by (auto dest: send_update_pays_only_grounded)
  with u assms(5) show ?thesis
    by (auto simp: send_debt_update_def dk_send_update_def with_peer_def payments_blocked_def
        split: option.splits)
qed

lemma aborted_round_leaves_payment_in_flight_witness:
  "\<exists>dk'. send_debt_update checked_num256 dead_world sample_settings 400000000000 sample_oracle
       [sample_peer] (sample_keeper 400000000000000000) (tunnel_manager_new, ())
         = Some (Err MiscStringError, dk', (tunnel_manager_new, ()))
     \<and> flying 400000000000 (get_debt_data_mut sample_peer dk')"
  using aborted_round_leaves_payment_in_flight [OF checked256.num256_laws_axioms,
      of sample_settings sample_peer "sample_keeper 400000000000000000" 400000000000 sample_oracle
        dead_world "[]" "(tunnel_manager_new, ())"]
  by (simp add: sample_defs payments_blocked_def potential_payment_issues_detected_def
      OUTDATED_TIME_def from_secs_def pay_due_def)

section \<open>Reboots\<close>

definition after_reboot :: "payment_settings \<Rightarrow> node_debt_data option \<Rightarrow> node_debt_data option" where
  "after_reboot P e =
     (case e of None \<Rightarrow> None
      | Some d \<Rightarrow> if forgive_on_reboot P
          then (if debt d \<le> 0 \<and> incoming_payments d = 0 then None
                else Some ((stored_entry d)\<lparr>debt := max 0 (debt d)\<rparr>))
          else Some (stored_entry d))"

lemma ser_entry_stored:
  "ser_entry P m (i, stored_entry d) =
     (case after_reboot P (Some d) of None \<Rightarrow> m | Some d' \<Rightarrow> m(i \<mapsto> d'))"
  by (auto simp: ser_entry_def after_reboot_def stored_entry_def max_def)

lemma foldl_ser_entry:
  "distinct order \<Longrightarrow> \<forall>i \<in> set order. m0 i = None \<Longrightarrow>
   foldl (ser_entry P) m0 (map (apsnd stored_entry) (debt_data_to_ser order m)) k
     = (if k \<in> set order \<and> m k \<noteq> None then after_reboot P (m k) else m0 k)"
proof (induction order arbitrary: m0)
  case (Cons i order)
  show ?case
  proof (cases "m i")
    case None
    with Cons show ?thesis by (auto simp: debt_data_to_ser_def)
  next
    case (Some d)
    let ?m = "ser_entry P m0 (i, stored_entry d)"
    have eq: "foldl (ser_entry P) m0 (map (apsnd stored_entry) (debt_data_to_ser (i # order) m)) k
        = foldl (ser_entry P) ?m (map (apsnd stored_entry) (debt_data_to_ser order m)) k"
      using Some by (simp add: debt_data_to_ser_def)
    have fresh: "\<forall>j \<in> set order. ?m j = None"
      using Cons.prems by (auto simp: ser_entry_stored split: option.splits)
    have i: "?m i = after_reboot P (Some d)"
      using Cons.prems by (auto simp: ser_entry_stored split: option.splits)
    have other: "j \<noteq> i \<Longrightarrow> ?m j = m0 j" for j
      by (auto simp: ser_entry_stored split: option.splits)
    have "k \<noteq> i" if "m k = None" using that Some by auto
    with Cons.IH [OF _ fresh] Cons.prems(1) Some i other show ?thesis
      unfolding eq by auto
  qed
qed (simp add: debt_data_to_ser_def)

text \<open>A save followed by a restart keeps every peer's entry up to the fields that are not
  stored. With forgiveness on, what peers owe us is dropped: an entry with nothing owed by us and no
  credit disappears and a negative debt becomes zero, while what we owe and unapplied credit
  survive.\<close>

theorem reboot_keeps_debts:
  assumes "num256_laws N" and "thresh_ok P" and "distinct order" and "set order = dom (debt_data dk)"
    and "\<forall>x. bincode_de (bincode_ser x) = Some (map (apsnd stored_entry) x)"
    and "dk_save bincode_ser order P dk = (P', path, bytes)"
  shows "\<exists>dk'. debt_keeper_default N P' bincode_de utf8 json_de (Some bytes) = Some dk'
     \<and> (\<forall>k. debt_data dk' k = after_reboot P (debt_data dk k))"
proof -
  from assms(6) have P': "P' = P\<lparr>debts_file := path\<rparr>"
    and bytes: "bytes = bincode_ser (debt_data_to_ser order (debt_data dk))"
    by (auto simp: dk_save_def Let_def)
  have ok: "thresh_ok P'" using assms(2) by (simp add: P' thresh_ok_def)
  have fg: "after_reboot P' = after_reboot P" "get_pay_thresh P' = payment_threshold P"
    by (rule ext, simp add: P' after_reboot_def split: option.split)
      (simp add: P' get_pay_thresh_def)
  have "ser_to_debt_data P' (map (apsnd stored_entry) (debt_data_to_ser order (debt_data dk))) k
      = after_reboot P (debt_data dk k)" for k
    using foldl_ser_entry [OF assms(3), of "\<lambda>_. None" P' "debt_data dk" k] assms(4)
    by (auto simp: ser_to_debt_data_def fg after_reboot_def split: option.splits)
  then show ?thesis
    using assms(2,5) num256_laws.close_thresh_exact [OF assms(1) ok]
    by (auto simp: debt_keeper_default_def deserialize_from_binary_def bytes P' thresh_ok_def get_pay_thresh_def
        split: option.splits)
qed

lemma reboot_keeps_debts_witness:
  "\<exists>dk'. debt_keeper_default checked_num256 payment_settings_default
       (\<lambda>b. Some (map (apsnd stored_entry) b)) (\<lambda>_. None) (\<lambda>_. None)
       (Some [(sample_peer, node_debt_data_new\<lparr>debt := 7\<rparr>)]) = Some dk'
     \<and> debt_data dk' sample_peer = Some (node_debt_data_new\<lparr>debt := 7\<rparr>)"
proof -
  let ?P = payment_settings_default
  let ?b = "[(sample_peer, node_debt_data_new\<lparr>debt := 7\<rparr>)]"
  have ok: "thresh_ok ?P" by (simp add: sample_defs)
  have dom: "set [sample_peer] = dom (debt_data (sample_keeper 7))" by (simp add: sample_keeper_def)
  have path: "?P\<lparr>debts_file := save_path (debts_file ?P)\<rparr> = ?P"
    by (simp add: save_path_def ends_with_def payment_settings_default_def)
  have save: "dk_save (\<lambda>x. x) [sample_peer] ?P (sample_keeper 7) = (?P, save_path (debts_file ?P), ?b)"
    by (simp add: dk_save_def Let_def path debt_data_to_ser_def sample_keeper_def)
  have after: "after_reboot ?P (debt_data (sample_keeper 7) sample_peer)
      = Some (node_debt_data_new\<lparr>debt := 7\<rparr>)"
    by (simp add: after_reboot_def sample_keeper_def stored_entry_def node_debt_data_new_def)
  from reboot_keeps_debts [OF checked256.num256_laws_axioms ok _ dom _ save,
      of "\<lambda>b. Some (map (apsnd stored_entry) b)" "\<lambda>_. None" "\<lambda>_. None"] after
  show ?thesis by auto
qed

text \<open>A debts file in JSON is never loaded: as soon as the file can be read and is not
  \<open>bincode\<close>, the keeper starts empty, whatever the JSON reader makes of the contents.\<close>

theorem json_debts_are_ignored:
  assumes "num256_laws N" and "thresh_ok P" and "bincode_de bytes = None"
  shows "debt_keeper_default N P bincode_de utf8 json_de (Some bytes)
     = Some \<lparr>last_save = None, debt_data = \<lambda>_. None\<rparr>"
  using assms(2,3) num256_laws.close_thresh_exact [OF assms(1,2)]
  by (auto simp: debt_keeper_default_def deserialize_from_binary_def ser_to_debt_data_def
      get_pay_thresh_def thresh_ok_def split: option.splits)

lemma json_debts_are_ignored_witness:
  "debt_keeper_default checked_num256 payment_settings_default (\<lambda>_. None) (\<lambda>b. Some b)
       (\<lambda>_. Some [(sample_peer, node_debt_data_new\<lparr>debt := 7\<rparr>)]) (Some ''[]'')
     = Some \<lparr>last_save = None, debt_data = \<lambda>_. None\<rparr>"
  by (rule json_debts_are_ignored [OF checked256.num256_laws_axioms]) (simp_all add: sample_defs)

text \<open>Saving over a file named like a JSON file moves the debts to the relative path
  \<open>jsonbincode\<close> and stores that path in the settings, whatever directory and name the
  configured path had.\<close>

theorem json_path_is_lost:
  assumes "ends_with (debts_file P) ''json''"
  shows "fst (snd (dk_save bincode_ser order P dk)) = ''jsonbincode''
     \<and> debts_file (fst (dk_save bincode_ser order P dk)) = ''jsonbincode''"
proof -
  from assms obtain t where "rev (debts_file P) = rev ''json'' @ t"
    unfolding ends_with_def starts_with_iff by blast
  then have "debts_file P = rev t @ ''json''" by (simp only: rev_swap) simp
  then have "drop (length (debts_file P) - 4) (debts_file P) = ''json''" by simp
  with assms show ?thesis by (simp add: dk_save_def save_path_def Let_def)
qed

lemma json_path_is_lost_witness:
  "fst (snd (dk_save id [] (payment_settings_default\<lparr>debts_file := ''/etc/rita-debts.json''\<rparr>)
     (sample_keeper 0))) = ''jsonbincode''"
  by (rule json_path_is_lost [THEN conjunct1]) (simp add: ends_with_def)

end
