(* ===== verification/Tunnel_Safety.thy ===== *)
theory Tunnel_Safety
  imports Tunnel_Manager "HOL-Library.Multiset"
begin

text \<open>
  The invariant of the tunnel manager: the table files every tunnel under the identity of its
  peer, no two tunnels listen on the same port, and there is at most one tunnel to an identity
  over the same interface and address. Every operation keeps it, so it holds in every state
  the operations reach.
\<close>

section \<open>The invariant of the table\<close>

definition filed :: "tunnel_map \<Rightarrow> bool" where
  "filed m \<longleftrightarrow> distinct (map fst m)
     \<and> (\<forall>(i, ts) \<in> set m. \<forall>t \<in> set ts. global_id (tn_neigh_id t) = i)"

definition ports_distinct :: "tunnel_map \<Rightarrow> bool" where
  "ports_distinct m \<longleftrightarrow> distinct (map tn_listen_port (all_tunnels m))"

definition tunnel_key :: "tunnel \<Rightarrow> u32 \<times> ip_addr \<times> identity" where
  "tunnel_key t = (tn_listen_ifidx t, tn_ip t, global_id (tn_neigh_id t))"

definition keys_distinct :: "tunnel_map \<Rightarrow> bool" where
  "keys_distinct m \<longleftrightarrow> distinct (map tunnel_key (all_tunnels m))"

definition tm_inv :: "tunnel_manager \<Rightarrow> bool" where
  "tm_inv tm \<longleftrightarrow> filed (tunnels tm) \<and> ports_distinct (tunnels tm) \<and> keys_distinct (tunnels tm)"

text \<open>All parts only depend on the keys and ports of the tunnels.\<close>

definition port_key :: "tunnel \<Rightarrow> u16 \<times> u32 \<times> ip_addr \<times> identity" where
  "port_key t = (tn_listen_port t, tunnel_key t)"

definition tm_core :: "tunnel_map \<Rightarrow> (identity \<times> (u16 \<times> u32 \<times> ip_addr \<times> identity) list) list" where
  "tm_core m = map (\<lambda>(i, ts). (i, map port_key ts)) m"

lemma core_keys: "map fst (tm_core m) = map fst m"
  by (auto simp: tm_core_def)

lemma core_ports: "map fst (concat (map snd (tm_core m))) = map tn_listen_port (all_tunnels m)"
  by (induction m) (auto simp: tm_core_def all_tunnels_def port_key_def)

lemma core_tunnel_keys: "map snd (concat (map snd (tm_core m))) = map tunnel_key (all_tunnels m)"
  by (induction m) (auto simp: tm_core_def all_tunnels_def port_key_def)

lemma core_ids:
  "(\<forall>(i, ts) \<in> set m. \<forall>t \<in> set ts. global_id (tn_neigh_id t) = i)
     \<longleftrightarrow> (\<forall>(i, ps) \<in> set (tm_core m). \<forall>p \<in> set ps. snd (snd (snd p)) = i)"
  by (simp add: tm_core_def port_key_def tunnel_key_def case_prod_beta)

lemma core_cong:
  assumes "tm_core m = tm_core m'"
  shows "filed m = filed m' \<and> ports_distinct m = ports_distinct m' \<and> keys_distinct m = keys_distinct m'"
  unfolding filed_def ports_distinct_def keys_distinct_def core_ids core_keys [symmetric]
    core_ports [symmetric] core_tunnel_keys [symmetric] assms
  by simp

section \<open>Table operations\<close>

lemma insert_keys:
  "fst ` set (insert_into_tunnel_list t m) = insert (global_id (tn_neigh_id t)) (fst ` set m)"
  by (induction t m rule: insert_into_tunnel_list.induct) auto

lemma insert_filed: "filed m \<Longrightarrow> filed (insert_into_tunnel_list t m)"
proof (induction t m rule: insert_into_tunnel_list.induct)
  case (2 t i ts rest)
  then show ?case
    using insert_keys [of t rest] by (auto simp: filed_def)
qed (simp add: filed_def)

lemma insert_mset:
  "mset (all_tunnels (insert_into_tunnel_list t m)) = add_mset t (mset (all_tunnels m))"
  by (induction t m rule: insert_into_tunnel_list.induct) (auto simp: all_tunnels_def)

lemma insert_distinct:
  assumes "distinct (map f (all_tunnels m))" and "f t \<notin> f ` set (all_tunnels m)"
  shows "distinct (map f (all_tunnels (insert_into_tunnel_list t m)))"
proof -
  have "mset (map f (all_tunnels (insert_into_tunnel_list t m))) = mset (map f (t # all_tunnels m))"
    by (simp add: insert_mset)
  then have "distinct (map f (all_tunnels (insert_into_tunnel_list t m)))
      = distinct (map f (t # all_tunnels m))"
    by (rule mset_eq_imp_distinct_iff)
  with assms show ?thesis by simp
qed

lemma foldl_filter: "foldl (\<lambda>l d. filter (\<lambda>v. v \<noteq> d) l) ts ds = filter (\<lambda>v. v \<notin> set ds) ts"
  by (induction ds arbitrary: ts) (auto simp: conj_commute intro: filter_cong)

lemma del_tunnel_eq:
  "del_tunnel x m = map (\<lambda>(i, ts). (i, filter (\<lambda>v. \<not> same_tunnel x v) ts)) m"
  by (auto simp: del_tunnel_def foldl_filter Let_def intro!: filter_cong)

lemma del_filed: "filed m \<Longrightarrow> filed (del_tunnel x m)"
  by (auto simp: filed_def del_tunnel_eq comp_def case_prod_beta)

lemma del_all_tunnels:
  "all_tunnels (del_tunnel x m) = filter (\<lambda>v. \<not> same_tunnel x v) (all_tunnels m)"
  by (induction m) (auto simp: del_tunnel_eq all_tunnels_def)

lemma del_distinct:
  "ports_distinct m \<Longrightarrow> ports_distinct (del_tunnel x m)"
  "keys_distinct m \<Longrightarrow> keys_distinct (del_tunnel x m)"
  by (simp_all add: ports_distinct_def keys_distinct_def del_all_tunnels distinct_map_filter)

lemma same_tunnel_key: "same_tunnel x v \<longleftrightarrow> tunnel_key x = tunnel_key v"
  by (auto simp: same_tunnel_def tunnel_key_def)

lemma is_tunnel_for_key: "is_tunnel_for ifidx ip i t \<longleftrightarrow> tunnel_key t = (ifidx, ip, i)"
  by (auto simp: is_tunnel_for_def tunnel_key_def)

lemma del_removes: "tunnel_key x \<notin> tunnel_key ` set (all_tunnels (del_tunnel x m))"
  by (auto simp: del_all_tunnels same_tunnel_key)

lemma get_tunnel_mut_None:
  "get_tunnel_mut ifidx ip i m = None \<Longrightarrow> filed m \<Longrightarrow> (ifidx, ip, i) \<notin> tunnel_key ` set (all_tunnels m)"
proof (induction ifidx ip i m rule: get_tunnel_mut.induct)
  case (2 ifidx ip i k ts rest)
  then have "find (\<lambda>t. is_tunnel_for ifidx ip i t \<and> k = i) ts = None"
    and "(ifidx, ip, i) \<notin> tunnel_key ` set (all_tunnels rest)"
    by (auto simp: filed_def split: option.splits)
  then show ?case
    using 2(3) find_NoneD [of "\<lambda>t. is_tunnel_for ifidx ip i t \<and> k = i" ts]
    by (fastforce simp: all_tunnels_def filed_def is_tunnel_for_key tunnel_key_def)
qed (simp add: all_tunnels_def)

lemma get_tunnel_mut_Some:
  "get_tunnel_mut ifidx ip i m = Some t \<Longrightarrow> t \<in> set (all_tunnels m) \<and> tunnel_key t = (ifidx, ip, i)"
  by (induction ifidx ip i m rule: get_tunnel_mut.induct)
    (auto simp: all_tunnels_def is_tunnel_for_key dest: find_SomeD split: option.splits)

lemma update_first_map: "(\<And>t. g (f t) = g t) \<Longrightarrow> map g (update_first P f ts) = map g ts"
  by (induction ts) auto

lemma set_tunnel_mut_core:
  assumes "\<And>t. port_key (f t) = port_key t"
  shows "tm_core (set_tunnel_mut ifidx ip i f m) = tm_core m"
  by (induction m) (auto simp: tm_core_def assms intro!: update_first_map)

lemma apply_action_core:
  "port_key (apply_action a t) = port_key t"
  "tn_iface_name (apply_action a t) = tn_iface_name t"
  by (auto simp: apply_action_def port_key_def tunnel_key_def split: tunnel_action.splits payment_state.splits)

section \<open>Ports\<close>

lemma first_free_port_Some:
  assumes "first_free_port udp used start = Some p"
  shows "p \<notin> set udp" "p \<notin> set used" "start \<le> p" "unat p < 65535"
proof -
  from find_SomeD [OF assms [unfolded first_free_port_def]]
  have "p \<in> word_of_nat ` {unat start..<65535}" and free: "p \<notin> set udp" "p \<notin> set used"
    by simp_all
  then obtain n where n: "unat start \<le> n" "n < 65535" "p = word_of_nat n" by auto
  from n have u: "unat p = n" by (simp add: unat_of_nat)
  show "p \<notin> set udp" "p \<notin> set used" by (fact free)+
  show "start \<le> p" using n u by (simp add: word_le_nat_alt)
  show "unat p < 65535" using n u by simp
qed

lemma first_free_port_None:
  assumes "first_free_port udp used start = None" and "start \<le> p" and "unat p < 65535"
  shows "p \<in> set udp \<or> p \<in> set used"
proof -
  have "p = word_of_nat (unat p)" and "unat p \<in> {unat start..<65535}"
    using assms(2,3) by (simp_all add: word_le_nat_alt)
  then have "p \<in> word_of_nat ` {unat start..<65535}" by (rule image_eqI)
  then have "p \<in> set (map word_of_nat [unat start..<65535])" by (simp only: set_map set_upt)
  from find_NoneD [OF assms(1) [unfolded first_free_port_def] this] show ?thesis by blast
qed

section \<open>Operations of the manager\<close>

lemma on_world_Some:
  "on_world m (s, w) = Some (r, (s', w')) \<longleftrightarrow> s' = s \<and> m w = Some (r, w')"
  by (auto simp: on_world_def split: option.splits prod.splits)

lemmas tmio_simps = rbind_Some_iff get_tm_def put_tm_def on_world_Some

text \<open>What holds of the value a successful run returns.\<close>

definition rpost :: "('w, 'e, 'a) rio \<Rightarrow> ('a \<Rightarrow> bool) \<Rightarrow> bool" where
  "rpost m Q \<longleftrightarrow> (\<forall>w x w'. m w = Some (Inr x, w') \<longrightarrow> Q x)"

lemma rpostD: "rpost m Q \<Longrightarrow> m w = Some (Inr x, w') \<Longrightarrow> Q x"
  by (auto simp: rpost_def)

lemma rpost_rules:
  "(\<And>x. rpost (f x) Q) \<Longrightarrow> rpost (rbind m f) Q"
  "rpost (rraise e) Q"
  "Q x \<Longrightarrow> rpost (rret x) Q"
  by (auto simp: rpost_def rbind_Some_iff rraise_def rret_def)

lemma rpost_case_sum:
  "(\<And>e. rpost (f e) Q) \<Longrightarrow> (\<And>x. rpost (g x) Q) \<Longrightarrow> rpost (case r of Inl e \<Rightarrow> f e | Inr x \<Rightarrow> g x) Q"
  by (cases r) auto

lemma tunnel_new_post:
  "rpost (tunnel_new W ot S now ip port ifidx nid) (\<lambda>t.
     tn_listen_port t = port \<and> tn_neigh_id t = nid \<and> tn_ip t = ip \<and> tn_listen_ifidx t = ifidx
     \<and> tn_payment_state t = Paid \<and> tn_last_contact t = now)"
  by (cases "net_mesh_ip (network S)") (auto simp: tunnel_new_def Let_def intro!: rpost_rules rpost_case_sum)

lemmas tunnel_new_port = rpostD [OF tunnel_new_post]

lemma get_next_available_port_Ok:
  "get_next_available_port W S tm w = Some (Inr p, w') \<Longrightarrow>
     \<exists>udp. used_ports W w = Some (Inr udp, w')
       \<and> first_free_port udp (get_all_used_ports tm) (wg_start_port (network S)) = Some p"
  by (auto simp: get_next_available_port_def rbind_Some_iff rmap_err_def rraise_def rret_def
      split: rita_splits)

lemma add_new_tunnel_inv:
  assumes "add_new_tunnel_to_list W ot S now ip ifidx tid (tm, w) = Some (r, (tm', w'))"
    and "tm_inv tm" and "(ifidx, ip, global_id tid) \<notin> tunnel_key ` set (all_tunnels (tunnels tm))"
  shows "tm_inv tm'"
proof (cases "tm' = tm")
  case False
  with assms(1) obtain port w1 t w2 where
    port: "get_next_available_port W S tm w = Some (Inr port, w1)" and
    t: "tunnel_new W ot S now ip port ifidx tid w1 = Some (Inr t, w2)" and
    tm': "tm' = tm\<lparr>tunnels := insert_into_tunnel_list t (tunnels tm)\<rparr>"
    by (auto simp: add_new_tunnel_to_list_def tmio_simps rmap_err_def rret_def split: rita_splits)
  have "port \<notin> set (get_all_used_ports tm)"
    using get_next_available_port_Ok [OF port] first_free_port_Some(2) by blast
  then show ?thesis
    using assms(2,3) tunnel_new_port [OF t] unfolding tm' tm_inv_def get_all_used_ports_def
    by (simp add: insert_filed insert_distinct tunnel_key_def ports_distinct_def keys_distinct_def)
qed (use assms in simp)

lemma open_tunnel_inv:
  assumes "open_tunnel W ot S now tid p (tm, w) = Some (r, (tm', w'))" and inv: "tm_inv tm"
  shows "tm_inv tm'"
proof (cases "get_tunnel_mut (peer_ifidx p) (peer_ip p) (global_id tid) (tunnels tm)")
  case None
  with inv have "(peer_ifidx p, peer_ip p, global_id tid) \<notin> tunnel_key ` set (all_tunnels (tunnels tm))"
    by (simp add: get_tunnel_mut_None tm_inv_def)
  with None assms show ?thesis
    by (auto simp: open_tunnel_def tmio_simps rret_def Let_def dest: add_new_tunnel_inv)
next
  case (Some t)
  let ?t = "t\<lparr>tn_last_contact := now\<rparr>"
  define touched where "touched = set_tunnel_mut (peer_ifidx p) (peer_ip p) (global_id tid)
    (\<lambda>t. t\<lparr>tn_last_contact := now\<rparr>) (tunnels tm)"
  have touched: "tm_inv (tm\<lparr>tunnels := touched\<rparr>)"
    using inv core_cong [OF set_tunnel_mut_core]
    by (simp add: tm_inv_def touched_def port_key_def tunnel_key_def)
  then have deleted: "tm_inv (tm\<lparr>tunnels := del_tunnel ?t touched\<rparr>)"
    by (simp add: tm_inv_def del_filed del_distinct)
  have "(peer_ifidx p, peer_ip p, global_id tid) \<notin> tunnel_key ` set (all_tunnels (del_tunnel ?t touched))"
    using del_removes [of ?t touched] get_tunnel_mut_Some [OF Some] by (simp add: tunnel_key_def)
  with assms(1) Some touched deleted show ?thesis
    by (auto simp: open_tunnel_def tmio_simps rret_def Let_def touched_def [symmetric]
        dest: add_new_tunnel_inv split: if_splits)
qed

lemma map_of_filed: "filed m \<Longrightarrow> map_of m i = Some ts \<Longrightarrow> \<forall>l. (i, l) \<in> set m \<longrightarrow> l = ts"
  by (auto simp: filed_def dest: map_of_SomeD eq_key_imp_eq_value)

lemma payment_change_tunnels:
  assumes "tunnel_payment_state_change W P now orc msg (tm, w) = Some (r, (tm', w'))"
    and "filed (tunnels tm)"
  shows "tunnels tm' = map (\<lambda>(i, l). (i, if i = tc_identity msg
           then map (apply_action (tc_action msg)) l else l)) (tunnels tm)"
proof (cases "map_of (tunnels tm) (tc_identity msg)")
  case None
  then have new: "i \<noteq> tc_identity msg" if "(i, l) \<in> set (tunnels tm)" for i l
    using that by (force simp: map_of_eq_None_iff)
  from None assms(1) have "tm' = tm"
    by (auto simp: tunnel_payment_state_change_def tmio_simps rret_def)
  with new show ?thesis by (auto intro!: map_idI [symmetric])
next
  case (Some ts)
  have "tunnels tm' = map (\<lambda>(i, l). (i, if i = tc_identity msg
          then map (apply_action (tc_action msg)) ts else l)) (tunnels tm)"
    using Some assms(1)
    by (auto simp: tunnel_payment_state_change_def tmio_simps rret_def Let_def)
  also have "\<dots> = map (\<lambda>(i, l). (i, if i = tc_identity msg
          then map (apply_action (tc_action msg)) l else l)) (tunnels tm)"
    using map_of_filed [OF assms(2) Some] by (intro map_cong refl) (auto split: prod.splits)
  finally show ?thesis .
qed

lemma payment_change_inv:
  assumes "tunnel_payment_state_change W P now orc msg (tm, w) = Some (r, (tm', w'))"
    and "tm_inv tm"
  shows "tm_inv tm'"
proof -
  have "tm_core (tunnels tm') = tm_core (tunnels tm)"
    using payment_change_tunnels [OF assms(1)] assms(2)
    by (simp add: tm_inv_def tm_core_def apply_action_core comp_def case_prod_beta cong: map_cong)
  with assms(2) core_cong show ?thesis unfolding tm_inv_def by blast
qed

lemma state_change_inv:
  "tm_tunnel_state_change W P now orc msgs (tm, w) = Some (r, (tm', w')) \<Longrightarrow> tm_inv tm \<Longrightarrow> tm_inv tm'"
proof (induction msgs arbitrary: tm w)
  case (Cons m ms)
  then show ?case
    by (auto simp: tm_tunnel_state_change_def rbind_Some_iff dest: payment_change_inv)
qed (auto simp: tm_tunnel_state_change_def rret_def)

section \<open>Garbage collection\<close>

lemma gc_table_eq: "gc_table recent contact handshake up \<longleftrightarrow> recent \<or> (\<not> handshake \<and> up)"
  by (cases recent; cases contact; cases handshake; cases up) auto

lemma gc_split_mset:
  "gc_split keep es good del w = Some (Inr (g, d), w') \<Longrightarrow>
     mset (all_tunnels g) + mset (all_tunnels d)
       = mset (all_tunnels good) + mset (all_tunnels del) + mset (map snd es)"
proof (induction keep es good del arbitrary: w rule: gc_split.induct)
  case (2 keep i t rest good del)
  from 2(3) obtain k w1 where "keep i t w = Some (Inr k, w1)"
    and rest: "(if k then gc_split keep rest (insert_into_tunnel_list t good) del
      else gc_split keep rest good (insert_into_tunnel_list t del)) w1 = Some (Inr (g, d), w')"
    by (auto simp: rbind_Some_iff)
  then show ?case using 2(1,2) [of k w1] by (cases k) (simp_all add: insert_mset)
qed (simp add: rret_def)

lemma gc_split_filed:
  "gc_split keep es good del w = Some (Inr (g, d), w') \<Longrightarrow> filed good \<Longrightarrow> filed g"
  by (induction keep es good del arbitrary: w rule: gc_split.induct)
    (auto simp: rbind_Some_iff rret_def insert_filed split: if_splits)

lemma tunnel_entries_snd: "map snd (tunnel_entries m) = all_tunnels m"
  by (induction m) (auto simp: tunnel_entries_def all_tunnels_def comp_def)

lemma distinct_submset:
  assumes "mset (xs :: 'a list) \<subseteq># mset ys" and "distinct (map f ys)"
  shows "distinct (map f xs)"
proof -
  obtain zs where "mset zs = mset ys - mset xs" using ex_mset by blast
  with assms(1) have "mset (map f (xs @ zs)) = mset (map f ys)" by (simp flip: image_mset_union)
  then have "distinct (map f (xs @ zs))" using assms(2) mset_eq_imp_distinct_iff by blast
  then show ?thesis by simp
qed

lemma rfor_rignore_ok: "rfor xs (\<lambda>t. rignore (f t)) w = Some (r, w') \<Longrightarrow> r = Inr ()"
  by (induction xs arbitrary: w) (auto simp: rignore_def rbind_Some_iff rret_def rattempt_def
      split: rita_splits)

text \<open>The split of the table a run of the collector makes.\<close>

definition gc_run ::
  "'w world \<Rightarrow> (string \<Rightarrow> wg_key option) \<Rightarrow> instant \<Rightarrow> instant \<Rightarrow> duration \<Rightarrow> duration \<Rightarrow> interface list
     \<Rightarrow> tunnel_map \<Rightarrow> ('w, rita_common_error, tunnel_map \<times> tunnel_map) rio" where
  "gc_run W pk now sysnow tmo hto ifs m =
     gc_split (\<lambda>i t. tunnel_should_be_kept W pk now sysnow i t hto tmo (into_interfaces_hashmap ifs))
       (tunnel_entries m) [] []"

lemma tunnel_gc_split:
  assumes "tunnel_gc W pk S now sysnow tmo hto ifs (tm, w) = Some (r, (tm', w'))"
  shows "tm' = tm \<or> (\<exists>d w1. gc_run W pk now sysnow tmo hto ifs (tunnels tm) w
      = Some (Inr (tunnels tm', d), w1))"
  using assms
  by (fastforce simp: tunnel_gc_def gc_run_def [symmetric] tmio_simps split: prod.splits)

lemma tunnel_gc_inv:
  assumes "tunnel_gc W pk S now sysnow tmo hto ifs (tm, w) = Some (r, (tm', w'))" and "tm_inv tm"
  shows "tm_inv tm'"
  using tunnel_gc_split [OF assms(1)]
proof
  assume "\<exists>d w1. gc_run W pk now sysnow tmo hto ifs (tunnels tm) w = Some (Inr (tunnels tm', d), w1)"
  then obtain d w1 where g: "gc_split (\<lambda>i t. tunnel_should_be_kept W pk now sysnow i t hto tmo
      (into_interfaces_hashmap ifs) :: ('a, rita_common_error, bool) rio)
      (tunnel_entries (tunnels tm)) [] [] w = Some (Inr (tunnels tm', d), w1)"
    unfolding gc_run_def by blast
  have "filed ([] :: tunnel_map)" by (simp add: filed_def)
  with g have "filed (tunnels tm')" by (rule gc_split_filed)
  moreover have "mset (all_tunnels (tunnels tm')) + mset (all_tunnels d) = mset (all_tunnels (tunnels tm))"
    using gc_split_mset [OF g] by (simp add: tunnel_entries_snd all_tunnels_def)
  then have sub: "mset (all_tunnels (tunnels tm')) \<subseteq># mset (all_tunnels (tunnels tm))"
    by (rule subst) simp
  ultimately show ?thesis
    using assms(2) distinct_submset [OF sub, of tn_listen_port] distinct_submset [OF sub, of tunnel_key]
    unfolding tm_inv_def ports_distinct_def keys_distinct_def by simp
qed (use assms(2) in simp)

section \<open>Shaping\<close>

lemma rmap_list_map:
  assumes "\<And>x w y w'. x \<in> set xs \<Longrightarrow> f x w = Some (Inr y, w') \<Longrightarrow> h y = g x"
  shows "rmap_list f xs w = Some (Inr ys, w') \<Longrightarrow> map h ys = map g xs"
  using assms
proof (induction xs arbitrary: w ys)
  case (Cons x xs)
  then show ?case by (fastforce simp: rbind_Some_iff rret_def)
qed (simp add: rret_def)

lemma rmap_tunnels_core:
  assumes "rmap_tunnels f m w = Some (Inr m', w')"
    and "\<And>t w t' w'. f t w = Some (Inr t', w') \<Longrightarrow> port_key t' = port_key t"
  shows "tm_core m' = tm_core m"
  unfolding tm_core_def
  using assms(1) unfolding rmap_tunnels_def
proof (rule rmap_list_map [rotated])
  fix x w y w'
  assume "(case x of (i, ts) \<Rightarrow> rbind (rmap_list f ts) (\<lambda>ts'. rret (i, ts'))) w = Some (Inr y, w')"
  then obtain ts' where "rmap_list f (snd x) w = Some (Inr ts', w')" and y: "y = (fst x, ts')"
    by (auto simp: rbind_Some_iff rret_def split: prod.splits)
  then have "map port_key ts' = map port_key (snd x)"
    by (intro rmap_list_map [of "snd x" f port_key port_key]) (auto dest: assms(2))
  then show "(case y of (i, ts) \<Rightarrow> (i, map port_key ts)) = (case x of (i, ts) \<Rightarrow> (i, map port_key ts))"
    using y by (simp add: case_prod_beta)
qed

lemma shape_tunnel_core: "shape_tunnel W C c t w = Some (Inr t', w') \<Longrightarrow> port_key t' = port_key t"
  by (auto simp: shape_tunnel_def port_key_def tunnel_key_def rbind_Some_iff rret_def Let_def
      split: option.splits shaping_adjust_action.splits if_splits)

lemma unshape_tunnel_core: "unshape_tunnel W t w = Some (Inr t', w') \<Longrightarrow> port_key t' = port_key t"
  by (auto simp: unshape_tunnel_def port_key_def tunnel_key_def rbind_Some_iff rret_def split: if_splits)

lemma shape_all_core: "shape_all W C cs m w = Some (Inr m', w') \<Longrightarrow> tm_core m' = tm_core m"
proof (induction cs arbitrary: m w)
  case (Cons c cs)
  then show ?case
    by (auto simp: rbind_Some_iff dest: rmap_tunnels_core [OF _ shape_tunnel_core])
qed (simp add: rret_def)

lemma handle_shaping_inv:
  assumes "handle_shaping W S (tm, w) = Some (r, (tm', w'))" and "tm_inv tm"
  shows "tm_inv tm'"
proof -
  have "tm_core (tunnels tm') = tm_core (tunnels tm)"
    using assms(1)
    by (auto simp: handle_shaping_def tmio_simps Let_def split: if_splits
        dest: shape_all_core rmap_tunnels_core [OF _ unshape_tunnel_core])
  with assms(2) core_cong show ?thesis unfolding tm_inv_def by blast
qed

section \<open>Reachable states\<close>

text \<open>Every state the manager reaches from the empty table by its operations, with any
  answers of the system.\<close>

inductive tm_reach ::
  "'w world \<Rightarrow> (tunnel_open_args \<Rightarrow> ('w, unit) kio) \<Rightarrow> (string \<Rightarrow> wg_key option) \<Rightarrow> tunnel_manager \<Rightarrow> bool"
  for W ot pk where
  init: "tm_reach W ot pk tunnel_manager_new"
| opened: "tm_reach W ot pk tm \<Longrightarrow> open_tunnel W ot S now tid p (tm, w) = Some (r, (tm', w'))
    \<Longrightarrow> tm_reach W ot pk tm'"
| paid: "tm_reach W ot pk tm \<Longrightarrow> tm_tunnel_state_change W P now orc msgs (tm, w) = Some (r, (tm', w'))
    \<Longrightarrow> tm_reach W ot pk tm'"
| collected: "tm_reach W ot pk tm
    \<Longrightarrow> tunnel_gc W pk S now sysnow tmo hto ifs (tm, w) = Some (r, (tm', w'))
    \<Longrightarrow> tm_reach W ot pk tm'"
| shaped: "tm_reach W ot pk tm \<Longrightarrow> handle_shaping W S (tm, w) = Some (r, (tm', w'))
    \<Longrightarrow> tm_reach W ot pk tm'"
| reset: "tm_reach W ot pk tm \<Longrightarrow> tm_reach W ot pk (flag_reset_shaper tm)"
| scheduled: "tm_reach W ot pk tm \<Longrightarrow> tm_reach W ot pk (set_to_shape cs tm)"

lemma tm_reach_inv: "tm_reach W ot pk tm \<Longrightarrow> tm_inv tm"
proof (induction rule: tm_reach.induct)
  case init
  show ?case
    by (simp add: tm_inv_def tunnel_manager_new_def filed_def ports_distinct_def
      keys_distinct_def all_tunnels_def)
qed (auto simp: flag_reset_shaper_def set_to_shape_def tm_inv_def
      intro: open_tunnel_inv [unfolded tm_inv_def] dest: state_change_inv tunnel_gc_inv
        handle_shaping_inv open_tunnel_inv)

end
