(* ===== verification/Tunnel_Enforcement.thy ===== *)
theory Tunnel_Enforcement
  imports Tunnel_Safety
begin

text \<open>
  What enforcement does to the traffic of a peer. The queueing discipline of an interface is
  kept by the kernel and read and changed with \<open>tc\<close>; the locale \<open>tc_laws\<close> holds what
  the sources rely on of that program, and \<open>tc_world\<close> is a system that behaves like it.
\<close>

section \<open>Queueing disciplines\<close>

datatype qdisc = Noqueue | Cake | Fq_codel | Fifo | Tbf | Htb

definition qdisc_name :: "qdisc \<Rightarrow> string" where
  "qdisc_name k = (case k of Noqueue \<Rightarrow> ''noqueue'' | Cake \<Rightarrow> ''cake'' | Fq_codel \<Rightarrow> ''fq_codel''
     | Fifo \<Rightarrow> ''fifo'' | Tbf \<Rightarrow> ''tbf'' | Htb \<Rightarrow> ''htb'')"

definition kind_word :: "qdisc \<Rightarrow> string" where
  "kind_word k = (if k = Fq_codel then ''codel'' else qdisc_name k)"

definition is_limit :: "qdisc \<Rightarrow> bool" where
  "is_limit k \<longleftrightarrow> k = Tbf \<or> k = Htb"

definition show_args :: "string \<Rightarrow> string list" where
  "show_args i = [''qdisc'', ''show'', ''dev'', i]"

definition del_args :: "string \<Rightarrow> string list" where
  "del_args i = [''qdisc'', ''del'', ''dev'', i, ''root'']"

definition root_args :: "string \<Rightarrow> string \<Rightarrow> qdisc \<Rightarrow> string list" where
  "root_args verb i k = [''qdisc'', verb, ''dev'', i, ''root'', ''handle'', ''1:'', qdisc_name k]"

definition tbf_args :: "u32 \<Rightarrow> string list" where
  "tbf_args bw = [''latency'', ''40ms'', ''burst'', dec (unat (bw * 1000)), ''rate'', dec (unat bw) @ ''kbit'']"

text \<open>
  The laws: \<open>show\<close> prints the kind of the discipline and changes nothing, \<open>del\<close> removes a
  discipline that is there, \<open>add\<close> installs a token bucket with a positive burst and rate where
  there is none, \<open>change\<close> refuses to replace a discipline by one of another kind.
\<close>

locale tc_laws =
  fixes W :: "'w world" and qd :: "'w \<Rightarrow> string \<Rightarrow> qdisc" and links :: "string set"
  assumes show_qdisc: "i \<in> links \<Longrightarrow> \<exists>out s. run_command W ''tc'' (show_args i) w = (Inr out, w)
      \<and> co_success out \<and> co_stdout out = Some s
      \<and> (\<forall>k. contains_str s (kind_word k) \<longleftrightarrow> k = qd w i)"
    and del_qdisc: "i \<in> links \<Longrightarrow> qd w i \<noteq> Noqueue \<Longrightarrow>
      \<exists>out w'. run_command W ''tc'' (del_args i) w = (Inr out, w') \<and> co_success out
        \<and> qd w' = (qd w)(i := Noqueue)"
    and add_tbf: "i \<in> links \<Longrightarrow> qd w i = Noqueue \<Longrightarrow> bw \<noteq> 0 \<Longrightarrow> bw * 1000 \<noteq> 0 \<Longrightarrow>
      \<exists>out w'. run_command W ''tc'' (root_args ''add'' i Tbf @ tbf_args bw) w = (Inr out, w')
        \<and> co_success out \<and> qd w' = (qd w)(i := Tbf)"
    and change_refused: "i \<in> links \<Longrightarrow> qd w i \<noteq> Noqueue \<Longrightarrow> k \<noteq> qd w i \<Longrightarrow>
      \<exists>out s. run_command W ''tc'' (root_args ''change'' i k @ rest) w = (Inr out, w)
        \<and> \<not> co_success out \<and> co_stderr out = Some s"
begin

lemma has_qdisc_eq: "i \<in> links \<Longrightarrow> has_qdisc W i w = Some (Inr (qd w i \<noteq> Noqueue), w)"
  using show_qdisc [of i w]
  by (auto simp: has_qdisc_def show_args_def cmd_def rio_defs from_utf8_def kind_word_def qdisc_name_def
      split: qdisc.splits dest: spec [of _ Noqueue])

lemma has_limit_eq: "i \<in> links \<Longrightarrow> has_limit W i w = Some (Inr (is_limit (qd w i)), w)"
proof -
  assume "i \<in> links"
  then obtain out s where run: "run_command W ''tc'' [''qdisc'', ''show'', ''dev'', i] w = (Inr out, w)"
      "co_success out" "co_stdout out = Some s"
    and s: "\<And>k. contains_str s (kind_word k) \<longleftrightarrow> k = qd w i"
    using show_qdisc [of i w] unfolding show_args_def by blast
  have "contains_str s ''htb'' = (qd w i = Htb)" "contains_str s ''tbf'' = (qd w i = Tbf)"
    "contains_str s ''codel'' = (qd w i = Fq_codel)" "contains_str s ''cake'' = (qd w i = Cake)"
    "contains_str s ''noqueue'' = (qd w i = Noqueue)"
    using s [of Htb] s [of Tbf] s [of Fq_codel] s [of Cake] s [of Noqueue]
    by (auto simp: kind_word_def qdisc_name_def)
  with run show ?thesis
    by (cases "qd w i") (auto simp: has_limit_def cmd_def rio_defs from_utf8_def is_limit_def)
qed

lemma delete_qdisc_ok:
  assumes "i \<in> links" and "qd w i \<noteq> Noqueue"
  shows "\<exists>w'. delete_qdisc W i w = Some (Inr (), w') \<and> qd w' = (qd w)(i := Noqueue)"
  using del_qdisc [OF assms] by (auto simp: delete_qdisc_def del_args_def cmd_def rio_defs)

lemma set_classless_limit_ok:
  assumes "i \<in> links" and "bw \<noteq> 0" and "bw * 1000 \<noteq> 0"
  shows "\<exists>w'. set_classless_limit W i bw w = Some (Inr (), w') \<and> qd w' = (qd w)(i := Tbf)"
proof -
  obtain w1 where w1: "(if qd w i \<noteq> Noqueue then delete_qdisc W i else rret ()) w = Some (Inr (), w1)"
    "qd w1 = (qd w)(i := Noqueue)"
    using delete_qdisc_ok [OF assms(1), of w] by (cases "qd w i = Noqueue") (auto simp: rret_def fun_upd_idem)
  obtain out w2 where "run_command W ''tc'' (root_args ''add'' i Tbf @ tbf_args bw) w1 = (Inr out, w2)"
    "co_success out" "qd w2 = (qd w1)(i := Tbf)"
    using add_tbf [OF assms(1) _ assms(2,3), of w1] w1(2) by auto
  with w1 has_qdisc_eq [OF assms(1), of w] show ?thesis
    by (auto simp: set_classless_limit_def rbind_Some_iff cmd_def root_args_def tbf_args_def
        qdisc_name_def rret_def intro!: exI [of _ w2])
qed

lemma bw_limit_overdue:
  assumes "\<forall>t \<in> set ts. tn_iface_name t \<in> links \<and> tn_payment_state t = Overdue"
    and "\<not> potential_payment_issues_detected now orc"
    and "free_tier_throughput P \<noteq> 0" and "free_tier_throughput P * 1000 \<noteq> 0"
  shows "\<exists>w'. tunnel_bw_limit_update W P now orc ts w = Some (Inr (), w')
     \<and> (\<forall>i. qd w' i = (if i \<in> tn_iface_name ` set ts \<and> \<not> is_limit (qd w i) then Tbf else qd w i))"
  using assms(1)
proof (induction ts arbitrary: w)
  case Nil
  then show ?case by (simp add: tunnel_bw_limit_update_def rret_def)
next
  case (Cons t ts)
  let ?i = "tn_iface_name t"
  from Cons.prems have t: "?i \<in> links" "tn_payment_state t = Overdue" by simp_all
  obtain w1 where w1: "(if is_limit (qd w ?i) then rret ()
        else set_classless_limit W ?i (free_tier_throughput P)) w = Some (Inr (), w1)"
    "qd w1 = (if is_limit (qd w ?i) then qd w else (qd w)(?i := Tbf))"
    using set_classless_limit_ok [OF t(1) assms(3,4), of w]
    by (cases "is_limit (qd w ?i)") (auto simp: rret_def)
  obtain w2 where "tunnel_bw_limit_update W P now orc ts w1 = Some (Inr (), w2)"
    "\<forall>i. qd w2 i = (if i \<in> tn_iface_name ` set ts \<and> \<not> is_limit (qd w1 i) then Tbf else qd w1 i)"
    using Cons.IH [of w1] Cons.prems by (metis (no_types) list.set_intros(2))
  with w1 t assms(2) has_limit_eq [OF t(1), of w] show ?case
    by (auto simp: tunnel_bw_limit_update_def rbind_Some_iff is_limit_def rret_def
        intro!: exI [of _ w2] split: if_splits)
qed

lemma set_codel_refused:
  assumes "i \<in> links" and "is_limit (qd w i)"
  shows "set_codel_shaping W i speed w = Some (Inl TrafficControlError, w)"
proof -
  have "qd w i \<noteq> Noqueue" "Cake \<noteq> qd w i" "Fq_codel \<noteq> qd w i" "Fifo \<noteq> qd w i"
    using assms(2) by (auto simp: is_limit_def)
  note r = change_refused [OF assms(1) this(1,2), of "_ @ [''internet'', ''diffserv4'']"]
    change_refused [OF assms(1) this(1,3), of "[''target'', ''100ms'']"]
    change_refused [OF assms(1) this(1,4), of "[]"]
  from r(1) [of "case speed of Some v \<Rightarrow> [''bandwidth'', dec v @ ''mbit''] | None \<Rightarrow> [''unlimited'']"]
    r(2,3) has_qdisc_eq [OF assms(1), of w] \<open>qd w i \<noteq> Noqueue\<close>
  show ?thesis
    by (auto simp: set_codel_shaping_def rio_defs cmd_def root_args_def qdisc_name_def Let_def
        fail_with_stderr_def from_utf8_def)
qed

end

section \<open>A system that obeys the laws\<close>

definition ok_output :: "string \<Rightarrow> cmd_output" where
  "ok_output s = \<lparr>co_success = True, co_stdout = Some s, co_stderr = Some []\<rparr>"

definition failed_output :: "string \<Rightarrow> cmd_output" where
  "failed_output s = \<lparr>co_success = False, co_stdout = Some [], co_stderr = Some s\<rparr>"

definition kind_of :: "string \<Rightarrow> qdisc option" where
  "kind_of s = find (\<lambda>k. qdisc_name k = s) [Cake, Fq_codel, Fifo, Tbf, Htb]"

fun tc_command :: "string list \<Rightarrow> (string \<Rightarrow> qdisc) \<Rightarrow> cmd_output \<times> (string \<Rightarrow> qdisc)" where
  "tc_command (obj # verb # dev # i # rest) q =
     (if obj \<noteq> ''qdisc'' \<or> dev \<noteq> ''dev'' then (failed_output ''syntax'', q)
      else if verb = ''show'' then (ok_output (''qdisc '' @ qdisc_name (q i) @ '' 1: root''), q)
      else if verb = ''del'' then
        (if q i = Noqueue then (failed_output ''Cannot delete qdisc with handle of zero'', q)
         else (ok_output [], q(i := Noqueue)))
      else (case map_option kind_of (nth_opt rest 3) of
          Some (Some k) \<Rightarrow>
            if verb = ''add'' \<and> q i = Noqueue then (ok_output [], q(i := k))
            else if verb = ''change'' \<and> q i = k then (ok_output [], q)
            else (failed_output ''RTNETLINK answers'', q)
        | _ \<Rightarrow> (failed_output ''syntax'', q)))"
| "tc_command _ q = (failed_output ''syntax'', q)"

definition tc_world :: "(string \<Rightarrow> qdisc) world" where
  "tc_world = \<lparr>run_command = (\<lambda>prog args q. let (out, q') = tc_command args q in (Inr out, q')),
     sys_class_net = (\<lambda>_. Inr []), proc_net_udp = (\<lambda>_. Inr []), tcp_connect = (\<lambda>_ w. (Inl (), w)),
     tcp_write = (\<lambda>_ w. (Inl (), w)), tcp_read_op = (\<lambda>w. (ReadIoError, w))\<rparr>"

interpretation sample_tc: tc_laws tc_world "\<lambda>q. q" UNIV
proof
  fix i :: string and w :: "string \<Rightarrow> qdisc"
  have "contains_str (''qdisc '' @ qdisc_name (w i) @ '' 1: root'') (kind_word k) \<longleftrightarrow> k = w i" for k
    by (cases "w i"; cases k) (simp_all add: qdisc_name_def kind_word_def)
  then show "\<exists>out s. run_command tc_world ''tc'' (show_args i) w = (Inr out, w) \<and> co_success out
      \<and> co_stdout out = Some s \<and> (\<forall>k. contains_str s (kind_word k) \<longleftrightarrow> k = w i)"
    by (simp add: tc_world_def show_args_def ok_output_def)
next
  fix i :: string and w :: "string \<Rightarrow> qdisc" and k rest
  assume "w i \<noteq> Noqueue" and "k \<noteq> w i"
  then show "\<exists>out s. run_command tc_world ''tc'' (root_args ''change'' i k @ rest) w = (Inr out, w)
      \<and> \<not> co_success out \<and> co_stderr out = Some s"
    by (cases k) (auto simp: tc_world_def root_args_def nth_opt_def kind_of_def qdisc_name_def
        failed_output_def)
qed (auto simp: tc_world_def del_args_def root_args_def ok_output_def nth_opt_def kind_of_def
    qdisc_name_def)

section \<open>Enforcement\<close>

lemma map_of_replace:
  "map_of (map (\<lambda>(j, l). (j, if j = i then x else l)) m) i = map_option (\<lambda>_. x) (map_of m i)"
  by (induction m) auto

lemma payment_change_step:
  assumes "map_of (tunnels tm) i = Some ts"
    and "tunnel_bw_limit_update W P now orc (map (apply_action a) ts) w = Some (r, w')"
  shows "\<exists>tm'. tunnel_payment_state_change W P now orc \<lparr>tc_identity = i, tc_action = a\<rparr> (tm, w)
       = Some (Ok (), (tm', w')) \<and> map_of (tunnels tm') i = Some (map (apply_action a) ts)"
  using assms
  by (simp add: tunnel_payment_state_change_def get_tm_def put_tm_def Let_def on_world_def
      rignore_def rio_defs map_of_replace)

text \<open>C7: When a peer's payment is overdue and the view of the blockchain is fresh, changing the
  payment state marks every tunnel of the peer overdue and leaves a bandwidth limit on every one
  of their interfaces; the queueing disciplines of all other interfaces stay as they are.\<close>

theorem overdue_peer_is_limited:
  assumes "tc_laws W qd links" and "map_of (tunnels tm) i = Some ts"
    and "\<forall>t \<in> set ts. tn_iface_name t \<in> links" and "\<not> potential_payment_issues_detected now orc"
    and "free_tier_throughput P \<noteq> 0" and "free_tier_throughput P * 1000 \<noteq> 0"
  shows "\<exists>tm' w'. tunnel_payment_state_change W P now orc
       \<lparr>tc_identity = i, tc_action = PaymentOverdue\<rparr> (tm, w) = Some (Ok (), (tm', w'))
     \<and> (\<exists>ts'. map_of (tunnels tm') i = Some ts' \<and> map tn_iface_name ts' = map tn_iface_name ts
         \<and> (\<forall>t \<in> set ts'. tn_payment_state t = Overdue \<and> is_limit (qd w' (tn_iface_name t))))
     \<and> (\<forall>j. j \<notin> tn_iface_name ` set ts \<longrightarrow> qd w' j = qd w j)"
proof -
  let ?ts = "map (apply_action PaymentOverdue) ts"
  have od: "\<forall>t \<in> set ?ts. tn_iface_name t \<in> links \<and> tn_payment_state t = Overdue"
    using assms(3) by (auto simp: apply_action_def split: payment_state.splits)
  have names: "map tn_iface_name ?ts = map tn_iface_name ts" by (simp add: apply_action_core)
  then have img: "tn_iface_name ` set ?ts = tn_iface_name ` set ts" by (metis set_map)
  obtain w' where run: "tunnel_bw_limit_update W P now orc ?ts w = Some (Inr (), w')"
    and q: "\<forall>j. qd w' j = (if j \<in> tn_iface_name ` set ?ts \<and> \<not> is_limit (qd w j) then Tbf else qd w j)"
    using tc_laws.bw_limit_overdue [OF assms(1) od assms(4,5,6)] by blast
  have lim: "\<forall>t \<in> set ?ts. is_limit (qd w' (tn_iface_name t))"
    using q by (auto simp: is_limit_def)
  have lim': "\<forall>t \<in> set ?ts. tn_payment_state t = Overdue \<and> is_limit (qd w' (tn_iface_name t))"
    using od lim by blast
  have frame: "\<forall>j. j \<notin> tn_iface_name ` set ts \<longrightarrow> qd w' j = qd w j" using q img by simp
  from payment_change_step [OF assms(2) run] names lim' frame show ?thesis by blast
qed

definition sample_tunnel :: "string \<Rightarrow> payment_state \<Rightarrow> tunnel" where
  "sample_tunnel name st = \<lparr>tn_ip = V6 5, tn_iface_name = name, tn_listen_ifidx = 2, tn_listen_port = 60000,
     tn_neigh_id = \<lparr>wg_port = 60001, have_tunnel = Some True,
       global_id = \<lparr>mesh_ip = V6 7, eth_address = 7, wg_public_key = 7\<rparr>\<rparr>,
     tn_last_contact = 0, tn_created = 0, tn_speed_limit = None, tn_payment_state = st\<rparr>"

definition sample_table :: "payment_state \<Rightarrow> tunnel_manager" where
  "sample_table st = tunnel_manager_new\<lparr>tunnels :=
     [(\<lparr>mesh_ip = V6 7, eth_address = 7, wg_public_key = 7\<rparr>, [sample_tunnel ''wg0'' st])]\<rparr>"

lemma overdue_peer_is_limited_witness:
  "\<exists>tm' w'. tunnel_payment_state_change tc_world payment_settings_default 5
       \<lparr>or_balance = None, or_last_seen_block = None, or_last_updated = Some 5\<rparr>
       \<lparr>tc_identity = \<lparr>mesh_ip = V6 7, eth_address = 7, wg_public_key = 7\<rparr>, tc_action = PaymentOverdue\<rparr>
       (sample_table Paid, \<lambda>_. Noqueue) = Some (Ok (), (tm', w')) \<and> is_limit (w' ''wg0'')"
proof -
  let ?i = "\<lparr>mesh_ip = V6 7, eth_address = 7, wg_public_key = 7\<rparr>"
  have "map_of (tunnels (sample_table Paid)) ?i = Some [sample_tunnel ''wg0'' Paid]"
    by (simp add: sample_table_def sample_tunnel_def tunnel_manager_new_def)
  from overdue_peer_is_limited [OF sample_tc.tc_laws_axioms this, of 5
      "\<lparr>or_balance = None, or_last_seen_block = None, or_last_updated = Some 5\<rparr>"
      payment_settings_default "\<lambda>_. Noqueue"]
  show ?thesis
    by (fastforce simp: potential_payment_issues_detected_def sample_tunnel_def OUTDATED_TIME_def
        from_secs_def payment_settings_default_def)
qed

text \<open>C8: The limit is not taken off again: when an overdue peer pays, the tunnels are marked paid, but
  removing the limit asks \<open>tc\<close> to change the discipline in place, which is refused for a
  discipline of another kind, so nothing changes on the interfaces and the error is only logged.\<close>

theorem limit_survives_payment:
  assumes "tc_laws W qd links" and "map_of (tunnels tm) i = Some ts"
    and "\<forall>t \<in> set ts. tn_iface_name t \<in> links \<and> is_limit (qd w (tn_iface_name t))"
  shows "\<exists>tm'. tunnel_payment_state_change W P now orc
       \<lparr>tc_identity = i, tc_action = PaidOnTime\<rparr> (tm, w) = Some (Ok (), (tm', w))
     \<and> (\<forall>l t. map_of (tunnels tm') i = Some l \<and> t \<in> set l \<longrightarrow> tn_payment_state t = Paid)"
proof -
  let ?ts = "map (apply_action PaidOnTime) ts"
  have paid: "\<forall>t \<in> set ?ts. tn_payment_state t = Paid"
    by (auto simp: apply_action_def split: payment_state.splits)
  have limited: "\<forall>t \<in> set ?ts. tn_iface_name t \<in> links \<and> is_limit (qd w (tn_iface_name t))"
    using assms(3) by (auto simp: apply_action_core)
  have "\<exists>r. tunnel_bw_limit_update W P now orc ?ts w = Some (r, w)"
    using limited paid
    by (cases ts) (auto simp: tunnel_bw_limit_update_def rbind_def rret_def
        tc_laws.has_limit_eq [OF assms(1)] tc_laws.set_codel_refused [OF assms(1)])
  then obtain r where run: "tunnel_bw_limit_update W P now orc ?ts w = Some (r, w)" by blast
  from payment_change_step [OF assms(2) run] paid show ?thesis by auto
qed

lemma limit_survives_payment_witness:
  "\<exists>tm'. tunnel_payment_state_change tc_world payment_settings_default 5 blockchain_oracle_new
       \<lparr>tc_identity = \<lparr>mesh_ip = V6 7, eth_address = 7, wg_public_key = 7\<rparr>, tc_action = PaidOnTime\<rparr>
       (sample_table Overdue, \<lambda>_. Tbf) = Some (Ok (), (tm', \<lambda>_. Tbf))"
proof -
  let ?i = "\<lparr>mesh_ip = V6 7, eth_address = 7, wg_public_key = 7\<rparr>"
  have "map_of (tunnels (sample_table Overdue)) ?i = Some [sample_tunnel ''wg0'' Overdue]"
    by (simp add: sample_table_def sample_tunnel_def tunnel_manager_new_def)
  from limit_survives_payment [OF sample_tc.tc_laws_axioms this, of "\<lambda>_. Tbf"
      payment_settings_default 5 blockchain_oracle_new]
  show ?thesis by (auto simp: is_limit_def)
qed

end
