(* ===== verification/Tunnel_Properties.thy ===== *)
theory Tunnel_Properties
  imports Tunnel_Enforcement
begin

text \<open>
  The properties of the tunnel manager over its reachable states and operations: a well-formed
  table, free ports, the result of \<open>open_tunnel\<close>, what garbage collection keeps and the bounds
  the shaper respects.
\<close>

section \<open>A system in which every command succeeds\<close>

text \<open>The routing daemon answers every read with its preamble and the terminator.\<close>

definition babel_answer :: string where
  "babel_answer = ''ALTHEA 0.1'' @ [LF] @ ''ok'' @ [LF]"

definition live_world :: "unit world" where
  "live_world = \<lparr>run_command = (\<lambda>_ _ w. (Inr (ok_output []), w)), sys_class_net = (\<lambda>_. Inr []),
     proc_net_udp = (\<lambda>_. Inr []), tcp_connect = (\<lambda>_ w. (Inr (), w)),
     tcp_write = (\<lambda>_ w. (Inr (), w)), tcp_read_op = (\<lambda>w. (ReadBytes 14 (Some babel_answer), w))\<rparr>"

lemma live_read_babel: "read_babel live_world [] 0 w = Some (Inr babel_answer, w)"
  by (subst read_babel.simps)
    (simp add: live_world_def babel_answer_def trim_nul_def BUFFER_SIZE_def read_babel_sync_def
      lines_of_def strip_cr_def LF_def CR_def TAB_def trim_def is_whitespace_def Let_def)

lemma live_open_babel_stream: "open_babel_stream live_world port w = Some (Inr (), w)"
  unfolding open_babel_stream_def rbind_def live_read_babel
  by (simp add: live_world_def rlift_def validate_preamble_def babel_answer_def contains_str.simps LF_def)


lemma live_babel_run_command: "babel_run_command live_world c w = Some (Inr babel_answer, w)"
  unfolding babel_run_command_def rbind_def live_read_babel by (simp add: live_world_def)

lemma live_has_qdisc: "has_qdisc live_world i w = Some (Inr True, w)"
  by (simp add: has_qdisc_def rio_defs cmd_def live_world_def ok_output_def from_utf8_def)

lemma live_set_codel_shaping: "set_codel_shaping live_world i v w = Some (Inr (), w)"
  unfolding set_codel_shaping_def rbind_def live_has_qdisc
  by (simp add: cmd_def live_world_def ok_output_def rret_def Let_def)

lemma dec_0: "dec 0 = ''0''"
  by code_simp

lemma wg_retry_done: "wg_retry W k n (Inr ()) = rret (wg_name n)"
  by (cases k) (simp_all add: rlift_def rret_def rbind_def)

lemma live_wg: "create_blank_wg_numbered_wg_interface live_world w = Some (Inr ''wg0'', w)"
  by (simp add: create_blank_wg_numbered_wg_interface_def get_interfaces_def rio_defs live_world_def
      first_free_wg.simps create_blank_wg_interface_def cmd_def ok_output_def from_utf8_def wg_retry_done [unfolded rret_def]
      wg_name_def dec_0)

lemma first_free_port_start:
  "start \<notin> set udp \<Longrightarrow> start \<notin> set used \<Longrightarrow> unat start < 65535 \<Longrightarrow>
     first_free_port udp used start = Some start"
  by (simp add: first_free_port_def upt_conv_Cons)

definition sample_net :: rita_settings where
  "sample_net = \<lparr>payment = payment_settings_default,
     network = network_settings_default\<lparr>net_mesh_ip := Some (V6 1), wg_start_port := 60000\<rparr>,
     settings_identity = None\<rparr>"

definition sample_their_id :: local_identity where
  "sample_their_id = \<lparr>wg_port = 60001, have_tunnel = Some True,
     global_id = \<lparr>mesh_ip = V6 7, eth_address = 7, wg_public_key = 7\<rparr>\<rparr>"

definition sample_opened :: tunnel_manager where
  "sample_opened = tunnel_manager_new\<lparr>tunnels :=
     [(global_id sample_their_id, [sample_tunnel ''wg0'' Paid])]\<rparr>"

lemma live_open_tunnel:
  "open_tunnel live_world (\<lambda>_. rret ()) sample_net 0 sample_their_id \<lparr>peer_ifidx = 2, peer_ip = V6 5, peer_port = 4876\<rparr>
     (tunnel_manager_new, ()) = Some (Ok (sample_tunnel ''wg0'' Paid, False), (sample_opened, ()))"
proof -
  have "used_ports live_world w = Some (Inr [], w)" for w
    by (simp add: used_ports_def rio_defs live_world_def udp_ports_def map_filter_simps)
  then have port: "get_next_available_port live_world sample_net tunnel_manager_new w = Some (Inr 60000, w)" for w
    by (simp add: get_next_available_port_def rio_defs sample_net_def get_all_used_ports_def
        tunnel_manager_new_def all_tunnels_def first_free_port_start)
  have "tunnel_new live_world (\<lambda>_. rret ()) sample_net 0 (V6 5) 60000 2 sample_their_id w
      = Some (Inr (sample_tunnel ''wg0'' Paid), w)" for w
    by (simp add: tunnel_new_def sample_net_def rio_defs live_wg rignore_def live_set_codel_shaping
        tunnel_monitor_def live_open_babel_stream monitor_def live_babel_run_command Let_def
        sample_tunnel_def sample_their_id_def)
  with port show ?thesis
    by (simp add: open_tunnel_def add_new_tunnel_to_list_def rio_defs get_tm_def put_tm_def on_world_def
        tunnel_manager_new_def sample_opened_def sample_tunnel_def sample_their_id_def Let_def)
qed

section \<open>The table\<close>

text \<open>C6: In every state the tunnel manager reaches, whatever the system answers to its commands, the
  table files each tunnel under its peer's identity, no two tunnels listen on the same port, and
  there is at most one tunnel to an identity over one interface and address.\<close>

theorem reachable_tables_are_wellformed:
  "tm_reach W ot pk tm \<Longrightarrow>
     filed (tunnels tm) \<and> ports_distinct (tunnels tm) \<and> keys_distinct (tunnels tm)"
  using tm_reach_inv unfolding tm_inv_def by blast

lemma reachable_tables_are_wellformed_witness:
  "\<exists>tm. length (all_tunnels (tunnels tm)) = 1 \<and> tm_reach live_world (\<lambda>_. rret ()) (\<lambda>_. None) tm
     \<and> filed (tunnels tm) \<and> ports_distinct (tunnels tm) \<and> keys_distinct (tunnels tm)"
proof -
  have "tm_reach live_world (\<lambda>_. rret ()) (\<lambda>_. None) sample_opened"
    by (rule tm_reach.opened [OF tm_reach.init live_open_tunnel])
  from this reachable_tables_are_wellformed [OF this] show ?thesis
    by (intro exI [of _ sample_opened]) (simp add: sample_opened_def all_tunnels_def)
qed

lemma first_free_port_least:
  assumes "first_free_port udp used start = Some p" and "start \<le> q" and "q < p"
  shows "q \<in> set udp \<or> q \<in> set used"
proof -
  let ?xs = "map word_of_nat [unat start..<65535] :: u16 list"
  obtain i where i: "i < length ?xs" "p = ?xs ! i"
    and before: "\<forall>j<i. \<not> \<not> (?xs ! j \<in> set udp \<or> ?xs ! j \<in> set used)"
    using assms(1) unfolding first_free_port_def find_Some_iff by blast
  have "p = word_of_nat (unat start + i)" and "unat start + i < 65535" using i by simp_all
  then have p: "unat p = unat start + i" by (simp add: unat_of_nat del: of_nat_add)
  define j where "j = unat q - unat start"
  have j: "j < i" "unat q = unat start + j"
    using assms(2,3) p by (auto simp: j_def word_le_nat_alt word_less_nat_alt)
  have "?xs ! j = word_of_nat (unat start + j)" using i(1) j(1) by simp
  then have "?xs ! j = q" by (simp flip: j(2))
  with before j(1) show ?thesis by auto
qed

text \<open>When the socket table can be read, asking for a port gives the lowest port from the configured
  start to 65534 that neither a socket nor a tunnel uses, and the error for no free port exactly
  when every port in that range is in use.\<close>

theorem next_port_is_least_free:
  assumes "proc_net_udp W w = Ok table"
  shows "(\<exists>p. get_next_available_port W S tm w = Some (Ok p, w)
        \<and> wg_start_port (network S) \<le> p \<and> unat p < 65535
        \<and> p \<notin> set (udp_ports table) \<union> set (get_all_used_ports tm)
        \<and> {q. wg_start_port (network S) \<le> q \<and> q < p} \<subseteq> set (udp_ports table) \<union> set (get_all_used_ports tm))
     \<or> get_next_available_port W S tm w = Some (Err NoFreePortsError, w)
        \<and> {q. wg_start_port (network S) \<le> q \<and> unat q < 65535} \<subseteq> set (udp_ports table) \<union> set (get_all_used_ports tm)"
proof (cases "first_free_port (udp_ports table) (get_all_used_ports tm) (wg_start_port (network S))")
  case None
  then have "get_next_available_port W S tm w = Some (Err NoFreePortsError, w)"
    using assms by (simp add: get_next_available_port_def used_ports_def rio_defs)
  with first_free_port_None [OF None] show ?thesis by blast
next
  case (Some p)
  then have "get_next_available_port W S tm w = Some (Ok p, w)"
    using assms by (simp add: get_next_available_port_def used_ports_def rio_defs)
  with first_free_port_Some [OF Some] first_free_port_least [OF Some] show ?thesis by blast
qed

lemma next_port_is_least_free_witness:
  "get_next_available_port live_world sample_net sample_opened () = Some (Ok 60001, ())"
proof -
  have used: "udp_ports [] = []" "get_all_used_ports sample_opened = [60000]"
    by (simp_all add: udp_ports_def map_filter_simps get_all_used_ports_def sample_opened_def
        all_tunnels_def sample_tunnel_def)
  have start: "wg_start_port (network sample_net) = 60000" by (simp add: sample_net_def)
  have "60001 \<in> {q :: u16. 60000 \<le> q \<and> unat q < 65535}" by simp
  moreover have "60001 \<notin> set [] \<union> set [60000 :: u16]" by simp
  ultimately have busy: "\<not> {q :: u16. 60000 \<le> q \<and> unat q < 65535} \<subseteq> set [] \<union> set [60000]" by blast
  have p: "p = 60001" if "60000 \<le> p" "p \<notin> set [] \<union> set [60000]"
    "{q. 60000 \<le> q \<and> q < p} \<subseteq> set [] \<union> set [60000]" for p :: u16
  proof -
    have "60001 < p \<Longrightarrow> 60001 \<in> set [] \<union> set [60000 :: u16]" using that(3) by (rule subsetD) simp
    then have "\<not> 60001 < p" by auto
    with that(1,2) show ?thesis by (simp add: word_le_nat_alt word_less_nat_alt word_unat_eq_iff)
  qed
  from next_port_is_least_free [of live_world "()" "[]" sample_net sample_opened] busy p
  show ?thesis unfolding used start by (auto simp: live_world_def)
qed


section \<open>Opening a tunnel\<close>

lemma update_first_filter:
  "(\<And>x. P x \<Longrightarrow> \<not> Q x) \<Longrightarrow> (\<And>x. P x \<Longrightarrow> \<not> Q (f x)) \<Longrightarrow> filter Q (update_first P f xs) = filter Q xs"
  by (induction xs) auto

lemma set_tunnel_mut_others:
  assumes "\<And>t. tunnel_key (f t) = tunnel_key t"
  shows "filter (\<lambda>t. tunnel_key t \<noteq> (ifidx, ip, i)) (all_tunnels (set_tunnel_mut ifidx ip i f m))
     = filter (\<lambda>t. tunnel_key t \<noteq> (ifidx, ip, i)) (all_tunnels m)"
  using assms
  by (induction ifidx ip i f m rule: set_tunnel_mut.induct)
    (auto simp: all_tunnels_def is_tunnel_for_key intro!: update_first_filter)

lemma update_first_hit: "find P xs = Some x \<Longrightarrow> f x \<in> set (update_first P f xs)"
  by (induction xs) (auto split: if_splits)

lemma set_tunnel_mut_hit:
  "get_tunnel_mut ifidx ip i m = Some t \<Longrightarrow> f t \<in> set (all_tunnels (set_tunnel_mut ifidx ip i f m))"
proof (induction ifidx ip i m rule: get_tunnel_mut.induct)
  case (2 ifidx ip i k ts rest)
  show ?case
  proof (cases "find (\<lambda>t. is_tunnel_for ifidx ip i t \<and> k = i) ts")
    case None
    then have "\<not> (k = i \<and> (\<exists>t \<in> set ts. is_tunnel_for ifidx ip i t))"
      using find_NoneD [OF None] by auto
    with 2 None show ?thesis by (auto simp: all_tunnels_def)
  next
    case (Some x)
    from find_SomeD [OF Some] have k: "k = i" and x: "x \<in> set ts" "is_tunnel_for ifidx ip i x" by auto
    with Some have "find (is_tunnel_for ifidx ip i) ts = Some x" by simp
    from update_first_hit [OF this] 2(2) Some k x show ?thesis by (auto simp: all_tunnels_def)
  qed
qed simp

lemma add_new_tunnel_Ok:
  assumes "add_new_tunnel_to_list W ot S now ip ifidx tid (tm, w) = Some (Inr t, (tm', w'))"
  shows "tunnels tm' = insert_into_tunnel_list t (tunnels tm) \<and> tunnel_key t = (ifidx, ip, global_id tid)
     \<and> tn_last_contact t = now"
proof -
  obtain port w1 w2 where t: "tunnel_new W ot S now ip port ifidx tid w1 = Some (Inr t, w2)"
    and tm': "tunnels tm' = insert_into_tunnel_list t (tunnels tm)"
    using assms
    by (auto simp: add_new_tunnel_to_list_def tmio_simps rmap_err_def rret_def split: rita_splits)
  with rpostD [OF tunnel_new_post t] show ?thesis by (simp add: tunnel_key_def)
qed

definition hello_key :: "peer \<Rightarrow> local_identity \<Rightarrow> u32 \<times> ip_addr \<times> identity" where
  "hello_key p tid = (peer_ifidx p, peer_ip p, global_id tid)"

definition other_tunnels :: "u32 \<times> ip_addr \<times> identity \<Rightarrow> tunnel_map \<Rightarrow> tunnel multiset" where
  "other_tunnels K m = mset (filter (\<lambda>t. tunnel_key t \<noteq> K) (all_tunnels m))"

lemma other_insert: "tunnel_key t = K \<Longrightarrow> other_tunnels K (insert_into_tunnel_list t m) = other_tunnels K m"
  by (simp add: other_tunnels_def mset_filter insert_mset)

lemma other_del: "tunnel_key t = K \<Longrightarrow> other_tunnels K (del_tunnel t m) = other_tunnels K m"
  by (simp add: other_tunnels_def del_all_tunnels same_tunnel_key conj_commute eq_commute [of K] cong: filter_cong)

lemma insert_member: "t \<in> set (all_tunnels (insert_into_tunnel_list t m))"
  using arg_cong [OF insert_mset, of set_mset t m] by simp

text \<open>Opening a tunnel for a hello either fails or ends with a tunnel to that identity over that
  interface and address in the table, contacted now; it says whether there was one before; and all
  tunnels to other identities, interfaces or addresses are untouched.\<close>

theorem open_tunnel_result:
  assumes "open_tunnel W ot S now tid p (tm, w) = Some (Ok (t, existed), (tm', w'))" and "tm_inv tm"
  shows "t \<in> set (all_tunnels (tunnels tm')) \<and> tunnel_key t = hello_key p tid \<and> tn_last_contact t = now
     \<and> (existed \<longleftrightarrow> hello_key p tid \<in> tunnel_key ` set (all_tunnels (tunnels tm)))
     \<and> other_tunnels (hello_key p tid) (tunnels tm') = other_tunnels (hello_key p tid) (tunnels tm)"
proof (cases "get_tunnel_mut (peer_ifidx p) (peer_ip p) (global_id tid) (tunnels tm)")
  case None
  with assms(1) have "add_new_tunnel_to_list W ot S now (peer_ip p) (peer_ifidx p) tid (tm, w)
      = Some (Inr t, (tm', w'))" and "\<not> existed"
    by (auto simp: open_tunnel_def tmio_simps rret_def Let_def)
  with add_new_tunnel_Ok [OF this(1)] get_tunnel_mut_None [OF None] assms(2) show ?thesis
    by (simp add: hello_key_def insert_member other_insert tm_inv_def)
next
  case (Some x)
  let ?x = "x\<lparr>tn_last_contact := now\<rparr>"
  define touched where "touched = set_tunnel_mut (peer_ifidx p) (peer_ip p) (global_id tid)
    (\<lambda>t. t\<lparr>tn_last_contact := now\<rparr>) (tunnels tm)"
  have x: "x \<in> set (all_tunnels (tunnels tm))" "tunnel_key x = hello_key p tid"
    using get_tunnel_mut_Some [OF Some] by (simp_all add: hello_key_def)
  then have K: "tunnel_key ?x = hello_key p tid" by (simp add: tunnel_key_def)
  from x have known: "hello_key p tid \<in> tunnel_key ` set (all_tunnels (tunnels tm))" by (metis imageI)
  have others: "other_tunnels (hello_key p tid) touched = other_tunnels (hello_key p tid) (tunnels tm)"
    unfolding other_tunnels_def touched_def hello_key_def
    by (subst set_tunnel_mut_others) (simp_all add: tunnel_key_def)
  have hit: "?x \<in> set (all_tunnels touched)"
    unfolding touched_def by (rule set_tunnel_mut_hit [OF Some])
  consider (reused) "t = ?x" "tunnels tm' = touched" existed
    | (replaced) w1 where existed "add_new_tunnel_to_list W ot S now (peer_ip p) (peer_ifidx p) tid
          (tm\<lparr>tunnels := del_tunnel ?x touched\<rparr>, w1) = Some (Inr t, (tm', w'))"
    using assms(1) Some
    by (auto simp: open_tunnel_def tmio_simps rret_def Let_def touched_def [symmetric] split: if_splits)
  then show ?thesis
  proof cases
    case reused
    with hit K others known show ?thesis by simp
  next
    case replaced
    with add_new_tunnel_Ok [OF replaced(2)] others known show ?thesis
      by (simp add: insert_member other_insert other_del [OF K] flip: hello_key_def)
  qed
qed

lemma open_tunnel_result_witness:
  "sample_tunnel ''wg0'' Paid \<in> set (all_tunnels (tunnels sample_opened))
     \<and> tunnel_key (sample_tunnel ''wg0'' Paid) = hello_key \<lparr>peer_ifidx = 2, peer_ip = V6 5, peer_port = 4876\<rparr> sample_their_id"
  using open_tunnel_result [OF live_open_tunnel tm_reach_inv [OF tm_reach.init]] by blast

section \<open>Garbage collection\<close>

text \<open>What is kept: tunnels whose times lie ahead of the clock, young ones, and those that are up and
  have a recent handshake. \<open>hs\<close> is what \<open>wg\<close> answers for an interface.\<close>

definition gc_keeps ::
  "instant \<Rightarrow> instant \<Rightarrow> duration \<Rightarrow> duration \<Rightarrow> (string \<Rightarrow> bool option)
     \<Rightarrow> (string \<Rightarrow> kernel_interface_error + (wg_key \<times> instant) list) \<Rightarrow> tunnel \<Rightarrow> bool" where
  "gc_keeps now sysnow tmo hto ups hs t \<longleftrightarrow>
     now < tn_created t \<or> now < tn_last_contact t \<or> now - tn_created t < tmo
     \<or> (tunnel_up ups (tn_iface_name t)
        \<and> (\<exists>l. hs (tn_iface_name t) = Inr l \<and> handshake_recent sysnow hto l))"

lemma should_be_kept_eq:
  assumes "\<And>n w. get_last_handshake_time W pk n w = Some (hs n, w)"
    and "i = global_id (tn_neigh_id t)"
  shows "tunnel_should_be_kept W pk now sysnow i t hto tmo ups w
     = Some (Inr (gc_keeps now sysnow tmo hto ups hs t), w)"
  using assms
  by (cases "hs (tn_iface_name t)")
    (auto simp: tunnel_should_be_kept_def checked_duration_since_def check_handshake_time_def
      rio_defs gc_table_eq gc_keeps_def)

lemma gc_split_filter:
  assumes "\<And>i t w. (i, t) \<in> set es \<Longrightarrow> keep i t w = Some (Inr (K t), w)"
  shows "\<exists>g d. gc_split keep es good del w = Some (Inr (g, d), w)
     \<and> mset (all_tunnels g) = mset (all_tunnels good) + mset (filter K (map snd es))"
  using assms
proof (induction es arbitrary: good del)
  case (Cons e es)
  obtain i t where e: "e = (i, t)" by (cases e)
  with Cons.prems have "keep i t w = Some (Inr (K t), w)" by simp
  with Cons.IH [OF Cons.prems, of "insert_into_tunnel_list t good" del]
    Cons.IH [OF Cons.prems, of good "insert_into_tunnel_list t del"]
  show ?case by (cases "K t") (auto simp: e rbind_def insert_mset)
qed (simp add: rret_def)

text \<open>C9: A run of the garbage collector that returns keeps exactly the tunnels that are younger than
  the timeout, or that are up with a handshake within the handshake timeout, or whose times
  are ahead of the clock; the contact timeout alone never removes a tunnel.\<close>

theorem gc_keeps_exactly:
  assumes "\<forall>n w. get_last_handshake_time W pk n w = Some (hs n, w)" and "filed (tunnels tm)"
    and "tunnel_gc W pk S now sysnow tmo hto ifs (tm, w) = Some (r, (tm', w'))"
  shows "mset (all_tunnels (tunnels tm')) = filter_mset
     (gc_keeps now sysnow tmo hto (into_interfaces_hashmap ifs) hs) (mset (all_tunnels (tunnels tm)))"
proof -
  let ?K = "gc_keeps now sysnow tmo hto (into_interfaces_hashmap ifs) hs"
  let ?keep = "\<lambda>i t. tunnel_should_be_kept W pk now sysnow i t hto tmo (into_interfaces_hashmap ifs)
    :: ('a, rita_common_error, bool) rio"
  have keep: "?keep i t v = Some (Inr (?K t), v)" if "(i, t) \<in> set (tunnel_entries (tunnels tm))" for i t v
    using that assms(1,2) by (intro should_be_kept_eq) (auto simp: tunnel_entries_def filed_def)
  obtain g d where "gc_split ?keep (tunnel_entries (tunnels tm)) [] [] w = Some (Inr (g, d), w)"
    and g: "mset (all_tunnels g) = mset (all_tunnels []) + mset (filter ?K (map snd (tunnel_entries (tunnels tm))))"
    using gc_split_filter [of "tunnel_entries (tunnels tm)" ?keep ?K "[]" "[]" w, OF keep] by blast
  with assms(3) have "tunnels tm' = g"
    by (auto simp: tunnel_gc_def rbind_Some_iff get_tm_def put_tm_def on_world_Some)
  with g show ?thesis by (simp add: tunnel_entries_snd mset_filter all_tunnels_def)
qed

lemma gc_keeps_exactly_witness:
  "\<exists>r tm' w'. tunnel_gc dead_world (\<lambda>_. None) sample_net (from_secs 900) 0 (from_secs 900) (from_secs 900) []
       (sample_opened, ()) = Some (r, (tm', w')) \<and> all_tunnels (tunnels tm') = []"
proof -
  let ?hs = "\<lambda>n :: string. Inl RuntimeError :: kernel_interface_error + (wg_key \<times> instant) list"
  have hs: "\<forall>n w. get_last_handshake_time dead_world (\<lambda>_. None) n w = Some (?hs n, w)"
    by (simp add: get_last_handshake_time_def rio_defs cmd_def dead_world_def)
  have un: "tunnel_unmonitor dead_world S t w = Some (Inl (BabelMonitorError ReadFunctionError), w)" for S t w
    by (simp add: tunnel_unmonitor_def rio_defs open_babel_stream_def dead_world_def)
  have inv: "filed (tunnels sample_opened)"
    by (simp add: filed_def sample_opened_def sample_tunnel_def sample_their_id_def)
  have "\<exists>r tm' w'. tunnel_gc dead_world (\<lambda>_. None) sample_net (from_secs 900) 0 (from_secs 900)
      (from_secs 900) [] (sample_opened, ()) = Some (r, (tm', w'))"
    by (simp add: tunnel_gc_def rio_defs get_tm_def put_tm_def on_world_def sample_opened_def
        tunnel_entries_def tunnel_should_be_kept_def checked_duration_since_def check_handshake_time_def hs
        sample_tunnel_def sample_their_id_def unmonitor_tunnels_def all_tunnels_def rignore_def un)
  then obtain r tm' w' where run: "tunnel_gc dead_world (\<lambda>_. None) sample_net (from_secs 900) 0
      (from_secs 900) (from_secs 900) [] (sample_opened, ()) = Some (r, (tm', w'))" by blast
  from gc_keeps_exactly [OF hs inv run] have "all_tunnels (tunnels tm') = []"
    by (simp add: sample_opened_def sample_tunnel_def all_tunnels_def gc_keeps_def)
  with run show ?thesis by blast
qed


section \<open>The shaper\<close>

lemma bit_len_bound: "0 < m \<Longrightarrow> 2 ^ (bit_len m - 1) \<le> m"
proof (induction m rule: bit_len.induct)
  case (1 m)
  show ?case
  proof (cases "m div 2 = 0")
    case True
    with 1 show ?thesis by (simp add: bit_len.simps [of m] bit_len.simps [of 0])
  next
    case False
    with 1 have IH: "2 ^ (bit_len (m div 2) - 1) \<le> m div 2" by simp
    have "0 < bit_len (m div 2)" using False by (simp add: bit_len.simps [of "m div 2"])
    then obtain k where k: "bit_len (m div 2) = Suc k" using gr0_implies_Suc by blast
    have "bit_len m = Suc (Suc k)" using 1(2) k by (simp add: bit_len.simps [of m])
    with IH k show ?thesis by simp
  qed
qed

text \<open>Rounding to 24 bits changes a number by at most one part in \<open>2 ^ 24\<close>.\<close>

lemma round24_bounds: "round24 m * 2 ^ 24 \<le> m * (2 ^ 24 + 1)" "m * (2 ^ 24 - 1) \<le> round24 m * 2 ^ 24"
proof -
  define s where "s = bit_len m - 24"
  define q r where "q = m div 2 ^ s" and "r = m mod 2 ^ s"
  have m: "m = q * 2 ^ s + r" by (simp only: q_def r_def div_mult_mod_eq)
  have "round24 m * 2 ^ 24 \<le> m * (2 ^ 24 + 1) \<and> m * (2 ^ 24 - 1) \<le> round24 m * 2 ^ 24"
  proof (cases "s = 0")
    case True
    then have "round24 m = m" by (simp add: round24_def s_def Let_def)
    then show ?thesis by simp
  next
    case False
    then obtain n where n: "s = Suc n" using not0_implies_Suc by blast
    have "0 < m" using False by (auto simp: s_def bit_len.simps [of 0] intro: Suc_leI gr0I)
    then have "2 ^ (bit_len m - 1) \<le> m" by (rule bit_len_bound)
    moreover have "bit_len m - 1 = n + 24" using n by (simp add: s_def)
    ultimately have big: "2 ^ n * 2 ^ 24 \<le> m" by (simp add: power_add)
    have r: "r < 2 * 2 ^ n" by (simp add: r_def n flip: power_Suc)
    define k where "k = (if 2 * r > 2 ^ s \<or> (2 * r = 2 ^ s \<and> odd q) then q + 1 else q)"
    have rd: "round24 m = k * (2 * 2 ^ n)"
      using False by (simp add: round24_def Let_def k_def q_def r_def n flip: s_def)
    have up: "round24 m \<le> m + 2 ^ n" unfolding rd by (auto simp: k_def m n algebra_simps)
    have lo: "m \<le> round24 m + 2 ^ n" unfolding rd using r by (auto simp: k_def m n algebra_simps)
    from up lo big show ?thesis by (simp add: algebra_simps)
  qed
  then show "round24 m * 2 ^ 24 \<le> m * (2 ^ 24 + 1)" "m * (2 ^ 24 - 1) \<le> round24 m * 2 ^ 24" by simp_all
qed

lemma reduce_speed_le: "reduce_speed v \<le> v"
proof -
  have "round24 v * 2 ^ 24 \<le> v * (2 ^ 24 + 1)"
    "round24 (round24 v * 13421773) * 2 ^ 24 \<le> round24 v * 13421773 * (2 ^ 24 + 1)"
    by (rule round24_bounds(1))+
  then have "round24 (round24 v * 13421773) \<le> v * 2 ^ 24" by simp
  then have "round24 (round24 v * 13421773) div 2 ^ 24 \<le> v" by (simp add: div_le_mono [THEN order_trans])
  then show ?thesis by (simp add: reduce_speed_def f32_scale_def min.coboundedI2)
qed

lemma increase_speed_gt:
  assumes "v < 2 ^ 64 - 1"
  shows "v < increase_speed v"
proof -
  have "v * (2 ^ 24 - 1) \<le> round24 v * 2 ^ 24"
    "round24 v * 8808038 * (2 ^ 24 - 1) \<le> round24 (round24 v * 8808038) * 2 ^ 24"
    by (rule round24_bounds(2))+
  then have "v * 2 ^ 23 \<le> round24 (round24 v * 8808038)" by simp
  then have "v \<le> round24 (round24 v * 8808038) div 2 ^ 23" by (simp add: less_eq_div_iff_mult_less_eq)
  with assms have "v \<le> f32_scale v 8808038 23" by (simp add: f32_scale_def)
  with assms show ?thesis by (auto simp: increase_speed_def Let_def)
qed

definition speed_ok :: "shaper_settings \<Rightarrow> tunnel \<Rightarrow> bool" where
  "speed_ok C t \<longleftrightarrow> (\<forall>v. tn_speed_limit t = Some v \<longrightarrow> min_speed C \<le> v \<and> v \<le> max_speed C)"

definition speeds_ok :: "shaper_settings \<Rightarrow> tunnel_map \<Rightarrow> bool" where
  "speeds_ok C m \<longleftrightarrow> (\<forall>t \<in> set (all_tunnels m). speed_ok C t)"

lemma rmap_list_all:
  assumes "\<And>x w y w'. x \<in> set xs \<Longrightarrow> P x \<Longrightarrow> f x w = Some (Inr y, w') \<Longrightarrow> Q y"
  shows "rmap_list f xs w = Some (Inr ys, w') \<Longrightarrow> \<forall>x \<in> set xs. P x \<Longrightarrow> \<forall>y \<in> set ys. Q y"
  using assms
proof (induction xs arbitrary: w ys)
  case (Cons x xs)
  then show ?case by (fastforce simp: rbind_Some_iff rret_def)
qed (simp add: rret_def)

lemma rmap_tunnels_all:
  assumes "\<And>t w t' w'. P t \<Longrightarrow> f t w = Some (Inr t', w') \<Longrightarrow> P t'"
    and "rmap_tunnels f m w = Some (Inr m', w')" and "\<forall>t \<in> set (all_tunnels m). P t"
  shows "\<forall>t \<in> set (all_tunnels m'). P t"
proof -
  have "\<forall>y \<in> set m'. \<forall>t \<in> set (snd y). P t"
  proof (rule rmap_list_all [OF _ assms(2) [unfolded rmap_tunnels_def], of "\<lambda>x. \<forall>t \<in> set (snd x). P t"])
    fix x w y w'
    assume P: "\<forall>t \<in> set (snd x). P t"
      and "(case x of (i, ts) \<Rightarrow> rbind (rmap_list f ts) (\<lambda>ts'. rret (i, ts'))) w = Some (Inr y, w')"
    then obtain ts' w1 where "rmap_list f (snd x) w = Some (Inr ts', w1)" and y: "y = (fst x, ts')"
      by (auto simp: rbind_Some_iff rret_def split: prod.splits)
    from rmap_list_all [OF _ this(1) P, of P] assms(1) show "\<forall>t \<in> set (snd y). P t" by (auto simp: y)
  qed (use assms(3) in \<open>auto simp: all_tunnels_def\<close>)
  then show ?thesis by (auto simp: all_tunnels_def)
qed

lemma shape_tunnel_speed:
  assumes "min_speed C \<le> max_speed C" and "max_speed C < 2 ^ 64 - 1" and "speed_ok C t"
    and "shape_tunnel W C c t w = Some (Inr t', w')"
  shows "speed_ok C t'"
proof (cases "tn_speed_limit t")
  case None
  with assms show ?thesis
    by (auto simp: shape_tunnel_def speed_ok_def rbind_Some_iff rret_def
        split: shaping_adjust_action.splits if_splits)
next
  case (Some v)
  with assms(3) have v: "min_speed C \<le> v" "v \<le> max_speed C" by (simp_all add: speed_ok_def)
  with assms(2) have "v < increase_speed v" by (intro increase_speed_gt) simp
  with v reduce_speed_le [of v] assms(3,4) Some show ?thesis
    by (auto simp: shape_tunnel_def speed_ok_def rbind_Some_iff rret_def Let_def
        split: shaping_adjust_action.splits if_splits)
qed

lemma unshape_tunnel_speed: "speed_ok C t \<Longrightarrow> unshape_tunnel W t w = Some (Inr t', w') \<Longrightarrow> speed_ok C t'"
  by (auto simp: unshape_tunnel_def speed_ok_def rbind_Some_iff rret_def split: if_splits)

lemma shape_all_speed:
  assumes "min_speed C \<le> max_speed C" and "max_speed C < 2 ^ 64 - 1"
  shows "shape_all W C cs m w = Some (Inr m' :: 'e + tunnel_map, w') \<Longrightarrow> speeds_ok C m \<Longrightarrow> speeds_ok C m'"
proof (induction cs arbitrary: m w)
  case (Cons c cs)
  from Cons.prems obtain m1 w1 where one: "rmap_tunnels (shape_tunnel W C c) m w = Some (Inr m1 :: 'e + tunnel_map, w1)"
    and rest: "shape_all W C cs m1 w1 = Some (Inr m' :: 'e + tunnel_map, w')"
    by (auto simp: rbind_Some_iff)
  have "speeds_ok C m1"
    using rmap_tunnels_all [OF shape_tunnel_speed [OF assms] one] Cons.prems(2)
    by (simp add: speeds_ok_def)
  with Cons.IH [OF rest] show ?case by simp
qed (simp add: rret_def)

text \<open>C10: Whatever the shaper is asked to do, every speed limit it leaves on a tunnel is between the
  configured minimum and maximum: cutting by a fifth never raises a limit and stops above the
  minimum, raising by a twentieth always raises it and stops below the maximum, in the
  single precision arithmetic of the code.\<close>

theorem shaper_speeds_are_bounded:
  assumes "handle_shaping W S (tm, w) = Some (r, (tm', w'))"
    and "min_speed (shaper (network S)) \<le> max_speed (shaper (network S))"
    and "max_speed (shaper (network S)) < 2 ^ 64 - 1" and "speeds_ok (shaper (network S)) (tunnels tm)"
  shows "speeds_ok (shaper (network S)) (tunnels tm')"
proof -
  let ?C = "shaper (network S)"
  have un: "speeds_ok ?C m'" if "rmap_tunnels (unshape_tunnel W) m w = Some (Inr m' :: rita_common_error + tunnel_map, w')"
    and "speeds_ok ?C m" for m m' w w'
    using rmap_tunnels_all [OF unshape_tunnel_speed that(1)] that(2) by (simp add: speeds_ok_def)
  from assms show ?thesis
    by (auto simp: handle_shaping_def tmio_simps Let_def split: if_splits
        dest: un shape_all_speed [OF assms(2,3)])
qed

definition sample_shaped :: tunnel_manager where
  "sample_shaped = \<lparr>tunnels = [(global_id sample_their_id,
       [(sample_tunnel ''wg0'' Paid)\<lparr>tn_speed_limit := Some 1000\<rparr>])], reset_flag = False,
     to_shape = [\<lparr>sa_iface = ''wg0'', sa_action = ReduceSpeed\<rparr>]\<rparr>"

lemma shaper_speeds_are_bounded_witness:
  "\<exists>tm'. handle_shaping live_world sample_net (sample_shaped, ()) = Some (Ok (), (tm', ()))
     \<and> speeds_ok (shaper (network sample_net)) (tunnels tm')"
proof -
  have "\<exists>tm'. handle_shaping live_world sample_net (sample_shaped, ()) = Some (Ok (), (tm', ()))"
    by (simp add: handle_shaping_def rio_defs get_tm_def put_tm_def on_world_def sample_shaped_def
        sample_net_def network_settings_default_def default_shaper_settings_def rmap_tunnels_def
        shape_tunnel_def sample_tunnel_def rignore_def live_set_codel_shaping Let_def)
  then obtain tm' where run: "handle_shaping live_world sample_net (sample_shaped, ()) = Some (Ok (), (tm', ()))"
    by blast
  have C: "shaper (network sample_net) = \<lparr>shaper_enabled = True, max_speed = 10000, min_speed = 50\<rparr>"
    by (simp add: sample_net_def network_settings_default_def default_shaper_settings_def)
  then have "speeds_ok (shaper (network sample_net)) (tunnels sample_shaped)"
    by (simp add: sample_shaped_def speeds_ok_def speed_ok_def all_tunnels_def)
  with shaper_speeds_are_bounded [OF run] run show ?thesis by (auto simp: C)
qed

end
