(* ===== verification/Babel_Properties.thy ===== *)
theory Babel_Properties
  imports Babel_Monitor
begin

text \<open>
  The reader of the routing daemon's management socket: it puts an answer that arrives in
  pieces together, it returns as long as reads return, and it does not return while the
  socket has nothing to deliver. A value of an entry is the word after its name.
\<close>

section \<open>Reading an answer\<close>

text \<open>The socket delivers the pieces \<open>cs\<close>, none of which fills the buffer, and ends in \<open>w'\<close>.\<close>

fun delivers :: "'w world \<Rightarrow> 'w \<Rightarrow> string list \<Rightarrow> 'w \<Rightarrow> bool" where
  "delivers W w [] w' \<longleftrightarrow> w' = w"
| "delivers W w (c # cs) w' \<longleftrightarrow>
     (case tcp_read_op W w of
        (ReadBytes n (Some s), w1) \<Rightarrow> n < BUFFER_SIZE \<and> trim_nul s = c \<and> delivers W w1 cs w'
      | _ \<Rightarrow> False)"

lemma read_babel_collects_from:
  assumes "delivers W w cs w'" and "cs \<noteq> []" and "depth + length cs \<le> 51"
    and "\<And>k. 0 < k \<Longrightarrow> k < length cs \<Longrightarrow> read_babel_sync (prev @ concat (take k cs)) = Err NoTerminator"
    and "read_babel_sync (prev @ concat cs) = Ok d"
  shows "read_babel W prev depth w = Some (Ok d, w')"
  using assms
proof (induction cs arbitrary: prev depth w)
  case (Cons c cs)
  from Cons.prems(1) obtain n s w1 where
    r: "tcp_read_op W w = (ReadBytes n (Some s), w1)" "n < BUFFER_SIZE" "trim_nul s = c"
    and rest: "delivers W w1 cs w'"
    by (auto split: prod.splits tcp_read.splits option.splits)
  show ?case
  proof (cases "cs = []")
    case True
    with Cons.prems r rest show ?thesis by (subst read_babel.simps) (simp add: Let_def)
  next
    case False
    have more: "read_babel_sync (prev @ c) = Err NoTerminator"
      using Cons.prems(4) [of 1] False by simp
    have "read_babel W (prev @ c) (depth + 1) w1 = Some (Ok d, w')"
    proof (rule Cons.IH [OF rest False])
      show "depth + 1 + length cs \<le> 51" using Cons.prems(3) by simp
      show "read_babel_sync ((prev @ c) @ concat cs) = Ok d" using Cons.prems(5) by simp
      show "read_babel_sync ((prev @ c) @ concat (take k cs)) = Err NoTerminator"
        if "0 < k" "k < length cs" for k
        using Cons.prems(4) [of "Suc k"] that by simp
    qed
    then show ?thesis
      using r more Cons.prems(3) by (subst read_babel.simps) (simp add: Let_def)
  qed
qed simp

text \<open>An answer that arrives in at most 51 pieces, the last of which completes it, is read as a
  whole: the reader returns what one read of the concatenation would give and consumes exactly
  those pieces.\<close>

theorem read_babel_collects:
  assumes "delivers W w cs w'" and "cs \<noteq> []" and "length cs \<le> 51"
    and "\<forall>k. 0 < k \<and> k < length cs \<longrightarrow> read_babel_sync (concat (take k cs)) = Err NoTerminator"
    and "read_babel_sync (concat cs) = Ok d"
  shows "read_babel W [] 0 w = Some (Ok d, w')"
  using read_babel_collects_from [of W w cs w' 0 "[]" d] assms by simp

text \<open>A socket that delivers the pieces of a list, one per read.\<close>

definition piece_world :: "string list world" where
  "piece_world = \<lparr>run_command = (\<lambda>_ _ w. (Inl RuntimeError, w)), sys_class_net = (\<lambda>_. Inl RuntimeError),
     proc_net_udp = (\<lambda>_. Inl RuntimeError), tcp_connect = (\<lambda>_ w. (Inr (), w)),
     tcp_write = (\<lambda>_ w. (Inr (), w)),
     tcp_read_op = (\<lambda>w. case w of [] \<Rightarrow> (ReadWouldBlock, []) | c # cs \<Rightarrow> (ReadBytes (length c) (Some c), cs))\<rparr>"

lemma read_babel_collects_witness:
  "read_babel piece_world [] 0 [''local fee 5'' @ [LF] @ ''o'', ''k'' @ [LF]]
     = Some (Ok (''local fee 5'' @ [LF] @ ''ok'' @ [LF]), [])"
proof (rule read_babel_collects [where cs = "[''local fee 5'' @ [LF] @ ''o'', ''k'' @ [LF]]"])
  note defs = read_babel_sync_def lines_of_def strip_cr_def LF_def CR_def TAB_def trim_def
    is_whitespace_def Let_def
  have one: "read_babel_sync (''local fee 5'' @ [LF] @ ''o'') = Err NoTerminator" by (simp add: defs)
  show "\<forall>k. 0 < k \<and> k < length [''local fee 5'' @ [LF] @ ''o'', ''k'' @ [LF]] \<longrightarrow>
      read_babel_sync (concat (take k [''local fee 5'' @ [LF] @ ''o'', ''k'' @ [LF]])) = Err NoTerminator"
    using one by (auto simp: less_Suc_eq)
  show "read_babel_sync (concat [''local fee 5'' @ [LF] @ ''o'', ''k'' @ [LF]])
      = Ok (''local fee 5'' @ [LF] @ ''ok'' @ [LF])"
    by (simp add: defs)
  show "delivers piece_world [''local fee 5'' @ [LF] @ ''o'', ''k'' @ [LF]]
      [''local fee 5'' @ [LF] @ ''o'', ''k'' @ [LF]] []"
    by (simp add: piece_world_def BUFFER_SIZE_def trim_nul_def LF_def)
qed simp_all

text \<open>As long as every read delivers something or fails, and no read fills the buffer, the reader
  returns: an answer without a terminator is given up after 51 reads.\<close>

theorem read_babel_returns:
  assumes "\<forall>v. \<exists>r v'. tcp_read_op W v = (r, v') \<and> r \<noteq> ReadWouldBlock \<and> (\<forall>s. r \<noteq> ReadBytes BUFFER_SIZE s)"
  shows "\<exists>r w'. read_babel W prev depth w = Some (r, w')"
proof (induction "51 - depth" arbitrary: prev depth w rule: less_induct)
  case less
  obtain r v where r: "tcp_read_op W w = (r, v)" "r \<noteq> ReadWouldBlock" "\<forall>s. r \<noteq> ReadBytes BUFFER_SIZE s"
    using assms by blast
  show ?case
  proof (cases r)
    case (ReadBytes n s)
    show ?thesis
    proof (cases s)
      case None
      with ReadBytes r show ?thesis by (subst read_babel.simps) simp
    next
      case (Some out)
      let ?m = "prev @ trim_nul out"
      have IH: "\<exists>r w'. read_babel W ?m (depth + 1) v = Some (r, w')" if "\<not> depth > 50"
        using less [of "depth + 1"] that by simp
      have n: "n \<noteq> BUFFER_SIZE" using r(3) ReadBytes by blast
      show ?thesis
        using r ReadBytes Some n IH
        by (subst read_babel.simps) (cases "read_babel_sync ?m"; auto simp: Let_def)
    qed
  qed (use r in \<open>subst read_babel.simps; simp\<close>)+
qed

lemma read_babel_returns_witness: "\<exists>r w'. read_babel dead_world [] 0 () = Some (r, w')"
  by (rule read_babel_returns) (simp add: dead_world_def)

text \<open>While the socket has nothing to deliver, the reader does not return, however often it has
  tried: the bound on the number of tries is only checked after a read that delivered data.\<close>

theorem read_babel_waits_forever:
  assumes "\<forall>v. fst (tcp_read_op W v) = ReadWouldBlock"
  shows "read_babel W prev depth w = None"
proof -
  have "\<not> (\<forall>v. fst (tcp_read_op W v) = ReadWouldBlock)" if "read_babel W prev depth w = Some y" for y
  proof (rule read_babel.raw_induct [OF _ that])
    fix rb :: "'a world \<Rightarrow> string \<Rightarrow> nat \<Rightarrow> 'a \<Rightarrow> ((babel_monitor_error + string) \<times> 'a) option"
    fix W :: "'a world" and prev depth w y
    assume IH: "\<And>W prev depth w y. rb W prev depth w = Some y \<Longrightarrow>
        \<not> (\<forall>v. fst (tcp_read_op W v) = ReadWouldBlock)"
      and step: "(case tcp_read_op W w of (r, w') \<Rightarrow> (case r of
         ReadWouldBlock \<Rightarrow> rb W prev (depth + 1) w'
       | ReadIoError \<Rightarrow> Some (Inl ReadFunctionError, w')
       | ReadBytes bytes text \<Rightarrow>
         (case text of
            None \<Rightarrow> Some (Inl TcpError, w')
          | Some output \<Rightarrow>
            (let full_message = prev @ trim_nul output;
                 babel_data = read_babel_sync full_message
             in if depth > 50 then Some (Inl ReadFailed, w')
                else if bytes = BUFFER_SIZE then rb W full_message depth w'
                else if babel_data = Inl NoTerminator
                then rb W full_message (depth + 1) w'
                else (case babel_data of
                        Inl e \<Rightarrow> Some (Inl ReadFailed, w')
                      | Inr d \<Rightarrow> Some (Inr d, w')))))) = Some y"
    show "\<not> (\<forall>v. fst (tcp_read_op W v) = ReadWouldBlock)"
    proof
      assume block: "\<forall>v. fst (tcp_read_op W v) = ReadWouldBlock"
      then obtain w' where "tcp_read_op W w = (ReadWouldBlock, w')" by (metis prod.collapse)
      with step IH [of W prev "depth + 1" w' y] block show False by simp
    qed
  qed
  with assms have "read_babel W prev depth w \<noteq> Some y" for y by blast
  then show ?thesis by (cases "read_babel W prev depth w") auto
qed

lemma read_babel_waits_forever_witness:
  "read_babel (dead_world\<lparr>tcp_read_op := \<lambda>w. (ReadWouldBlock, w)\<rparr>) [] 0 () = None"
  by (rule read_babel_waits_forever) simp

end
