(* ===== verification/Usage_Properties.thy ===== *)
theory Usage_Properties
  imports Usage_Tracker "HOL-Library.Multiset"
begin

text \<open>
  The usage tracker: its stores stay within their bounds and record a transaction once, the
  histories keep the latest hours, and once there is more unsaved data than the thresholds
  ask for it is never written again.
\<close>

section \<open>Histories\<close>

definition hist_ok :: "usage_history \<Rightarrow> bool" where
  "hist_ok h \<longleftrightarrow> distinct (map fst h) \<and> length h \<le> MAX_USAGE_ENTRIES"

lemma record_usage_hours: "fst ` set (record_usage hour msg h) = insert hour (fst ` set h)"
  by (induction hour msg h rule: record_usage.induct) auto

lemma record_usage_distinct: "distinct (map fst h) \<Longrightarrow> distinct (map fst (record_usage hour msg h))"
proof (induction hour msg h rule: record_usage.induct)
  case (2 hour msg k u rest)
  then show ?case using record_usage_hours [of hour msg rest] by auto
qed simp

lemma record_usage_lookup:
  "map_of (record_usage hour msg h) = (map_of h)(hour \<mapsto>
     (case map_of h hour of
        Some u \<Rightarrow> u\<lparr>us_up := us_up u + uu_up msg, us_down := us_down u + uu_down msg\<rparr>
      | None \<Rightarrow> \<lparr>us_up = uu_up msg, us_down = uu_down msg, us_price = uu_price msg\<rparr>))"
  by (induction hour msg h rule: record_usage.induct) (auto simp: fun_upd_twist)

lemma remove_hour_distinct: "distinct (map fst h) \<Longrightarrow> distinct (map fst (remove_hour k h))"
  by (simp add: remove_hour_def distinct_map_filter)

lemma remove_hour_hours: "fst ` set (remove_hour k h) = fst ` set h - {k}"
  by (auto simp: remove_hour_def image_iff)

lemma remove_hour_lookup: "j \<noteq> k \<Longrightarrow> map_of (remove_hour k h) j = map_of h j"
  by (induction h) (auto simp: remove_hour_def)

lemma length_hours: "distinct (map fst h) \<Longrightarrow> length h = card (fst ` set h)"
  by (metis distinct_card length_map set_map)

text \<open>What the eviction loop leaves: at most the bound, the entries that are kept are unchanged, and
  every hour it drops is before every hour it keeps.\<close>

lemma evict_usage_spec:
  assumes "distinct (map fst h)"
  shows "length (evict_usage mx h) = min mx (length h) \<and> distinct (map fst (evict_usage mx h))
     \<and> fst ` set (evict_usage mx h) \<subseteq> fst ` set h
     \<and> (\<forall>k \<in> fst ` set (evict_usage mx h). map_of (evict_usage mx h) k = map_of h k)
     \<and> (\<forall>k \<in> fst ` set (evict_usage mx h). \<forall>j \<in> fst ` set h - fst ` set (evict_usage mx h). j < k)"
  using assms
proof (induction mx h rule: evict_usage.induct)
  case (1 mx h)
  show ?case
  proof (cases "length h > mx")
    case False
    then have "evict_usage mx h = h" by (subst evict_usage.simps) simp
    with 1(2) False show ?thesis by simp
  next
    case True
    let ?m = "Min (fst ` set h)" and ?h = "remove_hour (Min (fst ` set h)) h"
    let ?e = "evict_usage mx ?h"
    have e: "evict_usage mx h = ?e" using True by (subst evict_usage.simps) simp
    have m: "?m \<in> fst ` set h" "\<forall>k \<in> fst ` set h. ?m \<le> k" using True by (auto intro!: Min_in)
    have len: "length ?h = length h - 1"
      using 1(2) m(1) by (simp add: length_hours remove_hour_distinct remove_hour_hours)
    have IH: "length ?e = min mx (length ?h)" "distinct (map fst ?e)" "fst ` set ?e \<subseteq> fst ` set ?h"
      "\<forall>k \<in> fst ` set ?e. map_of ?e k = map_of ?h k"
      "\<forall>k \<in> fst ` set ?e. \<forall>j \<in> fst ` set ?h - fst ` set ?e. j < k"
      using 1(1) [OF True remove_hour_distinct [OF 1(2)]] by blast+
    have sub: "fst ` set ?e \<subseteq> fst ` set h - {?m}" using IH(3) by (simp add: remove_hour_hours)
    have "map_of ?e k = map_of h k" if "k \<in> fst ` set ?e" for k
      using IH(4) that sub remove_hour_lookup [of k ?m h] by (metis DiffE insertI1 subsetD)
    moreover have "j < k" if "k \<in> fst ` set ?e" "j \<in> fst ` set h - fst ` set ?e" for j k
    proof (cases "j = ?m")
      case True
      with that sub m(2) show ?thesis by (metis DiffE insertCI le_neq_implies_less subsetD)
    next
      case False
      with that(2) have "j \<in> fst ` set ?h - fst ` set ?e" by (simp add: remove_hour_hours)
      with that(1) IH(5) show ?thesis by blast
    qed
    ultimately show ?thesis using IH(1,2) sub len True unfolding e by auto
  qed
qed

definition history_of :: "usage_type \<Rightarrow> usage_tracker_storage \<Rightarrow> usage_history" where
  "history_of k s = (case k of Client \<Rightarrow> client_bandwidth s | Relay \<Rightarrow> relay_bandwidth s | Exit \<Rightarrow> exit_bandwidth s)"

lemma process_usage_history:
  "history_of k (process_usage_update hour msg s) =
     (if k = uu_kind msg then evict_usage MAX_USAGE_ENTRIES (record_usage hour msg (history_of k s))
      else history_of k s)"
  by (cases k; cases "uu_kind msg") (simp_all add: history_of_def process_usage_update_def upd_history_def)


text \<open>Recording traffic adds it to the entry of the current hour, or starts that entry with the
  current price, and keeps the latest 8760 hours: each entry that stays has the value it had or
  the updated one, and every hour that is dropped is before all hours that stay.\<close>

theorem usage_update_keeps_latest:
  fixes s :: usage_tracker_storage and msg :: update_usage
  assumes "hist_ok (history_of (uu_kind msg) s)"
  shows "\<exists>h. map_of h = (map_of (history_of (uu_kind msg) s))(hour \<mapsto>
        (case map_of (history_of (uu_kind msg) s) hour of
           Some u \<Rightarrow> u\<lparr>us_up := us_up u + uu_up msg, us_down := us_down u + uu_down msg\<rparr>
         | None \<Rightarrow> \<lparr>us_up = uu_up msg, us_down = uu_down msg, us_price = uu_price msg\<rparr>))
     \<and> (let h' = history_of (uu_kind msg) (process_usage_update hour msg s) in
          hist_ok h' \<and> length h' = min MAX_USAGE_ENTRIES (length h)
          \<and> (\<forall>k \<in> fst ` set h'. map_of h' k = map_of h k)
          \<and> (\<forall>k \<in> fst ` set h'. \<forall>j \<in> fst ` set h - fst ` set h'. j < k))"
proof -
  let ?h = "record_usage hour msg (history_of (uu_kind msg) s)"
  have "distinct (map fst ?h)" using assms by (simp add: hist_ok_def record_usage_distinct)
  from evict_usage_spec [OF this, of MAX_USAGE_ENTRIES] show ?thesis
    by (intro exI [of _ ?h])
      (simp add: record_usage_lookup process_usage_history hist_ok_def Let_def)
qed

definition sample_store :: usage_tracker_storage where
  "sample_store = \<lparr>last_save_hour = 0,
     client_bandwidth = [(7, \<lparr>us_up = 3, us_down = 4, us_price = 5\<rparr>)], relay_bandwidth = [],
     exit_bandwidth = [], ut_payments = []\<rparr>"

lemma usage_update_keeps_latest_witness:
  "hist_ok (history_of Client (process_usage_update 7
     \<lparr>uu_kind = Client, uu_up = 1, uu_down = 1, uu_price = 1\<rparr> sample_store))"
proof -
  have "hist_ok (history_of (uu_kind \<lparr>uu_kind = Client, uu_up = 1, uu_down = 1, uu_price = 1\<rparr>) sample_store)"
    by (simp add: hist_ok_def history_of_def sample_store_def MAX_USAGE_ENTRIES_def)
  from usage_update_keeps_latest [OF this, of 7] show ?thesis by (auto simp: Let_def)
qed

section \<open>Payments\<close>

lemma oldest_payment_None: "oldest_payment ps = None \<longleftrightarrow> ps = []"
  by (cases ps) (auto split: option.splits)

lemma oldest_payment_Some:
  "oldest_payment ps = Some q \<Longrightarrow> q \<in> set ps \<and> (\<forall>p \<in> set ps. utp_index q \<le> utp_index p)"
proof (induction ps arbitrary: q)
  case (Cons a ps)
  then show ?case
    by (cases "oldest_payment ps") (force simp: oldest_payment_None split: if_splits)+
qed simp

lemma remove_oldest_length: "length (remove_oldest ps) = length ps - 1"
  using oldest_payment_Some [of ps] oldest_payment_None [of ps]
  by (auto simp: remove_oldest_def length_remove1 split: option.splits)

lemma remove_oldest_distinct: "distinct (map f ps) \<Longrightarrow> distinct (map f (remove_oldest ps))"
  using oldest_payment_Some [of ps]
  by (auto simp: remove_oldest_def distinct_map split: option.splits intro: inj_on_subset dest: set_remove1_subset [THEN subsetD])

lemma remove_oldest_subset: "set (remove_oldest ps) \<subseteq> set ps"
  by (auto simp: remove_oldest_def split: option.splits dest: set_remove1_subset [THEN subsetD])

definition unsaved :: "nat \<Rightarrow> usage_tracker_payment list \<Rightarrow> nat" where
  "unsaved l ps = length (filter (\<lambda>p. utp_index p > l) ps)"

lemma unsaved_remove_oldest: "min (unsaved l ps) (length ps - 1) \<le> unsaved l (remove_oldest ps)"
proof (cases "oldest_payment ps")
  case None
  then show ?thesis by (simp add: oldest_payment_None unsaved_def)
next
  case (Some q)
  then have q: "q \<in> set ps" "\<forall>p \<in> set ps. utp_index q \<le> utp_index p" using oldest_payment_Some by auto
  show ?thesis
  proof (cases "utp_index q > l")
    case True
    with q have "filter (\<lambda>p. utp_index p > l) (remove1 q ps) = remove1 q ps"
      by (intro filter_True) (meson less_le_trans notin_set_remove1)
    then show ?thesis using q(1) Some by (simp add: unsaved_def remove_oldest_def length_remove1)
  next
    case False
    then have "filter (\<lambda>p. utp_index p > l) (remove1 q ps) = filter (\<lambda>p. utp_index p > l) ps"
      by (simp add: filter_remove1)
    then show ?thesis using Some by (simp add: unsaved_def remove_oldest_def)
  qed
qed

lemma trim_payments_spec:
  "length (trim_payments n ps) = min n (length ps)
   \<and> (distinct (map f ps) \<longrightarrow> distinct (map f (trim_payments n ps)))
   \<and> set (trim_payments n ps) \<subseteq> set ps \<and> min n (unsaved l ps) \<le> unsaved l (trim_payments n ps)"
proof -
  have "length ((remove_oldest ^^ k) ps) = length ps - k
   \<and> (distinct (map f ps) \<longrightarrow> distinct (map f ((remove_oldest ^^ k) ps)))
   \<and> set ((remove_oldest ^^ k) ps) \<subseteq> set ps
   \<and> min (length ps - k) (unsaved l ps) \<le> unsaved l ((remove_oldest ^^ k) ps)" for k
  proof (induction k)
    case (Suc k)
    then show ?case
      using remove_oldest_length [of "(remove_oldest ^^ k) ps"]
        remove_oldest_distinct [of f "(remove_oldest ^^ k) ps"]
        remove_oldest_subset [of "(remove_oldest ^^ k) ps"]
        unsaved_remove_oldest [of l "(remove_oldest ^^ k) ps"]
      by auto
  qed simp
  from this [of "length ps - n"] show ?thesis
    by (cases "length ps \<le> n") (auto simp: trim_payments_def)
qed

section \<open>Reachable stores\<close>

definition ut_inv :: "usage_tracker_storage \<Rightarrow> bool" where
  "ut_inv s \<longleftrightarrow> (\<forall>k. hist_ok (history_of k s)) \<and> length (ut_payments s) \<le> MAX_TX_ENTRIES
     \<and> distinct (map utp_txid (ut_payments s))"

text \<open>The stores reached from \<open>s0\<close> by the operations, saves included.\<close>

inductive ut_reach ::
  "(usage_tracker_storage \<Rightarrow> 'b option) \<Rightarrow> ('b \<Rightarrow> 'b option) \<Rightarrow> string option
     \<Rightarrow> usage_tracker_storage \<Rightarrow> usage_tracker_storage \<Rightarrow> bool"
  for ser zip_bytes device s0 where
  start: "ut_reach ser zip_bytes device s0 s0"
| traffic: "ut_reach ser zip_bytes device s0 s \<Longrightarrow>
    ut_reach ser zip_bytes device s0 (fst (update_usage_data hour now msg (s, tt)))"
| paid: "ut_reach ser zip_bytes device s0 s \<Longrightarrow> ut_reach ser zip_bytes device s0 (update_payments hour p s)"
| saved: "ut_reach ser zip_bytes device s0 s \<Longrightarrow>
    ut_reach ser zip_bytes device s0 (snd (usage_save ser zip_bytes wr created device s))"

lemma update_usage_inv: "ut_inv s \<Longrightarrow> ut_inv (fst (update_usage_data hour now msg (s, tt)))"
proof (cases hour)
  case (Some h)
  assume inv: "ut_inv s"
  have p: "ut_payments (process_usage_update h msg s) = ut_payments s"
    by (cases "uu_kind msg") (simp_all add: process_usage_update_def upd_history_def)
  have "hist_ok (history_of k (process_usage_update h msg s))" for k
    using inv evict_usage_spec [OF record_usage_distinct, of "history_of k s" MAX_USAGE_ENTRIES h msg]
    by (auto simp: process_usage_history ut_inv_def hist_ok_def)
  with inv Some p show ?thesis by (simp add: update_usage_data_def ut_inv_def)
qed (simp add: update_usage_data_def)

lemma history_of_payments [simp]: "history_of k (s\<lparr>ut_payments := ps\<rparr>) = history_of k s"
  by (cases k) (simp_all add: history_of_def)

lemma update_payments_inv: "ut_inv s \<Longrightarrow> ut_inv (update_payments hour p s)"
proof (cases hour)
  case (Some h)
  assume inv: "ut_inv s"
  show ?thesis
  proof (cases "pmt_txid p \<in> get_txids s")
    case False
    let ?ps = "insert_payment (from_payment_tx p h) (ut_payments s)"
    have "distinct (map utp_txid ?ps)"
      using inv False by (auto simp: ut_inv_def insert_payment_def from_payment_tx_def get_txids_def)
    with inv False Some trim_payments_spec [where ps = ?ps and n = MAX_TX_ENTRIES and f = utp_txid]
    show ?thesis by (simp add: update_payments_def handle_payments_def ut_inv_def)
  qed (use inv in \<open>simp add: update_payments_def\<close>)
qed (simp add: update_payments_def handle_payments_def)

lemma trim_inv: "ut_inv s \<Longrightarrow> ut_inv (s\<lparr>ut_payments := trim_payments n (ut_payments s)\<rparr>)"
  using trim_payments_spec [where ps = "ut_payments s" and n = n and f = utp_txid]
  by (auto simp: ut_inv_def)

lemma save_loop_inv: "ut_inv s \<Longrightarrow> ut_inv (snd (save_loop ser zip_bytes wr k n bytes s))"
proof (induction ser zip_bytes wr k n bytes s rule: save_loop.induct)
  case (1 ser zip_bytes wr k n bytes s)
  then show ?case
    by (subst save_loop.simps) (auto simp: Let_def trim_inv split: sum.splits)
qed

lemma usage_save_inv: "ut_inv s \<Longrightarrow> ut_inv (snd (usage_save ser zip_bytes wr created device s))"
  by (auto simp: usage_save_def save_loop_inv split: option.splits)

text \<open>From a store that satisfies them, every sequence of traffic reports, payments and saves
  keeps the bounds of the usage tracker: each history has one entry per hour and at most 8760
  of them, there are at most 5000 payments, and no transaction id is recorded twice.\<close>

theorem usage_store_bounded:
  "ut_reach ser zip_bytes device s0 s \<Longrightarrow> ut_inv s0 \<Longrightarrow> ut_inv s"
  by (induction rule: ut_reach.induct) (simp_all add: update_usage_inv update_payments_inv usage_save_inv)

lemma usage_store_bounded_witness:
  "ut_inv (update_payments (Some 3) \<lparr>pmt_to = \<lparr>mesh_ip = V6 1, eth_address = 1, wg_public_key = 1\<rparr>,
     pmt_from = \<lparr>mesh_ip = V6 2, eth_address = 2, wg_public_key = 2\<rparr>, pmt_amount = 5, pmt_txid = 9\<rparr> sample_store)"
proof (rule usage_store_bounded [OF ut_reach.paid [OF ut_reach.start]])
  have "hist_ok (history_of k sample_store)" for k
    by (cases k) (simp_all add: hist_ok_def history_of_def sample_store_def MAX_USAGE_ENTRIES_def)
  then show "ut_inv sample_store" by (simp add: ut_inv_def) (simp add: sample_store_def)
qed

section \<open>Saving\<close>

lemma update_usage_payments:
  "ut_payments (fst (update_usage_data hour now msg (s, tt))) = ut_payments s"
  "last_save_hour (fst (update_usage_data hour now msg (s, tt))) = last_save_hour s"
  by (cases hour; cases "uu_kind msg"; simp add: update_usage_data_def process_usage_update_def upd_history_def)+

lemma update_payments_save_hour: "last_save_hour (update_payments hour p s) = last_save_hour s"
  by (simp add: update_payments_def handle_payments_def split: option.splits)

lemma update_payments_unsaved:
  assumes "n < unsaved l (ut_payments s)" and "n < MAX_TX_ENTRIES"
  shows "n < unsaved l (ut_payments (update_payments hour p s))"
proof (cases hour)
  case (Some h)
  let ?ps = "insert_payment (from_payment_tx p h) (ut_payments s)"
  have "n < unsaved l ?ps" using assms(1) by (simp add: unsaved_def insert_payment_def)
  moreover have "min MAX_TX_ENTRIES (unsaved l ?ps) \<le> unsaved l (trim_payments MAX_TX_ENTRIES ?ps)"
    using trim_payments_spec [of MAX_TX_ENTRIES ?ps "\<lambda>x. x" l] by blast
  ultimately show ?thesis using assms Some by (auto simp: update_payments_def handle_payments_def)
qed (use assms in \<open>simp add: update_payments_def handle_payments_def\<close>)

lemma check_unsaved_payments_eq:
  "check_unsaved_payments device s \<longleftrightarrow>
     get_minimum_number_of_transactions_to_store device < unsaved (last_save_hour s) (ut_payments s)"
  by (simp add: check_unsaved_payments_def unsaved_def)

text \<open>Once there are enough unsaved payments to be worth saving, the usage tracker is never saved
  again: in every later state the save is refused for too little data, and the file is not
  written.\<close>

theorem busy_tracker_is_never_saved:
  assumes "ut_reach ser zip_bytes device s0 s" and "check_unsaved_payments device s0"
  shows "usage_save ser zip_bytes wr created device s = (Err StdError, s)"
proof -
  have small: "get_minimum_number_of_transactions_to_store device < MAX_TX_ENTRIES"
    by (simp add: get_minimum_number_of_transactions_to_store_def MAX_TX_ENTRIES_def)
  have "check_unsaved_payments device s"
    using assms
  proof (induction rule: ut_reach.induct)
    case (traffic s hour now msg tt)
    then show ?case by (simp add: check_unsaved_payments_eq update_usage_payments)
  next
    case (paid s hour p)
    then show ?case
      using small by (simp add: check_unsaved_payments_eq update_payments_save_hour update_payments_unsaved)
  next
    case (saved s wr created)
    then show ?case by (simp add: usage_save_def)
  qed simp
  then show ?thesis by (simp add: usage_save_def)
qed

definition busy_store :: usage_tracker_storage where
  "busy_store = sample_store\<lparr>ut_payments := map (\<lambda>n. \<lparr>utp_to = \<lparr>mesh_ip = V6 1, eth_address = 1, wg_public_key = 1\<rparr>,
     utp_from = \<lparr>mesh_ip = V6 1, eth_address = 1, wg_public_key = 1\<rparr>, utp_amount = 1, utp_txid = n, utp_index = 9\<rparr>)
     [0..<6]\<rparr>"

lemma busy_tracker_is_never_saved_witness:
  "usage_save Some Some (\<lambda>_ _. True) True None busy_store = (Err StdError, busy_store)"
proof (rule busy_tracker_is_never_saved [OF ut_reach.start])
  have "get_minimum_number_of_transactions_to_store None = 5" by code_simp
  then show "check_unsaved_payments None busy_store"
    by (simp add: check_unsaved_payments_def busy_store_def sample_store_def comp_def)
qed

end
