(* ===== verification/Chain_Properties.thy ===== *)
theory Chain_Properties
  imports Simulated_Txfee
begin

text \<open>
  Properties of the view of the chain and of the amounts derived from it: the oracle only moves
  forward, converting between denominations loses nothing in the direction that divides, and
  the simulated fee accounts for every payment once.
\<close>

section \<open>The oracle\<close>

lemma accept_block_fresh:
  "accept_block now b orc = Some orc' \<Longrightarrow> or_last_updated orc' = Some now \<and> or_last_seen_block orc' = Some b"
  by (auto dest: accept_block_Some)

lemma gnosis_fresh:
  "update_blockchain_info_gnosis now bl ba orc \<noteq> orc \<Longrightarrow>
     or_last_updated (update_blockchain_info_gnosis now bl ba orc) = Some now"
  by (auto simp: update_blockchain_info_gnosis_def update_balance_def dest: accept_block_fresh
      split: rita_splits)

lemma althea_fresh:
  "update_blockchain_info_althea N now d st ba orc = Some orc' \<Longrightarrow> orc' \<noteq> orc \<Longrightarrow>
     or_last_updated orc' = Some now"
  by (auto simp: update_blockchain_info_althea_def update_balance_def dest: accept_block_fresh
      elim!: bind_SomeE split: rita_splits chain_status.splits)

text \<open>An update of the oracle never moves the last seen block backwards, and one that changes
  anything leaves the oracle fresh, so that payments are not blocked right after it. A block older
  than the last one seen changes nothing, not even the balance.\<close>

theorem oracle_moves_forward:
  assumes "oracle_update N now S A orc = Some orc'"
  shows "block_le (or_last_seen_block orc) (or_last_seen_block orc')
     \<and> (orc' = orc \<or> or_last_updated orc' = Some now \<and> \<not> potential_payment_issues_detected now orc')"
proof -
  have "orc' = orc \<or> or_last_updated orc' = Some now"
    using assms
    by (auto simp: oracle_update_def dest: althea_fresh gnosis_fresh elim!: bind_SomeE
        split: system_chain.splits)
  with oracle_update_mono [OF assms] show ?thesis
    by (auto simp: potential_payment_issues_detected_def)
qed

definition sample_chain :: rita_settings where
  "sample_chain = \<lparr>payment = payment_settings_default\<lparr>pay_eth_address := Some 9, pay_system_chain := Xdai\<rparr>,
     network = network_settings_default,
     settings_identity = Some \<lparr>mesh_ip = V6 9, eth_address = 9, wg_public_key = 9\<rparr>\<rparr>"

definition sample_answers :: node_answers where
  "sample_answers = \<lparr>na_block = Inr 12, na_balance = Inr 40, na_status = Inl (), na_althea_balance = Inl ()\<rparr>"

lemma oracle_moves_forward_witness:
  "\<exists>orc'. oracle_update checked_num256 77 sample_chain sample_answers
        \<lparr>or_balance = None, or_last_seen_block = Some 11, or_last_updated = Some 5\<rparr> = Some orc'
      \<and> or_balance orc' = Some 40 \<and> block_le (Some 11) (or_last_seen_block orc')"
proof -
  let ?o = "\<lparr>or_balance = None, or_last_seen_block = Some 11, or_last_updated = Some (5 :: instant)\<rparr>"
  have run: "oracle_update checked_num256 77 sample_chain sample_answers ?o
      = Some \<lparr>or_balance = Some 40, or_last_seen_block = Some 12, or_last_updated = Some 77\<rparr>"
    by (simp add: oracle_update_def sample_chain_def sample_answers_def update_blockchain_info_gnosis_def
        accept_block_def update_balance_def)
  from oracle_moves_forward [OF run] run show ?thesis by simp
qed

section \<open>Denominations\<close>

lemma normalize_nat:
  assumes "num256_laws N" and "denom_name d \<noteq> denom_name e" and "0 < unat (denom_decimal d)"
    and "a * unat (denom_decimal e) < 2 ^ 256"
  shows "normalize_payment_amount N a d e = Some (a * unat (denom_decimal e) div unat (denom_decimal d))"
proof -
  have "int (a * unat (denom_decimal e)) < int (2 ^ 256)" using assms(4) by (subst of_nat_less_iff)
  then have "int a * int (unat (denom_decimal e)) < 2 ^ 256" by (simp only: of_nat_mult of_nat_power of_nat_numeral)
  then show ?thesis using num256_laws.normalize_exact [OF assms(1,2,3)] by blast
qed

text \<open>Converting an amount to a denomination with a finer unit and back gives the amount again; going
  to the coarser denomination and back loses less than one coarse unit and never gains. The wei
  of the debt keeper and the micro units of the Althea chain are such a pair.\<close>

theorem normalize_round_trip:
  assumes "num256_laws N" and "denom_name d \<noteq> denom_name e" and "0 < unat (denom_decimal d)"
    and "unat (denom_decimal e) = unat (denom_decimal d) * k" and "0 < k"
    and "a * unat (denom_decimal e) < 2 ^ 256"
  shows "Option.bind (normalize_payment_amount N a d e) (\<lambda>b. normalize_payment_amount N b e d) = Some a
     \<and> (\<exists>c. Option.bind (normalize_payment_amount N a e d) (\<lambda>b. normalize_payment_amount N b d e) = Some c
          \<and> c \<le> a \<and> a - c < k)"
proof -
  define x where "x = unat (denom_decimal d)"
  have e: "unat (denom_decimal e) = x * k" and x: "0 < x" using assms(3,4) by (simp_all add: x_def)
  have ne: "denom_name e \<noteq> denom_name d" using assms(2) by simp
  have e0: "0 < unat (denom_decimal e)" using e x assms(5) by simp
  have bound: "a * x * k < 2 ^ 256" using assms(6) by (simp add: e mult_ac)
  have small: "a * x < 2 ^ 256" using bound assms(5) by (cases k) auto
  have "a * k * x < 2 ^ 256" using bound by (simp add: mult_ac)
  then have there: "normalize_payment_amount N a d e = Some (a * k)"
    "normalize_payment_amount N (a * k) e d = Some a"
    using normalize_nat [OF assms(1,2,3,6)] normalize_nat [OF assms(1) ne e0, of "a * k"] x assms(5)
    unfolding e x_def [symmetric] by (simp_all add: mult_ac)
  have "a div k * (x * k) \<le> a * x"
    using mult_le_mono1 [OF div_times_less_eq_dividend [of a k], of x] by (simp add: mult_ac)
  then have "a div k * (x * k) < 2 ^ 256" using small by linarith
  moreover have "a * x div (x * k) = a div k" using x by (simp add: mult.commute [of a])
  ultimately have home: "normalize_payment_amount N a e d = Some (a div k)"
    "normalize_payment_amount N (a div k) d e = Some (a div k * k)"
    using normalize_nat [OF assms(1) ne e0, of a] normalize_nat [OF assms(1,2,3), of "a div k"] x small assms(5)
    unfolding e x_def [symmetric] by (simp_all add: mult.left_commute [of _ x])
  have "a - a div k * k < k" using assms(5) by (simp add: minus_div_mult_eq_mod)
  with there home show ?thesis by (simp add: div_times_less_eq_dividend)
qed

lemma normalize_round_trip_witness:
  "Option.bind (normalize_payment_amount checked_num256 5 \<lparr>denom_name = ''aalthea'', denom_decimal = 1000\<rparr>
       \<lparr>denom_name = ''wei'', denom_decimal = 1000000\<rparr>)
     (\<lambda>b. normalize_payment_amount checked_num256 b \<lparr>denom_name = ''wei'', denom_decimal = 1000000\<rparr>
       \<lparr>denom_name = ''aalthea'', denom_decimal = 1000\<rparr>) = Some 5"
  using normalize_round_trip [OF checked256.num256_laws_axioms,
      of "\<lparr>denom_name = ''aalthea'', denom_decimal = 1000\<rparr>" "\<lparr>denom_name = ''wei'', denom_decimal = 1000000\<rparr>" 1000 5]
  by simp

section \<open>The simulated fee\<close>

fun add_all :: "num256 \<Rightarrow> payment_settings \<Rightarrow> nat list \<Rightarrow> nat \<Rightarrow> nat option" where
  "add_all N P [] owed = Some owed"
| "add_all N P (a # as) owed = Option.bind (add_tx_to_total N P a owed) (add_all N P as)"

lemma add_all_exact:
  assumes "num256_laws N" and "0 < unat (simulated_transaction_fee P)"
  shows "int owed + int (sum_list as) < 2 ^ 256 \<Longrightarrow>
     add_all N P as owed = Some (owed + sum_list (map (\<lambda>a. a div unat (simulated_transaction_fee P)) as))"
proof (induction as arbitrary: owed)
  case (Cons a as)
  let ?f = "unat (simulated_transaction_fee P)"
  have "int owed + int a < 2 ^ 256" using Cons.prems by simp
  then have one: "add_tx_to_total N P a owed = Some (owed + a div ?f)"
    using num256_laws.add_tx_to_total_exact [OF assms(1,2)] by blast
  have "int (a div ?f) \<le> int a" by simp
  moreover have "int owed + (int a + int (sum_list as)) < 2 ^ 256" using Cons.prems by simp
  ultimately have "int (owed + a div ?f) + int (sum_list as) < 2 ^ 256" by linarith
  from Cons.IH [OF this] one show ?case by simp
qed simp

text \<open>A payment of the simulated fee settles exactly what was owed when it was started: if payments
  come in between reading the amount and the answer of the full node, their shares stay owed
  and nothing is paid twice or forgotten. A refused transaction leaves the amount as it is.\<close>

theorem simulated_fee_settles_once:
  assumes "num256_laws N" and "0 < unat (simulated_transaction_fee (payment S))"
    and "tick_simulated_tx_start N S owed = Some (Some pay)"
    and "int owed + int (sum_list as) < 2 ^ 256"
  shows "\<exists>owed'. add_all N (payment S) as owed = Some owed'
     \<and> (\<exists>ut'. tick_simulated_tx_finish N S key hour pay True (Some txid) (owed', ut)
          = Some (sum_list (map (\<lambda>a. a div unat (simulated_transaction_fee (payment S))) as), ut'))
     \<and> tick_simulated_tx_finish N S key hour pay True None (owed', ut) = Some (owed', ut)"
proof -
  let ?f = "unat (simulated_transaction_fee (payment S))"
  let ?s = "sum_list (map (\<lambda>a. a div ?f) as)"
  have pay: "snd pay = owed"
    using assms(3) by (auto simp: tick_simulated_tx_start_def elim!: bind_SomeE split: rita_splits if_splits)
  have le: "?s \<le> sum_list as" by (induction as) (simp_all add: add_mono)
  then have "int owed + int ?s < 2 ^ 256" using assms(4) by linarith
  then have "u256 N (int (owed + ?s) - int owed) = Some ?s"
    using num256_laws.u256_sub [OF assms(1), of owed "owed + ?s"] by simp
  with add_all_exact [OF assms(1,2,4)] pay show ?thesis
    by (simp add: tick_simulated_tx_finish_def Let_def)
qed

definition sample_fee_settings :: rita_settings where
  "sample_fee_settings = sample_chain\<lparr>payment := (payment sample_chain)\<lparr>eth_private_key := Some 3\<rparr>\<rparr>"

definition blank_storage :: usage_tracker_storage where
  "blank_storage = \<lparr>last_save_hour = 0, client_bandwidth = [], relay_bandwidth = [], exit_bandwidth = [],
     ut_payments = []\<rparr>"

lemma simulated_fee_settles_once_witness:
  "\<exists>owed'. add_all checked_num256 (payment sample_fee_settings) [50000] 400000000000000000 = Some owed'
     \<and> (\<exists>ut'. tick_simulated_tx_finish checked_num256 sample_fee_settings 1 (Some 5)
           (\<lparr>mesh_ip = V6 9, eth_address = 9, wg_public_key = 9\<rparr>, 400000000000000000) True (Some 8)
           (owed', blank_storage) = Some (5000, ut'))"
proof -
  let ?pay = "(\<lparr>mesh_ip = V6 9, eth_address = 9, wg_public_key = 9\<rparr> :: identity, 400000000000000000 :: nat)"
  have fee: "simulated_transaction_fee (payment sample_fee_settings) = 10"
    by (simp add: sample_fee_settings_def sample_chain_def payment_settings_default_def)
  have start: "tick_simulated_tx_start checked_num256 sample_fee_settings 400000000000000000 = Some (Some ?pay)"
    by (simp add: tick_simulated_tx_start_def sample_fee_settings_def sample_chain_def get_pay_thresh_def
        payment_settings_default_def default_payment_threshold_def)
  have "0 < unat (simulated_transaction_fee (payment sample_fee_settings))" by (simp add: fee)
  from simulated_fee_settles_once [OF checked256.num256_laws_axioms this start, of "[50000]" 1 "Some 5" 8 blank_storage]
  show ?thesis by (auto simp: fee)
qed

text \<open>A configured fee of zero, which the settings document as switching the fee off, makes the
  bookkeeping of the next payment panic instead.\<close>

theorem zero_fee_panics:
  "num256_laws N \<Longrightarrow> simulated_transaction_fee P = 0 \<Longrightarrow> add_tx_to_total N P amount owed = None"
  by (rule num256_laws.add_tx_to_total_zero_fee)

lemma zero_fee_panics_witness:
  "add_tx_to_total checked_num256 (payment_settings_default\<lparr>simulated_transaction_fee := 0\<rparr>) 10 20 = None"
  by (rule zero_fee_panics [OF checked256.num256_laws_axioms]) simp

end
