(* ===== verification/Kernel_Properties.thy ===== *)
theory Kernel_Properties
  imports Kernel_Interface
begin

text \<open>
  The kernel interface: a numbered WireGuard interface that is returned was created by this
  call, and the search for a traffic class in the output of \<open>tc\<close> mixes up addresses.
\<close>

section \<open>Numbered interfaces\<close>

text \<open>The kernel accepted the creation of the interface in some state.\<close>

definition wg_created :: "'w world \<Rightarrow> string \<Rightarrow> bool" where
  "wg_created W name \<longleftrightarrow> (\<exists>v v' out. run_command W ''ip'' [''link'', ''add'', name, ''type'', ''wireguard''] v
     = (Inr out, v') \<and> co_stderr out = Some [])"

lemma create_blank_created:
  "create_blank_wg_interface W name w = Some (Inr (), w') \<Longrightarrow> wg_created W name"
  by (fastforce simp: create_blank_wg_interface_def rbind_Some_iff cmd_def wg_created_def from_utf8_def
      rret_def rraise_def split: if_splits option.splits)

lemma wg_retry_Ok:
  "wg_retry W k n r w = Some (Inr name, w') \<Longrightarrow> (r = Inr () \<Longrightarrow> wg_created W (wg_name n)) \<Longrightarrow>
     \<exists>m. n \<le> m \<and> m \<le> n + k \<and> name = wg_name m \<and> wg_created W name"
proof (induction W k n r arbitrary: w rule: wg_retry.induct)
  case (1 W n r)
  then show ?case by (auto simp: rbind_Some_iff rlift_def rret_def)
next
  case (2 W k n r)
  show ?case
  proof (cases "r = Inl WgExistsError")
    case False
    with 2(2,3) show ?thesis by (auto simp: rbind_Some_iff rlift_def rret_def)
  next
    case True
    with 2(2) obtain r' w1 where
      c: "create_blank_wg_interface W (wg_name (n + 1)) w = Some (r', w1)" and
      rest: "wg_retry W k (n + 1) r' w1 = Some (Inr name, w')"
      by (auto simp: rbind_Some_iff rattempt_def split: option.splits)
    from c have "r' = Inr () \<Longrightarrow> wg_created W (wg_name (n + 1))" by (auto dest: create_blank_created)
    from 2(1) [OF True rest this] show ?thesis by auto
  qed
qed

text \<open>A numbered WireGuard interface that is returned has been created by this call: the kernel
  accepted the name without an error, and its number is at most six above the first number
  that no existing interface has.\<close>

theorem numbered_wg_interface_is_new:
  assumes "create_blank_wg_numbered_wg_interface W w = Some (Ok name, w')"
  shows "\<exists>links n m. sys_class_net W w = Ok links \<and> wg_name n \<notin> set links
     \<and> (\<forall>j<n. wg_name j \<in> set links) \<and> n \<le> m \<and> m \<le> n + 6 \<and> name = wg_name m \<and> wg_created W name"
proof -
  from assms obtain links r w1 where links: "sys_class_net W w = Inr links"
    and c: "create_blank_wg_interface W (wg_name (first_free_wg links 0)) w = Some (r, w1)"
    and rest: "wg_retry W (MAX_RETRY + 1) (first_free_wg links 0) r w1 = Some (Inr name, w')"
    by (auto simp: create_blank_wg_numbered_wg_interface_def get_interfaces_def rbind_Some_iff Let_def
        rattempt_def split: option.splits)
  from c have "r = Inr () \<Longrightarrow> wg_created W (wg_name (first_free_wg links 0))"
    by (auto dest: create_blank_created)
  from wg_retry_Ok [OF rest this] obtain m where "first_free_wg links 0 \<le> m"
    "m \<le> first_free_wg links 0 + 6" "name = wg_name m" "wg_created W name"
    by (auto simp: MAX_RETRY_def)
  with links first_free_wg_free [of links 0] first_free_wg_least [of 0 links] show ?thesis by blast
qed

definition one_link_world :: "unit world" where
  "one_link_world = dead_world\<lparr>run_command := (\<lambda>_ _ w. (Inr \<lparr>co_success = True, co_stdout = Some [],
     co_stderr = Some []\<rparr>, w)), sys_class_net := (\<lambda>_. Inr [''wg0''])\<rparr>"

lemma numbered_wg_interface_is_new_witness:
  "\<exists>name m. create_blank_wg_numbered_wg_interface one_link_world () = Some (Ok name, ())
     \<and> name = wg_name m \<and> wg_created one_link_world name"
proof -
  have names: "wg_name 0 = ''wg0''" "wg_name (Suc 0) = ''wg1''" by code_simp+
  have "first_free_wg [''wg0''] 1 = 1" by (subst first_free_wg.simps) (simp add: names)
  then have first: "first_free_wg [''wg0''] 0 = 1" by (subst first_free_wg.simps) (simp add: names)
  have run: "create_blank_wg_numbered_wg_interface one_link_world () = Some (Ok (wg_name 1), ())"
    by (simp add: create_blank_wg_numbered_wg_interface_def get_interfaces_def rio_defs one_link_world_def
        first create_blank_wg_interface_def cmd_def from_utf8_def MAX_RETRY_def numeral_eq_Suc)
  from numbered_wg_interface_is_new [OF run] run show ?thesis by blast
qed

section \<open>Traffic classes\<close>

lemma dec_step: "d < 10 \<Longrightarrow> 0 < n \<Longrightarrow> dec (10 * n + d) = dec n @ [digit_char d]"
  by (subst dec.simps) simp

text \<open>The check for a flow takes a flow of another address for its own: an address has a flow
  according to the check whenever some class is listed whose number has the number of its
  own class as a decimal prefix.\<close>

theorem flow_check_confuses_addresses:
  assumes "unat (get_class_id other) = 10 * unat (get_class_id ip) + d" and "d < 10" and "get_class_id ip \<noteq> 0"
  shows "has_flow_bulk ip (pre @ class_tag other @ post)"
proof -
  have "0 < unat (get_class_id ip)" using assms(3) by (simp add: unat_gt_0)
  then have "class_tag other = class_tag ip @ [digit_char d]"
    using assms(1,2) by (simp add: class_tag_def dec_step)
  then have "pre @ class_tag other @ post = pre @ class_tag ip @ (digit_char d # post)" by simp
  then show ?thesis unfolding has_flow_bulk_def contains_str_iff by blast
qed

lemma flow_check_confuses_addresses_witness:
  "has_flow_bulk 12 (''filter parent 1: flowid '' @ class_tag 123 @ '' match'')"
  by (rule flow_check_confuses_addresses [of 123 12 3]) (simp_all add: get_class_id_def)

end
