(* ===== verification/Payment_Validator.thy ===== *)
theory Payment_Validator
  imports Debt_Keeper
begin

text \<open>
  \<open>rita_common/src/payment_validator\<close>: transactions that peers or this router announce are
  kept until the full node confirms or refutes them; a confirmed one is credited in the debt
  keeper and recorded in the usage tracker. The hash sets are lists without duplicates whose
  order is the iteration order, the answers of the full node to the requests about a
  transaction are the parameter \<open>node\<close>, the decoders of the protocol buffers and the reader
  of bech32 addresses are the parameters \<open>D\<close>. The branches that only exist in
  development and test builds (panics that draw attention to an inconsistency) are left out.
\<close>

section \<open>Data\<close>

record to_validate =
  tv_payment :: payment_tx
  tv_received :: instant
  tv_timeout_block :: "nat option"

record payment_validator =
  unvalidated_transactions :: "to_validate list"
  previously_sent_payments :: "(identity \<times> payment_tx list) list"
  successful_transactions :: "payment_tx list"

definition payment_validator_new :: payment_validator where
  "payment_validator_new =
     \<lparr>unvalidated_transactions = [], previously_sent_payments = [], successful_transactions = []\<rparr>"

text \<open>The global state a validated payment changes: the debts, the simulated fee and the history.\<close>

record ledger =
  lg_debts :: debt_keeper
  lg_fee_owed :: nat
  lg_usage :: usage_tracker_storage

definition PAYMENT_RECEIVE_TIMEOUT :: duration where "PAYMENT_RECEIVE_TIMEOUT = from_secs 259200"
definition BLOCKS_TO_CONFIRM :: nat where "BLOCKS_TO_CONFIRM = 4"
definition BLOCKS_TO_OLD :: nat where "BLOCKS_TO_OLD = 1440"
definition VALIDATE_BATCH_SIZE :: nat where "VALIDATE_BATCH_SIZE = 10"

section \<open>Answers of the chains\<close>

record eth_fields =
  eth_to :: "address option"
  eth_from :: address
  eth_value :: nat
  eth_block_number :: "nat option"

datatype eth_transaction = Eip1559 eth_fields | Eip2930 eth_fields | Legacy eth_fields

record coin =
  coin_denom :: string
  coin_amount :: nat

record msg_microtx =
  mm_sender :: string
  mm_receiver :: string
  mm_amount :: "coin option"

record tx_response =
  txr_tx :: "string option"

record get_tx_response =
  gtr_tx_response :: "tx_response option"

text \<open>The decoders of the chain's messages: the body of a raw transaction, the messages of a body, a
  micro transaction of a message; the reader of addresses, the address of an Ethereum key, and which
  urls the client of the chain accepts.\<close>

record 'addr decoders =
  dec_raw :: "string \<Rightarrow> string option"
  dec_body :: "string \<Rightarrow> string list option"
  dec_msg :: "string \<Rightarrow> msg_microtx option"
  parse_addr :: "string \<Rightarrow> 'addr option"
  althea_addr :: "address \<Rightarrow> 'addr"
  contact_ok :: "string \<Rightarrow> bool"

record chain_node =
  cn_eth_block :: "nat \<Rightarrow> unit + nat"
  cn_eth_tx :: "nat \<Rightarrow> unit + eth_transaction option"
  cn_althea_status :: "nat \<Rightarrow> unit + chain_status"
  cn_althea_tx :: "nat \<Rightarrow> unit + get_tx_response"

section \<open>The incoming queue\<close>

text \<open>The queue is shared by the instances of one process; entries of other instances go back to its
  end, so the loop only ends when there are none.\<close>

partial_function (option) get_incoming_transaction_queue ::
  "u32 \<Rightarrow> to_validate list \<Rightarrow> (u32 \<times> to_validate) list \<Rightarrow> (to_validate list \<times> (u32 \<times> to_validate) list) option" where
  "get_incoming_transaction_queue our_netns ret q =
     (case q of [] \<Rightarrow> Some (ret, [])
      | (tx_netns, ts) # rest \<Rightarrow>
          if tx_netns = our_netns then get_incoming_transaction_queue our_netns (ret @ [ts]) rest
          else get_incoming_transaction_queue our_netns ret (rest @ [(tx_netns, ts)]))"

definition add_to_incoming_transaction_queue ::
  "u32 \<Rightarrow> to_validate \<Rightarrow> (u32 \<times> to_validate) list \<Rightarrow> (u32 \<times> to_validate) list" where
  "add_to_incoming_transaction_queue netns tx q = q @ [(netns, tx)]"

text \<open>The endpoints a peer announces its payments at: every announcement is queued, with the current time and
  no timeout block.\<close>

definition make_payments :: "u32 \<Rightarrow> instant \<Rightarrow> payment_tx \<Rightarrow> (u32 \<times> to_validate) list \<Rightarrow> (u32 \<times> to_validate) list" where
  "make_payments netns now pmt q =
     add_to_incoming_transaction_queue netns \<lparr>tv_payment = pmt, tv_received = now, tv_timeout_block = None\<rparr> q"

definition make_payments_v2 ::
  "u32 \<Rightarrow> instant \<Rightarrow> payment_tx list \<Rightarrow> (u32 \<times> to_validate) list \<Rightarrow> (u32 \<times> to_validate) list" where
  "make_payments_v2 netns now pmt_list q =
     foldl (\<lambda>q pmt. add_to_incoming_transaction_queue netns
       \<lparr>tv_payment = pmt, tv_received = now, tv_timeout_block = None\<rparr> q) q pmt_list"

section \<open>The store\<close>

definition tv_txid :: "to_validate \<Rightarrow> nat" where
  "tv_txid ts = pmt_txid (tv_payment ts)"

definition all_txids :: "payment_validator \<Rightarrow> nat list" where
  "all_txids pv = map tv_txid (unvalidated_transactions pv)
     @ map pmt_txid (concat (map snd (previously_sent_payments pv)))
     @ map pmt_txid (successful_transactions pv)"

definition is_consistent :: "payment_validator \<Rightarrow> bool" where
  "is_consistent pv = distinct (all_txids pv)"

definition check_for_duplicates :: "to_validate \<Rightarrow> payment_validator \<Rightarrow> bool" where
  "check_for_duplicates tx pv = (tv_txid tx \<in> set (all_txids pv))"

fun sent_insert :: "payment_tx \<Rightarrow> (identity \<times> payment_tx list) list \<Rightarrow> (identity \<times> payment_tx list) list" where
  "sent_insert p [] = [(pmt_to p, [p])]"
| "sent_insert p ((i, ps) # rest) =
     (if i = pmt_to p then (i, set_insert p ps) # rest else (i, ps) # sent_insert p rest)"

definition pv_remove :: "to_validate \<Rightarrow> address \<Rightarrow> bool \<Rightarrow> payment_validator \<Rightarrow> payment_validator" where
  "pv_remove tx our_address success pv =
     (let pv1 = pv\<lparr>unvalidated_transactions := remove1 tx (unvalidated_transactions pv)\<rparr>;
          from_us = (eth_address (pmt_from (tv_payment tx)) = our_address);
          pv2 = (if success \<and> \<not> from_us
                 then pv1\<lparr>successful_transactions := set_insert (tv_payment tx) (successful_transactions pv1)\<rparr>
                 else pv1)
      in if success \<and> from_us
         then pv2\<lparr>previously_sent_payments := sent_insert (tv_payment tx) (previously_sent_payments pv2)\<rparr>
         else pv2)"

definition add_to_validation_queue ::
  "to_validate \<Rightarrow> payment_validator \<Rightarrow> (rita_common_error + unit) \<times> payment_validator" where
  "add_to_validation_queue ts pv =
     (if \<not> check_for_duplicates ts pv
      then (Ok (), pv\<lparr>unvalidated_transactions := set_insert ts (unvalidated_transactions pv)\<rparr>)
      else (Err DuplicatePayment, pv))"

section \<open>Transactions on Ethereum based chains\<close>

definition get_xdai_transaction_details ::
  "eth_transaction \<Rightarrow> address option \<times> address \<times> nat \<times> nat option" where
  "get_xdai_transaction_details t =
     (case t of
        Eip1559 f \<Rightarrow> (eth_to f, eth_from f, eth_value f, eth_block_number f)
      | Eip2930 f \<Rightarrow> (eth_to f, eth_from f, eth_value f, eth_block_number f)
      | Legacy f \<Rightarrow> (eth_to f, eth_from f, eth_value f, eth_block_number f))"

definition payment_in_chain_xdai :: "nat \<Rightarrow> nat option \<Rightarrow> bool" where
  "payment_in_chain_xdai chain_height tx_height =
     (case tx_height of
        Some tx_block \<Rightarrow> if tx_block > chain_height then False
          else chain_height - tx_block \<ge> BLOCKS_TO_CONFIRM
      | None \<Rightarrow> False)"

definition payment_is_old :: "nat \<Rightarrow> nat option \<Rightarrow> bool" where
  "payment_is_old chain_height tx_height =
     (case tx_height of
        Some tx_block \<Rightarrow> if tx_block > chain_height then False
          else chain_height - tx_block > BLOCKS_TO_OLD
      | None \<Rightarrow> False)"

text \<open>What a confirmed payment does: to us it is credited to the peer it is said to come from, by us
  it settles the payment in flight. Either way it is recorded in the history.\<close>

definition credit_incoming ::
  "num256 \<Rightarrow> nat option \<Rightarrow> denom \<Rightarrow> payment_tx \<Rightarrow> ledger \<Rightarrow> ledger option" where
  "credit_incoming N hour d p lg =
     do { (_, dk) \<leftarrow> payment_received N (pmt_from p) (pmt_amount p) d (lg_debts lg);
          Some (lg\<lparr>lg_debts := dk, lg_usage := update_payments hour p (lg_usage lg)\<rparr>) }"

definition settle_outgoing ::
  "num256 \<Rightarrow> payment_settings \<Rightarrow> instant \<Rightarrow> nat option \<Rightarrow> denom \<Rightarrow> bool \<Rightarrow> payment_tx \<Rightarrow> ledger \<Rightarrow> ledger option" where
  "settle_outgoing N P now hour d must_succeed p lg =
     do { (r, dk, owed) \<leftarrow> payment_succeeded N P now (pmt_to p) (pmt_amount p) d (lg_debts lg, lg_fee_owed lg);
          (if must_succeed \<and> \<not> is_ok r then None
           else Some (lg\<lparr>lg_debts := dk, lg_fee_owed := owed, lg_usage := update_payments hour p (lg_usage lg)\<rparr>)) }"

definition handle_tx_messaging_xdai ::
  "num256 \<Rightarrow> rita_settings \<Rightarrow> instant \<Rightarrow> nat option \<Rightarrow> eth_transaction \<Rightarrow> to_validate \<Rightarrow> nat \<Rightarrow> ledger
     \<Rightarrow> ((to_validate \<times> bool) option \<times> ledger) option" where
  "handle_tx_messaging_xdai N S now hour transaction ts current_block lg =
     do {
       our_address \<leftarrow> pay_eth_address (payment S);
       let (tx_to, tx_from, tx_value, tx_block_number) = get_xdai_transaction_details transaction;
       let pmt = tv_payment ts;
       (case tx_to of
          None \<Rightarrow> Some (Some (ts, False), lg)
        | Some to \<Rightarrow>
            let to_us = (to = our_address); from_us = (tx_from = our_address);
                value_correct = (tx_value = pmt_amount pmt);
                is_in_chain = payment_in_chain_xdai current_block tx_block_number;
                is_old = payment_is_old current_block tx_block_number
            in if \<not> value_correct then Some (Some (ts, False), lg)
               else if is_old then Some (Some (ts, False), lg)
               else (case (to_us, from_us, is_in_chain) of
                   (True, False, True) \<Rightarrow>
                     do { lg' \<leftarrow> credit_incoming N hour wei_denom pmt lg; Some (Some (ts, True), lg') }
                 | (False, True, True) \<Rightarrow>
                     do { lg' \<leftarrow> settle_outgoing N (payment S) now hour wei_denom False pmt lg;
                          Some (Some (ts, True), lg') }
                 | (True, True, _) \<Rightarrow> Some (Some (ts, False), lg)
                 | (False, False, _) \<Rightarrow> Some (Some (ts, False), lg)
                 | (_, _, False) \<Rightarrow> Some (None, lg)))
     }"

definition handle_xdai_tx_checking ::
  "num256 \<Rightarrow> rita_settings \<Rightarrow> instant \<Rightarrow> nat option \<Rightarrow> chain_node \<Rightarrow> to_validate \<Rightarrow> ledger
     \<Rightarrow> ((to_validate \<times> bool) option \<times> ledger) option" where
  "handle_xdai_tx_checking N S now hour node ts lg =
     (if eth_node_list (payment S) = [] then None else
      case (cn_eth_tx node (tv_txid ts), cn_eth_block node (tv_txid ts)) of
        (Inr (Some transaction), Inr block_num) \<Rightarrow>
          handle_tx_messaging_xdai N S now hour transaction ts block_num lg
      | _ \<Rightarrow> Some (None, lg))"

section \<open>Transactions on the Althea chain\<close>

definition decode_althea_microtx :: "'addr decoders \<Rightarrow> get_tx_response \<Rightarrow> msg_microtx list" where
  "decode_althea_microtx D response =
     (case gtr_tx_response response of
        Some tx_resp \<Rightarrow>
          (case txr_tx tx_resp of
             None \<Rightarrow> []
           | Some tx \<Rightarrow>
             (case dec_raw D tx of
                None \<Rightarrow> []
              | Some body_bytes \<Rightarrow>
                (case dec_body D body_bytes of
                   None \<Rightarrow> []
                 | Some messages \<Rightarrow> List.map_filter (dec_msg D) messages)))
      | None \<Rightarrow> [])"

definition handle_tx_messaging_althea ::
  "num256 \<Rightarrow> 'addr decoders \<Rightarrow> rita_settings \<Rightarrow> instant \<Rightarrow> nat option \<Rightarrow> msg_microtx list \<Rightarrow> to_validate \<Rightarrow> ledger
     \<Rightarrow> ((to_validate \<times> bool) option \<times> ledger) option" where
  "handle_tx_messaging_althea N D S now hour transactions ts lg =
     (case transactions of
        [] \<Rightarrow> Some (Some (ts, False), lg)
      | transaction # _ \<Rightarrow>
        (case mm_amount transaction of
           None \<Rightarrow> Some (Some (ts, False), lg)
         | Some amount \<Rightarrow>
           (case parse_addr D (mm_receiver transaction) of
              None \<Rightarrow> Some (Some (ts, False), lg)
            | Some receiver_address \<Rightarrow>
              (case parse_addr D (mm_sender transaction) of
                 None \<Rightarrow> Some (Some (ts, False), lg)
               | Some sender_address \<Rightarrow>
                 (case find (\<lambda>d. coin_denom amount = denom_name d) (althea_l1_accepted_denoms (payment S)) of
                    None \<Rightarrow> Some (Some (ts, False), lg)
                  | Some d \<Rightarrow>
                    do {
                      our_id \<leftarrow> settings_identity S;
                      let our_address_althea = althea_addr D (eth_address our_id);
                      let to_us = (receiver_address = our_address_althea);
                      let from_us = (sender_address = our_address_althea);
                      (if coin_amount amount \<noteq> pmt_amount (tv_payment ts) then Some (Some (ts, False), lg)
                       else case (to_us, from_us) of
                         (True, False) \<Rightarrow>
                           do { lg' \<leftarrow> credit_incoming N hour d (tv_payment ts) lg; Some (Some (ts, True), lg') }
                       | (False, True) \<Rightarrow>
                           do { lg' \<leftarrow> settle_outgoing N (payment S) now hour d True (tv_payment ts) lg;
                                Some (Some (ts, True), lg') }
                       | (True, True) \<Rightarrow> Some (Some (ts, False), lg)
                       | (False, False) \<Rightarrow> Some (Some (ts, False), lg))
                    })))))"

definition handle_althea_tx_checking ::
  "num256 \<Rightarrow> 'addr decoders \<Rightarrow> rita_settings \<Rightarrow> instant \<Rightarrow> nat option \<Rightarrow> chain_node \<Rightarrow> to_validate \<Rightarrow> ledger
     \<Rightarrow> ((to_validate \<times> bool) option \<times> ledger) option" where
  "handle_althea_tx_checking N D S now hour node ts lg =
     (case althea_grpc_list (payment S) of [] \<Rightarrow> None | cosmos_node_grpc # _ \<Rightarrow>
      if \<not> contact_ok D cosmos_node_grpc then None else
      case (cn_althea_tx node (tv_txid ts), cn_althea_status node (tv_txid ts)) of
        (Inr transaction, _) \<Rightarrow>
          handle_tx_messaging_althea N D S now hour (decode_althea_microtx D transaction) ts lg
      | (Inl _, Inr (Moving block_height)) \<Rightarrow>
          (case tv_timeout_block ts of
             Some timeout_block \<Rightarrow>
               if block_height > timeout_block then Some (Some (ts, False), lg) else Some (None, lg)
           | None \<Rightarrow> Some (None, lg))
      | _ \<Rightarrow> Some (None, lg))"

definition validate_transaction ::
  "num256 \<Rightarrow> 'addr decoders \<Rightarrow> rita_settings \<Rightarrow> instant \<Rightarrow> nat option \<Rightarrow> chain_node \<Rightarrow> system_chain \<Rightarrow> to_validate
     \<Rightarrow> ledger \<Rightarrow> ((to_validate \<times> bool) option \<times> ledger) option" where
  "validate_transaction N D S now hour node chain ts lg =
     (case chain of
        AltheaL1 \<Rightarrow> handle_althea_tx_checking N D S now hour node ts lg
      | _ \<Rightarrow> handle_xdai_tx_checking N S now hour node ts lg)"

section \<open>The tick\<close>

definition tv_timed_out :: "instant \<Rightarrow> address \<Rightarrow> system_chain \<Rightarrow> to_validate \<Rightarrow> bool" where
  "tv_timed_out now our_address chain item =
     (case checked_duration_since now (tv_received item) of
        None \<Rightarrow> False
      | Some elapsed \<Rightarrow>
          elapsed > PAYMENT_RECEIVE_TIMEOUT
          \<or> (eth_address (pmt_from (tv_payment item)) = our_address
              \<and> elapsed > ETH_PAYMENT_SEND_TIMEOUT \<and> chain \<noteq> AltheaL1))"

text \<open>Running the futures of one batch. Each works on the global state in one step when its
  requests have been answered.\<close>

fun join_all ::
  "(to_validate \<Rightarrow> ledger \<Rightarrow> ((to_validate \<times> bool) option \<times> ledger) option) \<Rightarrow> to_validate list \<Rightarrow> ledger
     \<Rightarrow> ((to_validate \<times> bool) option list \<times> ledger) option" where
  "join_all v [] lg = Some ([], lg)"
| "join_all v (f # fs) lg =
     do { (r, lg1) \<leftarrow> v f lg; (rs, lg2) \<leftarrow> join_all v fs lg1; Some (r # rs, lg2) }"

fun batch_loop ::
  "(to_validate \<Rightarrow> ledger \<Rightarrow> ((to_validate \<times> bool) option \<times> ledger) option) \<Rightarrow> to_validate list
     \<Rightarrow> to_validate list \<Rightarrow> ledger \<Rightarrow> ((to_validate \<times> bool) option list \<times> ledger) option" where
  "batch_loop v [] buf lg = join_all v buf lg"
| "batch_loop v (f # fs) buf lg =
     (if length buf < VALIDATE_BATCH_SIZE then batch_loop v fs (buf @ [f]) lg
      else do { (rs, lg1) \<leftarrow> join_all v buf lg; (rs', lg2) \<leftarrow> batch_loop v fs [] lg1; Some (rs @ rs', lg2) })"

text \<open>The transactions a tick takes out of the queue, with their verdict.\<close>

definition tick_verdicts ::
  "num256 \<Rightarrow> 'addr decoders \<Rightarrow> rita_settings \<Rightarrow> instant \<Rightarrow> nat option \<Rightarrow> chain_node \<Rightarrow> system_chain \<Rightarrow> address
     \<Rightarrow> to_validate list \<Rightarrow> ledger \<Rightarrow> ((to_validate \<times> bool) list \<times> ledger) option" where
  "tick_verdicts N D S now hour node chain our_address items lg =
     do {
       let timed_out = filter (tv_timed_out now our_address chain) items;
       let futs = filter (\<lambda>i. \<not> tv_timed_out now our_address chain i) items;
       (results, lg') \<leftarrow> batch_loop (validate_transaction N D S now hour node chain) futs [] lg;
       Some (map (\<lambda>i. (i, False)) timed_out @ List.map_filter (\<lambda>r. r) results, lg')
     }"

definition enqueue_all :: "to_validate list \<Rightarrow> payment_validator \<Rightarrow> payment_validator" where
  "enqueue_all payments pv = foldl (\<lambda>pv p. snd (add_to_validation_queue p pv)) pv payments"

definition remove_all :: "address \<Rightarrow> (to_validate \<times> bool) list \<Rightarrow> payment_validator \<Rightarrow> payment_validator" where
  "remove_all our_address to_delete pv = foldl (\<lambda>pv (tx, success). pv_remove tx our_address success pv) pv to_delete"

definition tick_payment_validator ::
  "num256 \<Rightarrow> 'addr decoders \<Rightarrow> rita_settings \<Rightarrow> instant \<Rightarrow> nat option \<Rightarrow> chain_node \<Rightarrow> to_validate list \<Rightarrow> to_validate list
     \<Rightarrow> system_chain \<Rightarrow> payment_validator \<times> ledger
     \<Rightarrow> ((identity \<times> payment_tx list) list \<times> (to_validate \<times> bool) list \<times> payment_validator \<times> ledger) option" where
  "tick_payment_validator N D S now hour node outgoing_payments incoming chain st =
     do {
       let pv = enqueue_all (outgoing_payments @ incoming) (fst st);
       our_address \<leftarrow> pay_eth_address (payment S);
       (if unvalidated_transactions pv = [] then Some (previously_sent_payments pv, [], pv, snd st)
        else do {
          (to_delete, lg) \<leftarrow> tick_verdicts N D S now hour node chain our_address
             (unvalidated_transactions pv) (snd st);
          let pv' = remove_all our_address to_delete pv;
          Some (previously_sent_payments pv', to_delete, pv', lg)
        })
     }"

end
