(* ===== verification/Validator_Safety.thy ===== *)
theory Validator_Safety
  imports Payment_Validator "HOL-Library.Multiset" "HOL-Library.Sublist"
begin

text \<open>
  Safety of the payment validator: no transaction is counted twice, and only a transaction the
  full node confirms changes the debts. A run is a sequence of ticks, each with its own clock,
  node answers and announcements.
\<close>

section \<open>The store keeps every txid once\<close>

lemma all_txids_simps:
  "all_txids (pv\<lparr>unvalidated_transactions := u\<rparr>) =
     map tv_txid u @ map pmt_txid (concat (map snd (previously_sent_payments pv)))
       @ map pmt_txid (successful_transactions pv)"
  by (simp add: all_txids_def)

lemma is_consistent_new: "is_consistent payment_validator_new"
  by (simp add: is_consistent_def all_txids_def payment_validator_new_def)

definition settled_txids :: "payment_validator \<Rightarrow> nat set" where
  "settled_txids pv = pmt_txid ` (set (concat (map snd (previously_sent_payments pv))) \<union> set (successful_transactions pv))"

definition pending_txids :: "payment_validator \<Rightarrow> nat set" where
  "pending_txids pv = tv_txid ` set (unvalidated_transactions pv)"

lemma all_txids_settled: "set (all_txids pv) = pending_txids pv \<union> settled_txids pv"
  by (auto simp: all_txids_def settled_txids_def pending_txids_def)

lemma is_consistent_pending:
  "is_consistent pv \<Longrightarrow> distinct (map tv_txid (unvalidated_transactions pv))"
  "is_consistent pv \<Longrightarrow> ts \<in> set (unvalidated_transactions pv) \<Longrightarrow> tv_txid ts \<notin> settled_txids pv"
  by (force simp: is_consistent_def all_txids_def settled_txids_def)+

lemma add_to_validation_queue_consistent:
  assumes "is_consistent pv"
  shows "is_consistent (snd (add_to_validation_queue ts pv))"
    and "settled_txids (snd (add_to_validation_queue ts pv)) = settled_txids pv"
  using assms
  by (auto simp: add_to_validation_queue_def check_for_duplicates_def is_consistent_def all_txids_def
      set_insert_def settled_txids_def)

lemma enqueue_all_consistent:
  "is_consistent pv \<Longrightarrow> is_consistent (enqueue_all ps pv) \<and> settled_txids (enqueue_all ps pv) = settled_txids pv"
  unfolding enqueue_all_def
  by (induction ps arbitrary: pv) (simp_all add: add_to_validation_queue_consistent)

lemma mset_sent_insert:
  "p \<notin> set (concat (map snd m)) \<Longrightarrow>
   mset (concat (map snd (sent_insert p m))) = add_mset p (mset (concat (map snd m)))"
  by (induction m rule: sent_insert.induct[of _ p]) (auto simp: set_insert_def)

lemma mset_pv_remove:
  assumes c: "is_consistent pv" and ts: "ts \<in> set (unvalidated_transactions pv)"
  shows "mset (all_txids (pv_remove ts our success pv)) =
    (if success then mset (all_txids pv) else mset (all_txids pv) - {#tv_txid ts#})"
    and "settled_txids (pv_remove ts our success pv) =
      settled_txids pv \<union> (if success then {tv_txid ts} else {})"
    and "unvalidated_transactions (pv_remove ts our success pv) = remove1 ts (unvalidated_transactions pv)"
proof -
  have new: "tv_payment ts \<notin> set (concat (map snd (previously_sent_payments pv)))"
    "tv_payment ts \<notin> set (successful_transactions pv)"
    using is_consistent_pending(2)[OF c ts] by (auto simp: settled_txids_def tv_txid_def)
  obtain u where u: "mset (unvalidated_transactions pv) = add_mset ts u"
    using ts by (metis in_multiset_in_set insert_DiffM)
  note m = mset_sent_insert[OF new(1)]
  have m': "set (concat (map snd (sent_insert (tv_payment ts) (previously_sent_payments pv)))) =
      insert (tv_payment ts) (set (concat (map snd (previously_sent_payments pv))))"
    using arg_cong[OF m, of set_mset] by simp
  show "mset (all_txids (pv_remove ts our success pv)) =
    (if success then mset (all_txids pv) else mset (all_txids pv) - {#tv_txid ts#})"
    using new m u by (simp add: pv_remove_def all_txids_def set_insert_def Let_def tv_txid_def)
  show "settled_txids (pv_remove ts our success pv) =
      settled_txids pv \<union> (if success then {tv_txid ts} else {})"
    using new m' by (auto simp: pv_remove_def settled_txids_def set_insert_def Let_def tv_txid_def)
  show "unvalidated_transactions (pv_remove ts our success pv) = remove1 ts (unvalidated_transactions pv)"
    by (simp add: pv_remove_def Let_def)
qed

lemma pv_remove_consistent:
  assumes "is_consistent pv" and "ts \<in> set (unvalidated_transactions pv)"
  shows "is_consistent (pv_remove ts our success pv)"
proof -
  let ?rest = "if success then all_txids pv else remove1 (tv_txid ts) (all_txids pv)"
  have "mset (all_txids (pv_remove ts our success pv)) = mset ?rest"
    using mset_pv_remove(1)[OF assms, of our success] by simp
  then have "distinct (all_txids (pv_remove ts our success pv)) = distinct ?rest"
    by (rule mset_eq_imp_distinct_iff)
  with assms(1) show ?thesis by (simp add: is_consistent_def)
qed

lemma remove_all_consistent:
  assumes "is_consistent pv" and "distinct (map fst vs)" and "fst ` set vs \<subseteq> set (unvalidated_transactions pv)"
  shows "is_consistent (remove_all our vs pv) \<and>
    settled_txids (remove_all our vs pv) = settled_txids pv \<union> tv_txid ` fst ` set (filter snd vs)"
  using assms
proof (induction vs arbitrary: pv)
  case Nil
  then show ?case by (simp add: remove_all_def)
next
  case (Cons v vs)
  obtain ts s where v: "v = (ts, s)" by (cases v)
  let ?pv = "pv_remove ts our s pv"
  have ts: "ts \<in> set (unvalidated_transactions pv)" using Cons.prems(3) v by simp
  have "distinct (unvalidated_transactions pv)"
    using is_consistent_pending(1)[OF Cons.prems(1)] by (simp add: distinct_map)
  then have sub: "fst ` set vs \<subseteq> set (unvalidated_transactions ?pv)"
    using Cons.prems v mset_pv_remove(3)[OF Cons.prems(1) ts, of our s] by auto
  have "is_consistent (remove_all our vs ?pv) \<and>
     settled_txids (remove_all our vs ?pv) = settled_txids ?pv \<union> tv_txid ` fst ` set (filter snd vs)"
    using Cons.IH[OF pv_remove_consistent[OF Cons.prems(1) ts] _ sub] Cons.prems(2) by simp
  then show ?case
    using mset_pv_remove(2)[OF Cons.prems(1) ts, of our s] v by (auto simp: remove_all_def)
qed

section \<open>Verdicts\<close>

text \<open>The shape of every handler: a verdict is about the transaction it was asked about, and without
  a positive verdict the ledger is as before.\<close>

definition fair_verdict :: "to_validate \<Rightarrow> ledger \<Rightarrow> (to_validate \<times> bool) option \<Rightarrow> ledger \<Rightarrow> bool" where
  "fair_verdict ts lg r lg' =
     (r \<in> {None, Some (ts, False), Some (ts, True)} \<and> (r \<noteq> Some (ts, True) \<longrightarrow> lg' = lg))"

definition fair_validator ::
  "(to_validate \<Rightarrow> ledger \<Rightarrow> ((to_validate \<times> bool) option \<times> ledger) option) \<Rightarrow> bool" where
  "fair_validator v = (\<forall>ts lg r lg'. v ts lg = Some (r, lg') \<longrightarrow> fair_verdict ts lg r lg')"

lemma handle_tx_messaging_xdai_fair:
  "handle_tx_messaging_xdai N S now hour t ts b lg = Some (r, lg') \<Longrightarrow> fair_verdict ts lg r lg'"
  unfolding handle_tx_messaging_xdai_def Let_def
  by (erule bind_SomeE) (auto simp: fair_verdict_def elim!: bind_SomeE
      split: if_splits option.splits prod.splits bool.splits)

lemma handle_tx_messaging_althea_fair:
  "handle_tx_messaging_althea N D S now hour txs ts lg = Some (r, lg') \<Longrightarrow> fair_verdict ts lg r lg'"
  unfolding handle_tx_messaging_althea_def Let_def
  by (auto simp: fair_verdict_def elim!: bind_SomeE
      split: if_splits option.splits prod.splits bool.splits list.splits)

lemma validate_transaction_fair: "fair_validator (validate_transaction N D S now hour node chain)"
  unfolding fair_validator_def validate_transaction_def handle_althea_tx_checking_def
    handle_xdai_tx_checking_def
  by (auto dest: handle_tx_messaging_xdai_fair handle_tx_messaging_althea_fair
      split: if_splits option.splits sum.splits list.splits system_chain.splits chain_status.splits)
    (simp_all add: fair_verdict_def)

lemma fair_validatorD:
  "fair_validator v \<Longrightarrow> v ts lg = Some (r, lg') \<Longrightarrow> fair_verdict ts lg r lg'"
  by (simp add: fair_validator_def)

lemma join_all_verdicts:
  assumes "fair_validator v"
    and "join_all v fs lg = Some (rs, lg')"
  shows "subseq (map fst (List.map_filter (\<lambda>r. r) rs)) fs \<and> length rs = length fs"
  using assms(2)
proof (induction fs arbitrary: lg rs)
  case Nil
  then show ?case by (simp add: map_filter_simps)
next
  case (Cons f fs)
  from Cons.prems obtain r lg1 rs1 where r: "v f lg = Some (r, lg1)"
    and "join_all v fs lg1 = Some (rs1, lg')" and "rs = r # rs1"
    by (auto elim!: bind_SomeE)
  moreover have "fst x = f" if "r = Some x" for x
    using fair_validatorD[OF assms(1) r] that by (auto simp: fair_verdict_def)
  ultimately show ?case
    using Cons.IH[of lg1 rs1] by (cases r) (auto simp: map_filter_simps)
qed

lemma batch_loop_verdicts:
  assumes "fair_validator v"
    and "batch_loop v fs buf lg = Some (rs, lg')"
  shows "subseq (map fst (List.map_filter (\<lambda>r. r) rs)) (buf @ fs)"
  using assms(2)
proof (induction fs arbitrary: buf lg rs)
  case Nil
  then show ?case using join_all_verdicts[OF assms(1)] by auto
next
  case (Cons f fs)
  show ?case
  proof (cases "length buf < VALIDATE_BATCH_SIZE")
    case True
    then show ?thesis using Cons.IH[of "buf @ [f]" lg rs] Cons.prems by simp
  next
    case False
    with Cons.prems obtain rs1 lg1 rs2 where
      "join_all v buf lg = Some (rs1, lg1)" "batch_loop v fs [] lg1 = Some (rs2, lg')" "rs = rs1 @ rs2"
      by (auto elim!: bind_SomeE)
    moreover from this have "subseq (map fst (List.map_filter (\<lambda>r. r) rs1)) buf"
      using join_all_verdicts[OF assms(1)] by blast
    moreover have "subseq (map fst (List.map_filter (\<lambda>r. r) rs2)) (f # fs)"
      using Cons.IH[of "[]" lg1 rs2] calculation(2) by auto
    ultimately show ?thesis by (simp add: map_filter_def list_emb_append_mono)
  qed
qed

lemma tick_verdicts_ok:
  assumes "tick_verdicts N D S now hour node chain our items lg = Some (vs, lg')" and "distinct items"
  shows "distinct (map fst vs) \<and> fst ` set vs \<subseteq> set items"
proof -
  let ?t = "tv_timed_out now our chain"
  obtain rs where rs: "batch_loop (validate_transaction N D S now hour node chain) (filter (\<lambda>i. \<not> ?t i) items) [] lg
      = Some (rs, lg')" and vs: "vs = map (\<lambda>i. (i, False)) (filter ?t items) @ List.map_filter (\<lambda>r. r) rs"
    using assms(1) by (auto simp: tick_verdicts_def elim!: bind_SomeE)
  have sub: "subseq (map fst (List.map_filter (\<lambda>r. r) rs)) (filter (\<lambda>i. \<not> ?t i) items)"
    using batch_loop_verdicts[OF validate_transaction_fair rs] by simp
  have "distinct (map fst (List.map_filter (\<lambda>r. r) rs))"
    using sub assms(2) by (auto simp: subseq_conv_nths)
  moreover have "set (map fst (List.map_filter (\<lambda>r. r) rs)) \<subseteq> set (filter (\<lambda>i. \<not> ?t i) items)"
    using sub set_nths_subset unfolding subseq_conv_nths by metis
  ultimately show ?thesis using assms(2) by (auto simp: vs comp_def)
qed

section \<open>Runs\<close>

record tick_input =
  ti_now :: instant
  ti_hour :: "nat option"
  ti_node :: chain_node
  ti_outgoing :: "to_validate list"
  ti_incoming :: "to_validate list"

text \<open>The transactions a run accepts, in order, and the state it ends in.\<close>

fun validator_run ::
  "num256 \<Rightarrow> 'addr decoders \<Rightarrow> rita_settings \<Rightarrow> system_chain \<Rightarrow> tick_input list \<Rightarrow> payment_validator \<times> ledger
     \<Rightarrow> (to_validate list \<times> payment_validator \<times> ledger) option" where
  "validator_run N D S chain [] st = Some ([], st)"
| "validator_run N D S chain (i # is) st =
     do {
       (_, vs, st1) \<leftarrow> tick_payment_validator N D S (ti_now i) (ti_hour i) (ti_node i)
          (ti_outgoing i) (ti_incoming i) chain st;
       (acc, st2) \<leftarrow> validator_run N D S chain is st1;
       Some (map fst (filter snd vs) @ acc, st2)
     }"

lemma tick_payment_validator_cases:
  assumes "tick_payment_validator N D S now hour node out inc chain (pv, lg) = Some (sent, vs, pv', lg')"
  obtains our where "pay_eth_address (payment S) = Some our"
    and "tick_verdicts N D S now hour node chain our (unvalidated_transactions (enqueue_all (out @ inc) pv)) lg
       = Some (vs, lg')"
    and "pv' = remove_all our vs (enqueue_all (out @ inc) pv)" and "sent = previously_sent_payments pv'"
  using assms
  by (fastforce simp: tick_payment_validator_def Let_def remove_all_def tick_verdicts_def map_filter_simps
      elim!: bind_SomeE split: if_splits)

lemma tick_payment_validator_consistent:
  assumes "is_consistent pv"
    and "tick_payment_validator N D S now hour node out inc chain (pv, lg) = Some (sent, vs, pv', lg')"
  shows "is_consistent pv'"
    and "settled_txids pv' = settled_txids pv \<union> tv_txid ` set (map fst (filter snd vs))"
    and "distinct (map tv_txid (map fst (filter snd vs)))"
    and "settled_txids pv \<inter> tv_txid ` set (map fst (filter snd vs)) = {}"
proof -
  let ?pv = "enqueue_all (out @ inc) pv"
  obtain our where v: "tick_verdicts N D S now hour node chain our (unvalidated_transactions ?pv) lg = Some (vs, lg')"
    and pv': "pv' = remove_all our vs ?pv"
    using tick_payment_validator_cases[OF assms(2)] by metis
  note c = enqueue_all_consistent[OF assms(1), of "out @ inc"]
  note d = is_consistent_pending(1)[OF conjunct1[OF c]]
  have vs: "distinct (map fst vs)" "fst ` set vs \<subseteq> set (unvalidated_transactions ?pv)"
    using tick_verdicts_ok[OF v] d by (simp_all add: distinct_map)
  note r = remove_all_consistent[OF conjunct1[OF c] vs, of our]
  show "is_consistent pv'" using r pv' by simp
  show "settled_txids pv' = settled_txids pv \<union> tv_txid ` set (map fst (filter snd vs))"
    using r c pv' by simp
  have acc: "distinct (map fst (filter snd vs))" "set (map fst (filter snd vs)) \<subseteq> set (unvalidated_transactions ?pv)"
    using vs by (auto simp: distinct_map_filter)
  show "distinct (map tv_txid (map fst (filter snd vs)))"
    using acc d by (meson distinct_map inj_on_subset)
  show "settled_txids pv \<inter> tv_txid ` set (map fst (filter snd vs)) = {}"
    using acc(2) is_consistent_pending(2)[OF conjunct1[OF c]] c by fastforce
qed

lemma validator_run_settles:
  assumes "validator_run N D S chain is (pv, lg) = Some (acc, pv', lg')" and "is_consistent pv"
  shows "is_consistent pv' \<and> settled_txids pv' = settled_txids pv \<union> tv_txid ` set acc
    \<and> settled_txids pv \<inter> tv_txid ` set acc = {} \<and> distinct (map tv_txid acc)"
  using assms
proof (induction "is" arbitrary: pv lg acc)
  case Nil
  then show ?case by simp
next
  case (Cons i "is")
  obtain sent vs pv1 lg1 acc1 where
    t: "tick_payment_validator N D S (ti_now i) (ti_hour i) (ti_node i) (ti_outgoing i) (ti_incoming i) chain (pv, lg)
        = Some (sent, vs, pv1, lg1)"
    and r: "validator_run N D S chain is (pv1, lg1) = Some (acc1, pv', lg')"
    and a: "acc = map fst (filter snd vs) @ acc1"
    using Cons.prems(1) by (auto elim!: bind_SomeE)
  note c = tick_payment_validator_consistent[OF Cons.prems(2) t]
  define A where "A = map fst (filter snd vs)"
  show ?case using Cons.IH[OF r c(1)] c(2-4)[folded A_def] unfolding a A_def[symmetric] by auto
qed

section \<open>Credits\<close>

definition received :: "identity \<Rightarrow> ledger \<Rightarrow> nat" where
  "received ident lg = total_payment_received (get_debt_data_mut ident (lg_debts lg))"

definition claimed :: "identity \<Rightarrow> to_validate list \<Rightarrow> nat" where
  "claimed ident acc = sum_list (map (\<lambda>ts. pmt_amount (tv_payment ts)) (filter (\<lambda>ts. pmt_from (tv_payment ts) = ident) acc))"

definition accepted :: "(to_validate \<times> bool) option list \<Rightarrow> to_validate list" where
  "accepted rs = map fst (filter snd (List.map_filter (\<lambda>r. r) rs))"

lemma claimed_simps [simp]:
  "claimed ident [] = 0"
  "claimed ident (a # as) = (if pmt_from (tv_payment a) = ident then pmt_amount (tv_payment a) else 0) + claimed ident as"
  "claimed ident (as @ bs) = claimed ident as + claimed ident bs"
  by (simp_all add: claimed_def)

lemma accepted_simps [simp]:
  "accepted [] = []"
  "accepted (r # rs) = (case r of Some (ts, True) \<Rightarrow> [ts] | _ \<Rightarrow> []) @ accepted rs"
  "accepted (rs @ rs') = accepted rs @ accepted rs'"
  by (auto simp: accepted_def map_filter_def split: option.splits bool.splits)

text \<open>What the full node confirms about an announced transaction: it is a transfer of the announced amount
  between the two addresses, in a block with at least four and at most 1440 successors.\<close>

definition confirmed_transfer :: "chain_node \<Rightarrow> to_validate \<Rightarrow> address \<Rightarrow> address \<Rightarrow> bool" where
  "confirmed_transfer node ts from to \<longleftrightarrow>
     (\<exists>t h b. cn_eth_tx node (tv_txid ts) = Inr (Some t) \<and> cn_eth_block node (tv_txid ts) = Inr h
        \<and> get_xdai_transaction_details t = (Some to, from, pmt_amount (tv_payment ts), Some b)
        \<and> b + 4 \<le> h \<and> h \<le> b + 1440)"

definition transfer_to_us :: "address \<Rightarrow> chain_node \<Rightarrow> to_validate \<Rightarrow> bool" where
  "transfer_to_us our node ts \<longleftrightarrow> (\<exists>from. from \<noteq> our \<and> confirmed_transfer node ts from our)"

definition transfer_by_us :: "address \<Rightarrow> chain_node \<Rightarrow> to_validate \<Rightarrow> bool" where
  "transfer_by_us our node ts \<longleftrightarrow> (\<exists>to. to \<noteq> our \<and> confirmed_transfer node ts our to)"

text \<open>A step from one ledger to the next is backed when the recorded total of the peer grows by exactly
  what some of the accepted transactions claim, all of them incoming, and all the others are outgoing.\<close>

definition backed ::
  "(to_validate \<Rightarrow> bool) \<Rightarrow> (to_validate \<Rightarrow> bool) \<Rightarrow> identity \<Rightarrow> ledger \<Rightarrow> to_validate list \<Rightarrow> ledger \<Rightarrow> bool" where
  "backed inc out ident lg acc lg' \<longleftrightarrow>
     (received ident lg + claimed ident acc < 2 ^ 256 \<longrightarrow>
       (\<exists>credited. subseq credited acc \<and> (\<forall>ts\<in>set credited. inc ts) \<and> (\<forall>ts\<in>set acc. ts \<in> set credited \<or> out ts)
          \<and> received ident lg' = received ident lg + claimed ident credited))"

lemma claimed_subseq: "subseq as bs \<Longrightarrow> claimed ident as \<le> claimed ident bs"
  by (induction rule: list_emb.induct) auto

lemma backed_refl [simp]: "backed inc out ident lg [] lg"
  by (auto simp: backed_def intro: exI[of _ "[]"])

lemma backed_trans:
  assumes "backed inc out ident lg as lg1" and "backed inc out ident lg1 bs lg2"
  shows "backed inc out ident lg (as @ bs) lg2"
  unfolding backed_def
proof
  assume b: "received ident lg + claimed ident (as @ bs) < 2 ^ 256"
  then obtain c where c: "subseq c as" "\<forall>ts\<in>set c. inc ts" "\<forall>ts\<in>set as. ts \<in> set c \<or> out ts"
    "received ident lg1 = received ident lg + claimed ident c"
    using assms(1) by (auto simp: backed_def)
  moreover have "received ident lg1 + claimed ident bs < 2 ^ 256"
    using b c(4) claimed_subseq[OF c(1), of ident] by simp
  then obtain d where "subseq d bs" "\<forall>ts\<in>set d. inc ts" "\<forall>ts\<in>set bs. ts \<in> set d \<or> out ts"
    "received ident lg2 = received ident lg1 + claimed ident d"
    using assms(2) by (auto simp: backed_def)
  ultimately show "\<exists>e. subseq e (as @ bs) \<and> (\<forall>ts\<in>set e. inc ts) \<and> (\<forall>ts\<in>set (as @ bs). ts \<in> set e \<or> out ts)
      \<and> received ident lg2 = received ident lg + claimed ident e"
    by (intro exI[of _ "c @ d"]) (auto intro: list_emb_append_mono)
qed

lemma backed_mono:
  assumes "backed inc out ident lg acc lg'" and "\<And>ts. inc ts \<Longrightarrow> inc' ts" and "\<And>ts. out ts \<Longrightarrow> out' ts"
  shows "backed inc' out' ident lg acc lg'"
  using assms unfolding backed_def by meson

definition backed_validator ::
  "(to_validate \<Rightarrow> bool) \<Rightarrow> (to_validate \<Rightarrow> bool) \<Rightarrow> identity
     \<Rightarrow> (to_validate \<Rightarrow> ledger \<Rightarrow> ((to_validate \<times> bool) option \<times> ledger) option) \<Rightarrow> bool" where
  "backed_validator inc out ident v \<longleftrightarrow>
     (\<forall>ts lg r lg'. v ts lg = Some (r, lg') \<longrightarrow> backed inc out ident lg (accepted [r]) lg')"

lemma join_all_backed:
  assumes "backed_validator inc out ident v" and "join_all v fs lg = Some (rs, lg')"
  shows "backed inc out ident lg (accepted rs) lg'"
  using assms(2)
proof (induction fs arbitrary: lg rs)
  case (Cons f fs)
  then obtain r lg1 rs1 where r: "v f lg = Some (r, lg1)" "join_all v fs lg1 = Some (rs1, lg')" "rs = r # rs1"
    by (auto elim!: bind_SomeE)
  have "backed inc out ident lg (accepted [r]) lg1" using assms(1) r(1) unfolding backed_validator_def by blast
  from backed_trans[OF this Cons.IH[OF r(2)]] show ?case by (simp add: r(3))
qed simp

lemma batch_loop_backed:
  assumes "backed_validator inc out ident v" and "batch_loop v fs buf lg = Some (rs, lg')"
  shows "backed inc out ident lg (accepted rs) lg'"
  using assms(2)
proof (induction fs arbitrary: buf lg rs)
  case Nil
  then show ?case using join_all_backed[OF assms(1)] by simp
next
  case (Cons f fs)
  show ?case
  proof (cases "length buf < VALIDATE_BATCH_SIZE")
    case True
    then show ?thesis using Cons by simp
  next
    case False
    with Cons.prems obtain rs1 lg1 rs2 where r: "join_all v buf lg = Some (rs1, lg1)"
      "batch_loop v fs [] lg1 = Some (rs2, lg')" "rs = rs1 @ rs2"
      by (auto elim!: bind_SomeE)
    from backed_trans[OF join_all_backed[OF assms(1) r(1)] Cons.IH[OF r(2)]] show ?thesis
      by (simp add: r(3))
  qed
qed

context num256_laws
begin

lemma nd_payment_received_total:
  assumes "nd_payment_received N amount d = Some (r, d')" and "total_payment_received d + amount < 2 ^ 256"
  shows "total_payment_received d' = total_payment_received d + amount"
proof -
  have "u256 N (int (total_payment_received d) + int amount) = Some (total_payment_received d + amount)"
    by (rule u256_add)
      (use assms(2) in \<open>simp only: of_nat_add[symmetric] of_nat_less_numeral_power_cancel_iff\<close>)
  then show ?thesis using assms(1)
    by (auto simp: nd_payment_received_def Let_def elim!: bind_SomeE split: if_splits option.splits)
qed

lemma credit_incoming_received:
  assumes "credit_incoming N hour wei_denom p lg = Some lg'"
    and "received (pmt_from p) lg + pmt_amount p < 2 ^ 256"
  shows "received ident lg' = received ident lg + (if pmt_from p = ident then pmt_amount p else 0)"
  using assms nd_payment_received_total
  by (auto simp: credit_incoming_def payment_received_def dk_payment_received_def with_peer_def
      received_def put_debt_data_def get_debt_data_mut_def elim!: bind_SomeE)

lemma credit_incoming_other:
  assumes "credit_incoming N hour wei_denom p lg = Some lg'" and "pmt_from p \<noteq> ident"
  shows "received ident lg' = received ident lg"
  using assms
  by (auto simp: credit_incoming_def payment_received_def dk_payment_received_def with_peer_def
      received_def put_debt_data_def get_debt_data_mut_def elim!: bind_SomeE)

lemma settle_outgoing_received:
  assumes "settle_outgoing N P now hour d must (tv_payment ts) lg = Some lg'"
  shows "received ident lg' = received ident lg"
  using assms
  by (auto simp: settle_outgoing_def payment_succeeded_def dk_payment_succeeded_def with_peer_def
      nd_payment_succeeded_def received_def put_debt_data_def get_debt_data_mut_def Let_def
      elim!: bind_SomeE split: if_splits option.splits)

lemma credit_incoming_backed:
  assumes "credit_incoming N hour wei_denom (tv_payment ts) lg = Some lg'" and "inc ts"
  shows "backed inc out ident lg [ts] lg'"
  using credit_incoming_received[OF assms(1), of ident] credit_incoming_other[OF assms(1), of ident] assms(2)
  by (auto simp: backed_def intro: exI[of _ "[ts]"])

lemma settle_outgoing_backed:
  assumes "settle_outgoing N P now hour d must (tv_payment ts) lg = Some lg'" and "out ts"
  shows "backed inc out ident lg [ts] lg'"
  using settle_outgoing_received[OF assms(1), of ident] assms(2) by (auto simp: backed_def intro: exI[of _ "[]"])

lemma validate_transaction_backed:
  assumes "chain \<noteq> AltheaL1" and "pay_eth_address (payment S) = Some our"
  shows "backed_validator (transfer_to_us our node) (transfer_by_us our node) ident
    (validate_transaction N D S now hour node chain)"
  unfolding backed_validator_def
proof (intro allI impI)
  fix ts lg r lg' assume "validate_transaction N D S now hour node chain ts lg = Some (r, lg')"
  then have v: "handle_xdai_tx_checking N S now hour node ts lg = Some (r, lg')"
    using assms(1) by (simp add: validate_transaction_def split: system_chain.splits)
  let ?b = "backed (transfer_to_us our node) (transfer_by_us our node) ident lg (accepted [r]) lg'"
  show ?b
  proof (cases "\<exists>t h. cn_eth_tx node (tv_txid ts) = Inr (Some t) \<and> cn_eth_block node (tv_txid ts) = Inr h")
    case True
    then obtain t h where n: "cn_eth_tx node (tv_txid ts) = Inr (Some t)" "cn_eth_block node (tv_txid ts) = Inr h"
      by blast
    obtain to src val b where d: "get_xdai_transaction_details t = (to, src, val, b)" by (metis prod.exhaust)
    note defs = confirmed_transfer_def transfer_to_us_def transfer_by_us_def n d
    have "handle_tx_messaging_xdai N S now hour t ts h lg = Some (r, lg')"
      using v n by (simp add: handle_xdai_tx_checking_def split: if_splits)
    then show ?b
      using assms(2)
      by (auto simp: d handle_tx_messaging_xdai_def Let_def payment_in_chain_xdai_def payment_is_old_def
          BLOCKS_TO_CONFIRM_def BLOCKS_TO_OLD_def elim!: bind_SomeE split: if_splits option.splits bool.splits)
        (erule credit_incoming_backed, (auto simp: defs)[1], erule settle_outgoing_backed, (auto simp: defs)[1])
  next
    case False
    then have "r = None \<and> lg' = lg" using v
      by (auto simp: handle_xdai_tx_checking_def split: if_splits option.splits sum.splits)
    then show ?b by simp
  qed
qed

lemma tick_verdicts_backed:
  assumes "chain \<noteq> AltheaL1" and "pay_eth_address (payment S) = Some our"
    and "tick_verdicts N D S now hour node chain addr items lg = Some (vs, lg')"
  shows "backed (transfer_to_us our node) (transfer_by_us our node) ident lg (map fst (filter snd vs)) lg'"
  using assms(3) batch_loop_backed[OF validate_transaction_backed[OF assms(1,2)]]
  by (auto simp: tick_verdicts_def accepted_def comp_def elim!: bind_SomeE)

lemma validator_run_backed:
  assumes "chain \<noteq> AltheaL1" and "pay_eth_address (payment S) = Some our"
    and "validator_run N D S chain is (pv, lg) = Some (acc, pv', lg')"
  shows "backed (\<lambda>ts. \<exists>i\<in>set is. transfer_to_us our (ti_node i) ts) (\<lambda>ts. \<exists>i\<in>set is. transfer_by_us our (ti_node i) ts)
    ident lg acc lg'"
  using assms(3)
proof (induction "is" arbitrary: pv lg acc)
  case (Cons i "is")
  let ?to = "\<lambda>is ts. \<exists>i\<in>set is. transfer_to_us our (ti_node i) ts"
  let ?by = "\<lambda>is ts. \<exists>i\<in>set is. transfer_by_us our (ti_node i) ts"
  obtain sent vs pv1 lg1 acc1 where
    t: "tick_payment_validator N D S (ti_now i) (ti_hour i) (ti_node i) (ti_outgoing i) (ti_incoming i) chain (pv, lg)
        = Some (sent, vs, pv1, lg1)"
    and r: "validator_run N D S chain is (pv1, lg1) = Some (acc1, pv', lg')"
    and a: "acc = map fst (filter snd vs) @ acc1"
    using Cons.prems by (auto elim!: bind_SomeE)
  have "backed (transfer_to_us our (ti_node i)) (transfer_by_us our (ti_node i)) ident lg (map fst (filter snd vs)) lg1"
    using tick_payment_validator_cases[OF t] tick_verdicts_backed[OF assms(1,2)] by metis
  then have "backed (?to (i # is)) (?by (i # is)) ident lg (map fst (filter snd vs)) lg1"
    by (rule backed_mono) simp_all
  moreover have "backed (?to (i # is)) (?by (i # is)) ident lg1 acc1 lg'"
    using Cons.IH[OF r] by (rule backed_mono) simp_all
  ultimately show ?case unfolding a by (rule backed_trans)
qed simp

end

section \<open>Batches\<close>

lemma join_all_length: "join_all v fs lg = Some (rs, lg') \<Longrightarrow> length rs = length fs"
  by (induction fs arbitrary: lg rs) (auto elim!: bind_SomeE)

lemma batch_loop_length:
  assumes "batch_loop v fs buf lg = Some (rs, lg')" and "length buf \<le> VALIDATE_BATCH_SIZE"
  shows "length rs = length (buf @ fs) - length (buf @ fs) div (VALIDATE_BATCH_SIZE + 1)"
  using assms
proof (induction fs arbitrary: buf lg rs)
  case Nil
  then show ?case using join_all_length by (fastforce simp: VALIDATE_BATCH_SIZE_def)
next
  case (Cons f fs)
  show ?case
  proof (cases "length buf < VALIDATE_BATCH_SIZE")
    case True
    then show ?thesis using Cons.IH[of "buf @ [f]"] Cons.prems by simp
  next
    case False
    with Cons.prems obtain rs1 lg1 rs2 where r: "join_all v buf lg = Some (rs1, lg1)"
      "batch_loop v fs [] lg1 = Some (rs2, lg')" "rs = rs1 @ rs2"
      by (auto elim!: bind_SomeE)
    then show ?thesis
      using Cons.IH[OF r(2)] join_all_length[OF r(1)] False Cons.prems(2)
      by (simp add: VALIDATE_BATCH_SIZE_def)
  qed
qed

end
