(* ===== verification/Payment_Controller.thy ===== *)
theory Payment_Controller
  imports Payment_Validator
begin

text \<open>
  \<open>rita_common/src/payment_controller\<close>: payments the debt keeper orders are published on the
  chain of the system, then announced to the neighbor; an announcement that fails is repeated.
  The chain clients and the neighbor are the parameter \<open>pay_node\<close>, one for each request, so
  that two requests may be answered differently.
\<close>

section \<open>Data\<close>

record resend_info =
  ri_full_node :: string
  ri_pmt :: payment_tx
  ri_attempt :: u8

record payment_controller =
  outgoing_queue :: "unpublished_payment_tx list"
  resend_queue :: "resend_info list"

definition payment_controller_new :: payment_controller where
  "payment_controller_new = \<lparr>outgoing_queue = [], resend_queue = []\<rparr>"

datatype payment_controller_error =
  ResendFailed | InsufficientFunds nat nat | ZeroPayment | FailedToSendPayment

definition payment_controller_error_display :: "(nat \<Rightarrow> string) \<Rightarrow> payment_controller_error \<Rightarrow> string" where
  "payment_controller_error_display show_uint256 e =
     (case e of
        ResendFailed \<Rightarrow> ''Failed to resend txid after all attempts!''
      | InsufficientFunds amount balance \<Rightarrow>
          ''Can not send amount '' @ show_uint256 amount @ '' with balance '' @ show_uint256 balance
      | ZeroPayment \<Rightarrow> ''Attempted to send zero value payment!''
      | FailedToSendPayment \<Rightarrow> ''Failed to send payment!'')"

definition MAX_TXID_RETRIES :: u8 where "MAX_TXID_RETRIES = 15"
definition ALTHEA_L1_MICROTX_TIMEOUT :: nat where "ALTHEA_L1_MICROTX_TIMEOUT = 25"

text \<open>Submitting a prepared transaction: the node answers with its id, rejects it, or the request fails
  in a way that leaves open whether it was published.\<close>

datatype submit_result = Submitted nat | JsonRpcError | OtherWeb3Error

record 'tx pay_node =
  pn_node :: nat
  pn_balance :: "unit + nat option"
  pn_status :: "unit + chain_status"
  pn_microtx :: "unit + string"
  pn_prepare :: "unpublished_payment_tx \<Rightarrow> unit + 'tx"
  pn_submit :: "'tx \<Rightarrow> submit_result"
  pn_txid :: "'tx \<Rightarrow> nat"
  pn_ack :: "ip_addr \<Rightarrow> u16 \<Rightarrow> payment_tx \<Rightarrow> payment_tx list \<Rightarrow> (unit + bool) \<times> (unit + bool)"

section \<open>Announcing a payment\<close>

text \<open>Both versions of the endpoint are tried. The answer is the pair of the acknowledgements of
  version two and one: a network error, or whether the status is a success.\<close>

definition send_make_payment_endpoints ::
  "'tx pay_node \<Rightarrow> payment_tx \<Rightarrow> network_settings \<Rightarrow> string \<Rightarrow> (identity \<times> payment_tx list) list \<Rightarrow> u8
     \<Rightarrow> resend_info option" where
  "send_make_payment_endpoints pn pmt network_settings full_node sent_payments attempt =
     (let txid_history = set_insert pmt (unwrap_or (map_of sent_payments (pmt_to pmt)) []);
          resend_info = \<lparr>ri_full_node = full_node, ri_pmt = pmt, ri_attempt = attempt + 1\<rparr>
      in case pn_ack pn (mesh_ip (pmt_to pmt)) (rita_contact_port network_settings) pmt txid_history of
           (Inr v2, Inr v1) \<Rightarrow> if v2 \<or> v1 then None else Some resend_info
         | (Inl _, Inr v1) \<Rightarrow> if v1 then None else Some resend_info
         | (Inr v2, Inl _) \<Rightarrow> if v2 then None else Some resend_info
         | (Inl _, Inl _) \<Rightarrow> Some resend_info)"

section \<open>Making a payment\<close>

definition sanity_check_balance ::
  "nat option \<Rightarrow> unpublished_payment_tx \<Rightarrow> debt_keeper \<Rightarrow> (payment_controller_error + unit) \<times> debt_keeper" where
  "sanity_check_balance balance pmt dk =
     (case balance of
        Some value \<Rightarrow>
          if value < upmt_amount pmt
          then (Err (InsufficientFunds (upmt_amount pmt) value), payment_failed (upmt_to pmt) dk)
          else if upmt_amount pmt = 0 then (Err ZeroPayment, dk)
          else (Ok (), dk)
      | None \<Rightarrow> (Err (InsufficientFunds (upmt_amount pmt) 0), dk))"

definition make_althea_payment ::
  "num256 \<Rightarrow> 'addr decoders \<Rightarrow> (string \<Rightarrow> nat option) \<Rightarrow> instant \<Rightarrow> 'tx pay_node \<Rightarrow> payment_settings
     \<Rightarrow> network_settings \<Rightarrow> (identity \<times> payment_tx list) list \<Rightarrow> unpublished_payment_tx \<Rightarrow> debt_keeper
     \<Rightarrow> ((payment_controller_error + (to_validate \<times> resend_info option)) \<times> debt_keeper) option" where
  "make_althea_payment N D from_hex now pn P net sent pmt0 dk =
     (case eth_private_key P of
        None \<Rightarrow> Some (Err FailedToSendPayment, dk)
      | Some our_private_key \<Rightarrow>
        (case althea_grpc_list P of
           [] \<Rightarrow> None
         | cosmos_node_grpc # _ \<Rightarrow>
           (case normalize_payment_amount N (upmt_amount pmt0) wei_denom (althea_l1_payment_denom P) of
              None \<Rightarrow> None
            | Some amount \<Rightarrow>
              if \<not> contact_ok D cosmos_node_grpc then None
              else let pmt = pmt0\<lparr>upmt_amount := amount\<rparr> in
              (case (pn_balance pn, pn_status pn) of
                 (Inl _, _) \<Rightarrow> Some (Err FailedToSendPayment, dk)
               | (Inr None, _) \<Rightarrow> Some (Err FailedToSendPayment, dk)
               | (Inr (Some balance), Inr (Moving block_height)) \<Rightarrow>
                 (case sanity_check_balance (Some balance) pmt dk of
                    (Inl e, dk') \<Rightarrow> Some (Err e, dk')
                  | (Inr _, dk') \<Rightarrow>
                    (case pn_microtx pn of
                       Inl _ \<Rightarrow> Some (Err FailedToSendPayment, payment_failed (upmt_to pmt) dk')
                     | Inr txhash \<Rightarrow>
                       (case from_hex txhash of
                          None \<Rightarrow> None
                        | Some txid \<Rightarrow>
                          let p = publish pmt txid;
                              retry = send_make_payment_endpoints pn p net cosmos_node_grpc sent 0;
                              ts = \<lparr>tv_payment = p, tv_received = now,
                                    tv_timeout_block = Some (block_height + ALTHEA_L1_MICROTX_TIMEOUT + 5)\<rparr>
                          in Some (Ok (ts, retry), dk'))))
               | (Inr (Some balance), _) \<Rightarrow> Some (Err FailedToSendPayment, dk)))))"

definition make_xdai_payment ::
  "instant \<Rightarrow> 'tx pay_node \<Rightarrow> blockchain_oracle \<Rightarrow> payment_settings \<Rightarrow> network_settings
     \<Rightarrow> (identity \<times> payment_tx list) list \<Rightarrow> unpublished_payment_tx \<Rightarrow> debt_keeper
     \<Rightarrow> ((payment_controller_error + (to_validate \<times> resend_info option)) \<times> debt_keeper) option" where
  "make_xdai_payment now pn orc P net sent pmt dk =
     (case eth_private_key P of
        None \<Rightarrow> None
      | Some our_private_key \<Rightarrow>
        (case sanity_check_balance (or_balance orc) pmt dk of
           (Inl e, dk') \<Rightarrow> Some (Err e, dk')
         | (Inr _, dk') \<Rightarrow>
           if eth_node_list P = [] then None
           else let full_node = eth_node_list P ! (pn_node pn mod length (eth_node_list P)) in
           (case pn_prepare pn pmt of
              Inl _ \<Rightarrow> Some (Err FailedToSendPayment, payment_failed (upmt_to pmt) dk')
            | Inr tx \<Rightarrow>
              (case (case pn_submit pn tx of
                       Submitted tx_id \<Rightarrow> Some tx_id
                     | JsonRpcError \<Rightarrow> None
                     | OtherWeb3Error \<Rightarrow> Some (pn_txid pn tx)) of
                 None \<Rightarrow> Some (Err FailedToSendPayment, payment_failed (upmt_to pmt) dk')
               | Some tx_id \<Rightarrow>
                 let p = publish pmt tx_id;
                     resend = send_make_payment_endpoints pn p net full_node sent 0;
                     ts = \<lparr>tv_payment = p, tv_received = now, tv_timeout_block = None\<rparr>
                 in Some (Ok (ts, resend), dk')))))"

definition make_payment ::
  "num256 \<Rightarrow> 'addr decoders \<Rightarrow> (string \<Rightarrow> nat option) \<Rightarrow> instant \<Rightarrow> 'tx pay_node \<Rightarrow> blockchain_oracle \<Rightarrow> rita_settings
     \<Rightarrow> (identity \<times> payment_tx list) list \<Rightarrow> unpublished_payment_tx \<Rightarrow> debt_keeper
     \<Rightarrow> ((payment_controller_error + (to_validate \<times> resend_info option)) \<times> debt_keeper) option" where
  "make_payment N D from_hex now pn orc S sent pmt dk =
     (case pay_system_chain (payment S) of
        AltheaL1 \<Rightarrow> make_althea_payment N D from_hex now pn (payment S) (network S) sent pmt dk
      | _ \<Rightarrow> make_xdai_payment now pn orc (payment S) (network S) sent pmt dk)"

section \<open>The tick\<close>

text \<open>The loop over the outgoing queue. The vector is popped from its end: the list is the queue in the
  order in which the loop takes it. The result has what was sent, what is to be announced again and what
  is queued again.\<close>

fun send_outgoing ::
  "(nat \<Rightarrow> unpublished_payment_tx \<Rightarrow> debt_keeper
      \<Rightarrow> ((payment_controller_error + (to_validate \<times> resend_info option)) \<times> debt_keeper) option)
   \<Rightarrow> nat \<Rightarrow> unpublished_payment_tx list \<Rightarrow> debt_keeper
   \<Rightarrow> (to_validate list \<times> resend_info list \<times> unpublished_payment_tx list \<times> debt_keeper) option" where
  "send_outgoing mk k [] dk = Some ([], [], [], dk)"
| "send_outgoing mk k (p # ps) dk =
     (case mk k p dk of
        None \<Rightarrow> None
      | Some (r, dk1) \<Rightarrow>
        (case send_outgoing mk (Suc k) ps dk1 of
           None \<Rightarrow> None
         | Some (sent, resend, requeue, dk2) \<Rightarrow>
           (case r of
              Inr (ts, rs) \<Rightarrow> Some (ts # sent, option_list rs @ resend, requeue, dk2)
            | Inl _ \<Rightarrow> Some (sent, resend, p # requeue, dk2))))"

fun retry_resends :: "(nat \<Rightarrow> resend_info \<Rightarrow> resend_info option) \<Rightarrow> nat \<Rightarrow> resend_info list \<Rightarrow> resend_info list" where
  "retry_resends again k [] = []"
| "retry_resends again k (r # rs) =
     (if ri_attempt r \<ge> MAX_TXID_RETRIES then retry_resends again k rs
      else option_list (again k r) @ retry_resends again (Suc k) rs)"

definition tick_payment_controller ::
  "num256 \<Rightarrow> 'addr decoders \<Rightarrow> (string \<Rightarrow> nat option) \<Rightarrow> instant \<Rightarrow> (nat \<Rightarrow> 'tx pay_node) \<Rightarrow> (nat \<Rightarrow> 'tx pay_node)
     \<Rightarrow> blockchain_oracle \<Rightarrow> rita_settings \<Rightarrow> unpublished_payment_tx list \<Rightarrow> (identity \<times> payment_tx list) list
     \<Rightarrow> payment_controller \<times> debt_keeper \<Rightarrow> (to_validate list \<times> payment_controller \<times> debt_keeper) option" where
  "tick_payment_controller N D from_hex now pns retries orc S new_outgoing_payments sent_payments st =
     (let pc = fst st;
          queue = outgoing_queue pc @ new_outgoing_payments
      in if queue = [] \<and> resend_queue pc = [] then Some ([], pc\<lparr>outgoing_queue := queue\<rparr>, snd st)
         else case send_outgoing
                (\<lambda>k p. make_payment N D from_hex now (pns k) orc S sent_payments p) 0 (rev queue) (snd st) of
           None \<Rightarrow> None
         | Some (sent, resend, requeue, dk) \<Rightarrow>
             let pending = resend_queue pc @ resend;
                 again = (\<lambda>k r. send_make_payment_endpoints (retries k) (ri_pmt r) (network S) (ri_full_node r)
                            sent_payments (ri_attempt r))
             in Some (sent, \<lparr>outgoing_queue = requeue, resend_queue = retry_resends again 0 (rev pending)\<rparr>, dk))"

end
