(* ===== verification/Payment_Properties.thy ===== *)
theory Payment_Properties
  imports Validator_Safety Payment_Controller Debt_Safety
begin

text \<open>
  The properties of the payment validator and the payment controller: what a run of the
  validator credits, when a transaction is accepted, what the controller does with the payments
  it is given, and how the two interact with the debt keeper when the node refuses a payment.
\<close>

section \<open>The controller\<close>

definition unpublished :: "to_validate \<Rightarrow> unpublished_payment_tx" where
  "unpublished ts = \<lparr>upmt_to = pmt_to (tv_payment ts), upmt_from = pmt_from (tv_payment ts),
     upmt_amount = pmt_amount (tv_payment ts)\<rparr>"

lemma unpublished_publish [simp]:
  "unpublished \<lparr>tv_payment = publish p txid, tv_received = now, tv_timeout_block = b\<rparr> = p"
  by (simp add: unpublished_def publish_def)

lemma make_xdai_payment_unpublished:
  "make_xdai_payment now pn orc P net sent p dk = Some (Inr (ts, rs), dk') \<Longrightarrow> unpublished ts = p"
  by (auto simp: make_xdai_payment_def Let_def split: option.splits sum.splits prod.splits if_splits
      submit_result.splits)

text \<open>The payment that is published for an order: on the Althea chain the amount is converted from wei into the
  denomination of the chain, on the others it is the order itself.\<close>

definition published_as :: "num256 \<Rightarrow> rita_settings \<Rightarrow> unpublished_payment_tx \<Rightarrow> unpublished_payment_tx option" where
  "published_as N S p =
     (if pay_system_chain (payment S) = AltheaL1
      then map_option (\<lambda>a. p\<lparr>upmt_amount := a\<rparr>)
             (normalize_payment_amount N (upmt_amount p) wei_denom (althea_l1_payment_denom (payment S)))
      else Some p)"

lemma make_althea_payment_unpublished:
  "make_althea_payment N D fh now pn P net sent p dk = Some (Inr (ts, rs), dk')
   \<Longrightarrow> \<exists>a. normalize_payment_amount N (upmt_amount p) wei_denom (althea_l1_payment_denom P) = Some a
         \<and> unpublished ts = p\<lparr>upmt_amount := a\<rparr>"
  by (auto simp: make_althea_payment_def Let_def split: option.splits list.splits sum.splits prod.splits if_splits
      chain_status.splits)

lemma make_payment_unpublished:
  "make_payment N D fh now pn orc S sent p dk = Some (Inr (ts, rs), dk') \<Longrightarrow> published_as N S p = Some (unpublished ts)"
  using make_xdai_payment_unpublished make_althea_payment_unpublished
  by (fastforce simp: make_payment_def published_as_def split: system_chain.splits)

lemma send_outgoing_orders:
  assumes "\<And>k p dk ts rs dk'. mk k p dk = Some (Inr (ts, rs), dk') \<Longrightarrow> g p = Some (unpublished ts)"
    and "send_outgoing mk k ps dk = Some (sent, resend, requeue, dk')"
  shows "\<exists>orders. map g orders = map (Some \<circ> unpublished) sent \<and> mset orders + mset requeue = mset ps"
  using assms(2)
proof (induction ps arbitrary: k dk sent resend requeue)
  case (Cons p ps)
  then obtain r dk1 s1 rs1 q1 where r: "mk k p dk = Some (r, dk1)"
    and t: "send_outgoing mk (Suc k) ps dk1 = Some (s1, rs1, q1, dk')"
    and e: "(sent, requeue) = (case r of Inr (ts, rs) \<Rightarrow> (ts # s1, q1) | Inl _ \<Rightarrow> (s1, p # q1))"
    by (auto split: option.splits sum.splits prod.splits)
  from Cons.IH[OF t] obtain orders where o: "map g orders = map (Some \<circ> unpublished) s1" "mset orders + mset q1 = mset ps"
    by blast
  show ?case
  proof (cases r)
    case (Inl x)
    then show ?thesis using o e by (auto intro: exI[of _ orders])
  next
    case (Inr y)
    then obtain ts rs where "r = Inr (ts, rs)" by (cases y) simp
    then show ?thesis using o e r assms(1)[of k p dk] by (auto intro: exI[of _ "p # orders"])
  qed
qed simp

lemma tick_payment_controller_orders:
  assumes "tick_payment_controller N D fh now pns retries orc S new prev (pc, dk) = Some (sent, pc', dk')"
  shows "\<exists>orders. map (published_as N S) orders = map (Some \<circ> unpublished) sent
     \<and> mset orders + mset (outgoing_queue pc') = mset (outgoing_queue pc) + mset new"
proof (cases "outgoing_queue pc @ new = [] \<and> resend_queue pc = []")
  case True
  then show ?thesis using assms by (auto simp: tick_payment_controller_def)
next
  case False
  then obtain resend where
    s: "send_outgoing (\<lambda>k p. make_payment N D fh now (pns k) orc S prev p) 0 (rev (outgoing_queue pc @ new)) dk
        = Some (sent, resend, outgoing_queue pc', dk')"
    using assms by (auto simp: tick_payment_controller_def Let_def split: option.splits prod.splits if_splits)
  have "\<exists>orders. map (published_as N S) orders = map (Some \<circ> unpublished) sent
      \<and> mset orders + mset (outgoing_queue pc') = mset (rev (outgoing_queue pc @ new))"
    by (rule send_outgoing_orders[OF _ s]) (rule make_payment_unpublished)
  then show ?thesis by (simp only: mset_rev mset_append)
qed

lemma tick_payment_controller_mset:
  assumes "pay_system_chain (payment S) \<noteq> AltheaL1"
    and "tick_payment_controller N D fh now pns retries orc S new prev (pc, dk) = Some (sent, pc', dk')"
  shows "mset (map unpublished sent) + mset (outgoing_queue pc') = mset (outgoing_queue pc) + mset new"
proof -
  obtain orders where "map (published_as N S) orders = map (Some \<circ> unpublished) sent"
    "mset orders + mset (outgoing_queue pc') = mset (outgoing_queue pc) + mset new"
    using tick_payment_controller_orders[OF assms(2)] by blast
  moreover have "map (published_as N S) orders = map Some orders" using assms(1) by (simp add: published_as_def)
  moreover have "map (Some \<circ> unpublished) sent = map Some (map unpublished sent)" by simp
  ultimately show ?thesis by (metis inj_map_eq_map inj_Some)
qed

text \<open>C24: No payment is lost or made up by the controller, on any chain: what was queued and what is newly ordered is
  split by a tick into the orders that are published, each with its recipient and with its amount in the denomination of
  the chain, and the orders that are in the queue afterwards, unchanged. That includes an order whose amount is zero,
  which is refused and queued again like any other failed payment.\<close>

theorem controller_keeps_payments:
  assumes "tick_payment_controller N D fh now pns retries orc S new prev (pc, dk) = Some (sent, pc', dk')"
  shows "\<exists>orders. map (published_as N S) orders = map (Some \<circ> unpublished) sent
     \<and> mset orders + mset (outgoing_queue pc') = mset (outgoing_queue pc) + mset new"
  by (rule tick_payment_controller_orders[OF assms])

text \<open>Settings, a payment and nodes for the concrete instances.\<close>

definition our_identity :: identity where
  "our_identity = \<lparr>mesh_ip = V6 9, eth_address = 9, wg_public_key = 9\<rparr>"

definition pay_sample :: "system_chain \<Rightarrow> rita_settings" where
  "pay_sample c = \<lparr>payment = payment_settings_default\<lparr>pay_eth_address := Some 9, pay_system_chain := c,
       eth_private_key := Some 1\<rparr>, network = network_settings_default, settings_identity = Some our_identity\<rparr>"

definition order_sample :: "nat \<Rightarrow> unpublished_payment_tx" where
  "order_sample a = \<lparr>upmt_to = sample_peer, upmt_from = our_identity, upmt_amount = a\<rparr>"

text \<open>A node that accepts every payment and gives it the id \<open>n\<close>, and a neighbor that may be out of reach.\<close>

definition good_node :: "bool \<Rightarrow> nat \<Rightarrow> nat pay_node" where
  "good_node reachable n = \<lparr>pn_node = 0, pn_balance = Inr (Some 1000), pn_status = Inr (Moving 7), pn_microtx = Inr ''A0'',
     pn_prepare = (\<lambda>_. Inr n), pn_submit = Submitted, pn_txid = (\<lambda>n. n),
     pn_ack = (\<lambda>_ _ _ _. if reachable then (Inr True, Inr True) else (Inl (), Inl ()))\<rparr>"

definition oracle_sample :: "nat \<Rightarrow> blockchain_oracle" where
  "oracle_sample b = \<lparr>or_balance = Some b, or_last_seen_block = Some 10, or_last_updated = Some 100\<rparr>"

definition decoders_sample :: "nat decoders" where
  "decoders_sample = \<lparr>dec_raw = Some, dec_body = (\<lambda>b. Some [b]), dec_msg = (\<lambda>_. None), parse_addr = (\<lambda>_. None),
     althea_addr = unat, contact_ok = (\<lambda>_. True)\<rparr>"

definition keeper_sample :: "node_debt_data \<Rightarrow> debt_keeper" where
  "keeper_sample d = \<lparr>last_save = None, debt_data = (\<lambda>_. None)(sample_peer \<mapsto> d)\<rparr>"

lemmas pay_sample_defs = pay_sample_def order_sample_def good_node_def oracle_sample_def decoders_sample_def
  keeper_sample_def payment_settings_default_def our_identity_def sample_peer_def

lemma controller_keeps_payments_witness:
  "\<exists>sent pc' dk' orders. tick_payment_controller checked_num256 decoders_sample (\<lambda>_. None) 5 (good_node True)
       (good_node True) (oracle_sample 50) (pay_sample Xdai) [order_sample 40, order_sample 60] []
       (payment_controller_new, keeper_sample node_debt_data_new) = Some (sent, pc', dk')
     \<and> map unpublished sent = [order_sample 40] \<and> outgoing_queue pc' = [order_sample 60]
     \<and> map (published_as checked_num256 (pay_sample Xdai)) orders = map (Some \<circ> unpublished) sent
     \<and> mset orders + mset (outgoing_queue pc') = {#order_sample 40, order_sample 60#}"
proof -
  let ?t = "tick_payment_controller checked_num256 decoders_sample (\<lambda>_. None) 5 (good_node True)
       (good_node True) (oracle_sample 50) (pay_sample Xdai) [order_sample 40, order_sample 60] []
       (payment_controller_new, keeper_sample node_debt_data_new)"
  obtain sent pc' dk' where t: "?t = Some (sent, pc', dk')"
    and s: "map unpublished sent = [order_sample 40]" "outgoing_queue pc' = [order_sample 60]"
    by (simp add: tick_payment_controller_def payment_controller_new_def make_payment_def make_xdai_payment_def
        sanity_check_balance_def pay_sample_defs send_make_payment_endpoints_def Let_def unpublished_def publish_def)
  from controller_keeps_payments[OF t] obtain orders where
    "map (published_as checked_num256 (pay_sample Xdai)) orders = map (Some \<circ> unpublished) sent"
    "mset orders + mset (outgoing_queue pc') = {#order_sample 40, order_sample 60#}"
    by (auto simp: payment_controller_new_def)
  with t s show ?thesis by (intro exI conjI)
qed

section \<open>Announcements end\<close>

record 'tx controller_input =
  ci_now :: instant
  ci_nodes :: "nat \<Rightarrow> 'tx pay_node"
  ci_retries :: "nat \<Rightarrow> 'tx pay_node"
  ci_oracle :: blockchain_oracle
  ci_new :: "unpublished_payment_tx list"
  ci_sent :: "(identity \<times> payment_tx list) list"

fun controller_run ::
  "num256 \<Rightarrow> 'addr decoders \<Rightarrow> (string \<Rightarrow> nat option) \<Rightarrow> rita_settings \<Rightarrow> 'tx controller_input list
     \<Rightarrow> payment_controller \<times> debt_keeper \<Rightarrow> (to_validate list \<times> payment_controller \<times> debt_keeper) option" where
  "controller_run N D fh S [] st = Some ([], st)"
| "controller_run N D fh S (i # is) st =
     do {
       (sent, st1) \<leftarrow> tick_payment_controller N D fh (ci_now i) (ci_nodes i) (ci_retries i) (ci_oracle i) S
          (ci_new i) (ci_sent i) st;
       (sent', st2) \<leftarrow> controller_run N D fh S is st1;
       Some (sent @ sent', st2)
     }"

lemma send_make_payment_endpoints_attempt:
  "send_make_payment_endpoints pn p net fn prev a = Some r \<Longrightarrow> ri_attempt r = a + 1"
  by (auto simp: send_make_payment_endpoints_def Let_def split: sum.splits prod.splits if_splits)

definition attempts_from :: "nat \<Rightarrow> resend_info list \<Rightarrow> bool" where
  "attempts_from n rs = (\<forall>r \<in> set rs. n \<le> unat (ri_attempt r) \<and> unat (ri_attempt r) \<le> 15)"

lemma retry_resends_attempts:
  assumes "\<And>k r r'. again k r = Some r' \<Longrightarrow> ri_attempt r' = ri_attempt r + 1"
    and "attempts_from n rs"
  shows "attempts_from (Suc n) (retry_resends again k rs)"
  using assms(2)
proof (induction rs arbitrary: k)
  case (Cons r rs)
  have "Suc n \<le> unat (ri_attempt r') \<and> unat (ri_attempt r') \<le> 15"
    if "again k r = Some r'" and "ri_attempt r < 15" for r'
  proof -
    have "unat (ri_attempt r) < 15" using that(2) by (simp add: word_less_nat_alt)
    moreover from this have "unat (ri_attempt r + 1) = unat (ri_attempt r) + 1"
      by (subst unat_add_lem[THEN iffD1]) simp_all
    ultimately show ?thesis using assms(1)[OF that(1)] Cons.prems by (simp add: attempts_from_def)
  qed
  moreover have "attempts_from n rs" using Cons.prems by (simp add: attempts_from_def)
  ultimately show ?case
    using Cons.IH by (auto simp: attempts_from_def MAX_TXID_RETRIES_def not_le split: option.splits)
qed (simp add: attempts_from_def)

lemma attempts_from_mono: "attempts_from n rs \<Longrightarrow> m \<le> n \<Longrightarrow> attempts_from m rs"
  by (auto simp: attempts_from_def)

lemma attempts_from_end: "attempts_from n rs \<Longrightarrow> 15 < n \<Longrightarrow> rs = []"
  by (cases rs) (auto simp: attempts_from_def)

lemma make_payment_attempt:
  "make_payment N D fh now pn orc S sent p dk = Some (Inr (ts, Some r), dk') \<Longrightarrow> ri_attempt r = 1"
  by (auto simp: make_payment_def make_xdai_payment_def make_althea_payment_def Let_def
      dest: send_make_payment_endpoints_attempt
      split: system_chain.splits option.splits sum.splits prod.splits if_splits list.splits
        chain_status.splits submit_result.splits)

lemma send_outgoing_attempts:
  assumes "\<And>k p dk ts r dk'. mk k p dk = Some (Inr (ts, Some r), dk') \<Longrightarrow> ri_attempt r = 1"
    and "send_outgoing mk k ps dk = Some (sent, resend, requeue, dk')"
  shows "attempts_from 1 resend"
  using assms(2)
proof (induction ps arbitrary: k dk sent resend requeue)
  case (Cons p ps)
  then obtain r dk1 s1 rs1 q1 where r: "mk k p dk = Some (r, dk1)"
    and t: "send_outgoing mk (Suc k) ps dk1 = Some (s1, rs1, q1, dk')"
    and e: "resend = (case r of Inr (ts, rs) \<Rightarrow> option_list rs @ rs1 | Inl _ \<Rightarrow> rs1)"
    by (auto split: option.splits sum.splits prod.splits)
  have "ri_attempt x = 1" if "r = Inr (ts, Some x)" for ts x using assms(1) r that by blast
  then show ?case using Cons.IH[OF t] e
    by (auto simp: attempts_from_def split: sum.splits prod.splits)
qed (simp add: attempts_from_def)

lemma tick_payment_controller_resends:
  assumes "tick_payment_controller N D fh now pns retries orc S new prev (pc, dk) = Some (sent, pc', dk')"
  shows "attempts_from n (resend_queue pc) \<Longrightarrow> outgoing_queue pc = [] \<Longrightarrow> new = []
      \<Longrightarrow> attempts_from (Suc n) (resend_queue pc') \<and> outgoing_queue pc' = []"
    and "attempts_from 1 (resend_queue pc) \<Longrightarrow> attempts_from 1 (resend_queue pc')"
proof -
  let ?again = "\<lambda>k r. send_make_payment_endpoints (retries k) (ri_pmt r) (network S) (ri_full_node r) prev (ri_attempt r)"
  have up: "attempts_from (Suc m) (retry_resends ?again k rs)" if "attempts_from m rs" for m k rs
    by (rule retry_resends_attempts[OF _ that]) (rule send_make_payment_endpoints_attempt)
  consider (idle) "outgoing_queue pc @ new = []" "resend_queue pc = []" "pc' = pc\<lparr>outgoing_queue := []\<rparr>"
    | (work) resend requeue where
      "send_outgoing (\<lambda>k p. make_payment N D fh now (pns k) orc S prev p) 0 (rev (outgoing_queue pc @ new)) dk
        = Some (sent, resend, requeue, dk')"
      "pc' = \<lparr>outgoing_queue = requeue, resend_queue = retry_resends ?again 0 (rev (resend_queue pc @ resend))\<rparr>"
    using assms by (auto simp: tick_payment_controller_def Let_def split: option.splits prod.splits if_splits)
  note cases = this
  show "attempts_from (Suc n) (resend_queue pc') \<and> outgoing_queue pc' = []"
    if n: "attempts_from n (resend_queue pc)" and "outgoing_queue pc = []" "new = []"
    using cases
  proof cases
    case idle
    then show ?thesis by (simp add: attempts_from_def)
  next
    case work
    then have "resend = []" "requeue = []" using that by simp_all
    moreover have "attempts_from n (rev (resend_queue pc))" using n by (simp add: attempts_from_def)
    ultimately show ?thesis using up work(2) by simp
  qed
  show "attempts_from 1 (resend_queue pc')" if "attempts_from 1 (resend_queue pc)"
    using cases
  proof cases
    case idle
    then show ?thesis by (simp add: attempts_from_def)
  next
    case work
    have "attempts_from 1 resend" by (rule send_outgoing_attempts[OF make_payment_attempt work(1)])
    with that have "attempts_from 1 (rev (resend_queue pc @ resend))" by (auto simp: attempts_from_def)
    from attempts_from_mono[OF up[OF this]] show ?thesis using work(2) by simp
  qed
qed

lemma controller_run_attempts:
  "controller_run N D fh S is (pc, dk) = Some (sent, pc', dk') \<Longrightarrow> attempts_from 1 (resend_queue pc)
   \<Longrightarrow> attempts_from 1 (resend_queue pc')"
  by (induction "is" arbitrary: pc dk sent)
    (auto elim!: bind_SomeE dest: tick_payment_controller_resends(2))

lemma controller_run_quiet:
  assumes "controller_run N D fh S is (pc, dk) = Some (sent, pc', dk')" and "attempts_from n (resend_queue pc)"
    and "outgoing_queue pc = []" and "\<forall>i \<in> set is. ci_new i = []"
  shows "attempts_from (n + length is) (resend_queue pc')"
  using assms
proof (induction "is" arbitrary: pc dk sent n)
  case (Cons i "is")
  obtain s1 pc1 dk1 s2 where
    t: "tick_payment_controller N D fh (ci_now i) (ci_nodes i) (ci_retries i) (ci_oracle i) S (ci_new i) (ci_sent i)
        (pc, dk) = Some (s1, pc1, dk1)"
    and r: "controller_run N D fh S is (pc1, dk1) = Some (s2, pc', dk')"
    using Cons.prems(1) by (auto elim!: bind_SomeE)
  have "attempts_from (Suc n) (resend_queue pc1) \<and> outgoing_queue pc1 = []"
    using tick_payment_controller_resends(1)[OF t] Cons.prems by simp
  then show ?case using Cons.IH[OF r, of "Suc n"] Cons.prems(4) by simp
qed simp

text \<open>C25: Announcements end: from the empty controller, whatever the neighbors answer, once nothing is
  left to be paid fifteen ticks without a new payment order empty the queue of announcements to repeat.\<close>

theorem announcements_end:
  assumes "controller_run N D fh S is (payment_controller_new, dk) = Some (sent, pc, dk1)"
    and "outgoing_queue pc = []"
    and "controller_run N D fh S quiet (pc, dk1) = Some (sent', pc', dk2)"
    and "\<forall>i \<in> set quiet. ci_new i = []" and "15 \<le> length quiet"
  shows "resend_queue pc' = []"
proof -
  have "attempts_from 1 (resend_queue pc)"
    using controller_run_attempts[OF assms(1)] by (simp add: payment_controller_new_def attempts_from_def)
  from attempts_from_end[OF controller_run_quiet[OF assms(3) this assms(2,4)]] show ?thesis
    using assms(5) by simp
qed

definition quiet_input :: "unpublished_payment_tx list \<Rightarrow> nat controller_input" where
  "quiet_input new = \<lparr>ci_now = 5, ci_nodes = good_node False, ci_retries = good_node False, ci_oracle = oracle_sample 50,
     ci_new = new, ci_sent = []\<rparr>"

lemma announcements_end_witness:
  "\<exists>sent pc dk1 sent' pc' dk2.
     controller_run checked_num256 decoders_sample (\<lambda>_. None) (pay_sample Xdai) [quiet_input [order_sample 40]]
       (payment_controller_new, keeper_sample node_debt_data_new) = Some (sent, pc, dk1)
   \<and> resend_queue pc \<noteq> []
   \<and> controller_run checked_num256 decoders_sample (\<lambda>_. None) (pay_sample Xdai) (replicate 15 (quiet_input []))
       (pc, dk1) = Some (sent', pc', dk2)
   \<and> resend_queue pc' = []"
proof -
  let ?run = "controller_run checked_num256 decoders_sample (\<lambda>_. None) (pay_sample Xdai)"
  note defs = tick_payment_controller_def payment_controller_new_def make_payment_def make_xdai_payment_def
    sanity_check_balance_def pay_sample_defs send_make_payment_endpoints_def Let_def publish_def quiet_input_def
    MAX_TXID_RETRIES_def word_le_nat_alt
  obtain sent pc dk1 where 1: "?run [quiet_input [order_sample 40]] (payment_controller_new, keeper_sample node_debt_data_new)
      = Some (sent, pc, dk1)" and q: "outgoing_queue pc = []" "resend_queue pc \<noteq> []"
    by (simp add: defs)
  have rep: "replicate 15 x = [x, x, x, x, x, x, x, x, x, x, x, x, x, x, x]" for x :: "nat controller_input"
    by (simp add: numeral_eq_Suc)
  obtain sent' pc' dk2 where 2: "?run (replicate 15 (quiet_input [])) (pc, dk1) = Some (sent', pc', dk2)"
    using 1 unfolding rep by (auto simp: defs)
  have "resend_queue pc' = []" by (rule announcements_end[OF 1 q(1) 2]) (simp_all add: quiet_input_def)
  with 1 2 q show ?thesis by blast
qed

section \<open>Refused payments\<close>

text \<open>C26: A payment the node refuses is tried again by both sides: the controller keeps it in its queue
  and at the same time reports it to the debt keeper as failed, so that the next round of the debt keeper orders a
  payment to the same peer again. As soon as the node accepts payments, both are published.\<close>

theorem refused_payment_is_paid_twice:
  fixes pns :: "nat \<Rightarrow> 'tx pay_node"
  assumes "num256_laws N" and "thresh_ok (payment S)" and "nd_small (get_debt_data_mut (upmt_to p) dk)"
    and "payment_threshold (payment S) < debt (get_debt_data_mut (upmt_to p) dk)"
    and "pay_system_chain (payment S) \<noteq> AltheaL1" and "eth_private_key (payment S) = Some key"
    and "eth_node_list (payment S) \<noteq> []" and "or_balance orc = Some bal" and "0 < upmt_amount p" and "upmt_amount p \<le> bal"
    and "pn_prepare (pns 0) p = Inl ()"
  shows "\<exists>pc1 dk1 a d.
     tick_payment_controller N D fh now pns retries orc S [p] prev (payment_controller_new, dk) = Some ([], pc1, dk1)
   \<and> nd_send_update N (payment S) later (upmt_to p) (get_debt_data_mut (upmt_to p) dk1)
       = Some (Ok (MakePayment (upmt_to p) a), d)
   \<and> (\<forall>now2 (pns2 :: nat \<Rightarrow> 'tx pay_node) retries2 orc2 p2 prev2 dk2 sent pc2 dk3.
        tick_payment_controller N D fh now2 pns2 retries2 orc2 S [p2] prev2 (pc1, dk2) = Some (sent, pc2, dk3)
          \<and> outgoing_queue pc2 = [] \<longrightarrow> mset (map unpublished sent) = {#p, p2#})"
proof -
  let ?d = "get_debt_data_mut (upmt_to p) dk" and ?dk = "payment_failed (upmt_to p) dk"
  let ?pc = "\<lparr>outgoing_queue = [p], resend_queue = []\<rparr>"
  have tick: "tick_payment_controller N D fh now pns retries orc S [p] prev (payment_controller_new, dk)
      = Some ([], ?pc, ?dk)"
    using assms(5-11)
    by (cases "pay_system_chain (payment S)")
      (simp_all add: tick_payment_controller_def payment_controller_new_def make_payment_def make_xdai_payment_def
        sanity_check_balance_def)
  have d: "get_debt_data_mut (upmt_to p) ?dk = nd_payment_failed ?d"
    by (simp add: payment_failed_def dk_payment_failed_def put_debt_data_def get_debt_data_mut_def)
  have "nd_small (nd_payment_failed ?d)" using assms(3) by (simp add: nd_small_def nd_payment_failed_def)
  then obtain a d' where "nd_send_update N (payment S) later (upmt_to p) (nd_payment_failed ?d)
      = Some (Ok (MakePayment (upmt_to p) a), d')"
    using num256_laws.send_update_pay[OF assms(1,2), of "nd_payment_failed ?d" later "upmt_to p" "upmt_to p"] assms(4)
    by (simp add: nd_payment_failed_def)
  moreover have "mset (map unpublished sent) = {#p, p2#}"
    if "tick_payment_controller N D fh now2 pns2 retries2 orc2 S [p2] prev2 (?pc, dk2) = Some (sent, pc2, dk3)"
      and "outgoing_queue pc2 = []" for now2 retries2 orc2 p2 prev2 dk2 sent pc2 dk3
      and pns2 :: "nat \<Rightarrow> 'tx pay_node"
    using tick_payment_controller_mset[OF assms(5) that(1)] that(2) by (simp add: add_mset_commute)
  ultimately show ?thesis using tick d by auto
qed

definition refusing_node :: "nat \<Rightarrow> nat pay_node" where
  "refusing_node n = (good_node True n)\<lparr>pn_prepare := (\<lambda>_. Inl ())\<rparr>"

lemma refused_payment_is_paid_twice_witness:
  "\<exists>pc1 dk1 sent pc2 dk3.
     tick_payment_controller checked_num256 decoders_sample (\<lambda>_. None) 5 refusing_node refusing_node
       (oracle_sample 800000000000000000) (pay_sample Xdai) [order_sample 400000000000000000] []
       (payment_controller_new, keeper_sample (node_debt_data_new\<lparr>debt := 400000000000000000\<rparr>)) = Some ([], pc1, dk1)
   \<and> tick_payment_controller checked_num256 decoders_sample (\<lambda>_. None) 6 (good_node True) (good_node True)
       (oracle_sample 800000000000000000) (pay_sample Xdai) [order_sample 400000000000000000] [] (pc1, dk1)
       = Some (sent, pc2, dk3)
   \<and> mset (map unpublished sent) = {#order_sample 400000000000000000, order_sample 400000000000000000#}"
proof -
  let ?p = "order_sample 400000000000000000" and ?o = "oracle_sample 800000000000000000"
  let ?dk = "keeper_sample (node_debt_data_new\<lparr>debt := 400000000000000000\<rparr>)"
  let ?tick = "\<lambda>now pn. tick_payment_controller checked_num256 decoders_sample (\<lambda>_. None) now pn pn ?o (pay_sample Xdai) [?p] []"
  have hyps: "thresh_ok (payment (pay_sample Xdai))" "nd_small (get_debt_data_mut (upmt_to ?p) ?dk)"
    "payment_threshold (payment (pay_sample Xdai)) < debt (get_debt_data_mut (upmt_to ?p) ?dk)"
    "pay_system_chain (payment (pay_sample Xdai)) \<noteq> AltheaL1" "eth_private_key (payment (pay_sample Xdai)) = Some 1"
    "eth_node_list (payment (pay_sample Xdai)) \<noteq> []" "or_balance ?o = Some 800000000000000000" "0 < upmt_amount ?p"
    "upmt_amount ?p \<le> 800000000000000000" "pn_prepare (refusing_node 0) ?p = Inl ()"
    by (simp_all add: pay_sample_defs thresh_ok_def nd_small_def node_debt_data_new_def get_debt_data_mut_def
        default_payment_threshold_def refusing_node_def)
  obtain pc1 dk1 where 1: "?tick 5 refusing_node (payment_controller_new, ?dk) = Some ([], pc1, dk1)"
    and imp: "\<And>sent pc2 dk3. ?tick 6 (good_node True) (pc1, dk1) = Some (sent, pc2, dk3) \<Longrightarrow> outgoing_queue pc2 = []
        \<Longrightarrow> mset (map unpublished sent) = {#?p, ?p#}"
    using refused_payment_is_paid_twice[of checked_num256 "pay_sample Xdai" ?p ?dk 1 ?o 800000000000000000 refusing_node
        decoders_sample "\<lambda>_. None" 5 refusing_node "[]" 6, OF checked256.num256_laws_axioms hyps]
    by (elim exE conjE) (rule that, assumption, fast)
  obtain sent pc2 dk3 where 2: "?tick 6 (good_node True) (pc1, dk1) = Some (sent, pc2, dk3)" and "outgoing_queue pc2 = []"
    using 1 by (auto simp: tick_payment_controller_def payment_controller_new_def make_payment_def make_xdai_payment_def
        sanity_check_balance_def pay_sample_defs send_make_payment_endpoints_def Let_def refusing_node_def)
  with imp 1 show ?thesis by blast
qed

text \<open>On the Althea chain a payment too small for one unit of the payment denomination is never given
  up: it is queued again in every tick, although nothing is published and the debt keeper is not told.\<close>

theorem dust_payment_stays_queued:
  assumes "num256_laws N" and "pay_system_chain (payment S) = AltheaL1" and "eth_private_key (payment S) = Some key"
    and "althea_grpc_list (payment S) = grpc # grpcs" and "contact_ok D grpc"
    and "denom_name (althea_l1_payment_denom (payment S)) \<noteq> DEBT_KEEPER_DENOM"
    and "upmt_amount p * unat (denom_decimal (althea_l1_payment_denom (payment S))) < unat DEBT_KEEPER_DENOM_DECIMAL"
    and "pn_balance (pns 0) = Inr (Some bal)" and "pn_status (pns 0) = Inr (Moving h)"
  shows "tick_payment_controller N D fh now pns retries orc S [p] prev (payment_controller_new, dk)
     = Some ([], \<lparr>outgoing_queue = [p], resend_queue = []\<rparr>, dk)"
proof -
  let ?d = "althea_l1_payment_denom (payment S)"
  have small: "unat DEBT_KEEPER_DENOM_DECIMAL < 2 ^ 256"
    by (simp add: DEBT_KEEPER_DENOM_DECIMAL_def)
  then have "upmt_amount p * unat (denom_decimal ?d) < 2 ^ 256" using assms(7) by linarith
  then have "int (upmt_amount p) * int (unat (denom_decimal ?d)) < 2 ^ 256"
    by (simp only: of_nat_mult[symmetric] of_nat_less_numeral_power_cancel_iff)
  then have "normalize_payment_amount N (upmt_amount p) wei_denom ?d = Some 0"
    using num256_laws.normalize_exact[OF assms(1), of wei_denom ?d "upmt_amount p"] assms(6,7)
    by (simp add: wei_denom_def DEBT_KEEPER_DENOM_DECIMAL_def)
  then show ?thesis using assms(2-5,8,9)
    by (simp add: tick_payment_controller_def payment_controller_new_def make_payment_def make_althea_payment_def
        sanity_check_balance_def)
qed

lemma dust_payment_stays_queued_witness:
  "tick_payment_controller checked_num256 decoders_sample (\<lambda>_. None) 5 (good_node True) (good_node True) (oracle_sample 9)
     (pay_sample AltheaL1) [order_sample 999999999999] [] (payment_controller_new, keeper_sample node_debt_data_new)
   = Some ([], \<lparr>outgoing_queue = [order_sample 999999999999], resend_queue = []\<rparr>, keeper_sample node_debt_data_new)"
  by (rule dust_payment_stays_queued[OF checked256.num256_laws_axioms])
    (auto simp: pay_sample_defs DEBT_KEEPER_DENOM_def DEBT_KEEPER_DENOM_DECIMAL_def default_althea_l1_payment_denom_def)

section \<open>The validator\<close>

text \<open>C22: Every unit credited to a peer is backed by a transfer on the chain, once. In any run of the validator from its
  empty state on an Ethereum based chain, the accepted transactions have different txids, and the recorded total of the
  payments of a peer grows by exactly the amounts of those among them that name the peer as their sender and that
  the full node of some tick reported as a transfer to our address from another one, of the announced amount, in a block
  with at least four and at most 1440 successors. Every other accepted transaction was reported so as a transfer from our
  address to another one. Transactions on the Althea chain are checked by other code and are not covered.\<close>

theorem credits_are_backed:
  assumes "num256_laws N" and "chain \<noteq> AltheaL1" and "pay_eth_address (payment S) = Some our"
    and "validator_run N D S chain is (payment_validator_new, lg) = Some (acc, pv, lg')"
    and "received ident lg + claimed ident acc < 2 ^ 256"
  shows "distinct (map tv_txid acc) \<and> is_consistent pv
    \<and> (\<exists>credited. subseq credited acc \<and> (\<forall>ts \<in> set credited. \<exists>i \<in> set is. transfer_to_us our (ti_node i) ts)
        \<and> (\<forall>ts \<in> set acc. ts \<in> set credited \<or> (\<exists>i \<in> set is. transfer_by_us our (ti_node i) ts))
        \<and> received ident lg' = received ident lg + claimed ident credited)"
  using validator_run_settles[OF assms(4) is_consistent_new]
    num256_laws.validator_run_backed[OF assms(1-4), of ident] assms(5)
  by (simp add: backed_def)

definition payment_sample :: "nat \<Rightarrow> nat \<Rightarrow> to_validate" where
  "payment_sample txid amount = \<lparr>tv_payment = \<lparr>pmt_to = our_identity, pmt_from = sample_peer, pmt_amount = amount,
     pmt_txid = txid\<rparr>, tv_received = 3, tv_timeout_block = None\<rparr>"

text \<open>A chain at height 110 with a transaction of 40 to us in block 100, from the address 77.\<close>

definition chain_sample :: chain_node where
  "chain_sample = \<lparr>cn_eth_block = (\<lambda>_. Inr 110),
     cn_eth_tx = (\<lambda>_. Inr (Some (Legacy \<lparr>eth_to = Some 9, eth_from = 77, eth_value = 40, eth_block_number = Some 100\<rparr>))),
     cn_althea_status = (\<lambda>_. Inl ()), cn_althea_tx = (\<lambda>_. Inl ())\<rparr>"

definition ledger_sample :: ledger where
  "ledger_sample = \<lparr>lg_debts = keeper_sample node_debt_data_new, lg_fee_owed = 0,
     lg_usage = \<lparr>last_save_hour = 0, client_bandwidth = [], relay_bandwidth = [], exit_bandwidth = [], ut_payments = []\<rparr>\<rparr>"

definition tick_sample :: "to_validate list \<Rightarrow> tick_input" where
  "tick_sample ts = \<lparr>ti_now = 5, ti_hour = Some 0, ti_node = chain_sample, ti_outgoing = [], ti_incoming = ts\<rparr>"

lemmas validator_sample_defs = pay_sample_defs payment_sample_def chain_sample_def ledger_sample_def tick_sample_def
  payment_validator_new_def

text \<open>What the sample chain makes of the sample payment.\<close>

definition credited_sample :: "nat \<Rightarrow> ledger" where
  "credited_sample n = ledger_sample\<lparr>lg_debts := keeper_sample (node_debt_data_new\<lparr>total_payment_received := n, incoming_payments := n\<rparr>),
     lg_usage := (lg_usage ledger_sample)\<lparr>ut_payments := [from_payment_tx (tv_payment (payment_sample 1 40)) 0]\<rparr>\<rparr>"

lemma validate_sample:
  "validate_transaction checked_num256 decoders_sample (pay_sample Xdai) 5 (Some 0) chain_sample Xdai (payment_sample 1 40)
     ledger_sample = Some (Some (payment_sample 1 40, True), credited_sample 40)"
  "validate_transaction checked_num256 decoders_sample (pay_sample Xdai) 5 (Some 0) chain_sample Xdai (payment_sample 1 40)
     (credited_sample 40) = Some (Some (payment_sample 1 40, True), credited_sample 80)"
  by (simp_all add: validate_transaction_def handle_xdai_tx_checking_def validator_sample_defs credited_sample_def
      handle_tx_messaging_xdai_def get_xdai_transaction_details_def payment_in_chain_xdai_def payment_is_old_def
      BLOCKS_TO_CONFIRM_def BLOCKS_TO_OLD_def credit_incoming_def payment_received_def dk_payment_received_def
      with_peer_def nd_payment_received_def get_debt_data_mut_def put_debt_data_def node_debt_data_new_def
      update_payments_def handle_payments_def get_txids_def insert_payment_def trim_payments_def from_payment_tx_def
      MAX_TX_ENTRIES_def)

section \<open>Acceptance\<close>

lemma xdai_accepts:
  assumes "chain \<noteq> AltheaL1" and "pay_eth_address (payment S) = Some our"
    and "validate_transaction N D S now hour node chain ts lg = Some (r, lg')"
  shows "r = Some (ts, True) \<longleftrightarrow>
     (\<exists>t h to from b. cn_eth_tx node (tv_txid ts) = Inr (Some t) \<and> cn_eth_block node (tv_txid ts) = Inr h
        \<and> get_xdai_transaction_details t = (Some to, from, pmt_amount (tv_payment ts), Some b)
        \<and> (to = our) \<noteq> (from = our) \<and> b + 4 \<le> h \<and> h \<le> b + 1440)"
proof -
  have v: "handle_xdai_tx_checking N S now hour node ts lg = Some (r, lg')"
    using assms(1,3) by (simp add: validate_transaction_def split: system_chain.splits)
  show ?thesis
  proof (cases "\<exists>t h. cn_eth_tx node (tv_txid ts) = Inr (Some t) \<and> cn_eth_block node (tv_txid ts) = Inr h")
    case True
    then obtain t h where n: "cn_eth_tx node (tv_txid ts) = Inr (Some t)" "cn_eth_block node (tv_txid ts) = Inr h"
      by blast
    obtain to src val b where d: "get_xdai_transaction_details t = (to, src, val, b)" by (metis prod.exhaust)
    have "handle_tx_messaging_xdai N S now hour t ts h lg = Some (r, lg')"
      using v n by (simp add: handle_xdai_tx_checking_def split: if_splits)
    then show ?thesis
      using assms(2) by (auto simp: n d handle_tx_messaging_xdai_def Let_def payment_in_chain_xdai_def
          payment_is_old_def BLOCKS_TO_CONFIRM_def BLOCKS_TO_OLD_def elim!: bind_SomeE
          split: if_splits option.splits bool.splits)
  next
    case False
    then have "r = None" using v
      by (auto simp: handle_xdai_tx_checking_def split: if_splits option.splits sum.splits)
    with False show ?thesis by auto
  qed
qed


text \<open>C23: A transaction on an Ethereum based chain is accepted exactly when the node knows it with the
  announced amount, as a transfer either to us or by us but not both, in a block that has at least four and at
  most 1440 successors.\<close>

theorem xdai_accepts_iff:
  assumes "chain \<noteq> AltheaL1" and "pay_eth_address (payment S) = Some our"
    and "validate_transaction N D S now hour node chain ts lg = Some (r, lg')"
  shows "r = Some (ts, True) \<longleftrightarrow>
     (\<exists>t h to from b. cn_eth_tx node (tv_txid ts) = Inr (Some t) \<and> cn_eth_block node (tv_txid ts) = Inr h
        \<and> get_xdai_transaction_details t = (Some to, from, pmt_amount (tv_payment ts), Some b)
        \<and> (to = our) \<noteq> (from = our) \<and> b + 4 \<le> h \<and> h \<le> b + 1440)"
  by (rule xdai_accepts[OF assms])

text \<open>A confirmed transfer to us, whatever the peer claims.\<close>

lemma incoming_transfer:
  assumes "chain \<noteq> AltheaL1" and "pay_eth_address (payment S) = Some our" and "eth_node_list (payment S) \<noteq> []"
    and "cn_eth_tx node (tv_txid ts) = Inr (Some t)" and "cn_eth_block node (tv_txid ts) = Inr h"
    and "get_xdai_transaction_details t = (Some our, src, pmt_amount (tv_payment ts), Some b)" and "src \<noteq> our"
    and "b + BLOCKS_TO_CONFIRM \<le> h" and "h \<le> b + BLOCKS_TO_OLD"
  shows "validate_transaction N D S now hour node chain ts lg =
     do { lg' \<leftarrow> credit_incoming N hour wei_denom (tv_payment ts) lg; Some (Some (ts, True), lg') }"
proof -
  have "\<not> h < b" "BLOCKS_TO_CONFIRM \<le> h - b" "\<not> BLOCKS_TO_OLD < h - b"
    using assms(8,9) by (simp_all add: le_diff_conv2)
  then have "handle_tx_messaging_xdai N S now hour t ts h lg =
     do { lg' \<leftarrow> credit_incoming N hour wei_denom (tv_payment ts) lg; Some (Some (ts, True), lg') }"
    using assms(2,6,7) by (simp add: handle_tx_messaging_xdai_def payment_in_chain_xdai_def payment_is_old_def Let_def)
  then show ?thesis
    using assms(1-5) by (auto simp: validate_transaction_def handle_xdai_tx_checking_def split: system_chain.splits)
qed

text \<open>C27: The sender on the chain is never compared with the sender a peer claims: for every claimed
  sender, a confirmed transfer to us from any other address is credited to the claimed one.\<close>

theorem claimed_sender_is_credited:
  assumes "chain \<noteq> AltheaL1" and "pay_eth_address (payment S) = Some our" and "eth_node_list (payment S) \<noteq> []"
    and "cn_eth_tx node (tv_txid ts) = Inr (Some t)" and "cn_eth_block node (tv_txid ts) = Inr h"
    and "get_xdai_transaction_details t = (Some our, from, pmt_amount (tv_payment ts), Some b)" and "from \<noteq> our"
    and "b + BLOCKS_TO_CONFIRM \<le> h" and "h \<le> b + BLOCKS_TO_OLD"
  shows "validate_transaction N D S now hour node chain ts lg =
     do { (_, dk) \<leftarrow> payment_received N (pmt_from (tv_payment ts)) (pmt_amount (tv_payment ts)) wei_denom (lg_debts lg);
          Some (Some (ts, True), lg\<lparr>lg_debts := dk, lg_usage := update_payments hour (tv_payment ts) (lg_usage lg)\<rparr>) }"
  unfolding incoming_transfer[OF assms] credit_incoming_def
  by (cases "payment_received N (pmt_from (tv_payment ts)) (pmt_amount (tv_payment ts)) wei_denom (lg_debts lg)") auto

section \<open>Restarts\<close>

text \<open>A run of one tick of a fresh validator with one announcement gives the verdict of the node.\<close>

lemma fresh_run:
  assumes "pay_eth_address (payment S) = Some our" and "ti_outgoing i = []" and "ti_incoming i = [ts]"
  shows "validator_run N D S chain [i] (payment_validator_new, lg) =
    (let pv = payment_validator_new\<lparr>unvalidated_transactions := [ts]\<rparr>
     in if tv_timed_out (ti_now i) our chain ts then Some ([], pv_remove ts our False pv, lg)
        else map_option (\<lambda>(r, lg'). (map fst (filter snd (option_list r)), remove_all our (option_list r) pv, lg'))
               (validate_transaction N D S (ti_now i) (ti_hour i) (ti_node i) chain ts lg))"
proof -
  let ?pv = "payment_validator_new\<lparr>unvalidated_transactions := [ts]\<rparr>"
  let ?v = "validate_transaction N D S (ti_now i) (ti_hour i) (ti_node i) chain ts lg"
  have e: "enqueue_all [ts] payment_validator_new = ?pv"
    by (simp add: enqueue_all_def add_to_validation_queue_def check_for_duplicates_def all_txids_def
        payment_validator_new_def set_insert_def)
  have "tick_verdicts N D S (ti_now i) (ti_hour i) (ti_node i) chain our [ts] lg =
    (if tv_timed_out (ti_now i) our chain ts then Some ([(ts, False)], lg)
     else map_option (\<lambda>(r, lg'). (option_list r, lg')) ?v)"
    by (cases ?v) (auto simp: tick_verdicts_def VALIDATE_BATCH_SIZE_def map_filter_simps option_list_def
        split: option.splits)
  then show ?thesis using assms e
    by (cases ?v) (auto simp: tick_payment_validator_def Let_def remove_all_def)
qed

lemma settled_announcement_ignored:
  assumes "pay_eth_address (payment S) = Some our" and "ti_outgoing i = []" and "ti_incoming i = [ts]"
    and "tv_txid ts \<in> settled_txids pv" and "unvalidated_transactions pv = []"
  shows "validator_run N D S chain [i] (pv, lg) = Some ([], pv, lg)"
proof -
  have "enqueue_all [ts] pv = pv"
    using assms(4) by (simp add: enqueue_all_def add_to_validation_queue_def check_for_duplicates_def all_txids_settled)
  then show ?thesis using assms by (simp add: tick_payment_validator_def)
qed

lemma accepted_is_settled:
  assumes "pv1 = remove_all our [(ts, True)] (payment_validator_new\<lparr>unvalidated_transactions := [ts]\<rparr>)"
  shows "tv_txid ts \<in> settled_txids pv1 \<and> unvalidated_transactions pv1 = []"
  by (auto simp: assms remove_all_def pv_remove_def payment_validator_new_def settled_txids_def set_insert_def
      tv_txid_def Let_def)

text \<open>The memory of accepted transactions is lost when the validator is restarted, the debts are
  not: the announcement of a transfer that a validator has already accepted and credited is without effect on it, but
  a validator that has been started anew on the same debts accepts and credits it a second time.\<close>

theorem restart_credits_again:
  assumes "num256_laws N" and "chain \<noteq> AltheaL1" and "pay_eth_address (payment S) = Some our"
    and "cn_eth_tx (ti_node i) (tv_txid ts) = Inr (Some t)"
    and "get_xdai_transaction_details t = (Some our, from, pmt_amount (tv_payment ts), Some b)"
    and "ti_outgoing i = []" and "ti_incoming i = [ts]"
    and "validator_run N D S chain [i] (payment_validator_new, lg) = Some ([ts], pv1, lg1)"
    and "validator_run N D S chain [i] (payment_validator_new, lg1) = Some (acc, pv2, lg2)"
    and "received (pmt_from (tv_payment ts)) lg + 2 * pmt_amount (tv_payment ts) < 2 ^ 256"
  shows "validator_run N D S chain [i] (pv1, lg1) = Some ([], pv1, lg1) \<and> acc = [ts]
    \<and> received (pmt_from (tv_payment ts)) lg2 = received (pmt_from (tv_payment ts)) lg + 2 * pmt_amount (tv_payment ts)"
proof -
  let ?v = "validate_transaction N D S (ti_now i) (ti_hour i) (ti_node i) chain ts"
  let ?pv = "payment_validator_new\<lparr>unvalidated_transactions := [ts]\<rparr>"
  have run: "\<not> tv_timed_out (ti_now i) our chain ts \<and> (\<exists>r. ?v lg = Some (r, lg') \<and>
      map fst (filter snd (option_list r)) = acc \<and> pv = remove_all our (option_list r) ?pv)"
    if "validator_run N D S chain [i] (payment_validator_new, lg) = Some (acc, pv, lg')" and "acc \<noteq> []" for lg acc pv lg'
    using that unfolding fresh_run[OF assms(3,6,7)] by (auto simp: Let_def split: if_splits)
  obtain r1 where v1: "?v lg = Some (r1, lg1)" and "map fst (filter snd (option_list r1)) = [ts]"
    and pv1: "pv1 = remove_all our (option_list r1) ?pv" using run[OF assms(8)] by auto
  then have r1: "r1 = Some (ts, True)" by (cases r1) (auto split: if_splits)
  obtain h where x: "cn_eth_block (ti_node i) (tv_txid ts) = Inr h" "from \<noteq> our" "b + 4 \<le> h" "h \<le> b + 1440"
    using xdai_accepts[OF assms(2,3) v1] r1 assms(4,5) by auto
  have "eth_node_list (payment S) \<noteq> []"
    using v1 assms(2) by (auto simp: validate_transaction_def handle_xdai_tx_checking_def split: system_chain.splits)
  note tr = incoming_transfer[OF assms(2,3) this assms(4) x(1) assms(5) x(2), unfolded BLOCKS_TO_CONFIRM_def
      BLOCKS_TO_OLD_def, OF x(3,4)]
  obtain r2 where v2: "?v lg1 = Some (r2, lg2)" and acc: "acc = map fst (filter snd (option_list r2))"
    using assms(9) run[OF assms(8)] unfolding fresh_run[OF assms(3,6,7)] by (auto simp: Let_def)
  have c: "credit_incoming N (ti_hour i) wei_denom (tv_payment ts) lg = Some lg1"
    "credit_incoming N (ti_hour i) wei_denom (tv_payment ts) lg1 = Some lg2" and r2: "r2 = Some (ts, True)"
    using v1 v2 unfolding tr by (auto elim!: bind_SomeE)
  have "received (pmt_from (tv_payment ts)) lg1 = received (pmt_from (tv_payment ts)) lg + pmt_amount (tv_payment ts)"
    using num256_laws.credit_incoming_received[OF assms(1) c(1)] assms(10) by simp
  moreover from this have "received (pmt_from (tv_payment ts)) lg2
      = received (pmt_from (tv_payment ts)) lg1 + pmt_amount (tv_payment ts)"
    using num256_laws.credit_incoming_received[OF assms(1) c(2)] assms(10) by simp
  moreover have st: "tv_txid ts \<in> settled_txids pv1 \<and> unvalidated_transactions pv1 = []"
    by (rule accepted_is_settled) (simp add: pv1 r1)
  have "validator_run N D S chain [i] (pv1, lg1) = Some ([], pv1, lg1)"
    by (rule settled_announcement_ignored[OF assms(3,6,7) conjunct1[OF st] conjunct2[OF st]])
  with calculation show ?thesis using acc r2 by simp
qed

definition settled_sample :: payment_validator where
  "settled_sample = remove_all 9 [(payment_sample 1 40, True)]
     (payment_validator_new\<lparr>unvalidated_transactions := [payment_sample 1 40]\<rparr>)"

lemma sample_run:
  assumes "(lg, lg') \<in> {(ledger_sample, credited_sample 40), (credited_sample 40, credited_sample 80)}"
  shows "validator_run checked_num256 decoders_sample (pay_sample Xdai) Xdai [tick_sample [payment_sample 1 40]]
     (payment_validator_new, lg) = Some ([payment_sample 1 40], settled_sample, lg')"
proof -
  have "pay_eth_address (payment (pay_sample Xdai)) = Some 9" by (simp add: pay_sample_def)
  note run = fresh_run[OF this, of "tick_sample [payment_sample 1 40]" "payment_sample 1 40"]
  have "\<not> tv_timed_out 5 9 Xdai (payment_sample 1 40)"
    by (simp add: tv_timed_out_def payment_sample_def checked_duration_since_def PAYMENT_RECEIVE_TIMEOUT_def
        from_secs_def sample_peer_def)
  then show ?thesis using assms validate_sample by (subst run) (auto simp: tick_sample_def settled_sample_def Let_def)
qed

lemma received_sample: "received sample_peer (credited_sample n) = n" "received sample_peer ledger_sample = 0"
  by (simp_all add: received_def credited_sample_def ledger_sample_def keeper_sample_def get_debt_data_mut_def
      node_debt_data_new_def)

lemma restart_credits_again_witness:
  "validator_run checked_num256 decoders_sample (pay_sample Xdai) Xdai [tick_sample [payment_sample 1 40]]
       (settled_sample, credited_sample 40) = Some ([], settled_sample, credited_sample 40)
   \<and> received sample_peer (credited_sample 80) = received sample_peer ledger_sample + 2 * 40"
proof -
  let ?t = "Legacy \<lparr>eth_to = Some 9, eth_from = 77, eth_value = 40, eth_block_number = Some 100\<rparr>"
  let ?i = "tick_sample [payment_sample 1 40]"
  have "num256_laws checked_num256" "Xdai \<noteq> AltheaL1" "pay_eth_address (payment (pay_sample Xdai)) = Some 9"
    "cn_eth_tx (ti_node ?i) (tv_txid (payment_sample 1 40)) = Inr (Some ?t)"
    "get_xdai_transaction_details ?t = (Some 9, 77, pmt_amount (tv_payment (payment_sample 1 40)), Some 100)"
    "ti_outgoing ?i = []" "ti_incoming ?i = [payment_sample 1 40]"
    by (simp_all add: checked256.num256_laws_axioms pay_sample_def tick_sample_def chain_sample_def payment_sample_def
        get_xdai_transaction_details_def)
  note a = this
  have r: "received (pmt_from (tv_payment (payment_sample 1 40))) ledger_sample
      + 2 * pmt_amount (tv_payment (payment_sample 1 40)) < 2 ^ 256"
    by (simp add: received_sample payment_sample_def)
  have "validator_run checked_num256 decoders_sample (pay_sample Xdai) Xdai [?i] (payment_validator_new, ledger_sample)
      = Some ([payment_sample 1 40], settled_sample, credited_sample 40)"
    "validator_run checked_num256 decoders_sample (pay_sample Xdai) Xdai [?i] (payment_validator_new, credited_sample 40)
      = Some ([payment_sample 1 40], settled_sample, credited_sample 80)"
    by (rule sample_run, simp)+
  from restart_credits_again[OF a this r] show ?thesis by (simp add: payment_sample_def)
qed

lemma credits_are_backed_witness:
  "\<exists>pv lg'. validator_run checked_num256 decoders_sample (pay_sample Xdai) Xdai [tick_sample [payment_sample 1 40]]
       (payment_validator_new, ledger_sample) = Some ([payment_sample 1 40], pv, lg')
     \<and> is_consistent pv \<and> transfer_to_us 9 chain_sample (payment_sample 1 40)
     \<and> received sample_peer ledger_sample = 0 \<and> received sample_peer lg' = 40"
proof -
  have r: "validator_run checked_num256 decoders_sample (pay_sample Xdai) Xdai [tick_sample [payment_sample 1 40]]
      (payment_validator_new, ledger_sample) = Some ([payment_sample 1 40], settled_sample, credited_sample 40)"
    by (rule sample_run) simp
  have p: "pay_eth_address (payment (pay_sample Xdai)) = Some 9" by (simp add: pay_sample_def)
  have "\<not> transfer_by_us 9 chain_sample (payment_sample 1 40)"
    by (simp add: transfer_by_us_def confirmed_transfer_def chain_sample_def get_xdai_transaction_details_def)
  moreover have "claimed sample_peer [payment_sample 1 40] = 40" by (simp add: payment_sample_def)
  ultimately show ?thesis
    using credits_are_backed[OF checked256.num256_laws_axioms _ p r, of sample_peer] r
    by (auto simp: received_sample tick_sample_def)
qed

lemma xdai_accepts_iff_witness:
  "\<exists>t h to from b. cn_eth_tx chain_sample 1 = Inr (Some t) \<and> cn_eth_block chain_sample 1 = Inr h
     \<and> get_xdai_transaction_details t = (Some to, from, 40, Some b)
     \<and> (to = 9) \<noteq> (from = 9) \<and> b + 4 \<le> h \<and> h \<le> b + 1440"
  using xdai_accepts_iff[OF _ _ validate_sample(1), of 9]
  by (simp add: pay_sample_def payment_sample_def tv_txid_def)

lemma claimed_sender_is_credited_witness:
  "eth_address sample_peer \<noteq> 77 \<and> (\<exists>dk. payment_received checked_num256 sample_peer 40 wei_denom (lg_debts ledger_sample)
     = Some (Ok (), dk) \<and> validate_transaction checked_num256 decoders_sample (pay_sample Xdai) 5 (Some 0) chain_sample Xdai
       (payment_sample 1 40) ledger_sample
     = Some (Some (payment_sample 1 40, True),
         ledger_sample\<lparr>lg_debts := dk,
           lg_usage := update_payments (Some 0) (tv_payment (payment_sample 1 40)) (lg_usage ledger_sample)\<rparr>))"
proof -
  have hyps: "Xdai \<noteq> AltheaL1" "pay_eth_address (payment (pay_sample Xdai)) = Some 9"
    "eth_node_list (payment (pay_sample Xdai)) \<noteq> []"
    "cn_eth_tx chain_sample (tv_txid (payment_sample 1 40))
       = Inr (Some (Legacy \<lparr>eth_to = Some 9, eth_from = 77, eth_value = 40, eth_block_number = Some 100\<rparr>))"
    "cn_eth_block chain_sample (tv_txid (payment_sample 1 40)) = Inr 110"
    "get_xdai_transaction_details (Legacy \<lparr>eth_to = Some 9, eth_from = 77, eth_value = 40, eth_block_number = Some 100\<rparr>)
       = (Some 9, 77, pmt_amount (tv_payment (payment_sample 1 40)), Some 100)" "(77 :: address) \<noteq> 9"
    "100 + BLOCKS_TO_CONFIRM \<le> 110" "110 \<le> 100 + BLOCKS_TO_OLD"
    by (simp_all add: pay_sample_defs chain_sample_def payment_sample_def get_xdai_transaction_details_def
        BLOCKS_TO_CONFIRM_def BLOCKS_TO_OLD_def)
  show ?thesis
    using claimed_sender_is_credited[OF hyps, of checked_num256 decoders_sample 5 "Some 0" ledger_sample]
    by (simp add: payment_sample_def payment_received_def dk_payment_received_def with_peer_def nd_payment_received_def
        ledger_sample_def keeper_sample_def get_debt_data_mut_def node_debt_data_new_def sample_peer_def)
qed

section \<open>Batches\<close>

text \<open>A tick asks the node about all of the pending transactions but every eleventh: the future that
  finds the batch of ten full is dropped when the batch is run. The order in which the pending set is iterated decides
  which transactions have to wait for another tick.\<close>

theorem every_eleventh_waits:
  assumes "batch_loop v futs [] lg = Some (results, lg')"
  shows "length results = length futs - length futs div 11"
  using batch_loop_length[OF assms] by (simp add: VALIDATE_BATCH_SIZE_def)

lemma every_eleventh_waits_witness:
  "\<exists>results lg'. batch_loop (\<lambda>ts lg. Some (Some (ts, False), lg)) (map (\<lambda>n. payment_sample n 40) [0..<23]) [] ledger_sample
       = Some (results, lg') \<and> length results = 21"
proof -
  have j: "join_all (\<lambda>ts lg. Some (Some (ts, False), lg)) fs lg = Some (map (\<lambda>ts. Some (ts, False)) fs, lg)" for fs lg
    by (induction fs) simp_all
  have "\<exists>results lg'. batch_loop (\<lambda>ts lg. Some (Some (ts, False), lg)) fs buf ledger_sample = Some (results, lg')" for fs buf
  proof (induction fs arbitrary: buf)
    case (Cons f fs)
    from Cons.IH[of "[]"] Cons.IH[of "buf @ [f]"] show ?case by (auto simp: j)
  qed (simp add: j)
  then obtain results lg' where "batch_loop (\<lambda>ts lg. Some (Some (ts, False), lg)) (map (\<lambda>n. payment_sample n 40) [0..<23]) []
      ledger_sample = Some (results, lg')" by blast
  with every_eleventh_waits[OF this] show ?thesis by simp
qed

end
