(* ===== verification/Traffic_Watcher.thy ===== *)
theory Traffic_Watcher
  imports Netfilter Debt_Keeper
begin

text \<open>
  \<open>rita_common/src/traffic_watcher\<close>: the counters of a round become debts. What a neighbor sends
  us is charged with the price of its destination, what we send over a neighbor is owed to it without our own
  fee. Amounts are 128 bit signed integers that wrap around, counters are 64 bit.
\<close>

type_synonym i128 = "128 word"

type_synonym usage_state = "usage_tracker_storage \<times> throughput_tracker"

section \<open>Operations\<close>

definition init_traffic_watcher :: "'w world \<Rightarrow> ('w, unit) kio" where
  "init_traffic_watcher W = (\<lambda>w.
     case rbind (init_counter W Input) (\<lambda>_. rbind (init_counter W Output) (\<lambda>_.
          rbind (init_counter W ForwardInput) (\<lambda>_. init_counter W ForwardOutput))) w of
       Some (Inr _, w') \<Rightarrow> Some (Inr (), w')
     | _ \<Rightarrow> None)"

text \<open>Identities by mesh address and by tunnel interface. The first element is the identity map.\<close>

definition prepare_helper_maps ::
  "neigh list \<Rightarrow> (ip_addr \<times> identity) list \<times> (string \<times> identity) list" where
  "prepare_helper_maps neighbors =
     foldl (\<lambda>(identities, if_to_id) n.
        (map_insert (mesh_ip (global_id (neigh_identity n))) (global_id (neigh_identity n)) identities,
         map_insert (neigh_iface_name n) (global_id (neigh_identity n)) if_to_id)) ([], []) neighbors"

definition destination_price :: "u32 \<Rightarrow> u32 \<Rightarrow> u32 \<Rightarrow> i128" where
  "destination_price price mfee lfee = ucast ((if price > mfee then mfee else price) + lfee)"

definition add_destination ::
  "u32 \<Rightarrow> u32 \<Rightarrow> 'f route \<Rightarrow> (ip_addr \<times> i128) list \<Rightarrow> (ip_addr \<times> i128) list" where
  "add_destination mfee lfee route destinations =
     (case rt_prefix route of
        Net6 ip prefix \<Rightarrow>
          if prefix = 128 \<and> rt_installed route
          then map_insert (V6 ip) (destination_price (rt_price route) mfee lfee) destinations
          else destinations
      | Net4 _ _ \<Rightarrow> destinations)"

definition get_babel_info ::
  "rita_settings \<Rightarrow> 'f route list \<Rightarrow> rita_common_error + ((ip_addr \<times> i128) list \<times> u32)" where
  "get_babel_info S routes =
     (let lfee = babeld_local_fee (babeld_settings (network S));
          destinations = foldl (\<lambda>m r. add_destination (max_fee (payment S)) lfee r m) [] routes
      in case net_mesh_ip (network S) of
           Some ip \<Rightarrow> Ok (map_insert ip 0 destinations, lfee)
         | None \<Rightarrow> Err MiscStringError)"

definition counter_add :: "(ip_addr \<times> string) \<Rightarrow> u64 \<Rightarrow> counters \<Rightarrow> counters" where
  "counter_add k v m = map_insert k (unwrap_or (map_of m k) 0 + v) m"

text \<open>What is addressed to a peer itself is not forwarded and not billed.\<close>

definition merge_round :: "counters \<Rightarrow> counters \<Rightarrow> counters" where
  "merge_round local fwd =
     foldl (\<lambda>m (k, v). counter_add k v m)
       (foldl (\<lambda>m (k, v). if is_link_local (fst k) \<or> is_multicast (fst k) then m else counter_add k v m) [] local) fwd"

definition get_counters ::
  "'w world \<Rightarrow> (string \<Rightarrow> (string \<times> string \<times> string \<times> string) list) \<Rightarrow> filter_target \<Rightarrow> filter_target
     \<Rightarrow> ('w, rita_common_error, counters) rio" where
  "get_counters W captures t fwd =
     rbind (rmap_err KernelInterfaceError (read_counters W captures t)) (\<lambda>local.
     rbind (rmap_err KernelInterfaceError (read_counters W captures fwd)) (\<lambda>forwarded.
       rret (merge_round local forwarded)))"

definition get_input_counters ::
  "'w world \<Rightarrow> (string \<Rightarrow> (string \<times> string \<times> string \<times> string) list) \<Rightarrow> ('w, rita_common_error, counters) rio" where
  "get_input_counters W captures = get_counters W captures Input ForwardInput"

definition get_output_counters ::
  "'w world \<Rightarrow> (string \<Rightarrow> (string \<times> string \<times> string \<times> string) list) \<Rightarrow> ('w, rita_common_error, counters) rio" where
  "get_output_counters W captures = get_counters W captures Output ForwardOutput"

definition relay_usage ::
  "nat option \<Rightarrow> instant \<Rightarrow> counters \<Rightarrow> counters \<Rightarrow> u32 \<Rightarrow> usage_state \<Rightarrow> usage_state" where
  "relay_usage hour now inp out our_fee us =
     update_usage_data hour now
       \<lparr>uu_kind = Relay, uu_up = sum_list (map snd out), uu_down = sum_list (map snd inp), uu_price = our_fee\<rparr> us"

definition debt_add :: "identity \<Rightarrow> i128 \<Rightarrow> (identity \<times> i128) list \<Rightarrow> (identity \<times> i128) list" where
  "debt_add i x debts = (case map_of debts i of Some d \<Rightarrow> map_insert i (d + x) debts | None \<Rightarrow> debts)"

definition account ::
  "(ip_addr \<times> i128) list \<Rightarrow> (string \<times> identity) list \<Rightarrow> (i128 \<Rightarrow> u64 \<Rightarrow> i128) \<Rightarrow> counters
     \<Rightarrow> (identity \<times> i128) list \<Rightarrow> (identity \<times> i128) list" where
  "account destinations if_to_id amount cs debts =
     foldl (\<lambda>debts ((ip, iface), bytes).
        case (map_of destinations ip, map_of if_to_id iface) of
          (Some dest, Some id_from_if) \<Rightarrow> debt_add id_from_if (amount dest bytes) debts
        | _ \<Rightarrow> debts) debts cs"

definition relay_debts ::
  "neigh list \<Rightarrow> (ip_addr \<times> i128) list \<Rightarrow> u32 \<Rightarrow> counters \<Rightarrow> counters \<Rightarrow> (identity \<times> i128) list" where
  "relay_debts neighbors destinations lfee inp out =
     (case prepare_helper_maps neighbors of (identities, if_to_id) \<Rightarrow>
        let debts = foldl (\<lambda>m (_, i). map_insert i 0 m) [] identities;
            debts_in = account destinations if_to_id (\<lambda>dest bytes. - (dest * ucast bytes)) inp debts
        in account destinations if_to_id (\<lambda>dest bytes. (dest - ucast lfee) * ucast bytes) out debts_in)"

definition traffic_vec :: "(identity \<times> i128) list \<Rightarrow> traffic list" where
  "traffic_vec debts = map (\<lambda>(i, a). \<lparr>tr_from = i, tr_amount = sint a\<rparr>) debts"

definition watch ::
  "num256 \<Rightarrow> 'w world \<Rightarrow> (string \<Rightarrow> (string \<times> string \<times> string \<times> string) list) \<Rightarrow> rita_settings \<Rightarrow> nat option \<Rightarrow> instant
     \<Rightarrow> 'f route list \<Rightarrow> neigh list \<Rightarrow> debt_keeper \<times> usage_state \<times> 'w
     \<Rightarrow> ((rita_common_error + unit) \<times> debt_keeper \<times> usage_state \<times> 'w) option" where
  "watch N W captures S hour now routes neighbors st =
     (case st of (dk, us, w) \<Rightarrow>
      case get_babel_info S routes of
        Inl e \<Rightarrow> Some (Err e, dk, us, w)
      | Inr (destinations, lfee) \<Rightarrow>
        (case get_input_counters W captures w of
           None \<Rightarrow> None
         | Some (Inl e, w1) \<Rightarrow> Some (Err e, dk, us, w1)
         | Some (Inr inp, w1) \<Rightarrow>
           (case get_output_counters W captures w1 of
              None \<Rightarrow> None
            | Some (Inl e, w2) \<Rightarrow> Some (Err e, dk, us, w2)
            | Some (Inr out, w2) \<Rightarrow>
              let us' = relay_usage hour now inp out lfee us
              in case traffic_update N (traffic_vec (relay_debts neighbors destinations lfee inp out)) dk of
                   None \<Rightarrow> None
                 | Some dk' \<Rightarrow> Some (Ok (), dk', us', w2))))"

end
