(* ===== verification/Endpoint_Traffic.thy ===== *)
theory Endpoint_Traffic
  imports Traffic_Watcher "HOL-Library.Signed_Division"
begin

text \<open>
  Billing at the two ends of a path: \<open>rita_exit/src/traffic_watcher\<close> bills the clients of an
  exit for what they send and for what is returned to them, \<open>rita_client/src/traffic_watcher\<close> asks the
  exit for the total debt and computes it locally when the exit does not answer.
\<close>

section \<open>Errors\<close>

datatype rita_exit_error =
    ExitMiscStringError | EmailNotFound | ExitAddrParseError | IpAddrError ip_addr | ExitCommonError rita_common_error
  | RenderError | EmailError | FileError | SmtpError | IpNetworkError | PhoneParseError | ClarityError | DeepSpaceError
  | AltheaTypesError | ExitKernelError kernel_interface_error | NoClientError

datatype rita_client_error =
    InterfaceModeError | InterfaceToggleError | ClientAddrParseError | ClientMiscStringError | ValidationError
  | ClientSendRequestError | ClientJsonPayloadError | OldJsonPayloadError | SerdeJsonError | ClientFromUtf8Error
  | TimeoutError | NoExitError | ExitNotFound | NoExitIPError | ClientCommonError rita_common_error | ParseIntError

text \<open>Division of 128 bit integers: it truncates, and panics when the divisor is zero.\<close>

definition i128_div :: "i128 \<Rightarrow> i128 \<Rightarrow> i128 option" where
  "i128_div a b = (if b = 0 then None else Some (word_of_int (sint a sdiv sint b)))"

section \<open>The exit\<close>

definition LEGACY_INTERFACE :: string where "LEGACY_INTERFACE = ''wg_exit''"
definition EXIT_INTERFACE :: string where "EXIT_INTERFACE = ''wg_exit_v2''"

record exit_settings =
  ex_common :: rita_settings
  exit_price :: u64

definition exit_destination ::
  "u32 \<Rightarrow> (ip_addr \<times> identity) list \<Rightarrow> 'f route \<Rightarrow> (wg_key \<times> u64) list \<Rightarrow> (wg_key \<times> u64) list" where
  "exit_destination mfee id_from_ip route destinations =
     (case rt_prefix route of
        Net6 ip prefix \<Rightarrow>
          if prefix = 128 \<and> rt_installed route then
            (case map_of id_from_ip (V6 ip) of
               Some i \<Rightarrow>
                 let price = (if rt_price route > mfee then mfee else rt_price route)
                 in map_insert (wg_public_key i) (ucast price) destinations
             | None \<Rightarrow> destinations)
          else destinations
      | Net4 _ _ \<Rightarrow> destinations)"

definition exit_babel_info ::
  "rita_settings \<Rightarrow> 'f route list \<Rightarrow> identity \<Rightarrow> (ip_addr \<times> identity) list \<Rightarrow> (wg_key \<times> u64) list" where
  "exit_babel_info S routes our_id id_from_ip =
     foldl (\<lambda>m r. exit_destination (max_fee (payment S)) id_from_ip r m)
       [(wg_public_key our_id, ucast (babeld_local_fee (babeld_settings (network S))))] routes"

definition generate_helper_maps ::
  "rita_settings \<Rightarrow> identity \<Rightarrow> identity list \<Rightarrow> ((wg_key \<times> identity) list \<times> (ip_addr \<times> identity) list) option" where
  "generate_helper_maps S our_id clients =
     (case net_mesh_ip (network S) of
        None \<Rightarrow> None
      | Some ip \<Rightarrow> Some (foldl (\<lambda>(identities, id_from_ip) i.
            (map_insert (wg_public_key i) i identities, map_insert (mesh_ip i) i id_from_ip))
          ([], [(ip, our_id)]) clients))"

definition moved :: "(wg_usage \<Rightarrow> u64) \<Rightarrow> wg_counters \<Rightarrow> wg_counters \<Rightarrow> u64" where
  "moved sel counters history =
     sum_list (map (\<lambda>(k, v). case map_of history k of Some h \<Rightarrow> sel v - sel h | None \<Rightarrow> 0) counters)"

definition counters_logging ::
  "nat option \<Rightarrow> instant \<Rightarrow> wg_counters \<Rightarrow> wg_counters \<Rightarrow> u32 \<Rightarrow> usage_state \<Rightarrow> usage_state" where
  "counters_logging hour now counters history exit_fee us =
     update_usage_data hour now
       \<lparr>uu_kind = Exit, uu_up = moved wu_upload counters history, uu_down = moved wu_download counters history,
        uu_price = exit_fee\<rparr> us"

definition get_wg_exit_clients_online :: "'w world \<Rightarrow> instant \<Rightarrow> string \<Rightarrow> ('w, u32) kio" where
  "get_wg_exit_clients_online W now iface =
     rbind (cmd W ''wg'' [''show'', iface, ''latest-handshakes'']) (\<lambda>output.
     rbind (from_utf8 (co_stdout output)) (\<lambda>out.
       rlift (foldl (\<lambda>r line. case r of Inl e \<Rightarrow> Err e
          | Inr num \<Rightarrow>
            (case nth_opt (split_on TAB line) 1 of
               None \<Rightarrow> Err RuntimeError
             | Some timestamp \<Rightarrow>
               (case parse_u64 timestamp of
                  None \<Rightarrow> Err RuntimeError
                | Some t \<Rightarrow>
                  (case checked_duration_since now (from_secs (unat t)) of
                     None \<Rightarrow> Err RuntimeError
                   | Some d \<Rightarrow> Ok (if d < from_secs 600 then num + 1 else num)))))
         (Ok 0) (lines_of out))))"

definition debts_logging :: "'w world \<Rightarrow> instant \<Rightarrow> ('w, unit) kio" where
  "debts_logging W now =
     rbind (rattempt (get_wg_exit_clients_online W now LEGACY_INTERFACE)) (\<lambda>_.
     rbind (rattempt (get_wg_exit_clients_online W now EXIT_INTERFACE)) (\<lambda>_. rret ()))"

definition merge_counters :: "wg_counters \<Rightarrow> wg_counters \<Rightarrow> wg_counters" where
  "merge_counters old_counters new_counters =
     foldl (\<lambda>ret (k, e). case map_of ret k of
          Some usage \<Rightarrow> map_insert k \<lparr>wu_upload = wu_upload usage + wu_upload e,
                                   wu_download = wu_download usage + wu_download e\<rparr> ret
        | None \<Rightarrow> map_insert k e ret) old_counters new_counters"

text \<open>The two passes over the counters. An entry needs an identity, a destination, a history and a debts
  entry; the history is brought up to date only then.\<close>

type_synonym bill_state = "(identity \<times> i128) list \<times> wg_counters"

definition bill_entry ::
  "(wg_key \<times> identity) list \<Rightarrow> (wg_key \<times> u64) list \<Rightarrow> (u64 \<Rightarrow> wg_usage \<Rightarrow> wg_usage \<Rightarrow> (i128 \<times> wg_usage) option)
     \<Rightarrow> wg_key \<times> wg_usage \<Rightarrow> bill_state \<Rightarrow> bill_state option" where
  "bill_entry identities destinations bill e st =
     (case (e, st) of ((k, bytes), (debts, history)) \<Rightarrow>
        case (map_of identities k, map_of destinations k, map_of history k) of
          (Some i, Some dest, Some h) \<Rightarrow>
            (case map_of debts i of
               Some d \<Rightarrow>
                 (case bill dest bytes h of
                    None \<Rightarrow> None
                  | Some (amount, h') \<Rightarrow> Some (map_insert i (d - amount) debts, map_insert k h' history))
             | None \<Rightarrow> Some (debts, history))
        | _ \<Rightarrow> Some (debts, history))"

definition input_bill :: "u64 \<Rightarrow> u64 \<Rightarrow> wg_usage \<Rightarrow> wg_usage \<Rightarrow> (i128 \<times> wg_usage) option" where
  "input_bill our_price dest bytes h =
     (let used = wu_download bytes - wu_download h
      in Some (ucast our_price * ucast used, h\<lparr>wu_download := wu_download bytes\<rparr>))"

definition output_bill :: "u64 \<Rightarrow> u8 \<Rightarrow> u64 \<Rightarrow> wg_usage \<Rightarrow> wg_usage \<Rightarrow> (i128 \<times> wg_usage) option" where
  "output_bill our_price fee dest bytes h =
     (let used = wu_upload bytes - wu_upload h
      in case i128_div (ucast dest * ucast used) (ucast fee) of
           None \<Rightarrow> None
         | Some tx_fee_surcharge \<Rightarrow>
             Some (ucast (dest + our_price) * ucast used + tx_fee_surcharge, h\<lparr>wu_upload := wu_upload bytes\<rparr>))"

fun bill_pass :: "(wg_key \<times> wg_usage \<Rightarrow> bill_state \<Rightarrow> bill_state option) \<Rightarrow> wg_counters \<Rightarrow> bill_state \<Rightarrow> bill_state option" where
  "bill_pass step [] st = Some st"
| "bill_pass step (e # cs) st = do { st1 \<leftarrow> step e st; bill_pass step cs st1 }"

definition exit_bills ::
  "(wg_key \<times> identity) list \<Rightarrow> (wg_key \<times> u64) list \<Rightarrow> u64 \<Rightarrow> u8 \<Rightarrow> wg_counters \<Rightarrow> wg_counters \<Rightarrow> bill_state option" where
  "exit_bills identities destinations our_price fee counters history =
     do {
       let debts = foldl (\<lambda>m (_, i). map_insert i 0 m) [] identities;
       st \<leftarrow> bill_pass (bill_entry identities destinations (input_bill our_price)) counters (debts, history);
       bill_pass (bill_entry identities destinations (output_bill our_price fee)) counters st
     }"

definition watch_exit_traffic ::
  "num256 \<Rightarrow> 'w world \<Rightarrow> (string \<Rightarrow> wg_key option) \<Rightarrow> (string \<Rightarrow> (string \<times> string \<times> string) list) \<Rightarrow> exit_settings
     \<Rightarrow> nat option \<Rightarrow> instant \<Rightarrow> 'f route list \<Rightarrow> identity list \<Rightarrow> wg_counters \<times> debt_keeper \<times> usage_state \<times> 'w
     \<Rightarrow> ((rita_exit_error + unit) \<times> wg_counters \<times> debt_keeper \<times> usage_state \<times> 'w) option" where
  "watch_exit_traffic N W parse_key captures X hour now routes clients st =
     (case st of (history, dk, us, w) \<Rightarrow>
      case settings_identity (ex_common X) of
        None \<Rightarrow> Some (Err ExitMiscStringError, history, dk, us, w)
      | Some our_id \<Rightarrow>
        (case generate_helper_maps (ex_common X) our_id clients of
           None \<Rightarrow> None
         | Some (identities, id_from_ip) \<Rightarrow>
           let destinations = exit_babel_info (ex_common X) routes our_id id_from_ip in
           (case read_wg_counters W parse_key captures LEGACY_INTERFACE w of
              None \<Rightarrow> None
            | Some (Inl e, w1) \<Rightarrow> Some (Err (ExitKernelError e), history, dk, us, w1)
            | Some (Inr old_counters, w1) \<Rightarrow>
              (case read_wg_counters W parse_key captures EXIT_INTERFACE w1 of
                 None \<Rightarrow> None
               | Some (Inl e, w2) \<Rightarrow> Some (Err (ExitKernelError e), history, dk, us, w2)
               | Some (Inr new_counters, w2) \<Rightarrow>
                 let counters = merge_counters old_counters new_counters;
                     history1 = prepare_usage_history counters history;
                     us1 = counters_logging hour now counters history1 (ucast (exit_price X)) us in
                 (case exit_bills identities destinations (exit_price X)
                         (simulated_transaction_fee (payment (ex_common X))) counters history1 of
                    None \<Rightarrow> None
                  | Some (debts, history2) \<Rightarrow>
                    (case debts_logging W now w2 of
                       None \<Rightarrow> None
                     | Some (_, w3) \<Rightarrow>
                       (case traffic_update N (traffic_vec debts) dk of
                          None \<Rightarrow> None
                        | Some dk' \<Rightarrow> Some (Ok (), history2, dk', us1, w3))))))))"

section \<open>The client\<close>

record traffic_watcher =
  last_read_input :: u64
  last_read_output :: u64
  last_exit_dest_price :: u128

definition find_exit_route_capped ::
  "rita_settings \<Rightarrow> ip_addr \<Rightarrow> 'f route list \<Rightarrow> babel_monitor_error + 'f route" where
  "find_exit_route_capped S exit_mesh_ip routes =
     (case get_installed_route exit_mesh_ip routes of
        Inl e \<Rightarrow> Err e
      | Inr r \<Rightarrow> Ok (if rt_price r > max_fee (payment S) then r\<lparr>rt_price := max_fee (payment S)\<rparr> else r))"

definition reset_if_lower :: "wg_usage \<Rightarrow> traffic_watcher \<Rightarrow> traffic_watcher" where
  "reset_if_lower counter history =
     (if last_read_input history > wu_download counter \<or> last_read_output history > wu_upload counter
      then history\<lparr>last_read_input := 0, last_read_output := 0\<rparr> else history)"

text \<open>The amount owed to the exit, \<open>None\<close> when the simulated fee is zero.\<close>

definition owes_exit :: "u64 \<Rightarrow> u32 \<Rightarrow> u8 \<Rightarrow> u64 \<Rightarrow> u64 \<Rightarrow> i128 option" where
  "owes_exit price route_price fee input output =
     (let exit_dest_price = (ucast route_price :: i128) + ucast price;
          base = ucast input * exit_dest_price
      in case i128_div base (ucast fee) of
           None \<Rightarrow> None
         | Some surcharge \<Rightarrow> Some (base + surcharge + ucast (price * output)))"

definition local_traffic_calculation ::
  "'w world \<Rightarrow> (string \<Rightarrow> wg_key option) \<Rightarrow> (string \<Rightarrow> (string \<times> string \<times> string) list) \<Rightarrow> rita_settings \<Rightarrow> nat option
     \<Rightarrow> instant \<Rightarrow> identity \<Rightarrow> u64 \<Rightarrow> 'f route list \<Rightarrow> u8 \<Rightarrow> traffic_watcher \<times> usage_state \<times> 'w
     \<Rightarrow> ((rita_client_error + i128) \<times> traffic_watcher \<times> usage_state \<times> 'w) option" where
  "local_traffic_calculation W parse_key captures S hour now exit price routes fee st =
     (case st of (history, us, w) \<Rightarrow>
      case find_exit_route_capped S (mesh_ip exit) routes of
        Inl e \<Rightarrow> Some (Err (ClientCommonError (BabelMonitorError e)), history, us, w)
      | Inr exit_route \<Rightarrow>
        (case read_wg_counters W parse_key captures ''wg_exit'' w of
           None \<Rightarrow> None
         | Some (Inl e, w1) \<Rightarrow> Some (Err (ClientCommonError (KernelInterfaceError e)), history, us, w1)
         | Some (Inr [], w1) \<Rightarrow> Some (Err ClientMiscStringError, history, us, w1)
         | Some (Inr (c # cs), w1) \<Rightarrow>
           let counter = snd (last (c # cs));
               h1 = reset_if_lower counter history;
               input = wu_download counter - last_read_input h1;
               output = wu_upload counter - last_read_output h1;
               exit_dest_price = (ucast (rt_price exit_route) :: i128) + ucast price;
               h2 = h1\<lparr>last_read_input := wu_download counter, last_read_output := wu_upload counter,
                       last_exit_dest_price := exit_dest_price\<rparr> in
           (case owes_exit price (rt_price exit_route) fee input output of
              None \<Rightarrow> None
            | Some owed \<Rightarrow>
              let us1 = (if 0 <s owed
                         then update_usage_data hour now \<lparr>uu_kind = Client, uu_up = output, uu_down = input,
                                uu_price = ucast exit_dest_price\<rparr> us
                         else us)
              in if owed <s 0 then None else Some (Ok owed, h2, us1, w1))))"

text \<open>The answer of the exit: the request failed, its body could not be read, or the debt it states.\<close>

datatype exit_answer = RequestFailed | BadJson | ExitDebt int

definition query_exit_debts ::
  "num256 \<Rightarrow> 'w world \<Rightarrow> (string \<Rightarrow> wg_key option) \<Rightarrow> (string \<Rightarrow> (string \<times> string \<times> string) list) \<Rightarrow> rita_settings \<Rightarrow> nat option
     \<Rightarrow> instant \<Rightarrow> bool \<Rightarrow> exit_answer \<Rightarrow> identity \<Rightarrow> u64 \<Rightarrow> 'f route list \<Rightarrow> traffic_watcher \<times> debt_keeper \<times> usage_state \<times> 'w
     \<Rightarrow> (traffic_watcher \<times> debt_keeper \<times> usage_state \<times> 'w) option" where
  "query_exit_debts N W parse_key captures S hour now gateway answer exit_id price routes st =
     (case st of (tw, dk, us, w) \<Rightarrow>
      case local_traffic_calculation W parse_key captures S hour now exit_id price routes
             (simulated_transaction_fee (payment S)) (tw, us, w) of
        None \<Rightarrow> None
      | Some (r, tw', us', w') \<Rightarrow>
        let fallback = (case r of
              Inr val \<Rightarrow> traffic_update N [\<lparr>tr_from = exit_id, tr_amount = sint val\<rparr>] dk
            | Inl _ \<Rightarrow> Some dk) in
        map_option (\<lambda>dk'. (tw', dk', us', w'))
          (case answer of
             RequestFailed \<Rightarrow> fallback
           | BadJson \<Rightarrow> fallback
           | ExitDebt d \<Rightarrow>
               (case (\<not> gateway, d \<ge> 0) of
                  (True, True) \<Rightarrow> Some (traffic_replace now \<lparr>tr_from = exit_id, tr_amount = d\<rparr> dk)
                | (True, False) \<Rightarrow> Some dk
                | (False, _) \<Rightarrow>
                    (case r of
                       Inr val \<Rightarrow> gateway_traffic_update N \<lparr>tr_from = exit_id, tr_amount = sint val\<rparr> dk
                     | Inl _ \<Rightarrow> Some dk))))"

definition get_exit_dest_price :: "traffic_watcher \<Rightarrow> u128" where
  "get_exit_dest_price tw = last_exit_dest_price tw"

end
