(* ===== verification/Traffic_Properties.thy ===== *)
theory Traffic_Properties
  imports Traffic_Watcher Debt_Safety "HOL-Library.Multiset"
begin

text \<open>
  What a round of the traffic watcher adds to the debts, and what forwarding earns: the exact sums over the
  counters, and that the 128 bit arithmetic of the code computes them without wrapping around.
\<close>

section \<open>Maps\<close>

lemma map_of_map_insert [simp]: "map_of (map_insert k v m) = (map_of m)(k \<mapsto> v)"
  by (induction k v m rule: map_insert.induct) auto

lemma set_fst_map_insert: "fst ` set (map_insert k v m) = insert k (fst ` set m)"
  by (induction k v m rule: map_insert.induct) auto

lemma distinct_map_insert: "distinct (map fst m) \<Longrightarrow> distinct (map fst (map_insert k v m))"
proof (induction k v m rule: map_insert.induct)
  case (2 k v k' v' m)
  then show ?case using set_fst_map_insert[of k v m] by auto
qed simp

lemma map_insert_present:
  "map_of m k \<noteq> None \<Longrightarrow> map fst (map_insert k v m) = map fst m"
  by (induction k v m rule: map_insert.induct) auto

section \<open>Sums over counters\<close>

definition account_sum ::
  "(ip_addr \<times> i128) list \<Rightarrow> (string \<times> identity) list \<Rightarrow> (i128 \<Rightarrow> u64 \<Rightarrow> 'a :: comm_monoid_add) \<Rightarrow> counters
     \<Rightarrow> identity \<Rightarrow> 'a" where
  "account_sum D I f cs i =
     sum_list (map (\<lambda>((ip, iface), b). case (map_of D ip, map_of I iface) of
        (Some d, Some j) \<Rightarrow> if j = i then f d b else 0 | _ \<Rightarrow> 0) cs)"

lemma account_sum_simps [simp]:
  "account_sum D I f [] i = 0"
  "account_sum D I f (((ip, iface), b) # cs) i = (case (map_of D ip, map_of I iface) of
        (Some d, Some j) \<Rightarrow> if j = i then f d b else 0 | _ \<Rightarrow> 0) + account_sum D I f cs i"
  by (simp_all add: account_sum_def)

lemma debt_add_map_of:
  "map_of (debt_add j x debts) i = map_option (\<lambda>d. d + (if j = i then x else 0)) (map_of debts i)"
  by (auto simp: debt_add_def option.map_ident split: option.splits)

lemma debt_add_keys: "map fst (debt_add j x debts) = map fst debts"
  by (auto simp: debt_add_def map_insert_present split: option.splits)

lemma account_step:
  "account D I f (((ip, iface), b) # cs) debts = account D I f cs
     (case (map_of D ip, map_of I iface) of (Some d, Some j) \<Rightarrow> debt_add j (f d b) debts | _ \<Rightarrow> debts)"
  by (simp add: account_def split: option.splits)

lemma account_map_of:
  "map_of (account D I f cs debts) i = map_option (\<lambda>d. d + account_sum D I f cs i) (map_of debts i)"
proof (induction cs arbitrary: debts)
  case Nil
  then show ?case by (simp add: account_def option.map_ident)
next
  case (Cons c cs)
  obtain ip iface b where c: "c = ((ip, iface), b)" by (metis prod.exhaust)
  show ?case unfolding c account_step Cons.IH
    by (cases "map_of D ip"; cases "map_of I iface"; cases "map_of debts i")
      (auto simp: debt_add_map_of add.assoc)
qed

lemma account_keys: "map fst (account D I f cs debts) = map fst debts"
proof (induction cs arbitrary: debts)
  case Nil
  then show ?case by (simp add: account_def)
next
  case (Cons c cs)
  obtain ip iface b where c: "c = ((ip, iface), b)" by (metis prod.exhaust)
  show ?case unfolding c account_step Cons.IH by (simp add: debt_add_keys split: option.splits)
qed

lemma account_sum_word_of_int:
  assumes "\<And>d b. word_of_int (g d b) = f d b"
  shows "word_of_int (account_sum D I g cs i) = account_sum D I f cs i"
proof (induction cs)
  case (Cons c cs)
  obtain ip iface b where c: "c = ((ip, iface), b)" by (metis prod.exhaust)
  show ?case unfolding c account_sum_simps using Cons.IH assms
    by (auto simp: wi_hom_add[symmetric] split: option.splits)
qed simp

lemma account_sum_neg: "account_sum D I (\<lambda>d b. - f d b :: int) cs i = - account_sum D I f cs i"
proof (induction cs)
  case (Cons c cs)
  obtain ip iface b where c: "c = ((ip, iface), b)" by (metis prod.exhaust)
  show ?case unfolding c account_sum_simps Cons.IH by (simp split: option.splits)
qed simp

section \<open>The bill of a neighbor\<close>

definition price_paid :: "u32 \<Rightarrow> i128 \<Rightarrow> u64 \<Rightarrow> int" where
  "price_paid lfee d b = (uint d - uint lfee) * uint b"

definition price_charged :: "i128 \<Rightarrow> u64 \<Rightarrow> int" where
  "price_charged d b = uint d * uint b"

definition relay_bill ::
  "(ip_addr \<times> i128) list \<Rightarrow> (string \<times> identity) list \<Rightarrow> u32 \<Rightarrow> counters \<Rightarrow> counters \<Rightarrow> identity \<Rightarrow> int" where
  "relay_bill D I lfee inp out i =
     account_sum D I (price_paid lfee) out i - account_sum D I price_charged inp i"

definition priced :: "(ip_addr \<times> i128) list \<Rightarrow> bool" where
  "priced D = (\<forall>d \<in> ran (map_of D). uint d < 2 ^ 32)"

lemma account_sum_bound:
  assumes "\<And>d b. uint d < 2 ^ 32 \<Longrightarrow> \<bar>f d b\<bar> \<le> B" and "priced D" and "0 \<le> B"
  shows "\<bar>account_sum D I f cs i :: int\<bar> \<le> int (length cs) * B"
proof (induction cs)
  case (Cons c cs)
  obtain ip iface b where c: "c = ((ip, iface), b)" by (metis prod.exhaust)
  have "\<bar>case (map_of D ip, map_of I iface) of (Some d, Some j) \<Rightarrow> if j = i then f d b else 0 | _ \<Rightarrow> 0\<bar> \<le> B"
    using assms by (auto simp: priced_def ran_def split: option.splits)
  with Cons.IH show ?case by (auto simp: c algebra_simps split del: if_split)
qed simp

lemma price_bounds:
  assumes "uint d < 2 ^ 32"
  shows "\<bar>price_charged d b\<bar> \<le> 2 ^ 96" and "\<bar>price_paid lfee d b\<bar> \<le> 2 ^ 96"
proof -
  have b: "0 \<le> uint b" "uint b < 2 ^ 64" and l: "0 \<le> uint lfee" "uint lfee < 2 ^ 32"
    using uint_lt2p[of b] uint_lt2p[of lfee] by simp_all
  have m: "\<bar>x\<bar> * uint b \<le> 2 ^ 96" if "\<bar>x\<bar> \<le> 2 ^ 32" for x
    using mult_mono[OF that, of "uint b" "2 ^ 64"] b by simp
  show "\<bar>price_charged d b\<bar> \<le> 2 ^ 96" using m[of "uint d"] assms b by (simp add: price_charged_def abs_mult)
  have "0 \<le> uint d" by simp
  then have "\<bar>uint d - uint lfee\<bar> \<le> 2 ^ 32" using assms l by linarith
  from m[OF this] show "\<bar>price_paid lfee d b\<bar> \<le> 2 ^ 96" using b by (simp add: price_paid_def abs_mult)
qed

lemma relay_bill_bound:
  assumes "priced D" and "length inp + length out \<le> 2 ^ 29"
  shows "\<bar>relay_bill D I lfee inp out i\<bar> \<le> 2 ^ 125"
proof -
  have "\<bar>account_sum D I (price_paid lfee) out i\<bar> \<le> int (length out) * 2 ^ 96"
    "\<bar>account_sum D I price_charged inp i\<bar> \<le> int (length inp) * 2 ^ 96"
    using account_sum_bound[OF price_bounds(2) assms(1)] account_sum_bound[OF price_bounds(1) assms(1)] by simp_all
  then have "\<bar>relay_bill D I lfee inp out i\<bar> \<le> int (length inp + length out) * 2 ^ 96"
    by (simp add: relay_bill_def algebra_simps)
  also have "\<dots> \<le> 2 ^ 29 * 2 ^ 96" using assms(2) by (intro mult_right_mono) simp_all
  finally show ?thesis by simp
qed

section \<open>The debts table\<close>

lemma helper_maps:
  assumes "prepare_helper_maps ns = (ids, I)"
  shows "map_of ids = map_of (rev (map (\<lambda>n. (mesh_ip (global_id (neigh_identity n)), global_id (neigh_identity n))) ns))"
    and "map_of I = map_of (rev (map (\<lambda>n. (neigh_iface_name n, global_id (neigh_identity n))) ns))"
    and "distinct (map fst ids)"
proof -
  have "map_of ids = map_of (rev (map (\<lambda>n. (mesh_ip (global_id (neigh_identity n)), global_id (neigh_identity n))) ns))
    \<and> map_of I = map_of (rev (map (\<lambda>n. (neigh_iface_name n, global_id (neigh_identity n))) ns)) \<and> distinct (map fst ids)"
    using assms unfolding prepare_helper_maps_def
  proof (induction ns arbitrary: ids I rule: rev_induct)
    case (snoc n ns)
    obtain ids0 I0 where "foldl (\<lambda>(identities, if_to_id) n.
        (map_insert (mesh_ip (global_id (neigh_identity n))) (global_id (neigh_identity n)) identities,
         map_insert (neigh_iface_name n) (global_id (neigh_identity n)) if_to_id)) ([], []) ns = (ids0, I0)" by fastforce
    with snoc show ?case by (auto simp: distinct_map_insert)
  qed simp
  then show "map_of ids = map_of (rev (map (\<lambda>n. (mesh_ip (global_id (neigh_identity n)), global_id (neigh_identity n))) ns))"
    "map_of I = map_of (rev (map (\<lambda>n. (neigh_iface_name n, global_id (neigh_identity n))) ns))" "distinct (map fst ids)"
    by blast+
qed

text \<open>Tunnels to one mesh address belong to one identity.\<close>

definition consistent_neighbors :: "neigh list \<Rightarrow> bool" where
  "consistent_neighbors ns = (\<forall>n \<in> set ns. \<forall>m \<in> set ns.
     mesh_ip (global_id (neigh_identity n)) = mesh_ip (global_id (neigh_identity m))
       \<longrightarrow> global_id (neigh_identity n) = global_id (neigh_identity m))"

definition neighbor_ids :: "neigh list \<Rightarrow> identity set" where
  "neighbor_ids ns = (\<lambda>n. global_id (neigh_identity n)) ` set ns"

lemma zero_debts:
  "map_of (foldl (\<lambda>m (_, i). map_insert i 0 m) m0 ids) i = (if i \<in> snd ` set ids then Some 0 else map_of m0 i)"
  "distinct (map fst m0) \<Longrightarrow> distinct (map fst (foldl (\<lambda>m (_, i). map_insert i 0 m) m0 ids))"
  by (induction ids arbitrary: m0) (auto simp: distinct_map_insert)

lemma helper_ids:
  assumes "prepare_helper_maps ns = (ids, I)" and "consistent_neighbors ns"
  shows "snd ` set ids = neighbor_ids ns" and "ran (map_of I) \<subseteq> neighbor_ids ns"
proof -
  let ?l = "rev (map (\<lambda>n. (mesh_ip (global_id (neigh_identity n)), global_id (neigh_identity n))) ns)"
  have ran: "snd ` set ids = ran (map_of ?l)"
    using helper_maps(1,3)[OF assms(1)] by (simp add: ran_distinct[symmetric])
  have "map_of ?l (mesh_ip i) = Some i" if "i \<in> neighbor_ids ns" for i
  proof -
    have "mesh_ip i \<in> fst ` set ?l" using that by (auto simp: neighbor_ids_def image_image)
    then obtain j where j: "map_of ?l (mesh_ip i) = Some j" by (metis map_of_eq_None_iff not_None_eq)
    then have "(mesh_ip i, j) \<in> set ?l" by (rule map_of_SomeD)
    then have "j = i" using that assms(2) by (auto simp: neighbor_ids_def consistent_neighbors_def)
    with j show ?thesis by simp
  qed
  then have "neighbor_ids ns \<subseteq> ran (map_of ?l)" by (auto intro: ranI)
  moreover have "ran (map_of ?l) \<subseteq> neighbor_ids ns"
    by (auto simp: ran_def neighbor_ids_def dest!: map_of_SomeD)
  ultimately show "snd ` set ids = neighbor_ids ns" using ran by blast
  show "ran (map_of I) \<subseteq> neighbor_ids ns"
    unfolding helper_maps(2)[OF assms(1)] by (auto simp: ran_def neighbor_ids_def dest!: map_of_SomeD)
qed

lemma sint_exact: "\<bar>x\<bar> \<le> 2 ^ 125 \<Longrightarrow> sint (word_of_int x :: i128) = x"
  unfolding sint_sbintrunc' by (rule signed_take_bit_int_eq_self) auto

lemma relay_debts_exact:
  assumes "prepare_helper_maps ns = (ids, I)" and "consistent_neighbors ns" and "priced D"
    and "length inp + length out \<le> 2 ^ 29"
  shows "map_option sint (map_of (relay_debts ns D lfee inp out) i)
      = (if i \<in> neighbor_ids ns then Some (relay_bill D I lfee inp out i) else None)"
    and "distinct (map fst (relay_debts ns D lfee inp out))"
proof -
  let ?in = "account_sum D I (\<lambda>dest bytes. - (dest * ucast bytes)) inp"
  let ?out = "account_sum D I (\<lambda>dest bytes. (dest - ucast lfee) * ucast bytes) out"
  have i: "word_of_int (- account_sum D I price_charged inp j) = ?in j" for j
    unfolding account_sum_neg[symmetric]
    by (rule account_sum_word_of_int) (simp add: price_charged_def wi_hom_neg[symmetric] wi_hom_mult[symmetric])
  have o: "word_of_int (account_sum D I (price_paid lfee) out j) = ?out j" for j
    by (rule account_sum_word_of_int) (simp add: price_paid_def wi_hom_sub[symmetric] wi_hom_mult[symmetric])
  have w: "?in j + ?out j = word_of_int (relay_bill D I lfee inp out j)" for j
    unfolding relay_bill_def i[symmetric] o[symmetric] wi_hom_add by (simp add: algebra_simps)
  have "map_of (relay_debts ns D lfee inp out) i = (if i \<in> neighbor_ids ns then Some (?in i + ?out i) else None)"
    using helper_ids(1)[OF assms(1,2)] by (simp add: relay_debts_def assms(1) account_map_of zero_debts)
  then show "map_option sint (map_of (relay_debts ns D lfee inp out) i)
      = (if i \<in> neighbor_ids ns then Some (relay_bill D I lfee inp out i) else None)"
    unfolding w using sint_exact[OF relay_bill_bound[OF assms(3,4)]] by simp
  show "distinct (map fst (relay_debts ns D lfee inp out))"
    by (simp add: relay_debts_def assms(1) account_keys zero_debts(2))
qed

section \<open>Recording the round\<close>

context num256_laws
begin

lemma traffic_update_exact:
  assumes "distinct (map tr_from ts)" and "\<forall>t \<in> set ts. \<bar>debt (get_debt_data_mut (tr_from t) dk) + tr_amount t\<bar> < 2 ^ 255"
  shows "\<exists>dk'. traffic_update N ts dk = Some dk' \<and>
     (\<forall>i. get_debt_data_mut i dk' = (case find (\<lambda>t. tr_from t = i) ts of
        Some t \<Rightarrow> (get_debt_data_mut i dk)\<lparr>debt := debt (get_debt_data_mut i dk) + tr_amount t\<rparr>
      | None \<Rightarrow> get_debt_data_mut i dk))"
  using assms
proof (induction ts arbitrary: dk)
  case (Cons t ts)
  let ?d = "get_debt_data_mut (tr_from t) dk"
  let ?dk = "put_debt_data (tr_from t) (?d\<lparr>debt := debt ?d + tr_amount t\<rparr>) dk"
  have "i256 N (debt ?d + tr_amount t) = Some (debt ?d + tr_amount t)"
    using Cons.prems(2) by (intro i256_exact) (auto simp: i256_range_def)
  then have u: "traffic_update N (t # ts) dk = traffic_update N ts ?dk"
    by (simp add: dk_traffic_update_def nd_traffic_update_def)
  have g: "get_debt_data_mut i ?dk = (if i = tr_from t then ?d\<lparr>debt := debt ?d + tr_amount t\<rparr> else get_debt_data_mut i dk)"
    for i by (simp add: put_debt_data_def get_debt_data_mut_def)
  have ne: "tr_from t' \<noteq> tr_from t" if "t' \<in> set ts" for t'
    using Cons.prems(1) that by (metis distinct.simps(2) image_eqI list.set_map list.simps(9))
  have "\<forall>t' \<in> set ts. \<bar>debt (get_debt_data_mut (tr_from t') ?dk) + tr_amount t'\<bar> < 2 ^ 255"
  proof
    fix t' assume t': "t' \<in> set ts"
    from ne[OF t'] show "\<bar>debt (get_debt_data_mut (tr_from t') ?dk) + tr_amount t'\<bar> < 2 ^ 255"
      using Cons.prems(2) t' unfolding g by simp
  qed
  moreover have "find (\<lambda>t'. tr_from t' = tr_from t) ts = None"
    using ne by (auto simp: find_None_iff)
  ultimately show ?case using Cons.IH[of ?dk] Cons.prems(1) unfolding u g by (auto split: if_splits)
qed simp

end

lemma find_traffic_vec:
  "find (\<lambda>t. tr_from t = i) (traffic_vec m) = map_option (\<lambda>a. \<lparr>tr_from = i, tr_amount = sint a\<rparr>) (map_of m i)"
  by (induction m) (auto simp: traffic_vec_def)

lemma get_babel_info_priced:
  fixes routes :: "'a route list"
  shows "get_babel_info S routes = Inr (D, lfee) \<Longrightarrow> priced D"
proof -
  have p: "uint (destination_price a b c) < 2 ^ 32" for a b c
    using uint_lt2p[of "(if a > b then b else a) + c"] by (simp add: destination_price_def unsigned_ucast_eq take_bit_eq_mod)
  have step: "priced (map_insert k v m)" if "priced m" and "uint v < 2 ^ 32" for k v and m :: "(ip_addr \<times> i128) list"
    using that by (auto simp: priced_def ran_def split: if_splits)
  have add: "priced (add_destination x lf r m)" if "priced m" for x lf m and r :: "'a route"
    using that by (auto simp: add_destination_def split: ip_network.splits intro!: step p)
  have "priced (foldl (\<lambda>m r. add_destination x lf r m) m0 routes)" if "priced m0" for x lf m0
    using that by (induction routes arbitrary: m0) (simp_all add: add)
  from this[of "[]"] show "get_babel_info S routes = Inr (D, lfee) \<Longrightarrow> priced D"
    by (auto simp: get_babel_info_def Let_def step priced_def[of "[]"] split: option.splits)
qed

text \<open>C28: A billing round is exact: when the counters of a round have been read, the round never panics
  and never wraps around, and it adds to the debt of every neighbor the price, without our own fee, of every byte we
  sent over it and subtracts the full price of every byte it sent to us; all other entries keep their debt.\<close>

theorem relay_round_bills:
  assumes "num256_laws N" and "prepare_helper_maps neighbors = (ids, if_to_id)" and "consistent_neighbors neighbors"
    and "get_babel_info S routes = Inr (destinations, fee)"
    and "get_input_counters W captures w = Some (Inr inp, w1)"
    and "get_output_counters W captures w1 = Some (Inr out, w2)"
    and "length inp + length out \<le> 2 ^ 29" and "\<forall>i. \<bar>debt (get_debt_data_mut i dk)\<bar> < 2 ^ 254"
  shows "\<exists>dk'. watch N W captures S hour now routes neighbors (dk, us, w)
       = Some (Ok (), dk', relay_usage hour now inp out fee us, w2)
     \<and> (\<forall>i. debt (get_debt_data_mut i dk') = debt (get_debt_data_mut i dk)
           + (if i \<in> neighbor_ids neighbors then relay_bill destinations if_to_id fee inp out i else 0))"
proof -
  let ?debts = "relay_debts neighbors destinations fee inp out"
  have p: "priced destinations" by (rule get_babel_info_priced[OF assms(4)])
  note exact = relay_debts_exact[OF assms(2,3) p assms(7), of fee]
  have bound: "\<bar>sint a\<bar> \<le> 2 ^ 125" if "map_of ?debts i = Some a" for i a
    using exact(1)[of i] that relay_bill_bound[OF p assms(7)] by (auto split: if_splits)
  have d: "distinct (map tr_from (traffic_vec ?debts))"
    using exact(2) by (simp add: traffic_vec_def comp_def case_prod_beta)
  have "\<forall>t \<in> set (traffic_vec ?debts). \<bar>debt (get_debt_data_mut (tr_from t) dk) + tr_amount t\<bar> < 2 ^ 255"
  proof
    fix t assume "t \<in> set (traffic_vec ?debts)"
    then obtain i a where "(i, a) \<in> set ?debts" "t = \<lparr>tr_from = i, tr_amount = sint a\<rparr>" by (auto simp: traffic_vec_def)
    then have "tr_from t = i" "\<bar>tr_amount t\<bar> \<le> 2 ^ 125" using exact(2) bound by auto
    moreover have "\<bar>debt (get_debt_data_mut i dk)\<bar> < 2 ^ 254" using assms(8) by blast
    ultimately show "\<bar>debt (get_debt_data_mut (tr_from t) dk) + tr_amount t\<bar> < 2 ^ 255" by auto
  qed
  from num256_laws.traffic_update_exact[OF assms(1) d this] obtain dk' where
    u: "traffic_update N (traffic_vec ?debts) dk = Some dk'"
    and g: "\<And>i. get_debt_data_mut i dk' = (case find (\<lambda>t. tr_from t = i) (traffic_vec ?debts) of
        Some t \<Rightarrow> (get_debt_data_mut i dk)\<lparr>debt := debt (get_debt_data_mut i dk) + tr_amount t\<rparr>
      | None \<Rightarrow> get_debt_data_mut i dk)" by blast
  have "debt (get_debt_data_mut i dk') = debt (get_debt_data_mut i dk)
           + (if i \<in> neighbor_ids neighbors then relay_bill destinations if_to_id fee inp out i else 0)" for i
    unfolding g find_traffic_vec using exact(1)[of i] by (cases "map_of ?debts i") (auto split: if_splits)
  then show ?thesis using u assms(4-6) by (simp add: watch_def)
qed

section \<open>What forwarding earns\<close>

lemma sum_account_sum:
  assumes "finite J" and "\<forall>((ip, iface), b) \<in> set cs. \<exists>d j. map_of D ip = Some d \<and> map_of I iface = Some j \<and> j \<in> J"
  shows "(\<Sum>i \<in> J. account_sum D I f cs i) = sum_list (map (\<lambda>((ip, iface), b). f (the (map_of D ip)) b) cs)"
  using assms(2)
proof (induction cs)
  case (Cons c cs)
  obtain ip iface b where c: "c = ((ip, iface), b)" by (metis prod.exhaust)
  obtain d j where "map_of D ip = Some d" "map_of I iface = Some j" "j \<in> J" using Cons.prems c by auto
  then show ?case using Cons assms(1) by (simp add: c sum.distrib sum.delta')
qed simp

text \<open>Forwarding earns the local fee: when everything that came in from neighbors in a round went out to
  neighbors again, to destinations we have a price for, the bills of the round sum up to minus our local fee for
  every forwarded byte, whatever the prices of the destinations are.\<close>

theorem forwarding_earns_the_local_fee:
  assumes "prepare_helper_maps neighbors = (ids, if_to_id)" and "consistent_neighbors neighbors"
    and "\<forall>((ip, iface), b) \<in> set (inp @ out). map_of destinations ip \<noteq> None \<and> map_of if_to_id iface \<noteq> None"
    and "mset (map (\<lambda>((ip, iface), b). (ip, b)) inp) = mset (map (\<lambda>((ip, iface), b). (ip, b)) out)"
  shows "(\<Sum>i \<in> neighbor_ids neighbors. relay_bill destinations if_to_id fee inp out i)
     = - uint fee * sum_list (map (\<lambda>(_, b). uint b) out)"
proof -
  let ?J = "neighbor_ids neighbors"
  let ?s = "\<lambda>f cs. sum_list (map (\<lambda>((ip, iface), b). f (the (map_of destinations ip)) b) cs) :: int"
  have J: "finite ?J" by (simp add: neighbor_ids_def)
  have known: "\<forall>((ip, iface), b) \<in> set cs. \<exists>d j. map_of destinations ip = Some d \<and> map_of if_to_id iface = Some j \<and> j \<in> ?J"
    if "set cs \<subseteq> set (inp @ out)" for cs
    using that assms(3) helper_ids(2)[OF assms(1,2)] by (fastforce intro: ranI)
  have charged: "?s price_charged inp = ?s price_charged out"
  proof -
    have e: "?s price_charged cs = sum_mset (image_mset (\<lambda>(ip, b). price_charged (the (map_of destinations ip)) b)
        (mset (map (\<lambda>((ip, iface), b). (ip, b)) cs)))" for cs
      by (induction cs) auto
    show ?thesis unfolding e assms(4) ..
  qed
  have "?s (price_paid fee) out - ?s price_charged out = - uint fee * sum_list (map (\<lambda>(_, b). uint b) out)"
    by (induction out) (auto simp: price_paid_def price_charged_def algebra_simps)
  then show ?thesis
    unfolding relay_bill_def sum_subtractf sum_account_sum[OF J known[of inp], simplified]
      sum_account_sum[OF J known[of out], simplified] charged by simp
qed

section \<open>A concrete round\<close>

text \<open>A router with two neighbors that has read its counters: 1000 bytes came in from the first for an address
  behind the second, where the price is 60, and went out to it. Our fee is 5.\<close>

definition neigh_sample :: "u128 \<Rightarrow> string \<Rightarrow> neigh" where
  "neigh_sample a iface = \<lparr>neigh_identity = \<lparr>wg_port = 0, have_tunnel = None,
       global_id = \<lparr>mesh_ip = V6 a, eth_address = 2, wg_public_key = 3\<rparr>\<rparr>,
     neigh_iface_name = iface, neigh_tunnel_ip = V6 a, neigh_speed_limit = None\<rparr>"

definition sample_neighbors :: "neigh list" where
  "sample_neighbors = [neigh_sample 0xfd01 ''wg0'', neigh_sample 0xfd02 ''wg1'']"

definition sample_router :: rita_settings where
  "sample_router = \<lparr>payment = payment_settings_default,
     network = network_settings_default\<lparr>net_mesh_ip := Some (V6 0xfd00),
       babeld_settings := default_babeld_config\<lparr>babeld_local_fee := 5\<rparr>\<rparr>,
     settings_identity = None\<rparr>"

definition sample_route :: "unit route" where
  "sample_route = \<lparr>rt_id = ''r'', rt_iface = ''wg1'', rt_xroute = False, rt_installed = True, rt_neigh_ip = V6 1,
     rt_prefix = Net6 0xfd09 128, rt_metric = 1, rt_refmetric = 1, rt_full_path_rtt = (), rt_price = 60, rt_fee = 0\<rparr>"

definition sample_destinations :: "(ip_addr \<times> i128) list" where
  "sample_destinations = [(V6 0xfd09, 65), (V6 0xfd00, 0)]"

lemma sample_babel_info: "get_babel_info sample_router [sample_route] = Inr (sample_destinations, 5)"
  by (simp add: get_babel_info_def sample_router_def sample_route_def add_destination_def destination_price_def
      sample_destinations_def payment_settings_default_def)

definition sample_helper_if :: "(string \<times> identity) list" where
  "sample_helper_if = map (\<lambda>n. (neigh_iface_name n, global_id (neigh_identity n))) sample_neighbors"

lemma sample_helper_maps:
  "prepare_helper_maps sample_neighbors
     = (map (\<lambda>n. (mesh_ip (global_id (neigh_identity n)), global_id (neigh_identity n))) sample_neighbors, sample_helper_if)"
  "consistent_neighbors sample_neighbors"
  by (simp_all add: prepare_helper_maps_def sample_neighbors_def neigh_sample_def sample_helper_if_def
      consistent_neighbors_def)

lemma forwarding_earns_the_local_fee_witness:
  "(\<Sum>i \<in> neighbor_ids sample_neighbors. relay_bill sample_destinations sample_helper_if 5
       [((V6 0xfd09, ''wg0''), 1000)] [((V6 0xfd09, ''wg1''), 1000)] i) = - 5000"
  using forwarding_earns_the_local_fee[OF sample_helper_maps, of "[((V6 0xfd09, ''wg0''), 1000)]"
      "[((V6 0xfd09, ''wg1''), 1000)]" sample_destinations 5]
  by (simp add: sample_destinations_def sample_helper_if_def sample_neighbors_def neigh_sample_def)

text \<open>A system without nftables whose \<open>ipset save\<close> lists one entry in the forwarding sets.\<close>

definition counter_world :: "unit world" where
  "counter_world = dead_world\<lparr>run_command := (\<lambda>prog args w.
     (Inr \<lparr>co_success = True, co_stdout = Some (if prog = ''ipset'' then last args else []), co_stderr = Some []\<rparr>, w))\<rparr>"

definition sample_captures :: "string \<Rightarrow> (string \<times> string \<times> string \<times> string) list" where
  "sample_captures s = (if s = ''tmp_rita_fwd_input'' then [(''::fd09'', ''wg0'', ''0'', ''1000'')]
     else if s = ''tmp_rita_fwd_output'' then [(''::fd09'', ''wg1'', ''0'', ''1000'')] else [])"

definition usage_sample :: usage_state where
  "usage_sample = (\<lparr>last_save_hour = 0, client_bandwidth = [], relay_bandwidth = [], exit_bandwidth = [], ut_payments = []\<rparr>,
     let d = \<lparr>last_sample_time = None, duration_of_this_sample = 0, bytes_used = 0\<rparr>
     in \<lparr>tp_client = d, tp_relay = d, tp_exit = d\<rparr>)"

lemma sample_parse: "parse_ip ''::fd09'' = Some (V6 0xfd09)" "parse_u64 ''1000'' = Some 1000" "parse_u64 ''0'' = Some 0"
proof -
  have "replicate 7 (0 :: nat) = [0, 0, 0, 0, 0, 0, 0]" by (simp add: numeral_eq_Suc)
  then show "parse_ip ''::fd09'' = Some (V6 0xfd09)"
    by (simp add: parse_ip_def parse_ipv4_def parse_octet_def parse_ipv6_def groups_of_def parse_group_def digit_val_def
        groups_to_u128_def Let_def)
qed (simp_all add: parse_u64_def parse_uint_def digit_val_def Let_def)

lemma sample_counters:
  "get_input_counters counter_world sample_captures () = Some (Inr [((V6 0xfd09, ''wg0''), 1000)], ())"
  "get_output_counters counter_world sample_captures () = Some (Inr [((V6 0xfd09, ''wg1''), 1000)], ())"
  by (simp_all add: get_input_counters_def get_output_counters_def get_counters_def read_counters_def
      does_nftables_exist_def nft_def cmd_def counter_world_def dead_world_def rio_defs from_utf8_def set_name_def
      parse_ipset_def sample_captures_def sample_parse merge_round_def counter_add_def)

lemma relay_round_bills_witness:
  "\<exists>dk'. watch checked_num256 counter_world sample_captures sample_router None 7 [sample_route] sample_neighbors
       (\<lparr>last_save = None, debt_data = \<lambda>_. None\<rparr>, usage_sample, ()) = Some (Ok (), dk', usage_sample, ())
     \<and> debt (get_debt_data_mut (global_id (neigh_identity (neigh_sample 0xfd01 ''wg0''))) dk') = - 65000
     \<and> debt (get_debt_data_mut (global_id (neigh_identity (neigh_sample 0xfd02 ''wg1''))) dk') = 60000"
  using relay_round_bills[OF checked256.num256_laws_axioms sample_helper_maps sample_babel_info sample_counters,
      of "\<lparr>last_save = None, debt_data = \<lambda>_. None\<rparr>" None 7 usage_sample]
  by (auto simp: get_debt_data_mut_def node_debt_data_new_def relay_usage_def update_usage_data_def neighbor_ids_def
      sample_neighbors_def neigh_sample_def relay_bill_def sample_helper_if_def sample_destinations_def price_paid_def
      price_charged_def)

end
