(* ===== verification/Endpoint_Properties.thy ===== *)
theory Endpoint_Properties
  imports Endpoint_Traffic Traffic_Properties
begin

text \<open>
  What the exit bills a client in a round, and how the client's own estimate compares with it.
\<close>

section \<open>One client\<close>

definition keyed :: "(wg_key \<times> identity) list \<Rightarrow> bool" where
  "keyed ids = (\<forall>k i. map_of ids k = Some i \<longrightarrow> wg_public_key i = k)"

lemma generate_helper_maps_keyed:
  assumes "generate_helper_maps S our_id clients = Some (ids, ips)"
  shows "keyed ids"
proof -
  let ?step = "\<lambda>(identities, id_from_ip) i. (map_insert (wg_public_key i) i identities, map_insert (mesh_ip i) i id_from_ip)"
  have step: "keyed ids0 \<Longrightarrow> keyed (fst (foldl ?step (ids0, ips0) cs))" for ids0 ips0 cs
  proof (induction cs arbitrary: ids0 ips0)
    case (Cons i cs)
    have "keyed (map_insert (wg_public_key i) i ids0)" using Cons.prems by (simp add: keyed_def)
    from Cons.IH[OF this] show ?case by simp
  qed simp
  obtain ip where e: "foldl ?step ([], [(ip, our_id)]) clients = (ids, ips)"
    using assms unfolding generate_helper_maps_def by (cases "net_mesh_ip (network S)") simp_all
  have "keyed (fst (foldl ?step ([], [(ip, our_id)]) clients))" by (rule step) (simp add: keyed_def)
  then show ?thesis unfolding e by simp
qed

lemma bill_entry_other:
  assumes "keyed ids" and "map_of ids k = Some i" and "k' \<noteq> k"
    and "bill_entry ids D bill (k', c) (debts, hist) = Some (debts', hist')"
  shows "map_of debts' i = map_of debts i \<and> map_of hist' k = map_of hist k"
proof -
  have "i' \<noteq> i" if "map_of ids k' = Some i'" for i' using that assms(1-3) by (auto simp: keyed_def)
  then show ?thesis using assms(3,4) by (auto simp: bill_entry_def split: option.splits)
qed

lemma bill_pass_untouched:
  assumes "keyed ids" and "map_of ids k = Some i"
  shows "map_of cs k = None \<Longrightarrow> bill_pass (bill_entry ids D bill) cs (debts, hist) = Some (debts', hist')
    \<Longrightarrow> map_of debts' i = map_of debts i \<and> map_of hist' k = map_of hist k"
proof (induction cs arbitrary: debts hist)
  case (Cons e cs)
  obtain k' c where e: "e = (k', c)" by (cases e)
  obtain debts1 hist1 where s: "bill_entry ids D bill (k', c) (debts, hist) = Some (debts1, hist1)"
    and r: "bill_pass (bill_entry ids D bill) cs (debts1, hist1) = Some (debts', hist')"
    using Cons.prems(2) e by (auto elim!: bind_SomeE)
  have "k' \<noteq> k" "map_of cs k = None" using Cons.prems(1) e by (auto split: if_splits)
  then show ?case using Cons.IH[OF _ r] bill_entry_other[OF assms _ s] by simp
qed simp

lemma bill_pass_effect:
  assumes "keyed ids" and "map_of ids k = Some i" and "map_of D k = Some d"
    and "map_of cs k = Some c" and "distinct (map fst cs)"
    and "bill_pass (bill_entry ids D bill) cs (debts, hist) = Some (debts', hist')"
    and "map_of debts i = Some x" and "map_of hist k = Some h"
  shows "\<exists>amount h'. bill d c h = Some (amount, h') \<and> map_of debts' i = Some (x - amount) \<and> map_of hist' k = Some h'"
  using assms(4-8)
proof (induction cs arbitrary: debts hist)
  case (Cons e cs)
  obtain k' c' where e: "e = (k', c')" by (cases e)
  obtain debts1 hist1 where s: "bill_entry ids D bill (k', c') (debts, hist) = Some (debts1, hist1)"
    and r: "bill_pass (bill_entry ids D bill) cs (debts1, hist1) = Some (debts', hist')"
    using Cons.prems(3) e by (auto elim!: bind_SomeE)
  show ?case
  proof (cases "k' = k")
    case True
    then have "map_of cs k = None" using Cons.prems(2) e by (auto simp: map_of_eq_None_iff)
    from bill_pass_untouched[OF assms(1,2) this r] show ?thesis
      using s True e Cons.prems assms(2,3) by (auto simp: bill_entry_def split: option.splits)
  next
    case False
    then show ?thesis
      using bill_entry_other[OF assms(1,2) False s] Cons.prems e by (intro Cons.IH[OF _ _ r]) auto
  qed
qed simp

lemma bill_pass_total:
  assumes "\<And>d c h. bill d c h \<noteq> None"
  shows "\<exists>st'. bill_pass (bill_entry ids D bill) cs st = Some st'"
proof (induction cs arbitrary: st)
  case (Cons e cs)
  have "\<exists>st1. bill_entry ids D bill e st = Some st1"
    by (cases e; cases st) (simp add: bill_entry_def assms split: option.splits)
  then show ?case using Cons.IH by auto
qed simp

section \<open>Amounts\<close>

text \<open>The bill of a round in exact arithmetic: our price for every byte in either direction, the price of the
  destination for every byte returned, and the share of the transaction fee on the latter.\<close>

definition exit_bill :: "int \<Rightarrow> int \<Rightarrow> int \<Rightarrow> int \<Rightarrow> int \<Rightarrow> int" where
  "exit_bill price dest fee down up = price * down + (dest + price) * up + (dest * up) div fee"

text \<open>What was used since the last round, a counter that went down having been reset.\<close>

definition used_since :: "u64 \<Rightarrow> u64 \<Rightarrow> int" where
  "used_since h c = uint c - (if h > c then 0 else uint h)"

lemma sint_word_of_int_exact: "\<bar>x\<bar> < 2 ^ 127 \<Longrightarrow> sint (word_of_int x :: i128) = x"
  unfolding sint_sbintrunc' by (rule signed_take_bit_int_eq_self) auto

lemma i128_div_exact:
  assumes "0 \<le> a" and "a < 2 ^ 127" and "0 < uint f"
  shows "i128_div (word_of_int a) (ucast (f :: u8)) = Some (word_of_int (a div uint f))"
proof -
  have f: "uint f < 2 ^ 8" using uint_lt2p[of f] by simp
  have c: "(ucast f :: i128) = word_of_int (uint f)" by simp
  have a: "sint (word_of_int a :: i128) = a" by (rule sint_word_of_int_exact) (use assms in simp)
  have s: "sint (ucast f :: i128) = uint f" unfolding c by (rule sint_word_of_int_exact) (use f in simp)
  have n: "(ucast f :: i128) \<noteq> 0" using s assms(3) by (metis less_irrefl signed_0)
  have "a sdiv uint f = a div uint f" using assms(1,3) by (cases "a = 0"; cases "f = 0") (simp_all add: signed_divide_int_def)
  then show ?thesis using n by (simp add: i128_div_def a s)
qed

section \<open>The prepared history\<close>

lemma map_of_prepare_other:
  "k \<notin> fst ` set cs \<Longrightarrow> map_of (prepare_usage_history cs hist) k = map_of hist k"
  unfolding prepare_usage_history_def
  by (induction cs arbitrary: hist) (auto split: option.splits)

lemma map_of_prepare:
  assumes "map_of cs k = Some c" and "distinct (map fst cs)"
  shows "map_of (prepare_usage_history cs hist) k
     = Some (case map_of hist k of Some h \<Rightarrow> prepare_entry c h | None \<Rightarrow> c)"
  using assms
proof (induction cs arbitrary: hist)
  case (Cons e cs)
  obtain k' c' where e: "e = (k', c')" by (cases e)
  let ?hist = "case map_of hist k' of Some h \<Rightarrow> map_insert k' (prepare_entry c' h) hist | None \<Rightarrow> map_insert k' c' hist"
  have s: "prepare_usage_history (e # cs) hist = prepare_usage_history cs ?hist"
    by (simp add: prepare_usage_history_def e)
  show ?case
  proof (cases "k' = k")
    case True
    then have "k \<notin> fst ` set cs" using Cons.prems(2) e by simp
    then show ?thesis using Cons.prems(1) e True unfolding s by (simp add: map_of_prepare_other split: option.splits)
  next
    case False
    then show ?thesis unfolding s using Cons.IH[of ?hist] Cons.prems e by (simp split: option.splits)
  qed
qed simp

lemma u64_sub: "y \<le> x \<Longrightarrow> uint (x - y) = uint x - uint (y :: u64)"
  by (simp add: uint_minus_simple_alt)

text \<open>The history of a key the round begins with.\<close>

definition round_start :: "wg_counters \<Rightarrow> wg_key \<Rightarrow> wg_usage \<Rightarrow> wg_usage" where
  "round_start hist k c = (case map_of hist k of Some h \<Rightarrow> h | None \<Rightarrow> c)"

lemma prepared_entry:
  assumes "map_of cs k = Some c" and "distinct (map fst cs)"
  obtains h where "map_of (prepare_usage_history cs hist) k = Some h"
    and "uint (wu_download c - wu_download h) = used_since (wu_download (round_start hist k c)) (wu_download c)"
    and "uint (wu_upload c - wu_upload h) = used_since (wu_upload (round_start hist k c)) (wu_upload c)"
proof (rule that)
  let ?h = "case map_of hist k of Some h \<Rightarrow> prepare_entry c h | None \<Rightarrow> c"
  show "map_of (prepare_usage_history cs hist) k = Some ?h" by (rule map_of_prepare[OF assms])
  show "uint (wu_download c - wu_download ?h) = used_since (wu_download (round_start hist k c)) (wu_download c)"
    "uint (wu_upload c - wu_upload ?h) = used_since (wu_upload (round_start hist k c)) (wu_upload c)"
    by (auto simp: round_start_def used_since_def prepare_entry_def Let_def u64_sub not_less split: option.splits)
qed

section \<open>The bill of a round\<close>

lemma div_le_dividend_int: "0 \<le> a \<Longrightarrow> 0 < f \<Longrightarrow> a div f \<le> (a :: int)"
  using zdiv_mono2[of a 1 f] by simp

lemma used_since_bounds: "0 \<le> used_since h c" "used_since h c < 2 ^ 64"
  using uint_lt2p[of c] by (auto simp: used_since_def word_less_def not_less word_le_def intro: le_less_trans[of _ "uint c"])

lemma exit_bill_bound:
  assumes "0 \<le> p" "p < 2 ^ 60" "0 \<le> d" "d < 2 ^ 32" "0 < f" "0 \<le> down" "down < 2 ^ 64" "0 \<le> up" "up < 2 ^ 64"
  shows "0 \<le> exit_bill p d f down up \<and> exit_bill p d f down up < 2 ^ 127"
proof -
  have m: "0 \<le> x * y \<and> x * y \<le> 2 ^ 61 * 2 ^ 64" if "0 \<le> x" "x \<le> 2 ^ 61" "0 \<le> y" "y \<le> 2 ^ 64" for x y :: int
    using that mult_mono[of x "2 ^ 61" y "2 ^ 64"] by simp
  have 1: "0 \<le> p * down \<and> p * down \<le> 2 ^ 61 * 2 ^ 64" by (rule m) (use assms in auto)
  have 2: "0 \<le> (d + p) * up \<and> (d + p) * up \<le> 2 ^ 61 * 2 ^ 64" by (rule m) (use assms in auto)
  have 3: "0 \<le> d * up \<and> d * up \<le> 2 ^ 61 * 2 ^ 64" by (rule m) (use assms in auto)
  have "d * up div f \<le> d * up" using 3 assms(5) by (simp add: div_le_dividend_int)
  moreover have "0 \<le> d * up div f" using 3 assms(5) by (simp add: pos_imp_zdiv_nonneg_iff)
  ultimately show ?thesis using 1 2 3 unfolding exit_bill_def by auto
qed

lemma exit_amounts:
  assumes "uint p < 2 ^ 60" and "uint d < 2 ^ 32" and "0 < uint fee"
    and "uint (wu_download c - wu_download h) = down" and "uint (wu_upload c - wu_upload h) = up"
  shows "input_bill p d c h = Some (word_of_int (uint p * down), h\<lparr>wu_download := wu_download c\<rparr>)"
    and "output_bill p fee d c h
       = Some (word_of_int ((uint d + uint p) * up + (uint d * up) div uint fee), h\<lparr>wu_upload := wu_upload c\<rparr>)"
proof -
  have e: "(ucast x :: i128) = word_of_int (uint x)" for x :: u64 by simp
  show "input_bill p d c h = Some (word_of_int (uint p * down), h\<lparr>wu_download := wu_download c\<rparr>)"
    unfolding input_bill_def Let_def e assms(4) wi_hom_mult by simp
  have dp: "uint (d + p) = uint d + uint p"
    using assms(1,2) by (subst uint_add_lem[THEN iffD1]) simp_all
  have up: "0 \<le> up" "up < 2 ^ 64" using assms(5) uint_lt2p[of "wu_upload c - wu_upload h"] by auto
  have "0 \<le> uint d * up" "uint d * up < 2 ^ 127"
    using mult_strict_mono[of "uint d" "2 ^ 32" up "2 ^ 64"] assms(2) up by auto
  from i128_div_exact[OF this assms(3)] show "output_bill p fee d c h
       = Some (word_of_int ((uint d + uint p) * up + (uint d * up) div uint fee), h\<lparr>wu_upload := wu_upload c\<rparr>)"
    unfolding output_bill_def Let_def e dp assms(5) wi_hom_mult by (simp add: wi_hom_add[symmetric])
qed

lemma input_pass_total: "\<exists>debts' hist'. bill_pass (bill_entry ids D (input_bill p)) cs st = Some (debts', hist')"
  using bill_pass_total[of "input_bill p" ids D cs st] by (auto simp: input_bill_def Let_def)

lemma output_pass_total:
  assumes "0 < uint fee"
  shows "\<exists>debts' hist'. bill_pass (bill_entry ids D (output_bill p fee)) cs st = Some (debts', hist')"
proof -
  have "(ucast fee :: i128) \<noteq> 0" using i128_div_exact[of 0 fee] assms by (auto simp: i128_div_def split: if_splits)
  then have "output_bill p fee d c h \<noteq> None" for d c h by (simp add: output_bill_def i128_div_def Let_def)
  from bill_pass_total[OF this] show ?thesis by fast
qed

text \<open>C29: The exit bills each client exactly: with a transaction fee and prices in range, a round never
  panics, and a client with a route is billed our price for every byte it sent, the price of its route and our price
  for every byte returned to it, and the fee share of the former; a counter that went down is counted from zero, a
  client seen for the first time is not billed. What was billed is recorded, so it is not billed again.\<close>

theorem exit_round_bills:
  assumes "keyed identities" and "distinct (map fst counters)" and "uint price < 2 ^ 60" and "0 < uint fee"
    and "\<forall>d \<in> ran (map_of destinations). uint d < 2 ^ 32"
    and "map_of counters k = Some c" and "map_of identities k = Some i" and "map_of destinations k = Some d"
  shows "\<exists>debts history'. exit_bills identities destinations price fee counters (prepare_usage_history counters history)
       = Some (debts, history')
     \<and> map_option sint (map_of debts i) = Some (- exit_bill (uint price) (uint d) (uint fee)
           (used_since (wu_download (round_start history k c)) (wu_download c))
           (used_since (wu_upload (round_start history k c)) (wu_upload c)))
     \<and> map_of history' k = Some c"
proof -
  let ?hist = "prepare_usage_history counters history"
  let ?debts = "foldl (\<lambda>m (_, i). map_insert i 0 m) [] identities"
  let ?down = "used_since (wu_download (round_start history k c)) (wu_download c)"
  let ?up = "used_since (wu_upload (round_start history k c)) (wu_upload c)"
  obtain h where h: "map_of ?hist k = Some h" "uint (wu_download c - wu_download h) = ?down"
    "uint (wu_upload c - wu_upload h) = ?up" using prepared_entry[OF assms(6,2)] .
  have d: "uint d < 2 ^ 32" using assms(5,8) by (auto simp: ran_def)
  have z: "map_of ?debts i = Some 0" using assms(7) by (force simp: zero_debts dest: map_of_SomeD)
  obtain debts1 hist1 where p1: "bill_pass (bill_entry identities destinations (input_bill price)) counters (?debts, ?hist)
      = Some (debts1, hist1)" using input_pass_total by blast
  obtain debts2 hist2 where p2: "bill_pass (bill_entry identities destinations (output_bill price fee)) counters
      (debts1, hist1) = Some (debts2, hist2)" using output_pass_total[OF assms(4)] by blast
  let ?a1 = "uint price * ?down" and ?a2 = "(uint d + uint price) * ?up + (uint d * ?up) div uint fee"
  have s1: "map_of debts1 i = Some (0 - word_of_int ?a1)" "map_of hist1 k = Some (h\<lparr>wu_download := wu_download c\<rparr>)"
    using bill_pass_effect[OF assms(1,7,8,6,2) p1 z h(1)] exit_amounts(1)[OF assms(3) d assms(4) h(2,3)] by auto
  have "uint (wu_download c - wu_download (h\<lparr>wu_download := wu_download c\<rparr>)) = 0"
    "uint (wu_upload c - wu_upload (h\<lparr>wu_download := wu_download c\<rparr>)) = ?up" using h(3) by simp_all
  from exit_amounts(2)[OF assms(3) d assms(4) this]
  have s2: "map_of debts2 i = Some (0 - word_of_int ?a1 - word_of_int ?a2)" "map_of hist2 k = Some c"
    using bill_pass_effect[OF assms(1,7,8,6,2) p2 s1] by auto
  have w: "(0 - word_of_int ?a1 - word_of_int ?a2 :: i128) = word_of_int (- exit_bill (uint price) (uint d) (uint fee) ?down ?up)"
    unfolding exit_bill_def by (simp only: wi_hom_sub word_0_wi) (simp add: algebra_simps)
  have bound: "\<bar>- exit_bill (uint price) (uint d) (uint fee) ?down ?up\<bar> < 2 ^ 127"
    using exit_bill_bound[of "uint price" "uint d" "uint fee" ?down ?up] assms(3,4) d used_since_bounds by simp
  have "map_option sint (map_of debts2 i) = Some (- exit_bill (uint price) (uint d) (uint fee) ?down ?up)"
    unfolding s2(1) w option.map sint_word_of_int_exact[OF bound] ..
  then show ?thesis using s2(2)
    by (intro exI[of _ debts2] exI[of _ hist2] conjI) (simp_all only: exit_bills_def Let_def p1 p2 Option.bind.simps)
qed

text \<open>The client's fallback is never below the bill of the exit: for the same bytes, prices and fee the local
  computation exceeds the bill by the difference of the two surcharges, since the client also takes a fee share of the
  exit's own price.\<close>

theorem client_estimate_exceeds_bill:
  assumes "uint price < 2 ^ 60" and "0 < uint fee" and "uint price * uint sent < 2 ^ 64"
  shows "map_option sint (owes_exit price route_price fee returned sent)
     = Some (exit_bill (uint price) (uint route_price) (uint fee) (uint sent) (uint returned)
         + (((uint route_price + uint price) * uint returned) div uint fee
             - (uint route_price * uint returned) div uint fee))"
    (is "_ = Some (?bill + (?s1 - ?s2))")
proof -
  let ?base = "uint returned * (uint route_price + uint price)"
  have r: "0 \<le> uint returned" "uint returned < 2 ^ 64" "uint route_price < 2 ^ 32"
    using uint_lt2p[of returned] uint_lt2p[of route_price] by auto
  have b: "0 \<le> ?base" "?base \<le> 2 ^ 64 * 2 ^ 61"
    using mult_mono[of "uint returned" "2 ^ 64" "uint route_price + uint price" "2 ^ 61"] r assms(1) by auto
  have dv: "i128_div (word_of_int ?base) (ucast fee) = Some (word_of_int (?base div uint fee))"
    by (rule i128_div_exact) (use b assms(2) in auto)
  have e: "(ucast x :: i128) = word_of_int (uint x)" for x :: u64 by simp
  have e32: "(ucast x :: i128) = word_of_int (uint x)" for x :: u32 by simp
  have m: "uint (price * sent) = uint price * uint sent"
    using assms(3) by (subst uint_mult_lem[THEN iffD1]) simp_all
  have o: "owes_exit price route_price fee returned sent
      = Some (word_of_int (?base + ?base div uint fee + uint price * uint sent))"
    unfolding owes_exit_def Let_def e e32 m wi_hom_add wi_hom_mult dv by (simp only: option.case wi_hom_add)
  have "0 \<le> ?base div uint fee" "?base div uint fee \<le> ?base"
    using b(1) assms(2) by (simp_all add: pos_imp_zdiv_nonneg_iff div_le_dividend_int)
  then have bound: "\<bar>?base + ?base div uint fee + uint price * uint sent\<bar> < 2 ^ 127"
    using b assms(3) by auto
  have "map_option sint (owes_exit price route_price fee returned sent)
      = Some (?base + ?base div uint fee + uint price * uint sent)"
    unfolding o option.map sint_word_of_int_exact[OF bound] ..
  then show ?thesis by (simp add: exit_bill_def algebra_simps)
qed

lemma client_estimate_exceeds_bill_witness:
  "map_option sint (owes_exit 10 60 30 600 200) = Some (exit_bill 10 60 30 200 600 + (1400 - 1200))"
  using client_estimate_exceeds_bill[of 10 30 200 60 600] by simp

lemma exit_round_bills_witness:
  "\<exists>debts history'. exit_bills [(3, sample_peer)] [(3, 60)] 10 30 [(3, \<lparr>wu_upload = 1000, wu_download = 200\<rparr>)]
       (prepare_usage_history [(3, \<lparr>wu_upload = 1000, wu_download = 200\<rparr>)] [(3, \<lparr>wu_upload = 400, wu_download = 500\<rparr>)])
       = Some (debts, history')
     \<and> map_option sint (map_of debts sample_peer) = Some (- 45200)
     \<and> map_of history' 3 = Some \<lparr>wu_upload = 1000, wu_download = 200\<rparr>"
proof -
  have "exit_bill 10 60 30 200 600 = 45200" by (simp add: exit_bill_def)
  then show ?thesis
    using exit_round_bills[of "[(3, sample_peer)]" "[(3, \<lparr>wu_upload = 1000, wu_download = 200\<rparr>)]" 10 30 "[(3, 60)]" 3
        "\<lparr>wu_upload = 1000, wu_download = 200\<rparr>" sample_peer 60 "[(3, \<lparr>wu_upload = 400, wu_download = 500\<rparr>)]"]
    by (simp add: keyed_def sample_peer_def round_start_def used_since_def)
qed

end
