(* ===== verification/Althea_Db.thy ===== *)
theory Althea_Db
  imports Althea_Types "HOL-Library.Multiset"
begin

text \<open>
  \<open>solidity/contracts/AltheaDB.sol\<close>: the contract in which users and exits are registered. A call that reverts is the
  value \<open>Err\<close> and changes nothing; a call that succeeds returns the new storage. The log of emitted events is part of
  the state. The caller, \<open>msg.sender\<close>, is an argument of every call that reads it.

  The invariant of the storage and the refinement of a specification over sets are in \<open>Db_Safety\<close>.
\<close>

section \<open>Storage\<close>

record sol_identity =
  id_mesh_ip :: u128
  id_wg_key :: wg_key
  id_eth_addr :: address

record sol_exit_identity =
  xi_mesh_ip :: u128
  xi_wg_key :: wg_key
  xi_eth_addr :: address
  xi_registration_port :: u16
  xi_wg_exit_listen_port :: u16
  xi_allowed_regions :: "256 word list"
  xi_payment_types :: "256 word list"

datatype db_error = UnathorizedCaller | DuplicateUser | DuplicateAdmin | IdentityNotFound | AdminNotFound | RequireFailed

datatype db_event =
    UserRegisteredEvent sol_identity | UserRemovedEvent sol_identity
  | ExitRegisteredEvent sol_exit_identity | ExitRemovedEvent sol_exit_identity
  | UserAdminAddedEvent address | UserAdminRemovedEvent address
  | ExitAdminAddedEvent address | ExitAdminRemovedEvent address

record althea_db =
  state_admin :: address
  state_UserAdmins :: "address list"
  state_ExitAdmins :: "address list"
  state_registeredUsers :: "sol_identity list"
  state_registeredExits :: "sol_exit_identity list"
  state_registeredIps :: "u128 \<Rightarrow> bool"
  state_registeredKey :: "wg_key \<Rightarrow> bool"
  state_registeredAddr :: "address \<Rightarrow> bool"
  db_events :: "db_event list"

definition db_constructor :: "address \<Rightarrow> althea_db" where
  "db_constructor admin =
     \<lparr>state_admin = admin, state_UserAdmins = [], state_ExitAdmins = [], state_registeredUsers = [],
      state_registeredExits = [], state_registeredIps = (\<lambda>_. False), state_registeredKey = (\<lambda>_. False),
      state_registeredAddr = (\<lambda>_. False), db_events = []\<rparr>"

definition emit :: "db_event \<Rightarrow> althea_db \<Rightarrow> althea_db" where
  "emit e db = db\<lparr>db_events := db_events db @ [e]\<rparr>"

section \<open>Utility functions\<close>

definition exitIdToId :: "sol_exit_identity \<Rightarrow> sol_identity" where
  "exitIdToId x = \<lparr>id_mesh_ip = xi_mesh_ip x, id_wg_key = xi_wg_key x, id_eth_addr = xi_eth_addr x\<rparr>"

definition getNullIdentity :: sol_identity where
  "getNullIdentity = \<lparr>id_mesh_ip = 0, id_wg_key = 0, id_eth_addr = 0\<rparr>"

definition getNullExitIdentity :: sol_exit_identity where
  "getNullExitIdentity = \<lparr>xi_mesh_ip = 0, xi_wg_key = 0, xi_eth_addr = 0, xi_registration_port = 0,
     xi_wg_exit_listen_port = 0, xi_allowed_regions = [], xi_payment_types = []\<rparr>"

definition identitiesAreEqual :: "sol_identity \<Rightarrow> sol_identity \<Rightarrow> bool" where
  "identitiesAreEqual a b =
     (if id_mesh_ip a \<noteq> id_mesh_ip b then False
      else if id_wg_key a \<noteq> id_wg_key b then False
      else if id_eth_addr a \<noteq> id_eth_addr b then False else True)"

definition isNullIdentity :: "sol_identity \<Rightarrow> bool" where
  "isNullIdentity a = identitiesAreEqual a getNullIdentity"

text \<open>The loops over an array: the index of the first entry with a property.\<close>

fun first_index :: "('a \<Rightarrow> bool) \<Rightarrow> nat \<Rightarrow> 'a list \<Rightarrow> nat option" where
  "first_index P i [] = None"
| "first_index P i (x # xs) = (if P x then Some i else first_index P (Suc i) xs)"

definition isUserAdmin :: "address \<Rightarrow> althea_db \<Rightarrow> bool" where
  "isUserAdmin a db = (first_index (\<lambda>x. a = x) 0 (state_UserAdmins db) \<noteq> None)"

definition isExitAdmin :: "address \<Rightarrow> althea_db \<Rightarrow> bool" where
  "isExitAdmin a db = (first_index (\<lambda>x. a = x) 0 (state_ExitAdmins db) \<noteq> None)"

definition deleteArrayEntry :: "nat \<Rightarrow> 'a list \<Rightarrow> db_error + 'a list" where
  "deleteArrayEntry index array =
     (if index < length array
      then Ok (butlast (if index \<noteq> length array - 1 then array[index := array ! (length array - 1)] else array))
      else Err RequireFailed)"

definition getIndexOfId :: "sol_identity \<Rightarrow> sol_identity list \<Rightarrow> db_error + nat" where
  "getIndexOfId entry array =
     (case first_index (\<lambda>x. identitiesAreEqual x entry) 0 array of Some i \<Rightarrow> Ok i | None \<Rightarrow> Err IdentityNotFound)"

definition getIndexOfExitId :: "sol_exit_identity \<Rightarrow> sol_exit_identity list \<Rightarrow> db_error + nat" where
  "getIndexOfExitId entry array =
     (case first_index (\<lambda>x. identitiesAreEqual (exitIdToId x) (exitIdToId entry)) 0 array of
        Some i \<Rightarrow> Ok i | None \<Rightarrow> Err IdentityNotFound)"

definition getIndexOfAdmin :: "address \<Rightarrow> address list \<Rightarrow> db_error + nat" where
  "getIndexOfAdmin admin array =
     (case first_index (\<lambda>x. admin = x) 0 array of Some i \<Rightarrow> Ok i | None \<Rightarrow> Err AdminNotFound)"

definition checkForAnyDuplicates :: "sol_identity \<Rightarrow> althea_db \<Rightarrow> bool" where
  "checkForAnyDuplicates e db =
     (if state_registeredIps db (id_mesh_ip e) then True
      else if state_registeredKey db (id_wg_key e) then True
      else if state_registeredAddr db (id_eth_addr e) then True else False)"

text \<open>Setting the three mappings for an entry, to true when it is added and to false when it is removed.\<close>

definition mark :: "bool \<Rightarrow> sol_identity \<Rightarrow> althea_db \<Rightarrow> althea_db" where
  "mark b e db = db\<lparr>state_registeredIps := (state_registeredIps db)(id_mesh_ip e := b),
     state_registeredKey := (state_registeredKey db)(id_wg_key e := b),
     state_registeredAddr := (state_registeredAddr db)(id_eth_addr e := b)\<rparr>"

text \<open>Sequencing of calls that may revert.\<close>

definition andthen :: "'e + 'a \<Rightarrow> ('a \<Rightarrow> 'e + 'b) \<Rightarrow> 'e + 'b" where
  "andthen m f = (case m of Inl e \<Rightarrow> Inl e | Inr x \<Rightarrow> f x)"

fun bulk :: "('x \<Rightarrow> 's \<Rightarrow> 'e + 's) \<Rightarrow> 'x list \<Rightarrow> 's \<Rightarrow> 'e + 's" where
  "bulk f [] s = Ok s"
| "bulk f (x # xs) s = andthen (f x s) (bulk f xs)"

section \<open>Registration\<close>

definition addRegisteredUser :: "address \<Rightarrow> sol_identity \<Rightarrow> althea_db \<Rightarrow> db_error + althea_db" where
  "addRegisteredUser sender e db =
     (if isUserAdmin sender db
      then if checkForAnyDuplicates e db then Err DuplicateUser
           else let db1 = mark True e db
                in Ok (emit (UserRegisteredEvent e)
                     (db1\<lparr>state_registeredUsers := state_registeredUsers db1 @ [e]\<rparr>))
      else Err UnathorizedCaller)"

definition addRegisteredUsersBulk :: "address \<Rightarrow> sol_identity list \<Rightarrow> althea_db \<Rightarrow> db_error + althea_db" where
  "addRegisteredUsersBulk sender users = bulk (addRegisteredUser sender) users"

definition removeRegisteredUser :: "address \<Rightarrow> sol_identity \<Rightarrow> althea_db \<Rightarrow> db_error + althea_db" where
  "removeRegisteredUser sender e db =
     (if isUserAdmin sender db
      then andthen (getIndexOfId e (state_registeredUsers db)) (\<lambda>index.
           andthen (deleteArrayEntry index (state_registeredUsers db)) (\<lambda>users.
           Ok (emit (UserRemovedEvent e) (mark False e (db\<lparr>state_registeredUsers := users\<rparr>)))))
      else Err UnathorizedCaller)"

definition removeRegisteredUsersBulk :: "address \<Rightarrow> sol_identity list \<Rightarrow> althea_db \<Rightarrow> db_error + althea_db" where
  "removeRegisteredUsersBulk sender users = bulk (removeRegisteredUser sender) users"

definition addRegisteredExit :: "address \<Rightarrow> sol_exit_identity \<Rightarrow> althea_db \<Rightarrow> db_error + althea_db" where
  "addRegisteredExit sender e db =
     (if isExitAdmin sender db
      then if checkForAnyDuplicates (exitIdToId e) db then Err DuplicateUser
           else let db1 = mark True (exitIdToId e) db
                in Ok (emit (ExitRegisteredEvent e)
                     (db1\<lparr>state_registeredExits := state_registeredExits db1 @ [e]\<rparr>))
      else Err UnathorizedCaller)"

definition addRegisteredExitsBulk :: "address \<Rightarrow> sol_exit_identity list \<Rightarrow> althea_db \<Rightarrow> db_error + althea_db" where
  "addRegisteredExitsBulk sender exits = bulk (addRegisteredExit sender) exits"

definition removeRegisteredExit :: "address \<Rightarrow> sol_exit_identity \<Rightarrow> althea_db \<Rightarrow> db_error + althea_db" where
  "removeRegisteredExit sender e db =
     (if isExitAdmin sender db
      then andthen (getIndexOfExitId e (state_registeredExits db)) (\<lambda>index.
           andthen (deleteArrayEntry index (state_registeredExits db)) (\<lambda>exits.
           Ok (emit (ExitRemovedEvent e) (mark False (exitIdToId e) (db\<lparr>state_registeredExits := exits\<rparr>)))))
      else Err UnathorizedCaller)"

definition removeRegisteredExitsBulk :: "address \<Rightarrow> sol_exit_identity list \<Rightarrow> althea_db \<Rightarrow> db_error + althea_db" where
  "removeRegisteredExitsBulk sender exits = bulk (removeRegisteredExit sender) exits"

section \<open>Queries\<close>

definition getAllRegisteredUsers :: "althea_db \<Rightarrow> sol_identity list" where
  "getAllRegisteredUsers db = state_registeredUsers db"

definition getAllRegisteredExits :: "althea_db \<Rightarrow> sol_exit_identity list" where
  "getAllRegisteredExits db = state_registeredExits db"

definition first_or :: "'a \<Rightarrow> ('a \<Rightarrow> bool) \<Rightarrow> 'a list \<Rightarrow> 'a" where
  "first_or d P xs = unwrap_or (find P xs) d"

definition getRegisteredClientWithWgKey :: "wg_key \<Rightarrow> althea_db \<Rightarrow> sol_identity" where
  "getRegisteredClientWithWgKey k db = first_or getNullIdentity (\<lambda>u. id_wg_key u = k) (state_registeredUsers db)"

definition getRegisteredClientWithMeshIp :: "u128 \<Rightarrow> althea_db \<Rightarrow> sol_identity" where
  "getRegisteredClientWithMeshIp m db = first_or getNullIdentity (\<lambda>u. id_mesh_ip u = m) (state_registeredUsers db)"

definition getRegisteredClientWithEthAddr :: "address \<Rightarrow> althea_db \<Rightarrow> sol_identity" where
  "getRegisteredClientWithEthAddr a db = first_or getNullIdentity (\<lambda>u. id_eth_addr u = a) (state_registeredUsers db)"

definition getRegisteredExitWithWgKey :: "wg_key \<Rightarrow> althea_db \<Rightarrow> sol_exit_identity" where
  "getRegisteredExitWithWgKey k db = first_or getNullExitIdentity (\<lambda>u. xi_wg_key u = k) (state_registeredExits db)"

definition getRegisteredExitWithMeshIp :: "u128 \<Rightarrow> althea_db \<Rightarrow> sol_exit_identity" where
  "getRegisteredExitWithMeshIp m db = first_or getNullExitIdentity (\<lambda>u. xi_mesh_ip u = m) (state_registeredExits db)"

definition getRegisteredExitWithEthAddr :: "address \<Rightarrow> althea_db \<Rightarrow> sol_exit_identity" where
  "getRegisteredExitWithEthAddr a db = first_or getNullExitIdentity (\<lambda>u. xi_eth_addr u = a) (state_registeredExits db)"

section \<open>Administration\<close>

definition addUserAdmin :: "address \<Rightarrow> address \<Rightarrow> althea_db \<Rightarrow> db_error + althea_db" where
  "addUserAdmin sender entry db =
     (if state_admin db = sender
      then if isUserAdmin entry db then Err DuplicateAdmin
           else Ok (emit (UserAdminAddedEvent entry) (db\<lparr>state_UserAdmins := state_UserAdmins db @ [entry]\<rparr>))
      else Err UnathorizedCaller)"

definition removeUserAdmin :: "address \<Rightarrow> address \<Rightarrow> althea_db \<Rightarrow> db_error + althea_db" where
  "removeUserAdmin sender entry db =
     (if state_admin db = sender
      then andthen (getIndexOfAdmin entry (state_UserAdmins db)) (\<lambda>index.
           andthen (deleteArrayEntry index (state_UserAdmins db)) (\<lambda>admins.
           Ok (emit (UserAdminAddedEvent entry) (db\<lparr>state_UserAdmins := admins\<rparr>))))
      else Err UnathorizedCaller)"

definition addExitAdmin :: "address \<Rightarrow> address \<Rightarrow> althea_db \<Rightarrow> db_error + althea_db" where
  "addExitAdmin sender entry db =
     (if state_admin db = sender
      then if isExitAdmin entry db then Err DuplicateAdmin
           else Ok (emit (ExitAdminAddedEvent entry) (db\<lparr>state_ExitAdmins := state_ExitAdmins db @ [entry]\<rparr>))
      else Err UnathorizedCaller)"

definition removeExitAdmin :: "address \<Rightarrow> address \<Rightarrow> althea_db \<Rightarrow> db_error + althea_db" where
  "removeExitAdmin sender entry db =
     (if state_admin db = sender
      then andthen (getIndexOfAdmin entry (state_ExitAdmins db)) (\<lambda>index.
           andthen (deleteArrayEntry index (state_ExitAdmins db)) (\<lambda>admins.
           Ok (emit (UserAdminAddedEvent entry) (db\<lparr>state_ExitAdmins := admins\<rparr>))))
      else Err UnathorizedCaller)"

section \<open>Transactions\<close>

text \<open>The calls that change the storage, and a transaction: a call that reverts leaves the storage as it was.\<close>

datatype db_call =
    AddUser sol_identity | AddUsers "sol_identity list" | RemoveUser sol_identity | RemoveUsers "sol_identity list"
  | AddExit sol_exit_identity | AddExits "sol_exit_identity list"
  | RemoveExit sol_exit_identity | RemoveExits "sol_exit_identity list"
  | AddUserAdmin address | RemoveUserAdmin address | AddExitAdmin address | RemoveExitAdmin address

fun db_exec :: "address \<Rightarrow> db_call \<Rightarrow> althea_db \<Rightarrow> db_error + althea_db" where
  "db_exec s (AddUser e) = addRegisteredUser s e"
| "db_exec s (AddUsers es) = addRegisteredUsersBulk s es"
| "db_exec s (RemoveUser e) = removeRegisteredUser s e"
| "db_exec s (RemoveUsers es) = removeRegisteredUsersBulk s es"
| "db_exec s (AddExit e) = addRegisteredExit s e"
| "db_exec s (AddExits es) = addRegisteredExitsBulk s es"
| "db_exec s (RemoveExit e) = removeRegisteredExit s e"
| "db_exec s (RemoveExits es) = removeRegisteredExitsBulk s es"
| "db_exec s (AddUserAdmin a) = addUserAdmin s a"
| "db_exec s (RemoveUserAdmin a) = removeUserAdmin s a"
| "db_exec s (AddExitAdmin a) = addExitAdmin s a"
| "db_exec s (RemoveExitAdmin a) = removeExitAdmin s a"

definition db_transaction :: "address \<Rightarrow> db_call \<Rightarrow> althea_db \<Rightarrow> althea_db" where
  "db_transaction s c db = (case db_exec s c db of Inl _ \<Rightarrow> db | Inr db' \<Rightarrow> db')"

inductive db_reachable :: "address \<Rightarrow> althea_db \<Rightarrow> bool" for admin :: address where
  deployed: "db_reachable admin (db_constructor admin)"
| called: "db_reachable admin db \<Longrightarrow> db_reachable admin (db_transaction s c db)"

inductive_cases db_reachableE: "db_reachable admin db"

end
