(* ===== verification/Regions.thy ===== *)
theory Regions
  imports Settings Ip_Text
begin

text \<open>
  \<open>althea_types/src/regions.rs\<close>: the regions exits are in. A region is the name of its variant; the five
  functions of the file are tables, in the order of their match arms.
\<close>

definition all_regions :: "regions list" where
  "all_regions = [
    ''UnitedStates'', ''Canada'', ''Mexico'', ''Argentina'', ''Bolivia'', ''Brazil'', ''Chile'',
    ''Colombia'', ''Ecuador'', ''Guyana'', ''Paraguay'', ''Peru'', ''Suriname'', ''Uruguay'',
    ''Venezuela'', ''Albania'', ''Andorra'', ''Armenia'', ''Austria'', ''Azerbaijan'', ''Belarus'',
    ''Belgium'', ''BosniaAndHerzegovina'', ''Bulgaria'', ''Croatia'', ''Cyprus'', ''CzechRepublic'',
    ''Denmark'', ''Estonia'', ''Finland'', ''France'', ''Georgia'', ''Germany'', ''Greece'', ''Hungary'',
    ''Iceland'', ''Ireland'', ''Italy'', ''Kazakhstan'', ''Kosovo'', ''Latvia'', ''Liechtenstein'',
    ''Lithuania'', ''Luxembourg'', ''Malta'', ''Moldova'', ''Monaco'', ''Montenegro'', ''Netherlands'',
    ''NorthMacedonia'', ''Norway'', ''Poland'', ''Portugal'', ''Romania'', ''Russia'', ''SanMarino'',
    ''Serbia'', ''Slovakia'', ''Slovenia'', ''Spain'', ''Sweden'', ''Switzerland'', ''Turkey'',
    ''Ukraine'', ''UnitedKingdom'', ''VaticanCity'', ''UnkownRegion'', ''Algeria'', ''Angola'', ''Benin'',
    ''Botswana'', ''BurkinaFaso'', ''Burundi'', ''CaboVerde'', ''Cameroon'', ''CentralAfricanRepublic'',
    ''Chad'', ''Comoros'', ''Congo'', ''DemocraticRepublicOfTheCongo'', ''Djibouti'', ''Egypt'',
    ''EquatorialGuinea'', ''Eritrea'', ''Eswatini'', ''Ethiopia'', ''Gabon'', ''Gambia'', ''Ghana'',
    ''Guinea'', ''GuineaBissau'', ''IvoryCoast'', ''Kenya'', ''Lesotho'', ''Liberia'', ''Libya'',
    ''Madagascar'', ''Malawi'', ''Mali'', ''Mauritania'', ''Mauritius'', ''Morocco'', ''Mozambique'',
    ''Namibia'', ''Niger'', ''Nigeria'', ''Rwanda'', ''SaoTomeAndPrincipe'', ''Senegal'', ''Seychelles'',
    ''SierraLeone'', ''Somalia'', ''SouthAfrica'', ''SouthSudan'', ''Sudan'', ''Tanzania'', ''Togo'',
    ''Tunisia'', ''Uganda'', ''Zambia'', ''Zimbabwe'', ''Afghanistan'', ''Bahrain'', ''Bangladesh'',
    ''Bhutan'', ''Brunei'', ''Cambodia'', ''China'', ''EastTimor'', ''India'', ''Indonesia'', ''Iran'',
    ''Iraq'', ''Israel'', ''Japan'', ''Jordan'', ''Kuwait'', ''Kyrgyzstan'', ''Laos'', ''Lebanon'',
    ''Malaysia'', ''Maldives'', ''Mongolia'', ''Myanmar'', ''Nepal'', ''NorthKorea'', ''Oman'',
    ''Pakistan'', ''Palestine'', ''Philippines'', ''Qatar'', ''SaudiArabia'', ''Singapore'',
    ''SouthKorea'', ''SriLanka'', ''Syria'', ''Taiwan'', ''Tajikistan'', ''Thailand'', ''Turkmenistan'',
    ''UnitedArabEmirates'', ''Uzbekistan'', ''Vietnam'', ''Yemen'', ''Australia'', ''NewZealand'',
    ''AntiguaAndBarbuda'', ''Bahamas'', ''Barbados'', ''Belize'', ''Cuba'', ''Dominica'',
    ''DominicanRepublic'', ''Grenada'', ''Haiti'', ''Jamaica'', ''SaintKittsAndNevis'', ''SaintLucia'',
    ''SaintVincentAndTheGrenadines'', ''TrinidadAndTobago'']"

definition region_codes :: "(regions \<times> nat) list" where
  "region_codes = [
    (''UnitedStates'', 1), (''Canada'', 2), (''Ghana'', 3), (''Mexico'', 4), (''Nigeria'', 5),
    (''Colombia'', 6), (''Senegal'', 7), (''Seychelles'', 8), (''SierraLeone'', 9), (''Somalia'', 10),
    (''SouthAfrica'', 11), (''SouthSudan'', 12), (''Sudan'', 13), (''Tanzania'', 14), (''Togo'', 15),
    (''Tunisia'', 16), (''Uganda'', 17), (''Zambia'', 18), (''Zimbabwe'', 19), (''Afghanistan'', 20),
    (''Bahrain'', 21), (''Bangladesh'', 22), (''Bhutan'', 23), (''Brunei'', 24), (''Cambodia'', 25),
    (''China'', 26), (''EastTimor'', 27), (''India'', 28), (''Indonesia'', 29), (''Iran'', 30),
    (''Iraq'', 31), (''Israel'', 32), (''Japan'', 33), (''Jordan'', 34), (''Kuwait'', 35),
    (''Kyrgyzstan'', 36), (''Laos'', 37), (''Lebanon'', 38), (''Malaysia'', 39), (''Maldives'', 40),
    (''Mongolia'', 41), (''Myanmar'', 42), (''Nepal'', 43), (''NorthKorea'', 44), (''Oman'', 45),
    (''Pakistan'', 46), (''Palestine'', 47), (''Philippines'', 48), (''Qatar'', 49), (''SaudiArabia'', 50),
    (''Singapore'', 51), (''SouthKorea'', 52), (''SriLanka'', 53), (''Syria'', 54), (''Taiwan'', 55),
    (''Tajikistan'', 56), (''Thailand'', 57), (''Turkmenistan'', 58), (''UnitedArabEmirates'', 59),
    (''Uzbekistan'', 60), (''Vietnam'', 61), (''Yemen'', 62), (''Australia'', 63), (''NewZealand'', 64),
    (''AntiguaAndBarbuda'', 65), (''Bahamas'', 66), (''Barbados'', 67), (''Belize'', 68), (''Cuba'', 69),
    (''Dominica'', 70), (''DominicanRepublic'', 71), (''Grenada'', 72), (''Haiti'', 73), (''Jamaica'', 74),
    (''SaintKittsAndNevis'', 75), (''SaintLucia'', 76), (''SaintVincentAndTheGrenadines'', 77),
    (''TrinidadAndTobago'', 78), (''UnkownRegion'', 0), (''Argentina'', 79), (''Bolivia'', 80),
    (''Brazil'', 81), (''Chile'', 82), (''Ecuador'', 83), (''Guyana'', 84), (''Paraguay'', 85),
    (''Peru'', 86), (''Suriname'', 87), (''Uruguay'', 88), (''Venezuela'', 89), (''Albania'', 90),
    (''Andorra'', 91), (''Armenia'', 92), (''Austria'', 93), (''Azerbaijan'', 94), (''Belarus'', 95),
    (''Belgium'', 96), (''BosniaAndHerzegovina'', 97), (''Bulgaria'', 98), (''Croatia'', 99),
    (''Cyprus'', 100), (''CzechRepublic'', 101), (''Denmark'', 102), (''Estonia'', 103),
    (''Finland'', 104), (''France'', 105), (''Georgia'', 106), (''Germany'', 107), (''Greece'', 108),
    (''Hungary'', 109), (''Iceland'', 110), (''Ireland'', 111), (''Italy'', 112), (''Kazakhstan'', 113),
    (''Kosovo'', 114), (''Latvia'', 115), (''Liechtenstein'', 116), (''Lithuania'', 117),
    (''Luxembourg'', 118), (''Malta'', 119), (''Moldova'', 120), (''Monaco'', 121), (''Montenegro'', 122),
    (''Netherlands'', 123), (''NorthMacedonia'', 124), (''Norway'', 125), (''Poland'', 126),
    (''Portugal'', 127), (''Romania'', 128), (''Russia'', 129), (''SanMarino'', 130), (''Serbia'', 131),
    (''Slovakia'', 132), (''Slovenia'', 133), (''Spain'', 134), (''Sweden'', 135), (''Switzerland'', 136),
    (''Turkey'', 137), (''Ukraine'', 138), (''UnitedKingdom'', 139), (''VaticanCity'', 140),
    (''Algeria'', 141), (''Angola'', 142), (''Benin'', 143), (''Botswana'', 144), (''BurkinaFaso'', 145),
    (''Burundi'', 146), (''CaboVerde'', 147), (''Cameroon'', 148), (''CentralAfricanRepublic'', 149),
    (''Chad'', 150), (''Comoros'', 151), (''Congo'', 152), (''DemocraticRepublicOfTheCongo'', 153),
    (''Djibouti'', 154), (''Egypt'', 155), (''EquatorialGuinea'', 156), (''Eritrea'', 157),
    (''Eswatini'', 158), (''Ethiopia'', 159), (''Gabon'', 160), (''Gambia'', 161), (''Guinea'', 162),
    (''GuineaBissau'', 163), (''IvoryCoast'', 164), (''Kenya'', 165), (''Lesotho'', 166),
    (''Liberia'', 167), (''Libya'', 168), (''Madagascar'', 169), (''Malawi'', 170), (''Mali'', 171),
    (''Mauritania'', 172), (''Mauritius'', 173), (''Morocco'', 174), (''Mozambique'', 175),
    (''Namibia'', 176), (''Niger'', 177), (''Rwanda'', 178), (''SaoTomeAndPrincipe'', 179)]"

definition region_to_u8 :: "regions \<Rightarrow> u8" where
  "region_to_u8 r = of_nat (unwrap_or (map_of region_codes r) 0)"

definition region_names :: "(nat \<times> regions) list" where
  "region_names = [
    (1, ''UnitedStates''), (2, ''Canada''), (3, ''Ghana''), (4, ''Mexico''), (5, ''Nigeria''),
    (6, ''Colombia''), (7, ''Senegal''), (8, ''Seychelles''), (9, ''SierraLeone''), (10, ''Somalia''),
    (11, ''SouthAfrica''), (12, ''SouthSudan''), (13, ''Sudan''), (14, ''Tanzania''), (15, ''Togo''),
    (16, ''Tunisia''), (17, ''Uganda''), (18, ''Zambia''), (19, ''Zimbabwe''), (20, ''Afghanistan''),
    (21, ''Bahrain''), (22, ''Bangladesh''), (23, ''Bhutan''), (24, ''Brunei''), (25, ''Cambodia''),
    (26, ''China''), (27, ''EastTimor''), (28, ''India''), (29, ''Indonesia''), (30, ''Iran''),
    (31, ''Iraq''), (32, ''Israel''), (33, ''Japan''), (34, ''Jordan''), (35, ''Kuwait''),
    (36, ''Kyrgyzstan''), (37, ''Laos''), (38, ''Lebanon''), (39, ''Malaysia''), (40, ''Maldives''),
    (41, ''Mongolia''), (42, ''Myanmar''), (43, ''Nepal''), (44, ''NorthKorea''), (45, ''Oman''),
    (46, ''Pakistan''), (47, ''Palestine''), (48, ''Philippines''), (49, ''Qatar''), (50, ''SaudiArabia''),
    (51, ''Singapore''), (52, ''SouthKorea''), (53, ''SriLanka''), (54, ''Syria''), (55, ''Taiwan''),
    (56, ''Tajikistan''), (57, ''Thailand''), (58, ''Turkmenistan''), (59, ''UnitedArabEmirates''),
    (60, ''Uzbekistan''), (61, ''Vietnam''), (62, ''Yemen''), (63, ''Australia''), (64, ''NewZealand''),
    (65, ''AntiguaAndBarbuda''), (66, ''Bahamas''), (67, ''Barbados''), (68, ''Belize''), (69, ''Cuba''),
    (70, ''Dominica''), (71, ''DominicanRepublic''), (72, ''Grenada''), (73, ''Haiti''), (74, ''Jamaica''),
    (75, ''SaintKittsAndNevis''), (76, ''SaintLucia''), (77, ''SaintVincentAndTheGrenadines''),
    (78, ''TrinidadAndTobago''), (79, ''Argentina''), (80, ''Bolivia''), (81, ''Brazil''), (82, ''Chile''),
    (83, ''Ecuador''), (84, ''Guyana''), (85, ''Paraguay''), (86, ''Peru''), (87, ''Suriname''),
    (88, ''Uruguay''), (89, ''Venezuela''), (90, ''Albania''), (91, ''Andorra''), (92, ''Armenia''),
    (93, ''Austria''), (94, ''Azerbaijan''), (95, ''Belarus''), (96, ''Belgium''),
    (97, ''BosniaAndHerzegovina''), (98, ''Bulgaria''), (99, ''Croatia''), (100, ''Cyprus''),
    (101, ''CzechRepublic''), (102, ''Denmark''), (103, ''Estonia''), (104, ''Finland''),
    (105, ''France''), (106, ''Georgia''), (107, ''Germany''), (108, ''Greece''), (109, ''Hungary''),
    (110, ''Iceland''), (111, ''Ireland''), (112, ''Italy''), (113, ''Kazakhstan''), (114, ''Kosovo''),
    (115, ''Latvia''), (116, ''Liechtenstein''), (117, ''Lithuania''), (118, ''Luxembourg''),
    (119, ''Malta''), (120, ''Moldova''), (121, ''Monaco''), (122, ''Montenegro''), (123, ''Netherlands''),
    (124, ''NorthMacedonia''), (125, ''Norway''), (126, ''Poland''), (127, ''Portugal''),
    (128, ''Romania''), (129, ''Russia''), (130, ''SanMarino''), (131, ''Serbia''), (132, ''Slovakia''),
    (133, ''Slovenia''), (134, ''Spain''), (135, ''Sweden''), (136, ''Switzerland''), (137, ''Turkey''),
    (138, ''Ukraine''), (139, ''UnitedKingdom''), (140, ''VaticanCity''), (141, ''Algeria''),
    (142, ''Angola''), (143, ''Benin''), (144, ''Botswana''), (145, ''BurkinaFaso''), (146, ''Burundi''),
    (147, ''CaboVerde''), (148, ''Cameroon''), (149, ''CentralAfricanRepublic''), (150, ''Chad''),
    (151, ''Comoros''), (152, ''Congo''), (153, ''DemocraticRepublicOfTheCongo''), (154, ''Djibouti''),
    (155, ''Egypt''), (156, ''EquatorialGuinea''), (157, ''Eritrea''), (158, ''Eswatini''),
    (159, ''Ethiopia''), (160, ''Gabon''), (161, ''Gambia''), (162, ''Guinea''), (163, ''GuineaBissau''),
    (164, ''IvoryCoast''), (165, ''Kenya''), (166, ''Lesotho''), (167, ''Liberia''), (168, ''Libya''),
    (169, ''Madagascar''), (170, ''Malawi''), (171, ''Mali''), (172, ''Mauritania''), (173, ''Mauritius''),
    (174, ''Morocco''), (175, ''Mozambique''), (176, ''Namibia''), (177, ''Niger''), (178, ''Rwanda''),
    (179, ''SaoTomeAndPrincipe'')]"

definition region_from_u8 :: "u8 \<Rightarrow> regions" where
  "region_from_u8 v = unwrap_or (map_of region_names (unat v)) ''UnkownRegion''"

definition region_texts :: "(regions \<times> string) list" where
  "region_texts = [
    (''UnitedStates'', ''United States''), (''Canada'', ''Canada''), (''Ghana'', ''Ghana''),
    (''Nigeria'', ''Nigeria''), (''Colombia'', ''Colombia''), (''Mexico'', ''Mexico''),
    (''UnkownRegion'', ''Unknown Region''), (''Argentina'', ''Argentina''), (''Bolivia'', ''Bolivia''),
    (''Brazil'', ''Brazil''), (''Chile'', ''Chile''), (''Ecuador'', ''Ecuador''), (''Guyana'', ''Guyana''),
    (''Paraguay'', ''Paraguay''), (''Peru'', ''Peru''), (''Suriname'', ''Suriname''),
    (''Uruguay'', ''Uruguay''), (''Venezuela'', ''Venezuela''), (''Albania'', ''Albania''),
    (''Andorra'', ''Andorra''), (''Armenia'', ''Armenia''), (''Austria'', ''Austria''),
    (''Azerbaijan'', ''Azerbaijan''), (''Belarus'', ''Belarus''), (''Belgium'', ''Belgium''),
    (''BosniaAndHerzegovina'', ''Bosnia and Herzegovina''), (''Bulgaria'', ''Bulgaria''),
    (''Croatia'', ''Croatia''), (''Cyprus'', ''Cyprus''), (''CzechRepublic'', ''Czech Republic''),
    (''Denmark'', ''Denmark''), (''Estonia'', ''Estonia''), (''Finland'', ''Finland''),
    (''France'', ''France''), (''Georgia'', ''Georgia''), (''Germany'', ''Germany''),
    (''Greece'', ''Greece''), (''Hungary'', ''Hungary''), (''Iceland'', ''Iceland''),
    (''Ireland'', ''Ireland''), (''Italy'', ''Italy''), (''Kazakhstan'', ''Kazakhstan''),
    (''Kosovo'', ''Kosovo''), (''Latvia'', ''Latvia''), (''Liechtenstein'', ''Liechtenstein''),
    (''Lithuania'', ''Lithuania''), (''Luxembourg'', ''Luxembourg''), (''Malta'', ''Malta''),
    (''Moldova'', ''Moldova''), (''Monaco'', ''Monaco''), (''Montenegro'', ''Montenegro''),
    (''Netherlands'', ''Netherlands''), (''NorthMacedonia'', ''North Macedonia''),
    (''Norway'', ''Norway''), (''Poland'', ''Poland''), (''Portugal'', ''Portugal''),
    (''Romania'', ''Romania''), (''Russia'', ''Russia''), (''SanMarino'', ''San Marino''),
    (''Serbia'', ''Serbia''), (''Slovakia'', ''Slovakia''), (''Slovenia'', ''Slovenia''),
    (''Spain'', ''Spain''), (''Sweden'', ''Sweden''), (''Switzerland'', ''Switzerland''),
    (''Turkey'', ''Turkey''), (''Ukraine'', ''Ukraine''), (''UnitedKingdom'', ''United Kingdom''),
    (''VaticanCity'', ''Vatican City''), (''Algeria'', ''Algeria''), (''Angola'', ''Angola''),
    (''Benin'', ''Benin''), (''Botswana'', ''Botswana''), (''BurkinaFaso'', ''Burkina Faso''),
    (''Burundi'', ''Burundi''), (''CaboVerde'', ''Cabo Verde''), (''Cameroon'', ''Cameroon''),
    (''CentralAfricanRepublic'', ''Central African Republic''), (''Chad'', ''Chad''),
    (''Comoros'', ''Comoros''), (''Congo'', ''Congo''),
    (''DemocraticRepublicOfTheCongo'', ''Democratic Republic of the Congo''), (''Djibouti'', ''Djibouti''),
    (''Egypt'', ''Egypt''), (''EquatorialGuinea'', ''Equatorial Guinea''), (''Eritrea'', ''Eritrea''),
    (''Eswatini'', ''Eswatini''), (''Ethiopia'', ''Ethiopia''), (''Gabon'', ''Gabon''),
    (''Gambia'', ''Gambia''), (''Guinea'', ''Guinea''), (''GuineaBissau'', ''Guinea-Bissau''),
    (''IvoryCoast'', ''Ivory Coast''), (''Kenya'', ''Kenya''), (''Lesotho'', ''Lesotho''),
    (''Liberia'', ''Liberia''), (''Libya'', ''Libya''), (''Madagascar'', ''Madagascar''),
    (''Malawi'', ''Malawi''), (''Mali'', ''Mali''), (''Mauritania'', ''Mauritania''),
    (''Mauritius'', ''Mauritius''), (''Morocco'', ''Morocco''), (''Mozambique'', ''Mozambique''),
    (''Namibia'', ''Namibia''), (''Niger'', ''Niger''), (''Rwanda'', ''Rwanda''),
    (''SaoTomeAndPrincipe'', ''Sao Tome and Principe''), (''Senegal'', ''Senegal''),
    (''Seychelles'', ''Seychelles''), (''SierraLeone'', ''Sierra Leone''), (''Somalia'', ''Somalia''),
    (''SouthAfrica'', ''South Africa''), (''SouthSudan'', ''South Sudan''), (''Sudan'', ''Sudan''),
    (''Tanzania'', ''Tanzania''), (''Togo'', ''Togo''), (''Tunisia'', ''Tunisia''),
    (''Uganda'', ''Uganda''), (''Zambia'', ''Zambia''), (''Zimbabwe'', ''Zimbabwe''),
    (''Afghanistan'', ''Afghanistan''), (''Bahrain'', ''Bahrain''), (''Bangladesh'', ''Bangladesh''),
    (''Bhutan'', ''Bhutan''), (''Brunei'', ''Brunei''), (''Cambodia'', ''Cambodia''),
    (''China'', ''China''), (''EastTimor'', ''East Timor''), (''India'', ''India''),
    (''Indonesia'', ''Indonesia''), (''Iran'', ''Iran''), (''Iraq'', ''Iraq''), (''Israel'', ''Israel''),
    (''Japan'', ''Japan''), (''Jordan'', ''Jordan''), (''Kuwait'', ''Kuwait''),
    (''Kyrgyzstan'', ''Kyrgyzstan''), (''Laos'', ''Laos''), (''Lebanon'', ''Lebanon''),
    (''Malaysia'', ''Malaysia''), (''Maldives'', ''Maldives''), (''Mongolia'', ''Mongolia''),
    (''Myanmar'', ''Myanmar''), (''Nepal'', ''Nepal''), (''NorthKorea'', ''North Korea''),
    (''Oman'', ''Oman''), (''Pakistan'', ''Pakistan''), (''Palestine'', ''Palestine''),
    (''Philippines'', ''Philippines''), (''Qatar'', ''Qatar''), (''SaudiArabia'', ''Saudi Arabia''),
    (''Singapore'', ''Singapore''), (''SouthKorea'', ''South Korea''), (''SriLanka'', ''Sri Lanka''),
    (''Syria'', ''Syria''), (''Taiwan'', ''Taiwan''), (''Tajikistan'', ''Tajikistan''),
    (''Thailand'', ''Thailand''), (''Turkmenistan'', ''Turkmenistan''),
    (''UnitedArabEmirates'', ''United Arab Emirates''), (''Uzbekistan'', ''Uzbekistan''),
    (''Vietnam'', ''Vietnam''), (''Yemen'', ''Yemen''), (''Australia'', ''Australia''),
    (''NewZealand'', ''New Zealand''), (''AntiguaAndBarbuda'', ''Antigua and Barbuda''),
    (''Bahamas'', ''Bahamas''), (''Barbados'', ''Barbados''), (''Belize'', ''Belize''),
    (''Cuba'', ''Cuba''), (''Dominica'', ''Dominica''), (''DominicanRepublic'', ''Dominican Republic''),
    (''Grenada'', ''Grenada''), (''Haiti'', ''Haiti''), (''Jamaica'', ''Jamaica''),
    (''SaintKittsAndNevis'', ''Saint Kitts and Nevis''), (''SaintLucia'', ''Saint Lucia''),
    (''SaintVincentAndTheGrenadines'', ''Saint Vincent and the Grenadines''),
    (''TrinidadAndTobago'', ''Trinidad and Tobago'')]"

definition region_display :: "regions \<Rightarrow> string" where
  "region_display r = unwrap_or (map_of region_texts r) []"

definition region_aliases :: "(string \<times> regions) list" where
  "region_aliases = [
    (''united states'', ''UnitedStates''), (''us'', ''UnitedStates''), (''canada'', ''Canada''),
    (''ca'', ''Canada''), (''mexico'', ''Mexico''), (''mx'', ''Mexico''), (''ghana'', ''Ghana''),
    (''gh'', ''Ghana''), (''nigeria'', ''Nigeria''), (''ng'', ''Nigeria''), (''colombia'', ''Colombia''),
    (''co'', ''Colombia''), (''lr'', ''Liberia''), (''libya'', ''Libya''), (''ly'', ''Libya''),
    (''madagascar'', ''Madagascar''), (''mg'', ''Madagascar''), (''malawi'', ''Malawi''),
    (''mw'', ''Malawi''), (''mali'', ''Mali''), (''ml'', ''Mali''), (''mauritania'', ''Mauritania''),
    (''mr'', ''Mauritania''), (''mauritius'', ''Mauritius''), (''mu'', ''Mauritius''),
    (''morocco'', ''Morocco''), (''ma'', ''Morocco''), (''mozambique'', ''Mozambique''),
    (''mz'', ''Mozambique''), (''namibia'', ''Namibia''), (''na'', ''Namibia''), (''niger'', ''Niger''),
    (''ne'', ''Niger''), (''rwanda'', ''Rwanda''), (''rw'', ''Rwanda''),
    (''sao tome and principe'', ''SaoTomeAndPrincipe''), (''st'', ''SaoTomeAndPrincipe''),
    (''senegal'', ''Senegal''), (''sn'', ''Senegal''), (''seychelles'', ''Seychelles''),
    (''sc'', ''Seychelles''), (''sierra leone'', ''SierraLeone''), (''sl'', ''SierraLeone''),
    (''somalia'', ''Somalia''), (''so'', ''Somalia''), (''south africa'', ''SouthAfrica''),
    (''za'', ''SouthAfrica''), (''south sudan'', ''SouthSudan''), (''ss'', ''SouthSudan''),
    (''sudan'', ''Sudan''), (''sd'', ''Sudan''), (''tanzania'', ''Tanzania''), (''tz'', ''Tanzania''),
    (''togo'', ''Togo''), (''tg'', ''Togo''), (''tunisia'', ''Tunisia''), (''tn'', ''Tunisia''),
    (''uganda'', ''Uganda''), (''ug'', ''Uganda''), (''zambia'', ''Zambia''), (''zm'', ''Zambia''),
    (''zimbabwe'', ''Zimbabwe''), (''zw'', ''Zimbabwe''), (''afghanistan'', ''Afghanistan''),
    (''af'', ''Afghanistan''), (''bahrain'', ''Bahrain''), (''bh'', ''Bahrain''),
    (''bangladesh'', ''Bangladesh''), (''bd'', ''Bangladesh''), (''bhutan'', ''Bhutan''),
    (''bt'', ''Bhutan''), (''brunei'', ''Brunei''), (''bn'', ''Brunei''), (''cambodia'', ''Cambodia''),
    (''kh'', ''Cambodia''), (''china'', ''China''), (''cn'', ''China''), (''east timor'', ''EastTimor''),
    (''tl'', ''EastTimor''), (''india'', ''India''), (''in'', ''India''), (''indonesia'', ''Indonesia''),
    (''id'', ''Indonesia''), (''iran'', ''Iran''), (''ir'', ''Iran''), (''iraq'', ''Iraq''),
    (''iq'', ''Iraq''), (''israel'', ''Israel''), (''il'', ''Israel''), (''japan'', ''Japan''),
    (''jp'', ''Japan''), (''jordan'', ''Jordan''), (''jo'', ''Jordan''), (''kuwait'', ''Kuwait''),
    (''kw'', ''Kuwait''), (''kyrgyzstan'', ''Kyrgyzstan''), (''kg'', ''Kyrgyzstan''),
    (''eswatini'', ''Eswatini''), (''ethiopia'', ''Ethiopia''), (''gabon'', ''Gabon''),
    (''gambia'', ''Gambia''), (''guinea'', ''Guinea''), (''guinea-bissau'', ''GuineaBissau''),
    (''ivory coast'', ''IvoryCoast''), (''kenya'', ''Kenya''), (''lesotho'', ''Lesotho''),
    (''liberia'', ''Liberia''), (''laos'', ''Laos''), (''la'', ''Laos''), (''lebanon'', ''Lebanon''),
    (''lb'', ''Lebanon''), (''malaysia'', ''Malaysia''), (''my'', ''Malaysia''),
    (''maldives'', ''Maldives''), (''mv'', ''Maldives''), (''mongolia'', ''Mongolia''),
    (''mn'', ''Mongolia''), (''myanmar'', ''Myanmar''), (''mm'', ''Myanmar''), (''nepal'', ''Nepal''),
    (''np'', ''Nepal''), (''north korea'', ''NorthKorea''), (''kp'', ''NorthKorea''), (''oman'', ''Oman''),
    (''om'', ''Oman''), (''pakistan'', ''Pakistan''), (''pk'', ''Pakistan''),
    (''palestine'', ''Palestine''), (''ps'', ''Palestine''), (''philippines'', ''Philippines''),
    (''ph'', ''Philippines''), (''qatar'', ''Qatar''), (''qa'', ''Qatar''),
    (''saudi arabia'', ''SaudiArabia''), (''sa'', ''SaudiArabia''), (''singapore'', ''Singapore''),
    (''sg'', ''Singapore''), (''south korea'', ''SouthKorea''), (''kr'', ''SouthKorea''),
    (''sri lanka'', ''SriLanka''), (''lk'', ''SriLanka''), (''syria'', ''Syria''), (''sy'', ''Syria''),
    (''taiwan'', ''Taiwan''), (''tw'', ''Taiwan''), (''tajikistan'', ''Tajikistan''),
    (''tj'', ''Tajikistan''), (''thailand'', ''Thailand''), (''th'', ''Thailand''),
    (''turkmenistan'', ''Turkmenistan''), (''tm'', ''Turkmenistan''),
    (''united arab emirates'', ''UnitedArabEmirates''), (''uae'', ''UnitedArabEmirates''),
    (''uzbekistan'', ''Uzbekistan''), (''uz'', ''Uzbekistan''), (''vietnam'', ''Vietnam''),
    (''vn'', ''Vietnam''), (''yemen'', ''Yemen''), (''ye'', ''Yemen''), (''australia'', ''Australia''),
    (''au'', ''Australia''), (''new zealand'', ''NewZealand''), (''nz'', ''NewZealand''),
    (''antigua and barbuda'', ''AntiguaAndBarbuda''), (''ag'', ''AntiguaAndBarbuda''),
    (''bahamas'', ''Bahamas''), (''bs'', ''Bahamas''), (''barbados'', ''Barbados''),
    (''bb'', ''Barbados''), (''belize'', ''Belize''), (''bz'', ''Belize''), (''cuba'', ''Cuba''),
    (''cu'', ''Cuba''), (''dominica'', ''Dominica''), (''dm'', ''Dominica''),
    (''dominican republic'', ''DominicanRepublic''), (''do'', ''DominicanRepublic''),
    (''grenada'', ''Grenada''), (''gd'', ''Grenada''), (''haiti'', ''Haiti''), (''ht'', ''Haiti''),
    (''jamaica'', ''Jamaica''), (''jm'', ''Jamaica''), (''saint kitts and nevis'', ''SaintKittsAndNevis''),
    (''kn'', ''SaintKittsAndNevis''), (''saint lucia'', ''SaintLucia''), (''lc'', ''SaintLucia''),
    (''saint vincent and the grenadines'', ''SaintVincentAndTheGrenadines''),
    (''vc'', ''SaintVincentAndTheGrenadines''), (''trinidad and tobago'', ''TrinidadAndTobago''),
    (''tt'', ''TrinidadAndTobago'')]"

definition region_from_str :: "string \<Rightarrow> unit + regions" where
  "region_from_str s = (case map_of region_aliases (to_lowercase s) of Some r \<Rightarrow> Ok r | None \<Rightarrow> Err ())"

section \<open>Facts\<close>

lemma region_names_codes: "map fst region_names = [Suc 0..<180]"
  by (simp add: region_names_def upt_rec)

lemma region_codes_names: "map prod.swap (filter (\<lambda>(r, c). c \<noteq> 0) region_codes) = region_names"
  by (simp add: region_names_def region_codes_def)

text \<open>The variants in the order of the declaration, as positions of the table of codes: the match is exhaustive.\<close>

definition region_positions :: "nat list" where
  "region_positions = [
      0, 1, 3, 79, 80, 81, 82, 5, 83, 84, 85, 86, 87, 88, 89, 90, 91, 92, 93, 94, 95, 96,
      97, 98, 99, 100, 101, 102, 103, 104, 105, 106, 107, 108, 109, 110, 111, 112, 113, 114, 115, 116, 117, 118,
      119, 120, 121, 122, 123, 124, 125, 126, 127, 128, 129, 130, 131, 132, 133, 134, 135, 136, 137, 138, 139, 140,
      78, 141, 142, 143, 144, 145, 146, 147, 148, 149, 150, 151, 152, 153, 154, 155, 156, 157, 158, 159, 160, 161,
      2, 162, 163, 164, 165, 166, 167, 168, 169, 170, 171, 172, 173, 174, 175, 176, 177, 4, 178, 179, 6, 7,
      8, 9, 10, 11, 12, 13, 14, 15, 16, 17, 18, 19, 20, 21, 22, 23, 24, 25, 26, 27, 28, 29,
      30, 31, 32, 33, 34, 35, 36, 37, 38, 39, 40, 41, 42, 43, 44, 45, 46, 47, 48, 49, 50, 51,
      52, 53, 54, 55, 56, 57, 58, 59, 60, 61, 62, 63, 64, 65, 66, 67, 68, 69, 70, 71, 72, 73,
      74, 75, 76, 77]"

lemma region_codes_keys: "all_regions = map (\<lambda>i. fst (region_codes ! i)) region_positions"
  by (simp add: all_regions_def region_codes_def region_positions_def)

lemma region_positions_bound: "list_all (\<lambda>i. i < length region_codes) region_positions"
proof -
  have "length region_codes = 180" by (simp add: region_codes_def)
  then show ?thesis by (simp add: region_positions_def)
qed

lemma region_has_code:
  assumes "r \<in> set all_regions"
  obtains c where "(r, c) \<in> set region_codes" and "map_of region_codes r = Some c"
proof -
  obtain i where "i \<in> set region_positions" and r: "r = fst (region_codes ! i)"
    using assms by (subst (asm) region_codes_keys) auto
  then have "i < length region_codes" using region_positions_bound by (simp add: list_all_iff)
  then have "r \<in> fst ` set region_codes" using r by auto
  then have "map_of region_codes r \<noteq> None" by (simp add: map_of_eq_None_iff)
  then show thesis using that map_of_SomeD by fast
qed

lemma region_code_names:
  assumes "(r, c) \<in> set region_codes" and "c \<noteq> 0"
  shows "map_of region_names c = Some r" and "c < 256"
proof -
  have in_names: "(c, r) \<in> set region_names" using assms by (force simp flip: region_codes_names)
  show "map_of region_names c = Some r"
    by (rule map_of_is_SomeI[OF _ in_names]) (simp add: region_names_codes)
  have "c \<in> set (map fst region_names)" using in_names by force
  then show "c < 256" unfolding region_names_codes by simp
qed

lemma region_zero: "(r, 0) \<in> set region_codes \<Longrightarrow> r = ''UnkownRegion''"
  by (simp add: region_codes_def)

lemma region_round_trip: "r \<in> set all_regions \<Longrightarrow> region_from_u8 (region_to_u8 r) = r"
proof -
  assume "r \<in> set all_regions"
  then obtain c where mem: "(r, c) \<in> set region_codes" and c: "map_of region_codes r = Some c"
    by (rule region_has_code)
  show ?thesis
  proof (cases "c = 0")
    case True
    have "0 \<notin> set (map fst region_names)" unfolding region_names_codes by simp
    then have "map_of region_names 0 = None" by (simp add: map_of_eq_None_iff)
    with True c region_zero mem show ?thesis by (simp add: region_from_u8_def region_to_u8_def)
  next
    case False
    with c region_code_names[OF mem] show ?thesis
      by (simp add: region_from_u8_def region_to_u8_def take_bit_nat_eq_self unsigned_of_nat)
  qed
qed

text \<open>\<open>FromStr\<close> knows no text for many of the regions.\<close>

lemma region_without_text:
  "region_from_str s \<noteq> Ok ''Germany''" "region_from_str s \<noteq> Ok ''Brazil''" "region_from_str s \<noteq> Ok ''Egypt''"
proof -
  have "r \<notin> set (map snd region_aliases) \<Longrightarrow> region_from_str s \<noteq> Ok r" for r
    by (force simp: region_from_str_def dest: map_of_SomeD split: option.splits)
  moreover have "''Germany'' \<notin> set (map snd region_aliases)" "''Brazil'' \<notin> set (map snd region_aliases)"
    "''Egypt'' \<notin> set (map snd region_aliases)" by (simp_all add: region_aliases_def)
  ultimately show "region_from_str s \<noteq> Ok ''Germany''" "region_from_str s \<noteq> Ok ''Brazil''"
    "region_from_str s \<noteq> Ok ''Egypt''" by simp_all
qed

end
