(* ===== verification/Client_Db.thy ===== *)
theory Client_Db
  imports Althea_Db Regions
begin

text \<open>
  \<open>rita_client_registration/src/client_db.rs\<close>: how routers and exits talk to the registration contract. The queries
  return bytes in the ABI encoding of Solidity, which this file decodes by hand; slices out of range panic.

  The crates \<open>clarity\<close> (numbers and addresses from bytes, call data) and \<open>web30\<close> (the full node) are parameters. The
  laws of the former the decoder relies on are the locale \<open>clarity_laws\<close>, with the big endian reading as its
  interpretation. Gas options and time limits are passed through to the node and left out.
\<close>

section \<open>Bytes\<close>

definition be_val :: "u8 list \<Rightarrow> nat" where
  "be_val bs = foldl (\<lambda>a b. a * 256 + unat b) 0 bs"

fun be_bytes :: "nat \<Rightarrow> nat \<Rightarrow> u8 list" where
  "be_bytes 0 v = []"
| "be_bytes (Suc n) v = be_bytes n (v div 256) @ [of_nat (v mod 256)]"

function chunks :: "nat \<Rightarrow> 'a list \<Rightarrow> 'a list list" where
  "chunks n xs = (if xs = [] \<or> n = 0 then [] else take n xs # chunks n (drop n xs))"
  by pat_completeness auto
termination by (relation "measure (\<lambda>(n, xs). length xs)") auto

declare chunks.simps [simp del]

text \<open>\<open>usize\<close> arithmetic wraps.\<close>

definition usize :: "nat \<Rightarrow> nat" where
  "usize n = n mod 2 ^ 64"

text \<open>\<open>a[lo..hi]\<close>, which panics out of range.\<close>

definition slice :: "nat \<Rightarrow> nat \<Rightarrow> 'a list \<Rightarrow> 'a list option" where
  "slice lo hi xs = (if lo \<le> hi \<and> hi \<le> length xs then Some (take (hi - lo) (drop lo xs)) else None)"

section \<open>The crates\<close>

record clarity =
  u256_from_be_bytes :: "u8 list \<Rightarrow> 256 word"
  address_from_slice :: "u8 list \<Rightarrow> address option"
  bytes_to_hex_str :: "u8 list \<Rightarrow> string"

datatype web3_error = BadInput | ParseInt | NodeError nat

datatype abi_token = Uint nat | Address address | Struct "abi_token list" | Dynamic "abi_token list"

record ('w, 'p, 'tx) eth_node =
  encode_call :: "string \<Rightarrow> abi_token list \<Rightarrow> web3_error + 'p"
  simulate_transaction :: "address \<Rightarrow> address \<Rightarrow> 'p \<Rightarrow> 'w \<Rightarrow> (web3_error + u8 list) \<times> 'w"
  prepare_transaction :: "address \<Rightarrow> 'p \<Rightarrow> address \<Rightarrow> 'w \<Rightarrow> (web3_error + 'tx) \<times> 'w"
  send_prepared_transaction :: "'tx \<Rightarrow> 'w \<Rightarrow> (web3_error + nat) \<times> 'w"
  wait_for_transaction :: "nat \<Rightarrow> 'w \<Rightarrow> (web3_error + unit) \<times> 'w"

type_synonym ('w, 'a) wio = "('w, web3_error, 'a) rio"

definition awaiting :: "('w \<Rightarrow> (web3_error + 'a) \<times> 'w) \<Rightarrow> ('w, 'a) wio" where
  "awaiting f = (\<lambda>w. Some (f w))"

section \<open>Exit identities\<close>

text \<open>The two hash sets are lists in the order of iteration.\<close>

record exit_identity =
  ei_mesh_ip :: ip_addr
  ei_wg_key :: wg_key
  ei_eth_addr :: address
  ei_registration_port :: u16
  ei_wg_exit_listen_port :: u16
  ei_allowed_regions :: "regions list"
  ei_payment_types :: "system_chain list"

definition exit_identity_to_id :: "exit_identity \<Rightarrow> identity" where
  "exit_identity_to_id x = \<lparr>mesh_ip = ei_mesh_ip x, eth_address = ei_eth_addr x, wg_public_key = ei_wg_key x\<rparr>"

section \<open>Decoding\<close>

definition WORD_SIZE :: nat where "WORD_SIZE = 32"

definition to_evm_words :: "u8 list \<Rightarrow> u8 list list" where
  "to_evm_words input = chunks WORD_SIZE input"

definition parse_identity_abi :: "clarity \<Rightarrow> u8 list list \<Rightarrow> (web3_error + identity) option" where
  "parse_identity_abi C byte_chunks =
     (if length byte_chunks \<noteq> 3 then Some (Err BadInput)
      else Option.bind (slice 16 32 (byte_chunks ! 0)) (\<lambda>ip.
        let mesh = (of_nat (be_val ip) :: u128)
        in if mesh = 0 then Some (Err BadInput)
           else let key = u256_from_be_bytes C (byte_chunks ! 1)
                in Option.bind (slice 12 (length (byte_chunks ! 2)) (byte_chunks ! 2)) (\<lambda>a.
                   case address_from_slice C a of
                     None \<Rightarrow> Some (Err BadInput)
                   | Some addr \<Rightarrow> Some (Ok \<lparr>mesh_ip = V6 mesh, eth_address = addr, wg_public_key = key\<rparr>))))"

fun parse_identities ::
  "clarity \<Rightarrow> u8 list list \<Rightarrow> nat \<Rightarrow> nat \<Rightarrow> identity list \<Rightarrow> (web3_error + identity list) option" where
  "parse_identities C byte_chunks index 0 ret = Some (Ok ret)"
| "parse_identities C byte_chunks index (Suc n) ret =
     (if index + 3 \<le> length byte_chunks
      then Option.bind (parse_identity_abi C (take 3 (drop index byte_chunks))) (\<lambda>r.
           parse_identities C byte_chunks (index + 3) n (case r of Inr a \<Rightarrow> ret @ [a] | Inl _ \<Rightarrow> ret))
      else Some (Err BadInput))"

definition parse_identity_array_abi :: "clarity \<Rightarrow> u8 list \<Rightarrow> (web3_error + identity list) option" where
  "parse_identity_array_abi C bytes =
     (let byte_chunks = to_evm_words bytes
      in if length byte_chunks = 2 then Some (Ok [])
         else if length byte_chunks < 5 then Some (Err BadInput)
         else case parse_uint 16 (2 ^ 64 - 1) (bytes_to_hex_str C (byte_chunks ! 1)) of
                None \<Rightarrow> Some (Err ParseInt)
              | Some arr_len \<Rightarrow> parse_identities C byte_chunks 2 arr_len [])"

text \<open>Reading a byte offset as a number of words, and the low eight bytes of a word as a length.\<close>

definition word_offset :: "clarity \<Rightarrow> u8 list \<Rightarrow> nat" where
  "word_offset C a = usize (unat (u256_from_be_bytes C a) div WORD_SIZE)"

definition word_length :: "u8 list \<Rightarrow> nat option" where
  "word_length a = map_option be_val (slice 24 WORD_SIZE a)"

definition word_port :: "clarity \<Rightarrow> u8 list \<Rightarrow> u16" where
  "word_port C a = of_nat (unat (u256_from_be_bytes C a))"

text \<open>The last bytes of the words of an array, each of which is looked up as a code.\<close>

fun word_codes :: "(u8 \<Rightarrow> 'a) \<Rightarrow> u8 list list \<Rightarrow> 'a list \<Rightarrow> 'a list option" where
  "word_codes f [] acc = Some acc"
| "word_codes f (w # ws) acc =
     (if WORD_SIZE - 1 < length w then word_codes f ws (set_insert (f (w ! (WORD_SIZE - 1))) acc) else None)"

definition parse_exit_identity_abi :: "clarity \<Rightarrow> u8 list list \<Rightarrow> (web3_error + exit_identity) option" where
  "parse_exit_identity_abi C byte_chunks =
     (if length byte_chunks < 9 then Some (Err BadInput)
      else Option.bind (parse_identity_abi C (take 3 byte_chunks)) (\<lambda>r. case r of Inl e \<Rightarrow> Some (Err e) | Inr exit_id \<Rightarrow>
        let regions_start = word_offset C (byte_chunks ! 5);
            payment_start = word_offset C (byte_chunks ! 6)
        in if \<not> regions_start < length byte_chunks then Some (Err BadInput)
           else Option.bind (word_length (byte_chunks ! regions_start)) (\<lambda>regions_arr_len.
                if \<not> payment_start < length byte_chunks then Some (Err BadInput)
                else Option.bind (word_length (byte_chunks ! payment_start)) (\<lambda>payment_arr_len.
                  if length byte_chunks < usize (9 + regions_arr_len + payment_arr_len) then Some (Err BadInput)
                  else Option.bind (word_codes region_from_u8
                         (drop (usize (regions_start + 1))
                            (take (usize (regions_arr_len + regions_start + 1)) byte_chunks)) []) (\<lambda>reg_arr.
                       Option.bind (word_codes chain_from_u8
                         (drop (usize (payment_start + 1))
                            (take (usize (payment_arr_len + payment_start + 1)) byte_chunks)) []) (\<lambda>payment_arr.
                       Some (Ok \<lparr>ei_mesh_ip = mesh_ip exit_id, ei_wg_key = wg_public_key exit_id,
                         ei_eth_addr = eth_address exit_id, ei_registration_port = word_port C (byte_chunks ! 3),
                         ei_wg_exit_listen_port = word_port C (byte_chunks ! 4), ei_allowed_regions = reg_arr,
                         ei_payment_types = payment_arr\<rparr>)))))))"

fun parse_exits ::
  "clarity \<Rightarrow> u8 list list \<Rightarrow> nat list \<Rightarrow> exit_identity list \<Rightarrow> (web3_error + exit_identity list) option" where
  "parse_exits C byte_chunks [] ret = Some (Ok ret)"
| "parse_exits C byte_chunks (i # is) ret =
     (if length byte_chunks \<le> i then Some (Err BadInput)
      else let next_index_pos = word_offset C (byte_chunks ! i);
               start = usize (2 + next_index_pos)
           in if start \<le> length byte_chunks
              then Option.bind (parse_exit_identity_abi C (drop start byte_chunks)) (\<lambda>r.
                   parse_exits C byte_chunks is (case r of Inr a \<Rightarrow> ret @ [a] | Inl _ \<Rightarrow> ret))
              else parse_exits C byte_chunks is ret)"

definition parse_exit_identity_array_abi :: "clarity \<Rightarrow> u8 list \<Rightarrow> (web3_error + exit_identity list) option" where
  "parse_exit_identity_array_abi C bytes =
     (let byte_chunks = to_evm_words bytes
      in if length byte_chunks = 2 then Some (Ok [])
         else if length byte_chunks < 11 then Some (Err BadInput)
         else Option.bind (word_length (byte_chunks ! 1)) (\<lambda>num_entries.
              parse_exits C byte_chunks [2..<usize (2 + num_entries)] []))"

section \<open>Queries\<close>

definition query ::
  "('w, 'p, 'tx) eth_node \<Rightarrow> address \<Rightarrow> address \<Rightarrow> string \<Rightarrow> abi_token list \<Rightarrow> ('w, u8 list) wio" where
  "query N requester contract sig args =
     rbind (rlift (encode_call N sig args)) (\<lambda>payload.
     awaiting (simulate_transaction N requester contract payload))"

definition decoded :: "(web3_error + 'a) option \<Rightarrow> ('w, 'a) wio" where
  "decoded r = (\<lambda>w. map_option (\<lambda>x. (x, w)) r)"

definition get_all_regsitered_clients ::
  "clarity \<Rightarrow> ('w, 'p, 'tx) eth_node \<Rightarrow> address \<Rightarrow> address \<Rightarrow> ('w, identity list) wio" where
  "get_all_regsitered_clients C N requester contract =
     rbind (query N requester contract ''getAllRegisteredUsers()'' []) (\<lambda>res. decoded (parse_identity_array_abi C res))"

definition get_registered_client_using_wgkey ::
  "clarity \<Rightarrow> ('w, 'p, 'tx) eth_node \<Rightarrow> wg_key \<Rightarrow> address \<Rightarrow> address \<Rightarrow> ('w, identity) wio" where
  "get_registered_client_using_wgkey C N key requester contract =
     rbind (query N requester contract ''getRegisteredClientWithWgKey(uint256)'' [Uint (unat key)]) (\<lambda>res.
     decoded (parse_identity_abi C (chunks WORD_SIZE res)))"

definition get_exits_list ::
  "clarity \<Rightarrow> ('w, 'p, 'tx) eth_node \<Rightarrow> address \<Rightarrow> address \<Rightarrow> ('w, exit_identity list) wio" where
  "get_exits_list C N requester contract =
     rbind (query N requester contract ''getAllRegisteredExits()'' []) (\<lambda>res. decoded (parse_exit_identity_array_abi C res))"

definition check_user_admin ::
  "clarity \<Rightarrow> ('w, 'p, 'tx) eth_node \<Rightarrow> address \<Rightarrow> address \<Rightarrow> address \<Rightarrow> ('w, bool) wio" where
  "check_user_admin C N contract user_admin our_address =
     rbind (query N our_address contract ''isUserAdmin(address)'' [Address user_admin]) (\<lambda>res.
     rret (res \<noteq> [] \<and> u256_from_be_bytes C (hd (chunks WORD_SIZE res)) = 1))"

text \<open>Without the test for an empty answer of the function above, indexing the empty list panics.\<close>

definition check_exit_admin ::
  "clarity \<Rightarrow> ('w, 'p, 'tx) eth_node \<Rightarrow> address \<Rightarrow> address \<Rightarrow> address \<Rightarrow> ('w, bool) wio" where
  "check_exit_admin C N contract exit_admin our_address =
     rbind (query N our_address contract ''isExitAdmin(address)'' [Address exit_admin]) (\<lambda>res.
     if chunks WORD_SIZE res = [] then (\<lambda>_. None)
     else rret (u256_from_be_bytes C (hd (chunks WORD_SIZE res)) = 1))"

section \<open>Transactions\<close>

definition transact ::
  "('w, 'p, 'tx) eth_node \<Rightarrow> address \<Rightarrow> string \<Rightarrow> abi_token list \<Rightarrow> address \<Rightarrow> bool \<Rightarrow> ('w, nat) wio" where
  "transact N contract sig args sender wait =
     rbind (rlift (encode_call N sig args)) (\<lambda>payload.
     rbind (awaiting (prepare_transaction N contract payload sender)) (\<lambda>tx.
     rbind (awaiting (send_prepared_transaction N tx)) (\<lambda>tx_hash.
     if wait then rbind (awaiting (wait_for_transaction N tx_hash)) (\<lambda>_. rret tx_hash) else rret tx_hash)))"

fun encode_clients :: "identity list \<Rightarrow> web3_error + abi_token list" where
  "encode_clients [] = Ok []"
| "encode_clients (user # users) =
     (case mesh_ip user of
        V4 _ \<Rightarrow> Err BadInput
      | V6 ip \<Rightarrow> (case encode_clients users of Inl e \<Rightarrow> Err e | Inr ts \<Rightarrow>
          Ok (Struct [Uint (unat ip), Uint (unat (wg_public_key user)), Address (eth_address user)] # ts)))"

definition add_users_to_registered_list ::
  "('w, 'p, 'tx) eth_node \<Rightarrow> identity list \<Rightarrow> address \<Rightarrow> address \<Rightarrow> bool \<Rightarrow> ('w, nat) wio" where
  "add_users_to_registered_list N users contract sender wait =
     rbind (rlift (encode_clients users)) (\<lambda>encoded_clients.
     transact N contract ''addRegisteredUsersBulk((uint128,uint256,address)[])'' [Dynamic encoded_clients] sender wait)"

definition allowed_regions_abi_array :: "regions list \<Rightarrow> abi_token list" where
  "allowed_regions_abi_array rs = map (\<lambda>r. Uint (unat (region_to_u8 r))) rs"

definition payment_types_abi_array :: "system_chain list \<Rightarrow> abi_token list" where
  "payment_types_abi_array cs = map (\<lambda>c. Uint (unat (chain_to_u8 c))) cs"

fun encode_exits :: "exit_identity list \<Rightarrow> web3_error + abi_token list" where
  "encode_exits [] = Ok []"
| "encode_exits (x # xs) =
     (case ei_mesh_ip x of
        V4 _ \<Rightarrow> Err BadInput
      | V6 ip \<Rightarrow> (case encode_exits xs of Inl e \<Rightarrow> Err e | Inr ts \<Rightarrow>
          Ok (Struct [Uint (unat ip), Uint (unat (ei_wg_key x)), Address (ei_eth_addr x),
                Uint (unat (ei_registration_port x)), Uint (unat (ei_wg_exit_listen_port x)),
                Dynamic (allowed_regions_abi_array (ei_allowed_regions x)),
                Dynamic (payment_types_abi_array (ei_payment_types x))] # ts)))"

definition add_exits_to_registration_list ::
  "('w, 'p, 'tx) eth_node \<Rightarrow> exit_identity list \<Rightarrow> address \<Rightarrow> address \<Rightarrow> bool \<Rightarrow> ('w, nat) wio" where
  "add_exits_to_registration_list N exits contract sender wait =
     rbind (rlift (encode_exits exits)) (\<lambda>encoded_exits.
     transact N contract ''addRegisteredExitsBulk((uint128,uint256,address,uint16,uint16,uint256[],uint256[])[])''
       [Dynamic encoded_exits] sender wait)"

definition check_and_add_user_admin ::
  "clarity \<Rightarrow> ('w, 'p, 'tx) eth_node \<Rightarrow> address \<Rightarrow> address \<Rightarrow> address \<Rightarrow> bool \<Rightarrow> ('w, unit) wio" where
  "check_and_add_user_admin C N contract user_admin our_address wait =
     rbind (check_user_admin C N contract user_admin our_address) (\<lambda>is_admin.
     if is_admin then rret ()
     else rbind (transact N contract ''addUserAdmin(address)'' [Address user_admin] our_address wait) (\<lambda>_. rret ()))"

definition add_exit_admin ::
  "clarity \<Rightarrow> ('w, 'p, 'tx) eth_node \<Rightarrow> address \<Rightarrow> address \<Rightarrow> address \<Rightarrow> bool \<Rightarrow> ('w, unit) wio" where
  "add_exit_admin C N contract exit_admin our_address wait =
     rbind (check_exit_admin C N contract exit_admin our_address) (\<lambda>is_admin.
     if is_admin then rret ()
     else rbind (transact N contract ''addExitAdmin(address)'' [Address exit_admin] our_address wait) (\<lambda>_. rret ()))"

end
