(* ===== verification/Abi_Roundtrip.thy ===== *)
theory Abi_Roundtrip
  imports Client_Db
begin

text \<open>
  The decoder of \<open>client_db.rs\<close> against the ABI encoding: what the contract returns for its lists of users and exits,
  written out as in the examples of the source, decodes to exactly those users and exits, except for the null entries
  the decoder skips.
\<close>

section \<open>Laws of the crates\<close>

fun hex_pair :: "u8 \<Rightarrow> string" where
  "hex_pair b = [hex_char (unat b div 16), hex_char (unat b mod 16)]"

locale clarity_laws =
  fixes C :: clarity
  assumes u256_of_word: "length bs = 32 \<Longrightarrow> u256_from_be_bytes C bs = of_nat (be_val bs)"
    and address_of_slice: "length bs = 20 \<Longrightarrow> address_from_slice C bs = Some (of_nat (be_val bs))"
    and hex_of_bytes: "bytes_to_hex_str C bs = concat (map hex_pair bs)"

definition be_clarity :: clarity where
  "be_clarity = \<lparr>u256_from_be_bytes = (\<lambda>bs. of_nat (be_val bs)),
     address_from_slice = (\<lambda>bs. if length bs = 20 then Some (of_nat (be_val bs)) else None),
     bytes_to_hex_str = (\<lambda>bs. concat (map hex_pair bs))\<rparr>"

interpretation be_clarity: clarity_laws be_clarity
  by unfold_locales (simp_all add: be_clarity_def)

section \<open>Bytes and words\<close>

lemma unat_u8: "unat (b :: u8) < 256"
  using unsigned_less[of b, where ?'a = nat] by simp

lemma length_be_bytes [simp]: "length (be_bytes n v) = n"
  by (induction n arbitrary: v) auto

lemma be_val_snoc [simp]: "be_val (bs @ [b]) = be_val bs * 256 + unat b"
  by (simp add: be_val_def)

lemma be_val_Nil [simp]: "be_val [] = 0"
  by (simp add: be_val_def)

lemma be_val_be_bytes: "be_val (be_bytes n v) = v mod 256 ^ n"
proof (induction n arbitrary: v)
  case (Suc n)
  have "unat (of_nat (v mod 256) :: u8) = v mod 256" by (simp add: unsigned_of_nat take_bit_nat_eq_self)
  then have "be_val (be_bytes (Suc n) v) = (v div 256 mod 256 ^ n) * 256 + v mod 256" using Suc by simp
  also have "\<dots> = v mod 256 ^ Suc n" by (simp add: mod_mult2_eq)
  finally show ?case .
qed simp

lemma be_val_bound: "be_val bs < 256 ^ length bs"
proof (induction bs rule: rev_induct)
  case (snoc b bs)
  have "unat b < 256" by (rule unat_u8)
  then have "be_val (bs @ [b]) < (be_val bs + 1) * 256" by simp
  also have "\<dots> \<le> 256 ^ length bs * 256" using snoc by (intro mult_right_mono) auto
  finally show ?case by (simp add: mult.commute)
qed simp

lemma drop_be_bytes: "drop k (be_bytes (k + n) v) = be_bytes n v"
proof (induction n arbitrary: v)
  case (Suc n)
  then show ?case by simp
qed simp

lemma chunks_words: "\<forall>w \<in> set ws. length w = 32 \<Longrightarrow> chunks 32 (concat ws) = ws"
proof (induction ws)
  case Nil
  then show ?case by (simp add: chunks.simps)
next
  case (Cons w ws)
  then have "w @ concat ws \<noteq> []" by auto
  with Cons show ?case by (subst chunks.simps) simp
qed

text \<open>A word of the machine, as the ABI stores it.\<close>

definition evm :: "nat \<Rightarrow> u8 list" where
  "evm v = be_bytes 32 v"

lemma length_evm [simp]: "length (evm v) = 32"
  by (simp add: evm_def)

lemma evm_nonempty [simp]: "evm v \<noteq> []"
  using length_evm[of v] by fastforce

lemma slice_evm:
  assumes "k \<le> 32"
  shows "slice k 32 (evm v) = Some (be_bytes (32 - k) v)"
  using drop_be_bytes[of k "32 - k" v] assms by (simp add: slice_def evm_def)

lemma be_val_evm: "be_val (evm v) = v mod 2 ^ 256"
  unfolding evm_def be_val_be_bytes by (simp flip: power_mult)

lemma word_length_evm: "word_length (evm v) = Some (v mod 2 ^ 64)"
  using slice_evm[of 24 v] by (simp add: word_length_def WORD_SIZE_def be_val_be_bytes)

lemma last_byte_evm: "evm v ! 31 = of_nat v"
proof -
  have "evm v = be_bytes 31 (v div 256) @ [of_nat (v mod 256)]"
    unfolding evm_def be_bytes.simps(2)[symmetric] by simp
  then have "evm v ! 31 = of_nat (v mod 256)" by (simp add: nth_append)
  also have "\<dots> = (of_nat v :: u8)" by (rule word_unat_eq_iff[THEN iffD2]) (simp add: unsigned_of_nat take_bit_eq_mod)
  finally show ?thesis .
qed

section \<open>Hexadecimal numbers\<close>

lemma digit_val_hex_char: "d < 16 \<Longrightarrow> digit_val 16 (hex_char d) = Some d"
  by (auto simp: digit_val_def hex_char_def Let_def)

lemma digits_val_hex_pairs:
  "digits_val 16 acc (concat (map hex_pair bs)) = Some (acc * 256 ^ length bs + be_val bs)"
proof (induction bs rule: rev_induct)
  case (snoc b bs)
  have "unat b < 256" by (rule unat_u8)
  then have "unat b div 16 < 16" "unat b mod 16 < 16" by auto
  then show ?case using snoc
    by (simp add: digits_val_append digit_val_hex_char algebra_simps)
qed simp

lemma parse_hex_word:
  assumes "be_val bs \<le> mx" and "bs \<noteq> []"
  shows "parse_uint 16 mx (concat (map hex_pair bs)) = Some (be_val bs)"
proof -
  obtain b bs' where bs: "bs = b # bs'" using assms(2) by (cases bs) auto
  have "unat b < 256" by (rule unat_u8)
  then have lt: "unat b div 16 < 16" by auto
  have ne: "hex_char (unat b div 16) \<noteq> CHR ''+''"
  proof
    assume "hex_char (unat b div 16) = CHR ''+''"
    then have "digit_val 16 (CHR ''+'') = Some (unat b div 16)" using digit_val_hex_char[OF lt] by simp
    then show False by (simp add: digit_val_def)
  qed
  have h: "digits_val 16 0 (concat (map hex_pair bs)) = Some (be_val bs)" using digits_val_hex_pairs[of 0 bs] by simp
  obtain cs where cs: "concat (map hex_pair bs) = hex_char (unat b div 16) # cs" unfolding bs by simp
  show ?thesis using h ne assms(1) unfolding cs by (simp add: parse_uint_def)
qed

section \<open>Users\<close>

definition from_sol :: "sol_identity \<Rightarrow> identity" where
  "from_sol u = \<lparr>mesh_ip = V6 (id_mesh_ip u), eth_address = id_eth_addr u, wg_public_key = id_wg_key u\<rparr>"

definition identity_words :: "sol_identity \<Rightarrow> u8 list list" where
  "identity_words u = [evm (unat (id_mesh_ip u)), evm (unat (id_wg_key u)), evm (unat (id_eth_addr u))]"

definition abi_identity_array :: "sol_identity list \<Rightarrow> u8 list" where
  "abi_identity_array us = concat (evm 32 # evm (length us) # concat (map identity_words us))"

lemma length_identity_words [simp]: "length (identity_words u) = 3"
  by (simp add: identity_words_def)

lemma unat_mod_width: "unat (x :: 'a :: len word) mod 2 ^ LENGTH('a) = unat x"
  using unsigned_less[of x, where ?'a = nat] by simp

lemma evm_unat:
  "be_val (be_bytes 16 (unat (a :: u128))) = unat a" "be_val (be_bytes 20 (unat (b :: address))) = unat b"
  "be_val (evm (unat (c :: 256 word))) = unat c"
  using unat_mod_width[of a] unat_mod_width[of b] unat_mod_width[of c] by (simp_all add: be_val_be_bytes be_val_evm)

context clarity_laws
begin

lemma parse_identity_words:
  "parse_identity_abi C (identity_words u) = Some (if id_mesh_ip u = 0 then Err BadInput else Ok (from_sol u))"
  using slice_evm[of 16 "unat (id_mesh_ip u)"] slice_evm[of 12 "unat (id_eth_addr u)"]
  by (simp add: parse_identity_abi_def identity_words_def evm_unat u256_of_word address_of_slice from_sol_def)

lemma parse_identities_words:
  "parse_identities C (pre @ concat (map identity_words us)) (length pre) (length us) ret
     = Some (Ok (ret @ map from_sol (filter (\<lambda>u. id_mesh_ip u \<noteq> 0) us)))"
proof (induction us arbitrary: pre ret)
  case (Cons u us)
  have "parse_identities C ((pre @ identity_words u) @ concat (map identity_words us)) (length (pre @ identity_words u))
      (length us) ret' = Some (Ok (ret' @ map from_sol (filter (\<lambda>u. id_mesh_ip u \<noteq> 0) us)))" for ret'
    by (rule Cons)
  then show ?case by (simp add: parse_identity_words)
qed simp

lemma parse_users:
  assumes "length us < 2 ^ 64"
  shows "parse_identity_array_abi C (abi_identity_array us)
     = Some (Ok (map from_sol (filter (\<lambda>u. id_mesh_ip u \<noteq> 0) us)))"
proof -
  let ?ws = "[evm 32, evm (length us)] @ concat (map identity_words us)"
  have "\<forall>w \<in> set ?ws. length w = 32" by (auto simp: identity_words_def)
  then have w: "to_evm_words (abi_identity_array us) = ?ws"
    unfolding to_evm_words_def abi_identity_array_def WORD_SIZE_def using chunks_words[of ?ws] by simp
  have l: "length (concat (map identity_words us)) = 3 * length us" by (induction us) simp_all
  show ?thesis
  proof (cases us)
    case Nil
    then show ?thesis using w by (simp add: parse_identity_array_abi_def)
  next
    case (Cons u rest)
    have "length us mod 2 ^ 256 = length us" using assms by simp
    then have "parse_uint 16 (2 ^ 64 - 1) (bytes_to_hex_str C (evm (length us))) = Some (length us)"
      using assms unfolding hex_of_bytes by (subst parse_hex_word) (simp_all add: be_val_evm)
    then show ?thesis using parse_identities_words[of "[evm 32, evm (length us)]" us "[]"] l Cons
      unfolding parse_identity_array_abi_def w by simp
  qed
qed

end

section \<open>Exits\<close>

definition insert_codes :: "(u8 \<Rightarrow> 'a) \<Rightarrow> 256 word list \<Rightarrow> 'a list \<Rightarrow> 'a list" where
  "insert_codes f ws acc = foldl (\<lambda>acc w. set_insert (f (ucast w)) acc) acc ws"

definition from_sol_exit :: "sol_exit_identity \<Rightarrow> exit_identity" where
  "from_sol_exit x = \<lparr>ei_mesh_ip = V6 (xi_mesh_ip x), ei_wg_key = xi_wg_key x, ei_eth_addr = xi_eth_addr x,
     ei_registration_port = xi_registration_port x, ei_wg_exit_listen_port = xi_wg_exit_listen_port x,
     ei_allowed_regions = insert_codes region_from_u8 (xi_allowed_regions x) [],
     ei_payment_types = insert_codes chain_from_u8 (xi_payment_types x) []\<rparr>"

definition exit_words :: "sol_exit_identity \<Rightarrow> u8 list list" where
  "exit_words x = identity_words (exitIdToId x)
     @ [evm (unat (xi_registration_port x)), evm (unat (xi_wg_exit_listen_port x)), evm 224,
        evm (224 + 32 * (1 + length (xi_allowed_regions x)))]
     @ evm (length (xi_allowed_regions x)) # map (\<lambda>w. evm (unat w)) (xi_allowed_regions x)
     @ evm (length (xi_payment_types x)) # map (\<lambda>w. evm (unat w)) (xi_payment_types x)"

definition exit_start :: "sol_exit_identity list \<Rightarrow> nat \<Rightarrow> nat" where
  "exit_start xs k = length xs + length (concat (map exit_words (take k xs)))"

definition exit_array_words :: "sol_exit_identity list \<Rightarrow> u8 list list" where
  "exit_array_words xs = evm 32 # evm (length xs) # map (\<lambda>k. evm (32 * exit_start xs k)) [0..<length xs]
     @ concat (map exit_words xs)"

definition abi_exit_array :: "sol_exit_identity list \<Rightarrow> u8 list" where
  "abi_exit_array xs = concat (exit_array_words xs)"

lemma insert_codes_set: "set (insert_codes f ws acc) = set acc \<union> (\<lambda>w. f (ucast w)) ` set ws"
  by (induction ws arbitrary: acc) (auto simp: insert_codes_def)

lemma word_codes_evm: "word_codes f (map (\<lambda>w. evm (unat w)) ws) acc = Some (insert_codes f ws acc)"
proof (induction ws arbitrary: acc)
  case (Cons w ws)
  have "evm (unat w) ! 31 = ucast w" unfolding last_byte_evm by (simp add: of_nat_unat)
  then show ?case using Cons by (simp add: insert_codes_def WORD_SIZE_def)
qed (simp add: insert_codes_def)

lemma length_exit_words: "length (exit_words x) = 9 + length (xi_allowed_regions x) + length (xi_payment_types x)"
  by (simp add: exit_words_def)

context clarity_laws
begin

lemma word_offset_evm: "v < 2 ^ 64 \<Longrightarrow> word_offset C (evm v) = v div 32"
  by (simp add: word_offset_def u256_of_word be_val_evm unsigned_of_nat take_bit_nat_eq_self usize_def WORD_SIZE_def)

lemma word_port_evm: "word_port C (evm (unat p)) = p"
proof -
  have "unat p < 2 ^ 16" using unsigned_less[of p, where ?'a = nat] by simp
  then have "unat p mod 2 ^ 256 mod 2 ^ 256 = unat p" by simp
  then have "unat (u256_from_be_bytes C (evm (unat p))) = unat p"
    by (simp only: u256_of_word[OF length_evm] be_val_evm unsigned_of_nat take_bit_eq_mod) simp
  then show ?thesis unfolding word_port_def by simp
qed

lemma parse_exit_words:
  assumes "length (exit_words x) < 2 ^ 58"
  shows "parse_exit_identity_abi C (exit_words x @ rest)
     = Some (if xi_mesh_ip x = 0 then Err BadInput else Ok (from_sol_exit x))"
proof -
  let ?r = "length (xi_allowed_regions x)" and ?p = "length (xi_payment_types x)"
  let ?R = "map (\<lambda>w. evm (unat w)) (xi_allowed_regions x)" and ?P = "map (\<lambda>w. evm (unat w)) (xi_payment_types x)"
  let ?W = "exit_words x @ rest"
  have small: "?r + ?p + 9 < 2 ^ 58" using assms by (simp add: length_exit_words)
  obtain a b c where abc: "identity_words (exitIdToId x) = [a, b, c]" by (simp add: identity_words_def)
  have W: "?W = [a, b, c, evm (unat (xi_registration_port x)), evm (unat (xi_wg_exit_listen_port x)), evm 224,
      evm (224 + 32 * (1 + ?r)), evm ?r] @ ?R @ evm ?p # ?P @ rest"
    by (simp add: exit_words_def abc)
  have nth: "?W ! 3 = evm (unat (xi_registration_port x))" "?W ! 4 = evm (unat (xi_wg_exit_listen_port x))"
    "?W ! 5 = evm 224" "?W ! 6 = evm (224 + 32 * (1 + ?r))" "?W ! 7 = evm ?r" "?W ! (8 + ?r) = evm ?p"
    unfolding W by (simp_all add: nth_append)
  have o: "word_offset C (evm 224) = 7" "word_offset C (evm (224 + 32 * (1 + ?r))) = 8 + ?r"
    using small by (simp_all add: word_offset_evm)
  have l: "word_length (evm ?r) = Some ?r" "word_length (evm ?p) = Some ?p"
    using small by (simp_all add: word_length_evm)
  have sl: "drop 8 (take (?r + 8) ?W) = ?R" "drop (9 + ?r) (take (?p + (8 + ?r) + 1) ?W) = ?P"
    unfolding W by (simp_all add: take_Cons' drop_Cons')
  have t: "take 3 ?W = identity_words (exitIdToId x)" unfolding W abc by simp
  have len: "\<not> length ?W < 9" "7 < length ?W" "8 + ?r < length ?W" "\<not> length ?W < 9 + ?r + ?p"
    unfolding W by simp_all
  have us: "usize (9 + ?r + ?p) = 9 + ?r + ?p" "usize (7 + 1) = 8" "usize (?r + 7 + 1) = ?r + 8"
    "usize (8 + ?r + 1) = 9 + ?r" "usize (?p + (8 + ?r) + 1) = ?p + (8 + ?r) + 1"
    using small by (simp_all add: usize_def)
  have "parse_exit_identity_abi C ?W = Some (Ok (from_sol_exit x))" if "xi_mesh_ip x \<noteq> 0"
    using that unfolding parse_exit_identity_abi_def Let_def t parse_identity_words nth o
    by (simp only: exitIdToId_def sol_identity.simps Option.bind.simps sum.case len if_False if_True not_False_eq_True
        not_True_eq_False nth o l us sl word_codes_evm word_port_evm from_sol_exit_def from_sol_def identity.simps)
  moreover have "parse_exit_identity_abi C ?W = Some (Err BadInput)" if "xi_mesh_ip x = 0"
    using that len(1) unfolding parse_exit_identity_abi_def t parse_identity_words by (simp add: exitIdToId_def)
  ultimately show ?thesis by simp
qed

lemma exit_array_entry:
  assumes "k < length xs"
  shows "exit_array_words xs ! (2 + k) = evm (32 * exit_start xs k)"
    and "drop (2 + exit_start xs k) (exit_array_words xs) = exit_words (xs ! k) @ concat (map exit_words (drop (Suc k) xs))"
    and "exit_start xs k + 2 \<le> length (exit_array_words xs)" and "2 + k < length (exit_array_words xs)"
    and "length (exit_words (xs ! k)) \<le> length (exit_array_words xs)"
proof -
  let ?offsets = "map (\<lambda>k. evm (32 * exit_start xs k)) [0..<length xs]"
  have W: "exit_array_words xs = [evm 32, evm (length xs)] @ ?offsets @ concat (map exit_words xs)"
    by (simp add: exit_array_words_def)
  show "exit_array_words xs ! (2 + k) = evm (32 * exit_start xs k)"
    using assms unfolding W by (simp add: nth_append)
  have xs: "xs = take k xs @ xs ! k # drop (Suc k) xs" using assms by (simp add: id_take_nth_drop)
  have c: "concat (map exit_words xs) = concat (map exit_words (take k xs))
      @ exit_words (xs ! k) @ concat (map exit_words (drop (Suc k) xs))"
    by (subst xs) (simp only: map_append concat_append list.map concat.simps)
  show "drop (2 + exit_start xs k) (exit_array_words xs) = exit_words (xs ! k) @ concat (map exit_words (drop (Suc k) xs))"
    unfolding W c exit_start_def by simp
  show "exit_start xs k + 2 \<le> length (exit_array_words xs)" and "2 + k < length (exit_array_words xs)"
    and "length (exit_words (xs ! k)) \<le> length (exit_array_words xs)"
    using assms unfolding W c exit_start_def by simp_all
qed

lemma parse_exit_entries:
  assumes "length (exit_array_words xs) < 2 ^ 58" and "k \<le> length xs"
  shows "parse_exits C (exit_array_words xs) [2 + k..<2 + length xs] ret
     = Some (Ok (ret @ map from_sol_exit (filter (\<lambda>x. xi_mesh_ip x \<noteq> 0) (drop k xs))))"
  using assms(2)
proof (induction "length xs - k" arbitrary: k ret)
  case 0
  then show ?case by simp
next
  case (Suc n)
  then have k: "k < length xs" and n: "n = length xs - Suc k" by auto
  note e = exit_array_entry[OF k]
  have d: "drop k xs = xs ! k # drop (Suc k) xs" using k by (simp add: Cons_nth_drop_Suc)
  have o: "word_offset C (evm (32 * exit_start xs k)) = exit_start xs k" "usize (2 + exit_start xs k) = 2 + exit_start xs k"
    using e(3) assms(1) by (simp_all add: word_offset_evm usize_def)
  have p: "parse_exit_identity_abi C (drop (2 + exit_start xs k) (exit_array_words xs))
      = Some (if xi_mesh_ip (xs ! k) = 0 then Err BadInput else Ok (from_sol_exit (xs ! k)))"
    unfolding e(2) using e(5) assms(1) by (intro parse_exit_words) simp
  have r: "[2 + k..<2 + length xs] = (2 + k) # [2 + Suc k..<2 + length xs]" using k by (simp add: upt_rec)
  have IH: "parse_exits C (exit_array_words xs) [2 + Suc k..<2 + length xs] ret'
      = Some (Ok (ret' @ map from_sol_exit (filter (\<lambda>x. xi_mesh_ip x \<noteq> 0) (drop (Suc k) xs))))" for ret'
    using Suc(1)[OF n] k by simp
  show ?case using e(3,4) unfolding r parse_exits.simps e(1) o Let_def p IH d by simp
qed

lemma parse_exits_array:
  assumes "length (exit_array_words xs) < 2 ^ 58"
  shows "parse_exit_identity_array_abi C (abi_exit_array xs)
     = Some (Ok (map from_sol_exit (filter (\<lambda>x. xi_mesh_ip x \<noteq> 0) xs)))"
proof -
  let ?W = "exit_array_words xs"
  have "\<forall>w \<in> set ?W. length w = 32" by (auto simp: exit_array_words_def exit_words_def identity_words_def)
  then have w: "to_evm_words (abi_exit_array xs) = ?W"
    unfolding to_evm_words_def abi_exit_array_def WORD_SIZE_def by (rule chunks_words)
  show ?thesis
  proof (cases xs)
    case Nil
    then show ?thesis unfolding parse_exit_identity_array_abi_def w by (simp add: exit_array_words_def)
  next
    case (Cons x rest)
    have len: "12 \<le> length ?W" unfolding Cons by (simp add: exit_array_words_def length_exit_words)
    have n: "length xs < 2 ^ 58" using exit_array_entry(4)[of "length xs - 1" xs] Cons assms by simp
    then have m: "word_length (?W ! 1) = Some (length xs)" "usize (2 + length xs) = 2 + length xs"
      by (simp_all add: exit_array_words_def word_length_evm usize_def)
    have l: "length ?W \<noteq> 2" "\<not> length ?W < 11" using len by simp_all
    have "parse_exits C ?W [2..<2 + length xs] [] = Some (Ok (map from_sol_exit (filter (\<lambda>x. xi_mesh_ip x \<noteq> 0) xs)))"
      using parse_exit_entries[OF assms, of 0 "[]"] by (simp only: add_0_right drop_0 append_Nil le0)
    then show ?thesis
      unfolding parse_exit_identity_array_abi_def w Let_def m by (simp only: l if_False Option.bind.simps m)
  qed
qed

end

end
