(* ===== verification/Db_Safety.thy ===== *)
theory Db_Safety
  imports Althea_Db
begin

text \<open>
  The registration contract against an abstract specification: a registry of sets of users, exits and administrators.
  The invariant of the storage says that the three mappings hold exactly the components of the registered identities
  and that no two of them share one; under it every call of the contract does to the sets what the specification says,
  and keeps the invariant.
\<close>

section \<open>The specification\<close>

record registry =
  rg_admin :: address
  rg_user_admins :: "address set"
  rg_exit_admins :: "address set"
  rg_users :: "sol_identity set"
  rg_exits :: "sol_exit_identity set"

definition rg_ids :: "registry \<Rightarrow> sol_identity set" where
  "rg_ids R = rg_users R \<union> exitIdToId ` rg_exits R"

definition overlaps :: "sol_identity \<Rightarrow> sol_identity \<Rightarrow> bool" where
  "overlaps a b \<longleftrightarrow> id_mesh_ip a = id_mesh_ip b \<or> id_wg_key a = id_wg_key b \<or> id_eth_addr a = id_eth_addr b"

definition only_if :: "bool \<Rightarrow> 'e \<Rightarrow> 'e + 'a \<Rightarrow> 'e + 'a" where
  "only_if c e r = (if c then r else Err e)"

definition spec_add_user :: "address \<Rightarrow> sol_identity \<Rightarrow> registry \<Rightarrow> db_error + registry" where
  "spec_add_user s e R = only_if (s \<in> rg_user_admins R) UnathorizedCaller
     (only_if (\<forall>x \<in> rg_ids R. \<not> overlaps e x) DuplicateUser (Ok (R\<lparr>rg_users := insert e (rg_users R)\<rparr>)))"

definition spec_remove_user :: "address \<Rightarrow> sol_identity \<Rightarrow> registry \<Rightarrow> db_error + registry" where
  "spec_remove_user s e R = only_if (s \<in> rg_user_admins R) UnathorizedCaller
     (only_if (e \<in> rg_users R) IdentityNotFound (Ok (R\<lparr>rg_users := rg_users R - {e}\<rparr>)))"

definition spec_add_exit :: "address \<Rightarrow> sol_exit_identity \<Rightarrow> registry \<Rightarrow> db_error + registry" where
  "spec_add_exit s e R = only_if (s \<in> rg_exit_admins R) UnathorizedCaller
     (only_if (\<forall>x \<in> rg_ids R. \<not> overlaps (exitIdToId e) x) DuplicateUser
        (Ok (R\<lparr>rg_exits := insert e (rg_exits R)\<rparr>)))"

definition spec_remove_exit :: "address \<Rightarrow> sol_exit_identity \<Rightarrow> registry \<Rightarrow> db_error + registry" where
  "spec_remove_exit s e R = only_if (s \<in> rg_exit_admins R) UnathorizedCaller
     (only_if (exitIdToId e \<in> exitIdToId ` rg_exits R) IdentityNotFound
        (Ok (R\<lparr>rg_exits := {x \<in> rg_exits R. exitIdToId x \<noteq> exitIdToId e}\<rparr>)))"

fun spec_exec :: "address \<Rightarrow> db_call \<Rightarrow> registry \<Rightarrow> db_error + registry" where
  "spec_exec s (AddUser e) R = spec_add_user s e R"
| "spec_exec s (AddUsers es) R = bulk (spec_add_user s) es R"
| "spec_exec s (RemoveUser e) R = spec_remove_user s e R"
| "spec_exec s (RemoveUsers es) R = bulk (spec_remove_user s) es R"
| "spec_exec s (AddExit e) R = spec_add_exit s e R"
| "spec_exec s (AddExits es) R = bulk (spec_add_exit s) es R"
| "spec_exec s (RemoveExit e) R = spec_remove_exit s e R"
| "spec_exec s (RemoveExits es) R = bulk (spec_remove_exit s) es R"
| "spec_exec s (AddUserAdmin a) R = only_if (s = rg_admin R) UnathorizedCaller
     (only_if (a \<notin> rg_user_admins R) DuplicateAdmin (Ok (R\<lparr>rg_user_admins := insert a (rg_user_admins R)\<rparr>)))"
| "spec_exec s (RemoveUserAdmin a) R = only_if (s = rg_admin R) UnathorizedCaller
     (only_if (a \<in> rg_user_admins R) AdminNotFound (Ok (R\<lparr>rg_user_admins := rg_user_admins R - {a}\<rparr>)))"
| "spec_exec s (AddExitAdmin a) R = only_if (s = rg_admin R) UnathorizedCaller
     (only_if (a \<notin> rg_exit_admins R) DuplicateAdmin (Ok (R\<lparr>rg_exit_admins := insert a (rg_exit_admins R)\<rparr>)))"
| "spec_exec s (RemoveExitAdmin a) R = only_if (s = rg_admin R) UnathorizedCaller
     (only_if (a \<in> rg_exit_admins R) AdminNotFound (Ok (R\<lparr>rg_exit_admins := rg_exit_admins R - {a}\<rparr>)))"

definition registry_of :: "althea_db \<Rightarrow> registry" where
  "registry_of db = \<lparr>rg_admin = state_admin db, rg_user_admins = set (state_UserAdmins db),
     rg_exit_admins = set (state_ExitAdmins db), rg_users = set (state_registeredUsers db),
     rg_exits = set (state_registeredExits db)\<rparr>"

section \<open>The invariant\<close>

definition db_ids :: "althea_db \<Rightarrow> sol_identity list" where
  "db_ids db = state_registeredUsers db @ map exitIdToId (state_registeredExits db)"

definition tracks :: "('k \<Rightarrow> bool) \<Rightarrow> ('i \<Rightarrow> 'k) \<Rightarrow> 'i multiset \<Rightarrow> bool" where
  "tracks reg f M \<longleftrightarrow> (\<forall>k. count (image_mset f M) k = (if reg k then 1 else 0))"

definition db_ok :: "althea_db \<Rightarrow> bool" where
  "db_ok db \<longleftrightarrow> tracks (state_registeredIps db) id_mesh_ip (mset (db_ids db))
     \<and> tracks (state_registeredKey db) id_wg_key (mset (db_ids db))
     \<and> tracks (state_registeredAddr db) id_eth_addr (mset (db_ids db))
     \<and> distinct (state_UserAdmins db) \<and> distinct (state_ExitAdmins db)"

lemma tracks_add: "tracks reg f M \<Longrightarrow> \<not> reg (f e) \<Longrightarrow> tracks (reg(f e := True)) f (add_mset e M)"
  by (auto simp: tracks_def)

lemma tracks_remove:
  assumes "tracks reg f (add_mset e M)"
  shows "tracks (reg(f e := False)) f M"
  unfolding tracks_def
proof
  fix k
  have "count (image_mset f (add_mset e M)) k = (if reg k then 1 else 0)" using assms by (simp add: tracks_def)
  then show "count (image_mset f M) k = (if (reg(f e := False)) k then 1 else 0)" by (auto split: if_splits)
qed

lemma tracks_iff: "tracks reg f M \<Longrightarrow> reg k \<longleftrightarrow> (\<exists>x \<in># M. f x = k)"
proof -
  assume "tracks reg f M"
  then have "reg k \<longleftrightarrow> count (image_mset f M) k \<noteq> 0" by (simp add: tracks_def)
  then show ?thesis unfolding count_eq_zero_iff by auto
qed

lemma tracks_inj:
  assumes "tracks reg f (mset xs)"
  shows "distinct (map f xs)"
proof -
  have "count (mset (map f xs)) k = (if k \<in> set (map f xs) then 1 else 0)" for k
  proof (cases "reg k")
    case True
    then have "count (mset (map f xs)) k = 1" using assms by (simp add: tracks_def)
    then show ?thesis by (metis count_eq_zero_iff set_mset_mset zero_neq_one)
  next
    case False
    then have "count (mset (map f xs)) k = 0" using assms by (simp add: tracks_def)
    then show ?thesis by (metis count_eq_zero_iff set_mset_mset)
  qed
  then show ?thesis unfolding distinct_count_atmost_1 by blast
qed

section \<open>Arrays\<close>

lemma first_index_Some:
  "first_index P i xs = Some j \<Longrightarrow> i \<le> j \<and> j - i < length xs \<and> P (xs ! (j - i))"
  by (induction P i xs rule: first_index.induct) (auto split: if_splits simp: Suc_diff_le nth_Cons')

lemma first_index_None: "first_index P i xs = None \<longleftrightarrow> (\<forall>x \<in> set xs. \<not> P x)"
  by (induction P i xs rule: first_index.induct) auto

lemma isUserAdmin_iff [simp]: "isUserAdmin a db \<longleftrightarrow> a \<in> set (state_UserAdmins db)"
  by (auto simp: isUserAdmin_def first_index_None)

lemma isExitAdmin_iff [simp]: "isExitAdmin a db \<longleftrightarrow> a \<in> set (state_ExitAdmins db)"
  by (auto simp: isExitAdmin_def first_index_None)

lemma identitiesAreEqual_iff [simp]: "identitiesAreEqual a b \<longleftrightarrow> a = b"
  by (cases a; cases b) (auto simp: identitiesAreEqual_def)

lemma deleteArrayEntry_Ok:
  assumes "i < length xs"
  obtains ys where "deleteArrayEntry i xs = Ok ys" and "add_mset (xs ! i) (mset ys) = mset xs"
proof -
  obtain zs l where xs: "xs = zs @ [l]" using assms by (cases xs rule: rev_cases) auto
  show thesis
  proof (cases "i < length zs")
    case True
    then obtain a b where zs: "zs = a @ zs ! i # b" "length a = i"
      using id_take_nth_drop[of i zs] by fastforce
    obtain x where x: "zs ! i = x" by simp
    have "deleteArrayEntry i xs = Ok (a @ l # b)"
      using True zs unfolding xs x by (simp add: deleteArrayEntry_def nth_append list_update_append butlast_append)
    moreover have "add_mset (xs ! i) (mset (a @ l # b)) = mset xs"
      using True zs unfolding xs x by (simp add: nth_append)
    ultimately show ?thesis by (rule that)
  next
    case False
    then have "i = length zs" using assms xs by simp
    then show ?thesis using that[of zs] by (simp add: deleteArrayEntry_def xs)
  qed
qed

lemma set_remaining:
  assumes "add_mset x (mset ys) = mset xs" and "distinct xs"
  shows "set ys = set xs - {x}" and "distinct ys"
proof -
  have "distinct (x # ys)" using assms by (metis mset.simps(2) mset_eq_imp_distinct_iff)
  moreover have "insert x (set ys) = set xs" using assms(1) by (metis set_mset_add_mset_insert set_mset_mset)
  ultimately show "set ys = set xs - {x}" and "distinct ys" by auto
qed

section \<open>Every call refines its specification\<close>

definition refines :: "(althea_db \<Rightarrow> db_error + althea_db) \<Rightarrow> (registry \<Rightarrow> db_error + registry) \<Rightarrow> bool" where
  "refines op spec \<longleftrightarrow> (\<forall>db. db_ok db \<longrightarrow>
     (case op db of Inl e \<Rightarrow> spec (registry_of db) = Inl e
      | Inr db' \<Rightarrow> spec (registry_of db) = Inr (registry_of db') \<and> db_ok db'))"

lemma refinesI:
  assumes "\<And>db e. db_ok db \<Longrightarrow> op db = Inl e \<Longrightarrow> spec (registry_of db) = Inl e"
    and "\<And>db db'. db_ok db \<Longrightarrow> op db = Inr db' \<Longrightarrow> spec (registry_of db) = Inr (registry_of db')"
    and "\<And>db db'. db_ok db \<Longrightarrow> op db = Inr db' \<Longrightarrow> db_ok db'"
  shows "refines op spec"
  using assms by (auto simp: refines_def split: sum.splits)

lemma refines_bulk:
  assumes "\<And>x. refines (op x) (spec x)"
  shows "refines (bulk op xs) (bulk spec xs)"
proof (induction xs)
  case Nil
  then show ?case by (simp add: refines_def)
next
  case (Cons x xs)
  show ?case unfolding refines_def
  proof (intro allI impI)
    fix db assume ok: "db_ok db"
    show "case bulk op (x # xs) db of Inl e \<Rightarrow> bulk spec (x # xs) (registry_of db) = Inl e
      | Inr db' \<Rightarrow> bulk spec (x # xs) (registry_of db) = Inr (registry_of db') \<and> db_ok db'"
    proof (cases "op x db")
      case (Inl e)
      then show ?thesis using assms[of x] ok by (auto simp: refines_def andthen_def dest!: spec[of _ db])
    next
      case (Inr db1)
      then have "spec x (registry_of db) = Inr (registry_of db1)" "db_ok db1"
        using assms[of x] ok by (auto simp: refines_def dest!: spec[of _ db])
      then show ?thesis using Inr Cons
        by (auto simp: refines_def andthen_def split: sum.splits dest!: spec[of _ db1])
    qed
  qed
qed

lemma duplicates_iff:
  assumes "db_ok db"
  shows "checkForAnyDuplicates e db \<longleftrightarrow> (\<exists>x \<in> rg_ids (registry_of db). overlaps e x)"
proof -
  have "set (db_ids db) = rg_ids (registry_of db)" by (simp add: db_ids_def rg_ids_def registry_of_def)
  moreover have "state_registeredIps db (id_mesh_ip e) \<longleftrightarrow> (\<exists>x \<in> set (db_ids db). id_mesh_ip e = id_mesh_ip x)"
    "state_registeredKey db (id_wg_key e) \<longleftrightarrow> (\<exists>x \<in> set (db_ids db). id_wg_key e = id_wg_key x)"
    "state_registeredAddr db (id_eth_addr e) \<longleftrightarrow> (\<exists>x \<in> set (db_ids db). id_eth_addr e = id_eth_addr x)"
    using assms by (auto simp: db_ok_def eq_commute dest!: tracks_iff)
  ultimately show ?thesis unfolding checkForAnyDuplicates_def overlaps_def by auto
qed

lemma db_ok_add:
  assumes "db_ok db" and "\<not> checkForAnyDuplicates e db" and "mset (db_ids db') = add_mset e (mset (db_ids db))"
    and "state_registeredIps db' = (state_registeredIps db)(id_mesh_ip e := True)"
    and "state_registeredKey db' = (state_registeredKey db)(id_wg_key e := True)"
    and "state_registeredAddr db' = (state_registeredAddr db)(id_eth_addr e := True)"
    and "state_UserAdmins db' = state_UserAdmins db" "state_ExitAdmins db' = state_ExitAdmins db"
  shows "db_ok db'"
  using assms by (auto simp: db_ok_def checkForAnyDuplicates_def intro!: tracks_add split: if_splits)

lemma db_ok_remove:
  assumes "db_ok db" and "mset (db_ids db) = add_mset e (mset (db_ids db'))"
    and "state_registeredIps db' = (state_registeredIps db)(id_mesh_ip e := False)"
    and "state_registeredKey db' = (state_registeredKey db)(id_wg_key e := False)"
    and "state_registeredAddr db' = (state_registeredAddr db)(id_eth_addr e := False)"
    and "state_UserAdmins db' = state_UserAdmins db" "state_ExitAdmins db' = state_ExitAdmins db"
  shows "db_ok db'"
  using assms by (auto simp: db_ok_def intro!: tracks_remove)

lemma db_ids_distinct:
  assumes "db_ok db"
  shows "distinct (map id_mesh_ip (db_ids db))" and "distinct (map id_wg_key (db_ids db))"
    and "distinct (map id_eth_addr (db_ids db))" and "distinct (db_ids db)"
    and "distinct (state_registeredUsers db)" and "distinct (map exitIdToId (state_registeredExits db))"
proof -
  show d: "distinct (map id_mesh_ip (db_ids db))" and "distinct (map id_wg_key (db_ids db))"
    and "distinct (map id_eth_addr (db_ids db))" using assms by (auto simp: db_ok_def intro: tracks_inj)
  from d show "distinct (db_ids db)" by (simp add: distinct_map)
  then show "distinct (state_registeredUsers db)" and "distinct (map exitIdToId (state_registeredExits db))"
    by (auto simp: db_ids_def)
qed

lemma refines_add_user: "refines (addRegisteredUser s e) (spec_add_user s e)"
proof (rule refinesI)
  fix db db'
  assume ok: "db_ok db" and r: "addRegisteredUser s e db = Inr db'"
  note d = duplicates_iff[OF ok, of e]
  show "spec_add_user s e (registry_of db) = Inr (registry_of db')"
    using r d by (auto simp: addRegisteredUser_def spec_add_user_def only_if_def registry_of_def emit_def mark_def
        Let_def split: if_splits)
  show "db_ok db'"
    by (rule db_ok_add[OF ok, of e])
      (use r in \<open>auto simp: addRegisteredUser_def emit_def mark_def Let_def db_ids_def split: if_splits\<close>)
next
  fix db er
  assume ok: "db_ok db" and r: "addRegisteredUser s e db = Inl er"
  show "spec_add_user s e (registry_of db) = Inl er"
    using r duplicates_iff[OF ok, of e]
    by (auto simp: addRegisteredUser_def spec_add_user_def only_if_def registry_of_def Let_def split: if_splits)
qed

lemma refines_add_exit: "refines (addRegisteredExit s e) (spec_add_exit s e)"
proof (rule refinesI)
  fix db db'
  assume ok: "db_ok db" and r: "addRegisteredExit s e db = Inr db'"
  note d = duplicates_iff[OF ok, of "exitIdToId e"]
  show "spec_add_exit s e (registry_of db) = Inr (registry_of db')"
    using r d by (auto simp: addRegisteredExit_def spec_add_exit_def only_if_def registry_of_def emit_def mark_def
        Let_def split: if_splits)
  show "db_ok db'"
    by (rule db_ok_add[OF ok, of "exitIdToId e"])
      (use r in \<open>auto simp: addRegisteredExit_def emit_def mark_def Let_def db_ids_def split: if_splits\<close>)
next
  fix db er
  assume ok: "db_ok db" and r: "addRegisteredExit s e db = Inl er"
  show "spec_add_exit s e (registry_of db) = Inl er"
    using r duplicates_iff[OF ok, of "exitIdToId e"]
    by (auto simp: addRegisteredExit_def spec_add_exit_def only_if_def registry_of_def Let_def split: if_splits)
qed

lemma remove_cases:
  assumes "first_index P 0 xs = Some i"
  obtains ys where "deleteArrayEntry i xs = Ok ys" and "add_mset (xs ! i) (mset ys) = mset xs"
    and "xs ! i \<in> set xs" and "P (xs ! i)"
proof -
  have i: "i < length xs" "P (xs ! i)" using first_index_Some[OF assms] by auto
  show thesis by (rule deleteArrayEntry_Ok[OF i(1)]) (rule that[OF _ _ nth_mem[OF i(1)] i(2)])
qed

lemma refines_remove_user: "refines (removeRegisteredUser s e) (spec_remove_user s e)"
proof (rule refinesI)
  fix db db'
  assume ok: "db_ok db" and r: "removeRegisteredUser s e db = Inr db'"
  then obtain i where i: "first_index (\<lambda>x. identitiesAreEqual x e) 0 (state_registeredUsers db) = Some i"
    by (auto simp: removeRegisteredUser_def getIndexOfId_def andthen_def split: if_splits option.splits)
  obtain ys where ys: "deleteArrayEntry i (state_registeredUsers db) = Ok ys"
    "add_mset e (mset ys) = mset (state_registeredUsers db)" "e \<in> set (state_registeredUsers db)"
    using remove_cases[OF i] by auto
  have db': "db' = emit (UserRemovedEvent e) (mark False e (db\<lparr>state_registeredUsers := ys\<rparr>))"
    and s: "s \<in> set (state_UserAdmins db)"
    using r i ys(1) by (auto simp: removeRegisteredUser_def getIndexOfId_def andthen_def split: if_splits)
  show "spec_remove_user s e (registry_of db) = Inr (registry_of db')"
    using s ys(3) set_remaining(1)[OF ys(2) db_ids_distinct(5)[OF ok]] unfolding db'
    by (simp add: spec_remove_user_def only_if_def registry_of_def emit_def mark_def)
  show "db_ok db'"
    by (rule db_ok_remove[OF ok, of e])
      (use ys(2) in \<open>auto simp: db' emit_def mark_def db_ids_def simp flip: ys(2)\<close>)
next
  fix db er
  assume ok: "db_ok db" and r: "removeRegisteredUser s e db = Inl er"
  show "spec_remove_user s e (registry_of db) = Inl er"
  proof (cases "first_index (\<lambda>x. identitiesAreEqual x e) 0 (state_registeredUsers db)")
    case None
    then show ?thesis using r None[unfolded first_index_None]
      by (auto simp: removeRegisteredUser_def getIndexOfId_def andthen_def spec_remove_user_def
        only_if_def registry_of_def split: if_splits)
  next
    case (Some i)
    obtain ys where "deleteArrayEntry i (state_registeredUsers db) = Ok ys" by (rule remove_cases[OF Some])
    then show ?thesis using r Some by (auto simp: removeRegisteredUser_def getIndexOfId_def andthen_def spec_remove_user_def
        only_if_def registry_of_def split: if_splits)
  qed
qed

lemma refines_remove_exit: "refines (removeRegisteredExit s e) (spec_remove_exit s e)"
proof (rule refinesI)
  fix db db'
  assume ok: "db_ok db" and r: "removeRegisteredExit s e db = Inr db'"
  let ?xs = "state_registeredExits db"
  obtain i where i: "first_index (\<lambda>x. identitiesAreEqual (exitIdToId x) (exitIdToId e)) 0 ?xs = Some i"
    using r by (auto simp: removeRegisteredExit_def getIndexOfExitId_def andthen_def split: if_splits option.splits)
  obtain ys where ys: "deleteArrayEntry i ?xs = Ok ys" "add_mset (?xs ! i) (mset ys) = mset ?xs" "?xs ! i \<in> set ?xs"
    and e: "exitIdToId (?xs ! i) = exitIdToId e"
    using remove_cases[OF i] by auto
  have db': "db' = emit (ExitRemovedEvent e) (mark False (exitIdToId e) (db\<lparr>state_registeredExits := ys\<rparr>))"
    and s: "s \<in> set (state_ExitAdmins db)"
    using r i ys(1) by (auto simp: removeRegisteredExit_def getIndexOfExitId_def andthen_def split: if_splits)
  have inj: "inj_on exitIdToId (set ?xs)" and "distinct ?xs"
    using db_ids_distinct(6)[OF ok] by (simp_all add: distinct_map)
  then have "set ys = {x \<in> set ?xs. exitIdToId x \<noteq> exitIdToId e}"
    using set_remaining(1)[OF ys(2)] inj_onD[OF inj] ys(3) e by auto
  then show "spec_remove_exit s e (registry_of db) = Inr (registry_of db')"
    using s ys(3) e[symmetric] unfolding db'
    by (simp add: spec_remove_exit_def only_if_def registry_of_def emit_def mark_def)
  have "add_mset (exitIdToId e) (image_mset exitIdToId (mset ys)) = image_mset exitIdToId (mset ?xs)"
    unfolding ys(2)[symmetric] e[symmetric] by simp
  then show "db_ok db'"
    by (intro db_ok_remove[OF ok, of "exitIdToId e"]) (auto simp: db' emit_def mark_def db_ids_def)
next
  fix db er
  assume ok: "db_ok db" and r: "removeRegisteredExit s e db = Inl er"
  show "spec_remove_exit s e (registry_of db) = Inl er"
  proof (cases "first_index (\<lambda>x. identitiesAreEqual (exitIdToId x) (exitIdToId e)) 0 (state_registeredExits db)")
    case None
    then show ?thesis using r None[unfolded first_index_None]
      by (auto simp: removeRegisteredExit_def getIndexOfExitId_def andthen_def spec_remove_exit_def
        only_if_def registry_of_def split: if_splits)
  next
    case (Some i)
    obtain ys where "deleteArrayEntry i (state_registeredExits db) = Ok ys" by (rule remove_cases[OF Some])
    then show ?thesis using r Some by (auto simp: removeRegisteredExit_def getIndexOfExitId_def andthen_def spec_remove_exit_def
        only_if_def registry_of_def split: if_splits)
  qed
qed

lemma remove_admin:
  assumes "distinct xs"
  obtains "a \<notin> set xs" and "getIndexOfAdmin a xs = Err AdminNotFound"
  | i ys where "a \<in> set xs" and "getIndexOfAdmin a xs = Ok i" and "deleteArrayEntry i xs = Ok ys"
    and "set ys = set xs - {a}" and "distinct ys"
proof (cases "first_index (\<lambda>x. a = x) 0 xs")
  case None
  then show ?thesis using that(1) None[unfolded first_index_None] by (auto simp: getIndexOfAdmin_def)
next
  case (Some i)
  obtain ys where ys: "deleteArrayEntry i xs = Ok ys" "add_mset (xs ! i) (mset ys) = mset xs" "xs ! i \<in> set xs" "a = xs ! i"
    by (rule remove_cases[OF Some])
  then show ?thesis using that(2)[OF _ _ ys(1)] Some set_remaining[OF ys(2) assms] by (simp add: getIndexOfAdmin_def)
qed

lemma refines_admin:
  "refines (addUserAdmin s a) (spec_exec s (AddUserAdmin a))"
  "refines (removeUserAdmin s a) (spec_exec s (RemoveUserAdmin a))"
  "refines (addExitAdmin s a) (spec_exec s (AddExitAdmin a))"
  "refines (removeExitAdmin s a) (spec_exec s (RemoveExitAdmin a))"
proof -
  note d = registry_of_def only_if_def db_ok_def db_ids_def emit_def refines_def
  show "refines (addUserAdmin s a) (spec_exec s (AddUserAdmin a))"
    "refines (addExitAdmin s a) (spec_exec s (AddExitAdmin a))"
    by (auto simp: addUserAdmin_def addExitAdmin_def d)
  show "refines (removeUserAdmin s a) (spec_exec s (RemoveUserAdmin a))"
    unfolding refines_def
  proof (intro allI impI)
    fix db assume ok: "db_ok db"
    then have "distinct (state_UserAdmins db)" by (simp add: db_ok_def)
    then show "case removeUserAdmin s a db of Inl e \<Rightarrow> spec_exec s (RemoveUserAdmin a) (registry_of db) = Inl e
      | Inr db' \<Rightarrow> spec_exec s (RemoveUserAdmin a) (registry_of db) = Inr (registry_of db') \<and> db_ok db'"
      using ok by (cases rule: remove_admin[where a = a]) (auto simp: removeUserAdmin_def andthen_def d)
  qed
  show "refines (removeExitAdmin s a) (spec_exec s (RemoveExitAdmin a))"
    unfolding refines_def
  proof (intro allI impI)
    fix db assume ok: "db_ok db"
    then have "distinct (state_ExitAdmins db)" by (simp add: db_ok_def)
    then show "case removeExitAdmin s a db of Inl e \<Rightarrow> spec_exec s (RemoveExitAdmin a) (registry_of db) = Inl e
      | Inr db' \<Rightarrow> spec_exec s (RemoveExitAdmin a) (registry_of db) = Inr (registry_of db') \<and> db_ok db'"
      using ok by (cases rule: remove_admin[where a = a]) (auto simp: removeExitAdmin_def andthen_def d)
  qed
qed

lemma refines_exec: "refines (db_exec s c) (spec_exec s c)"
proof -
  have e: "spec_exec s (AddUsers es) = bulk (spec_add_user s) es" "spec_exec s (RemoveUsers es) = bulk (spec_remove_user s) es"
    "spec_exec s (AddExits xs) = bulk (spec_add_exit s) xs" "spec_exec s (RemoveExits xs) = bulk (spec_remove_exit s) xs"
    "spec_exec s (AddUser u) = spec_add_user s u" "spec_exec s (RemoveUser u) = spec_remove_user s u"
    "spec_exec s (AddExit x) = spec_add_exit s x" "spec_exec s (RemoveExit x) = spec_remove_exit s x" for es xs u x
    by (simp_all add: fun_eq_iff)
  show ?thesis
    by (cases c) (simp_all only: db_exec.simps e addRegisteredUsersBulk_def removeRegisteredUsersBulk_def
        addRegisteredExitsBulk_def removeRegisteredExitsBulk_def refines_bulk refines_add_user refines_remove_user
        refines_add_exit refines_remove_exit refines_admin)
qed

lemma db_ok_constructor: "db_ok (db_constructor admin)"
  by (simp add: db_ok_def db_constructor_def tracks_def db_ids_def)

lemma reachable_ok: "db_reachable admin db \<Longrightarrow> db_ok db"
proof (induction rule: db_reachable.induct)
  case deployed
  then show ?case by (rule db_ok_constructor)
next
  case (called db s c)
  then show ?case using refines_exec[of s c] by (auto simp: db_transaction_def refines_def split: sum.splits)
qed

end
