(* ===== verification/Registration.thy ===== *)
theory Registration
  imports Abi_Roundtrip Db_Safety
begin

text \<open>
  The registration server, \<open>rita_client_registration/src/lib.rs\<close> and \<open>register_client_batch_loop.rs\<close>: a client proves
  that it owns a phone number, is put into a queue, and the queue is written to the registration contract in batches.
  The two statics of the crate, the number of texts sent and the queue, are the record \<open>registration\<close>. The parser of
  phone numbers and the HTTP service that sends and checks the codes are parameters.
\<close>

section \<open>Phone registration\<close>

datatype text_api_error = BadPhoneNumber | InternalServerError | SendRequestFailed

datatype exit_signup_return = RegistrationOk | PendingRegistration | BadPhoneNumberReturn | InternalServerErrorReturn

record exit_client_identity =
  ec_global :: identity
  ec_phone :: "string option"
  ec_phone_code :: "string option"

record registration =
  texts_sent :: "wg_key \<rightharpoonup> u8"
  register_queue :: "identity set"

definition registration_new :: registration where
  "registration_new = \<lparr>texts_sent = Map.empty, register_queue = {}\<rparr>"

record ('ph, 'w) sms_service =
  parse_phone :: "string \<Rightarrow> 'ph option"
  post_verify :: "'ph \<Rightarrow> string \<Rightarrow> 'w \<Rightarrow> (unit + nat) \<times> 'w"
  post_sms :: "'ph \<Rightarrow> 'w \<Rightarrow> (unit + nat) \<times> 'w"

definition increment_texts_sent :: "wg_key \<Rightarrow> registration \<Rightarrow> registration" where
  "increment_texts_sent key r = r\<lparr>texts_sent := (texts_sent r)(key \<mapsto>
     (case texts_sent r key of Some v \<Rightarrow> v + 1 | None \<Rightarrow> 1))\<rparr>"

definition reset_texts_sent :: "wg_key \<Rightarrow> registration \<Rightarrow> registration" where
  "reset_texts_sent key r = r\<lparr>texts_sent := (texts_sent r)(key := None)\<rparr>"

definition get_texts_sent :: "wg_key \<Rightarrow> registration \<Rightarrow> u8" where
  "get_texts_sent key r = unwrap_or (texts_sent r key) 0"

definition add_client_to_reg_queue :: "identity \<Rightarrow> registration \<Rightarrow> registration" where
  "add_client_to_reg_queue i r = r\<lparr>register_queue := insert i (register_queue r)\<rparr>"

definition remove_client_from_reg_queue :: "identity \<Rightarrow> registration \<Rightarrow> registration" where
  "remove_client_from_reg_queue i r = r\<lparr>register_queue := register_queue r - {i}\<rparr>"

text \<open>The status codes 200 to 299.\<close>

definition is_success :: "nat \<Rightarrow> bool" where
  "is_success status \<longleftrightarrow> 200 \<le> status \<and> status < 300"

definition check_sms_auth_result :: "('ph, 'w) sms_service \<Rightarrow> 'ph \<Rightarrow> string \<Rightarrow> 'w \<Rightarrow> (text_api_error + bool) \<times> 'w" where
  "check_sms_auth_result S number code w = (case post_verify S number code w of
     (Inr status, w') \<Rightarrow> (Ok (is_success status), w') | (Inl _, w') \<Rightarrow> (Err SendRequestFailed, w'))"

definition start_sms_auth_flow :: "('ph, 'w) sms_service \<Rightarrow> 'ph \<Rightarrow> 'w \<Rightarrow> (text_api_error + unit) \<times> 'w" where
  "start_sms_auth_flow S number w = (case post_sms S number w of
     (Inr _, w') \<Rightarrow> (Ok (), w') | (Inl _, w') \<Rightarrow> (Err SendRequestFailed, w'))"

definition return_api_error :: "text_api_error \<Rightarrow> exit_signup_return" where
  "return_api_error e = (case e of BadPhoneNumber \<Rightarrow> BadPhoneNumberReturn
     | InternalServerError \<Rightarrow> InternalServerErrorReturn | SendRequestFailed \<Rightarrow> InternalServerErrorReturn)"

text \<open>A client that submits a code; the two arms of the source for it are the same.\<close>

definition submit_code ::
  "('ph, 'w) sms_service \<Rightarrow> 'ph option \<Rightarrow> identity \<Rightarrow> 'ph \<Rightarrow> string \<Rightarrow> registration \<Rightarrow> 'w
     \<Rightarrow> exit_signup_return \<times> registration \<times> 'w" where
  "submit_code S magic client number code r w =
     (let (result, w') = (if magic = Some number then (Ok True, w) else check_sms_auth_result S number code w)
      in case result of
           Inl e \<Rightarrow> (return_api_error e, r, w')
         | Inr True \<Rightarrow> (RegistrationOk, reset_texts_sent (wg_public_key client) (add_client_to_reg_queue client r), w')
         | Inr False \<Rightarrow> (PendingRegistration, r, w'))"

definition handle_sms_registration ::
  "('ph, 'w) sms_service \<Rightarrow> 'ph option \<Rightarrow> exit_client_identity \<Rightarrow> registration \<Rightarrow> 'w
     \<Rightarrow> exit_signup_return \<times> registration \<times> 'w" where
  "handle_sms_registration S magic client r w =
     (let key = wg_public_key (ec_global client);
          sent_more_than_allowed_texts = get_texts_sent key r > 10
      in case ec_phone client of
           None \<Rightarrow> (BadPhoneNumberReturn, r, w)
         | Some text \<Rightarrow>
             (case parse_phone S text of
                None \<Rightarrow> (BadPhoneNumberReturn, r, w)
              | Some number \<Rightarrow>
                  (case (ec_phone_code client, sent_more_than_allowed_texts) of
                     (Some code, True) \<Rightarrow> submit_code S magic (ec_global client) number code r w
                   | (None, True) \<Rightarrow> (PendingRegistration, r, w)
                   | (None, False) \<Rightarrow>
                       (case start_sms_auth_flow S number w of
                          (Inl e, w') \<Rightarrow> (return_api_error e, r, w')
                        | (Inr _, w') \<Rightarrow> (PendingRegistration, increment_texts_sent key r, w'))
                   | (Some code, False) \<Rightarrow> submit_code S magic (ec_global client) number code r w)))"

section \<open>The batch loop\<close>

definition MAX_BATCH_SIZE :: nat where "MAX_BATCH_SIZE = 75"

definition get_clients_hashset :: "identity list \<Rightarrow> identity set" where
  "get_clients_hashset input = foldl (\<lambda>s i. insert i s) {} input"

fun select_batch :: "identity set \<Rightarrow> identity list \<Rightarrow> identity list \<Rightarrow> identity list" where
  "select_batch all_clients [] acc = acc"
| "select_batch all_clients (client # rest) acc =
     (if client \<notin> all_clients
      then let acc' = acc @ [client]
           in if length acc' > MAX_BATCH_SIZE then acc' else select_batch all_clients rest acc'
      else select_batch all_clients rest acc)"

text \<open>
  One turn of the loop. \<open>get_reg_queue\<close> lists the queue in the order of the hash set, so the list is an argument.
  \<open>None\<close> is a panic, after which the thread starts again with the same statics. The pauses are left out.
\<close>

definition register_round ::
  "clarity \<Rightarrow> ('w, 'p, 'tx) eth_node \<Rightarrow> address \<Rightarrow> address \<Rightarrow> identity list \<Rightarrow> registration \<Rightarrow> 'w
     \<Rightarrow> (registration \<times> 'w) option" where
  "register_round C N contract our_address queued r w =
     (if queued = [] then Some (r, w)
      else case get_all_regsitered_clients C N our_address contract w of
             None \<Rightarrow> None
           | Some (Inl _, w') \<Rightarrow> Some (r, w')
           | Some (Inr all_clients, w') \<Rightarrow>
               (let clients_to_register = select_batch (get_clients_hashset all_clients) queued []
                in if clients_to_register = [] then Some (r, w')
                   else case add_users_to_registered_list N clients_to_register contract our_address True w' of
                          None \<Rightarrow> None
                        | Some (Inl _, w2) \<Rightarrow> Some (r, w2)
                        | Some (Inr _, w2) \<Rightarrow> Some (fold remove_client_from_reg_queue clients_to_register r, w2)))"

text \<open>Runs of a number of turns, each with the queue in any order.\<close>

inductive register_steps ::
  "clarity \<Rightarrow> ('w, 'p, 'tx) eth_node \<Rightarrow> address \<Rightarrow> address \<Rightarrow> nat \<Rightarrow> registration \<times> 'w \<Rightarrow> registration \<times> 'w \<Rightarrow> bool"
  for C N contract our_address where
  start: "register_steps C N contract our_address 0 s s"
| turn: "\<lbrakk>register_steps C N contract our_address n s (r, w); set queued = register_queue r; distinct queued;
     register_round C N contract our_address queued r w = Some s'\<rbrakk>
     \<Longrightarrow> register_steps C N contract our_address (Suc n) s s'"

inductive_cases register_stepsE: "register_steps C N contract our_address n s s'"

section \<open>Facts\<close>

lemma get_clients_hashset_set [simp]: "get_clients_hashset xs = set xs"
proof -
  have "foldl (\<lambda>s i. insert i s) S xs = S \<union> set xs" for S by (induction xs arbitrary: S) auto
  then show ?thesis by (simp add: get_clients_hashset_def)
qed

lemma select_batch_spec:
  assumes "length acc \<le> MAX_BATCH_SIZE"
  shows "select_batch A xs acc = acc @ take (Suc MAX_BATCH_SIZE - length acc) (filter (\<lambda>c. c \<notin> A) xs)"
  using assms
proof (induction A xs acc rule: select_batch.induct)
  case (2 A c rest acc)
  then show ?case
    by (cases "c \<in> A"; cases "length (acc @ [c]) > MAX_BATCH_SIZE") (auto simp: Suc_diff_le)
qed simp

lemma remove_all_from_queue:
  "register_queue (fold remove_client_from_reg_queue xs r) = register_queue r - set xs"
  by (induction xs arbitrary: r) (auto simp: remove_client_from_reg_queue_def)

end
