(* ===== verification/Registration_Properties.thy ===== *)
theory Registration_Properties
  imports Registration
begin

text \<open>
  The registration subsystem as a whole: phone verification, queue, batch loop, contract and lookup. The node between
  the server and the contract is a parameter; the laws of an honest one are the locale \<open>registration_node\<close>, and
  \<open>db_node\<close>, which runs the model of the contract, interprets it.
\<close>

section \<open>A node that runs the contract\<close>

definition user_token :: "sol_identity \<Rightarrow> abi_token" where
  "user_token u = Struct [Uint (unat (id_mesh_ip u)), Uint (unat (id_wg_key u)), Address (id_eth_addr u)]"

definition bulk_signature :: string where
  "bulk_signature = ''addRegisteredUsersBulk((uint128,uint256,address)[])''"

locale registration_node = clarity_laws C for C +
  fixes N :: "('w, 'p, 'tx) eth_node" and db_of :: "'w \<Rightarrow> althea_db" and contract :: address
  assumes users_query: "query N a contract ''getAllRegisteredUsers()'' [] w
      = Some (Ok (abi_identity_array (getAllRegisteredUsers (db_of w))), w)"
    and client_query: "query N a contract ''getRegisteredClientWithWgKey(uint256)'' [Uint (unat k)] w
      = Some (Ok (concat (identity_words (getRegisteredClientWithWgKey k (db_of w)))), w)"
    and accepted_call: "db_exec a (AddUsers us) (db_of w) = Ok db'
      \<Longrightarrow> \<exists>h w'. transact N contract bulk_signature [Dynamic (map user_token us)] a True w = Some (Ok h, w') \<and> db_of w' = db'"
    and reverted_call: "db_exec a (AddUsers us) (db_of w) = Err e
      \<Longrightarrow> \<exists>e' w'. transact N contract bulk_signature [Dynamic (map user_token us)] a True w = Some (Err e', w')
         \<and> db_of w' = db_of w"

fun token_user :: "abi_token \<Rightarrow> sol_identity" where
  "token_user (Struct [Uint a, Uint b, Address c]) = \<lparr>id_mesh_ip = of_nat a, id_wg_key = of_nat b, id_eth_addr = c\<rparr>"
| "token_user _ = getNullIdentity"

definition db_node :: "(althea_db, string \<times> abi_token list, address \<times> db_call) eth_node" where
  "db_node = \<lparr>encode_call = (\<lambda>sig args. Ok (sig, args)),
     simulate_transaction = (\<lambda>_ _ p db. (case p of (sig, args) \<Rightarrow>
        if sig = ''getAllRegisteredUsers()'' then Ok (abi_identity_array (getAllRegisteredUsers db))
        else (case args of [Uint k] \<Rightarrow> Ok (concat (identity_words (getRegisteredClientWithWgKey (of_nat k) db)))
              | _ \<Rightarrow> Err BadInput), db)),
     prepare_transaction = (\<lambda>_ p a db. (case snd p of
        [Dynamic ts] \<Rightarrow> (case db_exec a (AddUsers (map token_user ts)) db of
             Inl _ \<Rightarrow> Err (NodeError 3) | Inr _ \<Rightarrow> Ok (a, AddUsers (map token_user ts)))
      | _ \<Rightarrow> Err BadInput, db)),
     send_prepared_transaction = (\<lambda>tx db. (Ok 0, db_transaction (fst tx) (snd tx) db)),
     wait_for_transaction = (\<lambda>_ db. (Ok (), db))\<rparr>"

lemma token_user_token: "token_user (user_token u) = u"
  by (cases u) (simp add: user_token_def)

lemma tokens_users: "map token_user (map user_token us) = us"
  by (induction us) (simp_all add: token_user_token)

interpretation db_node: registration_node be_clarity db_node "\<lambda>db. db" contract
proof (unfold_locales, goal_cases)
  case (3 a us w db')
  then show ?case
    by (simp add: transact_def db_node_def rio_defs awaiting_def db_transaction_def tokens_users del: map_map)
next
  case (4 a us w e)
  then show ?case
    by (simp add: transact_def db_node_def rio_defs awaiting_def db_transaction_def tokens_users del: map_map)
qed (simp_all add: query_def db_node_def rio_defs awaiting_def)

section \<open>Identities of both worlds\<close>

definition to_sol :: "identity \<Rightarrow> sol_identity" where
  "to_sol i = \<lparr>id_mesh_ip = (case mesh_ip i of V6 ip \<Rightarrow> ip | V4 _ \<Rightarrow> 0), id_wg_key = wg_public_key i,
     id_eth_addr = eth_address i\<rparr>"

definition has_mesh_ip :: "identity \<Rightarrow> bool" where
  "has_mesh_ip i \<longleftrightarrow> (\<exists>ip. mesh_ip i = V6 ip \<and> ip \<noteq> 0)"

lemma from_sol_to_sol: "has_mesh_ip i \<Longrightarrow> from_sol (to_sol i) = i"
  by (cases i) (auto simp: has_mesh_ip_def from_sol_def to_sol_def)

lemma to_sol_from_sol [simp]: "to_sol (from_sol u) = u"
  by (cases u) (simp add: from_sol_def to_sol_def)

lemma inj_to_sol: "inj_on to_sol (Collect has_mesh_ip)"
  by (rule inj_on_inverseI[where g = from_sol]) (simp add: from_sol_to_sol)

lemma encode_clients_v6:
  "\<forall>i \<in> set is. has_mesh_ip i \<Longrightarrow> encode_clients is = Ok (map user_token (map to_sol is))"
  by (induction "is") (auto simp: has_mesh_ip_def user_token_def to_sol_def)

lemma encode_clients_cases:
  "encode_clients is = Ok (map user_token (map to_sol is)) \<or> (\<exists>e. encode_clients is = Err e)"
  by (induction "is") (auto simp: user_token_def to_sol_def split: ip_addr.splits sum.splits)

lemma overlaps_refl [simp]: "overlaps a a"
  by (simp add: overlaps_def)

lemma overlaps_sym: "overlaps a b \<Longrightarrow> overlaps b a"
  by (auto simp: overlaps_def)

section \<open>Bulk registration\<close>

lemma add_user_Ok:
  assumes "db_ok db" and "a \<in> set (state_UserAdmins db)" and "\<forall>x \<in> set (db_ids db). \<not> overlaps u x"
  obtains db' where "addRegisteredUser a u db = Ok db'" and "db_ok db'"
    and "state_registeredUsers db' = state_registeredUsers db @ [u]"
    and "state_registeredExits db' = state_registeredExits db" and "state_UserAdmins db' = state_UserAdmins db"
proof -
  have "rg_ids (registry_of db) = set (db_ids db)" by (auto simp: rg_ids_def registry_of_def db_ids_def)
  then have nd: "\<not> checkForAnyDuplicates u db" using assms(1,3) by (simp add: duplicates_iff)
  then obtain db' where r: "addRegisteredUser a u db = Ok db'" using assms(2) by (simp add: addRegisteredUser_def Let_def)
  then have "db_ok db'" using refines_add_user[of a u] assms(1) by (auto simp: refines_def split: sum.splits dest!: spec[of _ db])
  then show thesis using that[OF r] r nd assms(2) by (auto simp: addRegisteredUser_def Let_def emit_def mark_def)
qed

definition compatible :: "sol_identity list \<Rightarrow> althea_db \<Rightarrow> bool" where
  "compatible us db \<longleftrightarrow> sorted_wrt (\<lambda>a b. \<not> overlaps a b) us
     \<and> (\<forall>u \<in> set us. \<forall>x \<in> set (db_ids db). \<not> overlaps u x)"

lemma add_users_Ok:
  assumes "db_ok db" and "a \<in> set (state_UserAdmins db)" and "compatible us db"
  obtains db' where "db_exec a (AddUsers us) db = Ok db'" and "db_ok db'"
    and "state_registeredUsers db' = state_registeredUsers db @ us"
    and "state_registeredExits db' = state_registeredExits db" and "state_UserAdmins db' = state_UserAdmins db"
  using assms
proof (induction us arbitrary: db thesis)
  case Nil
  then show ?case by (simp add: addRegisteredUsersBulk_def)
next
  case (Cons u us)
  have "\<forall>x \<in> set (db_ids db). \<not> overlaps u x" using Cons.prems(4) by (simp add: compatible_def)
  then obtain db1 where db1: "addRegisteredUser a u db = Ok db1" "db_ok db1"
    "state_registeredUsers db1 = state_registeredUsers db @ [u]"
    "state_registeredExits db1 = state_registeredExits db" "state_UserAdmins db1 = state_UserAdmins db"
    using add_user_Ok[OF Cons.prems(2,3)] by blast
  have "compatible us db1" using Cons.prems(4) db1 by (auto simp: compatible_def db_ids_def dest: overlaps_sym)
  moreover have "a \<in> set (state_UserAdmins db1)" using Cons.prems(3) db1(5) by simp
  ultimately obtain db' where "db_exec a (AddUsers us) db1 = Ok db'" "db_ok db'"
    "state_registeredUsers db' = state_registeredUsers db1 @ us"
    "state_registeredExits db' = state_registeredExits db1" "state_UserAdmins db' = state_UserAdmins db1"
    using Cons.IH[OF _ db1(2)] by blast
  then show ?case using Cons.prems(1) db1 by (simp add: addRegisteredUsersBulk_def andthen_def)
qed

lemma add_users_conflict:
  assumes "db_ok db" and "u \<in> set us" and "x \<in> set (db_ids db)" and "overlaps u x"
  shows "\<exists>e. db_exec a (AddUsers us) db = Err e"
  using assms
proof (induction us arbitrary: db)
  case (Cons v us)
  show ?case
  proof (cases "addRegisteredUser a v db")
    case (Inl e)
    then show ?thesis by (simp add: addRegisteredUsersBulk_def andthen_def)
  next
    case (Inr db1)
    have ok1: "db_ok db1" and nd: "\<not> checkForAnyDuplicates v db"
      and ids: "set (db_ids db) \<subseteq> set (db_ids db1)"
      using refines_add_user[of a v] Cons.prems(1) Inr
      by (auto simp: refines_def addRegisteredUser_def Let_def emit_def mark_def db_ids_def split: if_splits
          dest!: spec[of _ db])
    have "rg_ids (registry_of db) = set (db_ids db)" by (auto simp: rg_ids_def registry_of_def db_ids_def)
    then have "u \<noteq> v" using nd Cons.prems(3,4) duplicates_iff[OF Cons.prems(1)] by auto
    then have "u \<in> set us" using Cons.prems(2) by simp
    then obtain e where "db_exec a (AddUsers us) db1 = Err e" using Cons.IH[OF ok1] Cons.prems(3,4) ids by blast
    then show ?thesis using Inr by (simp add: addRegisteredUsersBulk_def andthen_def)
  qed
qed simp

section \<open>The batch loop\<close>

text \<open>A queue that can be registered: complete identities that overlap neither each other nor a registered one.\<close>

definition registrable :: "address \<Rightarrow> althea_db \<Rightarrow> identity set \<Rightarrow> bool" where
  "registrable a db Q \<longleftrightarrow> finite Q \<and> db_ok db \<and> a \<in> set (state_UserAdmins db)
     \<and> length (state_registeredUsers db) + card Q < 2 ^ 64 \<and> (\<forall>c \<in> Q. has_mesh_ip c)
     \<and> (\<forall>c \<in> Q. \<forall>d \<in> Q. c \<noteq> d \<longrightarrow> \<not> overlaps (to_sol c) (to_sol d))
     \<and> (\<forall>c \<in> Q. \<forall>x \<in> set (db_ids db). \<not> overlaps (to_sol c) x)"

lemma registrable_not_registered:
  assumes "registrable a db Q" and "c \<in> Q"
  shows "c \<notin> from_sol ` set (state_registeredUsers db)"
proof
  assume "c \<in> from_sol ` set (state_registeredUsers db)"
  then have "to_sol c \<in> set (db_ids db)" by (auto simp: db_ids_def)
  then show False using assms unfolding registrable_def by (metis overlaps_refl)
qed

lemma sorted_wrt_distinct:
  assumes "distinct xs" and "\<And>a b. a \<in> set xs \<Longrightarrow> b \<in> set xs \<Longrightarrow> a \<noteq> b \<Longrightarrow> R a b"
  shows "sorted_wrt R xs"
  using assms by (induction xs) auto

lemma registrable_batch:
  assumes "registrable a db Q" and "distinct B" and "set B \<subseteq> Q"
  obtains db' where "db_exec a (AddUsers (map to_sol B)) db = Ok db'" and "registrable a db' (Q - set B)"
    and "state_registeredUsers db' = state_registeredUsers db @ map to_sol B"
proof -
  have apart: "\<not> overlaps (to_sol c) (to_sol d)" if "c \<in> set B" "d \<in> set B" "c \<noteq> d" for c d
    using that assms(1,3) unfolding registrable_def by blast
  have free: "\<not> overlaps (to_sol c) x" if "c \<in> set B" "x \<in> set (db_ids db)" for c x
    using that assms(1,3) unfolding registrable_def by blast
  have "sorted_wrt (\<lambda>c d. \<not> overlaps (to_sol c) (to_sol d)) B" using assms(2) apart by (rule sorted_wrt_distinct)
  then have "compatible (map to_sol B) db" using free by (auto simp: compatible_def sorted_wrt_map)
  then obtain db' where db': "db_exec a (AddUsers (map to_sol B)) db = Ok db'" "db_ok db'"
    "state_registeredUsers db' = state_registeredUsers db @ map to_sol B"
    "state_registeredExits db' = state_registeredExits db" "state_UserAdmins db' = state_UserAdmins db"
    using assms(1) add_users_Ok[of db a "map to_sol B"] unfolding registrable_def by blast
  have "card (Q - set B) + length B = card Q"
    using assms by (simp add: registrable_def card_Diff_subset distinct_card card_mono flip: distinct_card)
  then have n: "length (state_registeredUsers db') + card (Q - set B) < 2 ^ 64"
    using assms(1) by (simp add: registrable_def db'(3))
  have ids: "set (db_ids db') = set (db_ids db) \<union> to_sol ` set B" by (auto simp: db_ids_def db'(3,4))
  have "\<not> overlaps (to_sol c) x" if cx: "c \<in> Q - set B" "x \<in> set (db_ids db')" for c x
  proof (cases "x \<in> set (db_ids db)")
    case True
    then show ?thesis using cx(1) assms(1) by (simp add: registrable_def)
  next
    case False
    then obtain d where "d \<in> Q" "d \<in> set B" "x = to_sol d" using cx(2) assms(3) unfolding ids by auto
    then show ?thesis using cx(1) assms(1) unfolding registrable_def by (metis DiffD1 DiffD2)
  qed
  then have "registrable a db' (Q - set B)" using n assms(1) db'(2,5) unfolding registrable_def by auto
  with db' that show thesis by blast
qed

lemma find_by_key: "distinct (map f xs) \<Longrightarrow> x \<in> set xs \<Longrightarrow> find (\<lambda>y. f y = f x) xs = Some x"
  by (induction xs) (auto simp: image_iff)

lemma register_round_batch:
  assumes "queued \<noteq> []" and "get_all_regsitered_clients C N a contract w = Some (Ok cs, w1)"
    and "select_batch (set cs) queued [] = B" and "B \<noteq> []"
  shows "register_round C N contract a queued r w = (case add_users_to_registered_list N B contract a True w1 of
     None \<Rightarrow> None | Some (Inl _, w2) \<Rightarrow> Some (r, w2)
   | Some (Inr _, w2) \<Rightarrow> Some (fold remove_client_from_reg_queue B r, w2))"
  unfolding register_round_def using assms by simp

context registration_node
begin

lemma all_clients:
  assumes "length (state_registeredUsers (db_of w)) < 2 ^ 64"
  shows "get_all_regsitered_clients C N a contract w
     = Some (Ok (map from_sol (filter (\<lambda>u. id_mesh_ip u \<noteq> 0) (state_registeredUsers (db_of w)))), w)"
  using parse_users[OF assms] users_query[of a w]
  by (simp add: get_all_regsitered_clients_def rio_defs decoded_def getAllRegisteredUsers_def)

lemma round_registers:
  assumes "registrable a (db_of w) (register_queue r)" and "set queued = register_queue r" and "distinct queued"
  obtains r' w' where "register_round C N contract a queued r w = Some (r', w')"
    and "register_queue r' = register_queue r - set (take 76 queued)"
    and "registrable a (db_of w') (register_queue r')"
    and "state_registeredUsers (db_of w') = state_registeredUsers (db_of w) @ map to_sol (take 76 queued)"
proof (cases "queued = []")
  case True
  then show ?thesis using that[of r w] assms by (simp add: register_round_def)
next
  case False
  let ?all = "map from_sol (filter (\<lambda>u. id_mesh_ip u \<noteq> 0) (state_registeredUsers (db_of w)))"
  let ?B = "take 76 queued"
  have "length (state_registeredUsers (db_of w)) < 2 ^ 64" using assms(1) by (simp add: registrable_def)
  note all = all_clients[OF this]
  have "filter (\<lambda>c. c \<notin> set ?all) queued = queued"
    using registrable_not_registered[OF assms(1)] assms(2) by (auto simp: filter_id_conv)
  then have batch: "select_batch (set ?all) queued [] = ?B"
    by (subst select_batch_spec) (simp_all add: MAX_BATCH_SIZE_def)
  have sub: "set ?B \<subseteq> register_queue r" using set_take_subset[of 76 queued] assms(2) by simp
  obtain db' where db': "db_exec a (AddUsers (map to_sol ?B)) (db_of w) = Ok db'"
    "registrable a db' (register_queue r - set ?B)"
    "state_registeredUsers db' = state_registeredUsers (db_of w) @ map to_sol ?B"
    using registrable_batch[OF assms(1) distinct_take[OF assms(3)] sub] .
  have "encode_clients ?B = Ok (map user_token (map to_sol ?B))"
    using sub assms(1) by (intro encode_clients_v6) (auto simp: registrable_def)
  then obtain h w' where w': "add_users_to_registered_list N ?B contract a True w = Some (Ok h, w')" "db_of w' = db'"
    using accepted_call[OF db'(1)] by (auto simp: add_users_to_registered_list_def rio_defs bulk_signature_def)
  have "register_round C N contract a queued r w = Some (fold remove_client_from_reg_queue ?B r, w')"
    using register_round_batch[OF False all batch] False w'(1) by simp
  from that[OF this remove_all_from_queue] show ?thesis unfolding remove_all_from_queue w'(2) using db'(2,3) by blast
qed

lemma steps_register:
  assumes "registrable a (db_of w) (register_queue r)" and "register_steps C N contract a n (r, w) (r', w')"
  shows "card (register_queue r') = card (register_queue r) - 76 * n \<and> register_queue r' \<subseteq> register_queue r
     \<and> registrable a (db_of w') (register_queue r')
     \<and> set (state_registeredUsers (db_of w'))
         = set (state_registeredUsers (db_of w)) \<union> to_sol ` (register_queue r - register_queue r')"
  using assms(2,1)
proof (induction n "(r, w)" "(r', w')" arbitrary: r' w' rule: register_steps.induct)
  case start
  then show ?case by simp
next
  case (turn n r1 w1 queued)
  have IH: "card (register_queue r1) = card (register_queue r) - 76 * n" "register_queue r1 \<subseteq> register_queue r"
    "registrable a (db_of w1) (register_queue r1)"
    "set (state_registeredUsers (db_of w1)) = set (state_registeredUsers (db_of w)) \<union> to_sol ` (register_queue r - register_queue r1)"
    using turn by auto
  let ?B = "take 76 queued"
  obtain r2 w2 where r2: "register_round C N contract a queued r1 w1 = Some (r2, w2)"
    "register_queue r2 = register_queue r1 - set ?B" "registrable a (db_of w2) (register_queue r2)"
    "state_registeredUsers (db_of w2) = state_registeredUsers (db_of w1) @ map to_sol ?B"
    by (rule round_registers[OF IH(3) turn(3,4)])
  have "r2 = r'" "w2 = w'" using r2(1) turn(5) by simp_all
  note r' = r2(2-4)[unfolded this]
  have sub: "set ?B \<subseteq> register_queue r1" using set_take_subset[of 76 queued] turn(3) by simp
  have "card (set ?B) = length ?B" "card (register_queue r1) = length queued"
    using turn(3,4) distinct_card[of queued] distinct_card[of ?B] by simp_all
  then have "card (register_queue r') = card (register_queue r) - 76 * Suc n"
    using sub IH(1) unfolding r'(1) by (simp add: card_Diff_subset)
  moreover have "register_queue r - register_queue r' = (register_queue r - register_queue r1) \<union> set ?B"
    using r'(1) sub IH(2) by auto
  ultimately show ?case using r' IH by (auto simp: image_Un)
qed

lemma steps_exist:
  assumes "registrable a (db_of w) (register_queue r)"
  shows "\<exists>r' w'. register_steps C N contract a n (r, w) (r', w')"
proof (induction n)
  case 0
  show ?case using register_steps.start by blast
next
  case (Suc n)
  then obtain r1 w1 where s: "register_steps C N contract a n (r, w) (r1, w1)" by blast
  then have reg: "registrable a (db_of w1) (register_queue r1)" using steps_register[OF assms] by blast
  have "finite (register_queue r1)" using reg by (simp add: registrable_def)
  from finite_distinct_list[OF this] obtain queued where q: "set queued = register_queue r1" "distinct queued" by blast
  obtain r2 w2 where "register_round C N contract a queued r1 w1 = Some (r2, w2)" by (rule round_registers[OF reg q])
  from register_steps.turn[OF s q this] show ?case by blast
qed

lemma lookup_client:
  assumes "db_ok (db_of w)" and "c \<in> from_sol ` set (state_registeredUsers (db_of w))" and "has_mesh_ip c"
  shows "get_registered_client_using_wgkey C N (wg_public_key c) a contract w = Some (Ok c, w)"
proof -
  let ?us = "state_registeredUsers (db_of w)"
  obtain u where u: "u \<in> set ?us" "c = from_sol u" using assms(2) by blast
  have "distinct (map id_wg_key ?us)" using db_ids_distinct(2)[OF assms(1)] by (simp add: db_ids_def)
  from find_by_key[OF this u(1)] have "find (\<lambda>x. id_wg_key x = id_wg_key u) ?us = Some u" .
  then have g: "getRegisteredClientWithWgKey (wg_public_key c) (db_of w) = u"
    by (simp add: getRegisteredClientWithWgKey_def first_or_def u(2) from_sol_def)
  have "chunks 32 (concat (identity_words u)) = identity_words u" by (rule chunks_words) (simp add: identity_words_def)
  moreover have "id_mesh_ip u \<noteq> 0" using assms(3) u(2) by (auto simp: has_mesh_ip_def from_sol_def)
  ultimately show ?thesis using client_query[of a "wg_public_key c" w] g u(2)
    by (simp add: get_registered_client_using_wgkey_def rio_defs decoded_def WORD_SIZE_def parse_identity_words)
qed

lemma round_blocked:
  assumes "db_ok (db_of w)" and "length (state_registeredUsers (db_of w)) < 2 ^ 64"
    and "set queued = register_queue r" and "distinct queued" and "card (register_queue r) \<le> 76"
    and "c \<in> register_queue r" and "c \<notin> from_sol ` set (state_registeredUsers (db_of w))"
    and "x \<in> set (db_ids (db_of w))" and "overlaps (to_sol c) x"
  shows "\<exists>w'. register_round C N contract a queued r w = Some (r, w') \<and> db_of w' = db_of w"
proof -
  let ?all = "map from_sol (filter (\<lambda>u. id_mesh_ip u \<noteq> 0) (state_registeredUsers (db_of w)))"
  let ?B = "filter (\<lambda>c. c \<notin> set ?all) queued"
  have "length queued \<le> 76" using assms(3,5) distinct_card[OF assms(4)] by simp
  then have "length ?B \<le> 76" using length_filter_le le_trans by blast
  then have batch: "select_batch (set ?all) queued [] = ?B"
    by (subst select_batch_spec) (simp_all add: MAX_BATCH_SIZE_def)
  have c: "c \<in> set ?B" using assms(3,6,7) by auto
  then have ne: "queued \<noteq> []" "?B \<noteq> []" by (metis empty_iff empty_set filter.simps(1))+
  have "\<exists>e w'. add_users_to_registered_list N ?B contract a True w = Some (Err e, w') \<and> db_of w' = db_of w"
  proof (cases "\<exists>e. encode_clients ?B = Err e")
    case True
    then show ?thesis by (auto simp: add_users_to_registered_list_def rio_defs)
  next
    case False
    then have enc: "encode_clients ?B = Ok (map user_token (map to_sol ?B))" using encode_clients_cases by blast
    have "to_sol c \<in> set (map to_sol ?B)" using c by simp
    then obtain e where "db_exec a (AddUsers (map to_sol ?B)) (db_of w) = Err e"
      using add_users_conflict[OF assms(1) _ assms(8,9)] by blast
    then show ?thesis using reverted_call enc
      by (fastforce simp: add_users_to_registered_list_def rio_defs bulk_signature_def)
  qed
  then show ?thesis using register_round_batch[OF ne(1) all_clients[OF assms(2)] batch ne(2)] by auto
qed

end

section \<open>Properties\<close>

text \<open>C30: The contract is a registry: whatever calls were made before by whom, a call does to the sets of users, exits
  and administrators what the specification says, and reverts with the specified error exactly when it says so.\<close>

theorem contract_refines_registry:
  assumes "db_reachable admin db"
  shows "map_sum (\<lambda>e. e) registry_of (db_exec s c db) = spec_exec s c (registry_of db)"
proof -
  have "case db_exec s c db of Inl e \<Rightarrow> spec_exec s c (registry_of db) = Inl e
    | Inr db' \<Rightarrow> spec_exec s c (registry_of db) = Inr (registry_of db') \<and> db_ok db'"
    using refines_exec[of s c] reachable_ok[OF assms] unfolding refines_def by blast
  then show ?thesis by (cases "db_exec s c db") simp_all
qed

definition sample_client :: identity where
  "sample_client = \<lparr>mesh_ip = V6 7, eth_address = 8, wg_public_key = 9\<rparr>"

definition sample_db :: althea_db where
  "sample_db = db_transaction 1 (AddUserAdmin 2) (db_constructor 1)"

lemma sample_db_reachable: "db_reachable 1 sample_db"
  unfolding sample_db_def by (intro db_reachable.intros)

lemma sample_db_simps:
  "state_UserAdmins sample_db = [2]" "state_registeredUsers sample_db = []" "state_registeredExits sample_db = []"
  by (simp_all add: sample_db_def db_transaction_def addUserAdmin_def db_constructor_def emit_def isUserAdmin_def)

lemma contract_refines_registry_witness:
  "map_sum (\<lambda>e. e) registry_of (db_exec 2 (AddUser (to_sol sample_client)) sample_db)
     = Ok (registry_of sample_db\<lparr>rg_users := {to_sol sample_client}\<rparr>)"
  using contract_refines_registry[OF sample_db_reachable, of 2 "AddUser (to_sol sample_client)"]
  by (simp add: spec_add_user_def only_if_def registry_of_def rg_ids_def sample_db_simps)

lemma find_exit:
  assumes "distinct (map (f \<circ> exitIdToId) xs)" and "x \<in> set xs" and "\<And>y. g y = f (exitIdToId y)"
  shows "find (\<lambda>y. g y = g x) xs = Some x"
proof -
  have "g = f \<circ> exitIdToId" using assms(3) by auto
  then show ?thesis using find_by_key[OF _ assms(2), of g] assms(1) by simp
qed

text \<open>C31: No two registered identities share a mesh address, a key or a payment address, users and exits taken together:
  neither two users, nor two exits, nor a user and an exit. A lookup by any of the three components therefore returns
  the user that has it, or the exit that has it.\<close>

theorem registered_identities_are_disjoint:
  assumes "db_reachable admin db"
  shows "sorted_wrt (\<lambda>a b. \<not> overlaps a b) (state_registeredUsers db @ map exitIdToId (state_registeredExits db))
     \<and> (\<forall>u \<in> set (state_registeredUsers db). getRegisteredClientWithWgKey (id_wg_key u) db = u
          \<and> getRegisteredClientWithMeshIp (id_mesh_ip u) db = u \<and> getRegisteredClientWithEthAddr (id_eth_addr u) db = u)
     \<and> (\<forall>x \<in> set (state_registeredExits db). getRegisteredExitWithWgKey (xi_wg_key x) db = x
          \<and> getRegisteredExitWithMeshIp (xi_mesh_ip x) db = x \<and> getRegisteredExitWithEthAddr (xi_eth_addr x) db = x)"
proof (intro conjI ballI)
  note d = db_ids_distinct(1-4)[OF reachable_ok[OF assms]]
  have "a = b" if "a \<in> set (db_ids db)" "b \<in> set (db_ids db)" "overlaps a b" for a b
    using that d unfolding overlaps_def distinct_map by (metis inj_onD)
  then have "sorted_wrt (\<lambda>a b. \<not> overlaps a b) (db_ids db)" using d(4) by (intro sorted_wrt_distinct) auto
  then show "sorted_wrt (\<lambda>a b. \<not> overlaps a b) (state_registeredUsers db @ map exitIdToId (state_registeredExits db))"
    by (simp add: db_ids_def)
  fix u assume u: "u \<in> set (state_registeredUsers db)"
  show "getRegisteredClientWithWgKey (id_wg_key u) db = u" "getRegisteredClientWithMeshIp (id_mesh_ip u) db = u"
    "getRegisteredClientWithEthAddr (id_eth_addr u) db = u"
    using d u find_by_key[of id_wg_key _ u] find_by_key[of id_mesh_ip _ u] find_by_key[of id_eth_addr _ u]
    by (auto simp: db_ids_def getRegisteredClientWithWgKey_def getRegisteredClientWithMeshIp_def
        getRegisteredClientWithEthAddr_def first_or_def)
next
  note d = db_ids_distinct(1-3)[OF reachable_ok[OF assms]]
  fix x assume x: "x \<in> set (state_registeredExits db)"
  have "find (\<lambda>y. xi_wg_key y = xi_wg_key x) (state_registeredExits db) = Some x"
    "find (\<lambda>y. xi_mesh_ip y = xi_mesh_ip x) (state_registeredExits db) = Some x"
    "find (\<lambda>y. xi_eth_addr y = xi_eth_addr x) (state_registeredExits db) = Some x"
    by (rule find_exit[OF _ x, of id_wg_key] find_exit[OF _ x, of id_mesh_ip] find_exit[OF _ x, of id_eth_addr],
        use d in \<open>simp_all add: db_ids_def\<close>, simp add: exitIdToId_def)+
  then show "getRegisteredExitWithWgKey (xi_wg_key x) db = x" "getRegisteredExitWithMeshIp (xi_mesh_ip x) db = x"
    "getRegisteredExitWithEthAddr (xi_eth_addr x) db = x"
    by (simp_all add: getRegisteredExitWithWgKey_def getRegisteredExitWithMeshIp_def getRegisteredExitWithEthAddr_def
        first_or_def)
qed

definition sample_exit :: sol_exit_identity where
  "sample_exit = \<lparr>xi_mesh_ip = 17, xi_wg_key = 18, xi_eth_addr = 19, xi_registration_port = 4875,
     xi_wg_exit_listen_port = 59998, xi_allowed_regions = [1, 2], xi_payment_types = [4]\<rparr>"

definition sample_registered :: althea_db where
  "sample_registered = db_transaction 3 (AddExit sample_exit) (db_transaction 1 (AddExitAdmin 3)
     (db_transaction 2 (AddUser (to_sol sample_client)) sample_db))"

lemma sample_registered_reachable: "db_reachable 1 sample_registered"
  unfolding sample_registered_def by (intro db_reachable.called sample_db_reachable)

lemma sample_registered_simps:
  "state_registeredUsers sample_registered = [to_sol sample_client]" "state_registeredExits sample_registered = [sample_exit]"
  by (simp_all add: sample_registered_def sample_db_def db_transaction_def addUserAdmin_def addExitAdmin_def
      db_constructor_def emit_def isUserAdmin_def isExitAdmin_def addRegisteredUser_def addRegisteredExit_def
      checkForAnyDuplicates_def mark_def sample_exit_def exitIdToId_def to_sol_def sample_client_def)

lemma registered_identities_are_disjoint_witness:
  "\<not> overlaps (to_sol sample_client) (exitIdToId sample_exit)
   \<and> getRegisteredClientWithWgKey 9 sample_registered = to_sol sample_client
   \<and> getRegisteredExitWithWgKey 18 sample_registered = sample_exit"
  using registered_identities_are_disjoint[OF sample_registered_reachable]
  by (simp add: sample_registered_simps) (simp add: to_sol_def sample_client_def sample_exit_def)

text \<open>C33: What the contract returns is decoded to what it stores: for lists of users and of exits in the ABI encoding the
  decoders return exactly the entries with a mesh address, in order.\<close>

theorem abi_lists_round_trip:
  assumes "clarity_laws C" and "length us < 2 ^ 64" and "length (exit_array_words xs) < 2 ^ 58"
  shows "parse_identity_array_abi C (abi_identity_array us)
       = Some (Ok (map from_sol (filter (\<lambda>u. id_mesh_ip u \<noteq> 0) us)))
     \<and> parse_exit_identity_array_abi C (abi_exit_array xs)
       = Some (Ok (map from_sol_exit (filter (\<lambda>x. xi_mesh_ip x \<noteq> 0) xs)))"
  using clarity_laws.parse_users[OF assms(1,2)] clarity_laws.parse_exits_array[OF assms(1,3)] by simp

lemma abi_lists_round_trip_witness:
  "parse_identity_array_abi be_clarity (abi_identity_array [to_sol sample_client]) = Some (Ok [sample_client])
     \<and> parse_exit_identity_array_abi be_clarity (abi_exit_array [sample_exit, getNullExitIdentity])
       = Some (Ok [from_sol_exit sample_exit])"
proof -
  have "length (exit_array_words [sample_exit, getNullExitIdentity]) < 2 ^ 58"
    by (simp add: exit_array_words_def length_exit_words sample_exit_def getNullExitIdentity_def)
  from abi_lists_round_trip[OF be_clarity.clarity_laws_axioms _ this, of "[to_sol sample_client]"]
  show ?thesis
    by (simp add: sample_exit_def getNullExitIdentity_def) (simp add: from_sol_def to_sol_def sample_client_def)
qed

text \<open>C32: A queue of complete identities that overlap with nobody is registered: with an honest node the loop never stops
  before, needs one turn for every 76 clients in whatever order the queue is read, and then an exit finds every one of
  them by its key.\<close>

theorem queued_clients_are_registered:
  assumes "registration_node C N db_of contract" and "registrable a (db_of w) (register_queue r)"
    and "card (register_queue r) \<le> 76 * n"
  shows "(\<exists>s. register_steps C N contract a n (r, w) s)
     \<and> (\<forall>r' w'. register_steps C N contract a n (r, w) (r', w') \<longrightarrow> register_queue r' = {}
         \<and> (\<forall>c \<in> register_queue r.
              get_registered_client_using_wgkey C N (wg_public_key c) b contract w' = Some (Ok c, w')))"
proof (intro conjI allI impI ballI)
  show "\<exists>s. register_steps C N contract a n (r, w) s" using registration_node.steps_exist[OF assms(1,2)] by blast
next
  fix r' w' assume "register_steps C N contract a n (r, w) (r', w')"
  note s = registration_node.steps_register[OF assms(1,2) this]
  then have "card (register_queue r') = 0" "finite (register_queue r')" using assms(3) by (simp_all add: registrable_def)
  then show "register_queue r' = {}" by simp
next
  fix r' w' c assume run: "register_steps C N contract a n (r, w) (r', w')" and c: "c \<in> register_queue r"
  note s = registration_node.steps_register[OF assms(1,2) run]
  then have "card (register_queue r') = 0" "finite (register_queue r')" and ok: "db_ok (db_of w')"
    using assms(3) by (simp_all add: registrable_def)
  then have "register_queue r' = {}" by simp
  then have mem: "to_sol c \<in> set (state_registeredUsers (db_of w'))" using s c by simp
  have m: "has_mesh_ip c" using assms(2) c by (simp add: registrable_def)
  then have "c \<in> from_sol ` set (state_registeredUsers (db_of w'))" using mem from_sol_to_sol[OF m] by (metis imageI)
  from registration_node.lookup_client[OF assms(1) ok this m]
  show "get_registered_client_using_wgkey C N (wg_public_key c) b contract w' = Some (Ok c, w')" .
qed

lemma queued_clients_are_registered_witness:
  "\<exists>s. register_steps be_clarity db_node 5 2 1 (registration_new\<lparr>register_queue := {sample_client}\<rparr>, sample_db) s"
proof -
  have "registrable 2 sample_db {sample_client}"
    using reachable_ok[OF sample_db_reachable]
    by (simp add: registrable_def sample_db_simps db_ids_def has_mesh_ip_def sample_client_def)
  then show ?thesis
    using queued_clients_are_registered[OF db_node.registration_node_axioms, where r =
        "registration_new\<lparr>register_queue := {sample_client}\<rparr>" and n = 1 and a = 2 and w = sample_db] by simp
qed

text \<open>One client that shares a component with a registered identity without being registered stops the registration
  of everybody: as long as it is queued, every batch of up to 76 clients reverts and neither queue nor contract change.\<close>

theorem conflicting_client_blocks_queue:
  assumes "registration_node C N db_of contract" and "db_ok (db_of w)"
    and "length (state_registeredUsers (db_of w)) < 2 ^ 64" and "card (register_queue r) \<le> 76"
    and "c \<in> register_queue r" and "c \<notin> from_sol ` set (state_registeredUsers (db_of w))"
    and "\<exists>x \<in> set (db_ids (db_of w)). overlaps (to_sol c) x"
    and "register_steps C N contract a n (r, w) (r', w')"
  shows "r' = r \<and> db_of w' = db_of w"
  using assms(8)
proof (induction n "(r, w)" "(r', w')" arbitrary: r' w' rule: register_steps.induct)
  case (turn n r1 w1 queued)
  then have IH: "r1 = r" "db_of w1 = db_of w" by simp_all
  obtain x where x: "x \<in> set (db_ids (db_of w1))" "overlaps (to_sol c) x" using assms(7) IH by auto
  have "\<exists>w2. register_round C N contract a queued r1 w1 = Some (r1, w2) \<and> db_of w2 = db_of w1"
    by (rule registration_node.round_blocked[OF assms(1), where c = c and x = x])
      (use turn(3,4) assms(2-6) x IH in simp_all)
  then show ?case using turn(5) IH by auto
qed simp

lemma conflicting_client_blocks_queue_witness:
  "\<exists>r' w'. register_steps be_clarity db_node 5 2 (Suc 0)
       (registration_new\<lparr>register_queue := {sample_client\<lparr>mesh_ip := V6 70\<rparr>}\<rparr>, sample_registered) (r', w')
     \<and> register_queue r' = {sample_client\<lparr>mesh_ip := V6 70\<rparr>} \<and> w' = sample_registered"
proof -
  let ?c = "sample_client\<lparr>mesh_ip := V6 70\<rparr>"
  let ?r = "registration_new\<lparr>register_queue := {?c}\<rparr>"
  have ov: "\<exists>x \<in> set (db_ids sample_registered). overlaps (to_sol ?c) x"
    by (simp add: db_ids_def sample_registered_simps overlaps_def) (simp add: to_sol_def)
  then obtain x where x: "x \<in> set (db_ids sample_registered)" "overlaps (to_sol ?c) x" by blast
  have new: "?c \<notin> from_sol ` set (state_registeredUsers sample_registered)"
    by (simp add: sample_registered_simps) (simp add: from_sol_def to_sol_def sample_client_def)
  note ok = reachable_ok[OF sample_registered_reachable]
  have "\<exists>w'. register_round be_clarity db_node 5 2 [?c] ?r sample_registered = Some (?r, w') \<and> w' = sample_registered"
    by (rule db_node.round_blocked[where c = ?c and x = x]) (use ok new x in \<open>simp_all add: sample_registered_simps\<close>)
  then have run: "register_steps be_clarity db_node 5 2 (Suc 0) (?r, sample_registered) (?r, sample_registered)"
    by (intro register_steps.turn[OF register_steps.start, where queued = "[?c]"]) simp_all
  show ?thesis
    using conflicting_client_blocks_queue[OF db_node.registration_node_axioms, where c = ?c, OF ok _ _ _ new ov run] run
    by (intro exI[of _ ?r] exI[of _ sample_registered]) (simp add: sample_registered_simps)
qed

text \<open>Whether a request proves the number it gives.\<close>

definition proved :: "('ph, 'w) sms_service \<Rightarrow> 'ph option \<Rightarrow> exit_client_identity \<Rightarrow> 'w \<Rightarrow> bool" where
  "proved S magic client w \<longleftrightarrow> (\<exists>text number code. ec_phone client = Some text \<and> parse_phone S text = Some number
     \<and> ec_phone_code client = Some code
     \<and> (magic = Some number \<or> (\<exists>status. fst (post_verify S number code w) = Ok status \<and> is_success status)))"

lemma submit_code_cases:
  "submit_code S magic client number code r w =
     (if magic = Some number
      then (RegistrationOk, reset_texts_sent (wg_public_key client) (add_client_to_reg_queue client r), w)
      else case post_verify S number code w of
             (Inr status, w') \<Rightarrow> if is_success status
               then (RegistrationOk, reset_texts_sent (wg_public_key client) (add_client_to_reg_queue client r), w')
               else (PendingRegistration, r, w')
           | (Inl _, w') \<Rightarrow> (InternalServerErrorReturn, r, w'))"
  by (auto simp: submit_code_def check_sms_auth_result_def return_api_error_def split: prod.splits sum.splits bool.splits)

text \<open>C34: Only a client that proved its number is queued: a request adds an identity to the queue exactly when it submits a
  code for a valid number and the number is the magic one or the service confirmed the code; it is then the sender's own
  identity and nothing else is added.\<close>

theorem only_proved_clients_are_queued:
  assumes "handle_sms_registration S magic client r w = (res, r', w')"
  shows "(res = RegistrationOk \<longleftrightarrow> proved S magic client w)
     \<and> register_queue r' = register_queue r \<union> (if proved S magic client w then {ec_global client} else {})"
  using assms
  by (auto simp: handle_sms_registration_def submit_code_cases proved_def start_sms_auth_flow_def return_api_error_def
      Let_def add_client_to_reg_queue_def reset_texts_sent_def increment_texts_sent_def
      split: option.splits prod.splits sum.splits bool.splits if_splits)

definition sample_service :: "(nat, unit) sms_service" where
  "sample_service = \<lparr>parse_phone = (\<lambda>s. parse_uint 10 99999 s),
     post_verify = (\<lambda>number code w. (Ok (if code = ''42'' then 200 else 400), w)), post_sms = (\<lambda>number w. (Ok 200, w))\<rparr>"

definition sample_request :: exit_client_identity where
  "sample_request = \<lparr>ec_global = sample_client, ec_phone = Some ''12'', ec_phone_code = Some ''42''\<rparr>"

lemma only_proved_clients_are_queued_witness:
  "\<exists>res r' w'. handle_sms_registration sample_service None sample_request registration_new () = (res, r', w')
     \<and> res = RegistrationOk \<and> register_queue r' = {sample_client}"
proof -
  obtain res r' w' where h: "handle_sms_registration sample_service None sample_request registration_new () = (res, r', w')"
    by (metis prod_cases3)
  have "proved sample_service None sample_request ()"
    by (simp add: proved_def sample_service_def sample_request_def is_success_def parse_uint_def digit_val_def)
  then show ?thesis using only_proved_clients_are_queued[OF h] h
    by (simp add: registration_new_def sample_request_def)
qed

text \<open>The number of texts a key can request is bounded: the counter never passes eleven, so it cannot wrap, and at eleven a
  request without a code does nothing.\<close>

inductive sms_reachable :: "('ph, 'w) sms_service \<Rightarrow> 'ph option \<Rightarrow> registration \<Rightarrow> bool" for S magic where
  new: "sms_reachable S magic registration_new"
| request: "sms_reachable S magic r \<Longrightarrow> handle_sms_registration S magic client r w = (res, r', w')
     \<Longrightarrow> sms_reachable S magic r'"
| registered: "sms_reachable S magic r \<Longrightarrow> sms_reachable S magic (remove_client_from_reg_queue i r)"

lemma texts_are_limited:
  assumes "sms_reachable S magic r"
  shows "get_texts_sent key r \<le> 11"
  using assms
proof (induction arbitrary: key rule: sms_reachable.induct)
  case new
  then show ?case by (simp add: registration_new_def get_texts_sent_def)
next
  case (request r client w res r' w')
  let ?k = "wg_public_key (ec_global client)"
  have "r' = r \<or> r' = reset_texts_sent ?k (add_client_to_reg_queue (ec_global client) r)
    \<or> \<not> get_texts_sent ?k r > 10 \<and> r' = increment_texts_sent ?k r"
    using request(2) by (auto simp: handle_sms_registration_def submit_code_cases start_sms_auth_flow_def Let_def
        split: option.splits prod.splits sum.splits bool.splits if_splits)
  moreover have "v + 1 \<le> 11" if "\<not> v > 10" for v :: u8
    using that by (auto simp: word_le_nat_alt word_less_nat_alt unat_word_ariths)
  ultimately show ?case using request(3)[of key]
    by (auto simp: reset_texts_sent_def add_client_to_reg_queue_def increment_texts_sent_def get_texts_sent_def
        unwrap_or_def split: option.splits if_splits)
next
  case (registered r i)
  then show ?case by (simp add: remove_client_from_reg_queue_def get_texts_sent_def)
qed

end
