(* ===== verification/Ip_Nets.thy ===== *)
theory Ip_Nets
  imports Kernel_Routes
begin

text \<open>
  The crate \<open>ipnetwork\<close>, which computes with networks: an address and the length of its prefix. It is a
  parameter, the record \<open>ipnet\<close>; what its documentation promises of the operations the sources call is the
  locale \<open>ipnet_laws\<close>, interpreted on the usual definitions over bit masks.
\<close>

unbundle bit_operations_syntax

record ipnet =
  v4_valid :: "u8 \<Rightarrow> bool"
  v4_network :: "u32 \<Rightarrow> u8 \<Rightarrow> u32"
  v4_broadcast :: "u32 \<Rightarrow> u8 \<Rightarrow> u32"
  v4_nth :: "u32 \<Rightarrow> u8 \<Rightarrow> u32 \<Rightarrow> u32 option"
  v6_valid :: "u8 \<Rightarrow> bool"
  v6_network :: "u128 \<Rightarrow> u8 \<Rightarrow> u128"
  v6_size :: "u8 \<Rightarrow> u128"
  show_network :: "ip_network \<Rightarrow> string"

text \<open>The addresses of a network, and the part of a prefix above its host bits.\<close>

definition low_bits :: "nat \<Rightarrow> 'a::len word \<Rightarrow> nat" where
  "low_bits k a = unat a mod 2 ^ k"

definition v4_hosts :: "u32 \<Rightarrow> u8 \<Rightarrow> u32 set" where
  "v4_hosts a p = {x. unat x div 2 ^ (32 - unat p) = unat a div 2 ^ (32 - unat p)}"

definition v6_hosts :: "u128 \<Rightarrow> nat \<Rightarrow> u128 set" where
  "v6_hosts a p = {x. unat x div 2 ^ (128 - p) = unat a div 2 ^ (128 - p)}"

locale ipnet_laws =
  fixes IN :: ipnet
  assumes v4_valid: "v4_valid IN p \<longleftrightarrow> unat p \<le> 32"
    and v4_network: "unat p \<le> 32 \<Longrightarrow> unat (v4_network IN a p) = unat a - low_bits (32 - unat p) a"
    and v4_broadcast: "unat p \<le> 32 \<Longrightarrow>
      unat (v4_broadcast IN a p) = unat a - low_bits (32 - unat p) a + (2 ^ (32 - unat p) - 1)"
    and v4_nth: "unat p \<le> 32 \<Longrightarrow>
      v4_nth IN a p n = (if unat n < 2 ^ (32 - unat p) then Some (v4_network IN a p + n) else None)"
    and v6_valid: "v6_valid IN p \<longleftrightarrow> unat p \<le> 128"
    and v6_network: "unat p \<le> 128 \<Longrightarrow> unat (v6_network IN b p) = unat b - low_bits (128 - unat p) b"
    and v6_size: "0 < unat p \<Longrightarrow> unat p \<le> 128 \<Longrightarrow> unat (v6_size IN p) = 2 ^ (128 - unat p)"
begin

lemma v4_nth_range:
  assumes "unat p \<le> 32" and "v4_nth IN a p n = Some x"
  shows "unat x = unat a - low_bits (32 - unat p) a + unat n \<and> unat n < 2 ^ (32 - unat p)"
proof -
  let ?k = "32 - unat p"
  have x: "x = v4_network IN a p + n" and n: "unat n < 2 ^ ?k"
    using assms v4_nth by (auto split: if_splits)
  have base: "unat (v4_network IN a p) = unat a div 2 ^ ?k * 2 ^ ?k"
    using v4_network [OF assms(1), of a] by (simp add: low_bits_def minus_mod_eq_div_mult)
  have "unat a < 2 ^ 32" using unsigned_less [of a, where ?'a = nat] by simp
  moreover have "(2::nat) ^ 32 = 2 ^ (32 - ?k) * 2 ^ ?k"
    using assms(1) by (simp flip: power_add)
  ultimately have "unat a div 2 ^ ?k < 2 ^ (32 - ?k)"
    by (simp add: less_mult_imp_div_less)
  then have "(unat a div 2 ^ ?k + 1) * 2 ^ ?k \<le> 2 ^ (32 - ?k) * 2 ^ ?k"
    by (intro mult_right_mono) auto
  then have "unat (v4_network IN a p) + unat n < 2 ^ 32"
    using base n \<open>(2::nat) ^ 32 = _\<close> by (simp add: algebra_simps)
  then have "unat x = unat (v4_network IN a p) + unat n"
    unfolding x by (subst unat_add_lem [THEN iffD1]) auto
  with v4_network [OF assms(1), of a] n show ?thesis by simp
qed

lemma v4_nth_inj:
  "unat p \<le> 32 \<Longrightarrow> v4_nth IN a p m = Some x \<Longrightarrow> v4_nth IN a p n = Some x \<Longrightarrow> m = n"
  using v4_nth by (auto split: if_splits)

lemma v4_nth_hosts: "unat p \<le> 32 \<Longrightarrow> v4_nth IN a p n = Some x \<Longrightarrow> x \<in> v4_hosts a p"
  using v4_nth_range [of p a n x]
  by (simp add: v4_hosts_def low_bits_def minus_mod_eq_div_mult)

end

text \<open>The definitions over masks.\<close>

definition std_ipnet :: ipnet where
  "std_ipnet =
     \<lparr>v4_valid = (\<lambda>p. unat p \<le> 32),
      v4_network = (\<lambda>a p. word_of_nat (unat a - low_bits (32 - unat p) a)),
      v4_broadcast = (\<lambda>a p. word_of_nat (unat a - low_bits (32 - unat p) a + (2 ^ (32 - unat p) - 1))),
      v4_nth = (\<lambda>a p n. if unat n < 2 ^ (32 - unat p)
         then Some (word_of_nat (unat a - low_bits (32 - unat p) a) + n) else None),
      v6_valid = (\<lambda>p. unat p \<le> 128),
      v6_network = (\<lambda>b p. word_of_nat (unat b - low_bits (128 - unat p) b)),
      v6_size = (\<lambda>p. word_of_nat (2 ^ (128 - unat p))),
      show_network = (\<lambda>n. case n of Net4 a p \<Rightarrow> show_ipv4 a @ ''/'' @ dec p | Net6 a p \<Rightarrow> show_ipv6 a @ ''/'' @ dec p)\<rparr>"

lemma network_plus_hosts_lt:
  fixes n :: nat
  assumes "n < 2 ^ w" and "k \<le> w"
  shows "n - n mod 2 ^ k + (2 ^ k - 1) < 2 ^ w"
proof -
  have e: "(2::nat) ^ w = 2 ^ (w - k) * 2 ^ k" using assms(2) by (simp flip: power_add)
  then have "n div 2 ^ k < 2 ^ (w - k)" using assms(1) by (simp add: less_mult_imp_div_less)
  then have "(n div 2 ^ k + 1) * 2 ^ k \<le> 2 ^ (w - k) * 2 ^ k" by (intro mult_right_mono) auto
  then have le: "n div 2 ^ k * 2 ^ k + 2 ^ k \<le> 2 ^ w" unfolding e by simp
  have "0 < (2::nat) ^ k" by simp
  with le show ?thesis unfolding minus_mod_eq_div_mult by linarith
qed

lemma unat_word_of_nat: "n < 2 ^ LENGTH('a) \<Longrightarrow> unat (word_of_nat n :: 'a::len word) = n"
  by (simp add: unat_of_nat)

interpretation std_ipnet: ipnet_laws std_ipnet
proof unfold_locales
  fix p :: u8 and a n :: u32 and b :: u128
  have a: "unat a < 2 ^ 32" and b: "unat b < 2 ^ 128"
    using unsigned_less [of a, where ?'a = nat] unsigned_less [of b, where ?'a = nat] by auto
  show "v4_valid std_ipnet p \<longleftrightarrow> unat p \<le> 32" "v6_valid std_ipnet p \<longleftrightarrow> unat p \<le> 128"
    by (simp_all add: std_ipnet_def)
  show "v4_nth std_ipnet a p n = (if unat n < 2 ^ (32 - unat p) then Some (v4_network std_ipnet a p + n) else None)"
    by (simp add: std_ipnet_def)
  show "unat (v4_network std_ipnet a p) = unat a - low_bits (32 - unat p) a"
    using a by (simp add: std_ipnet_def low_bits_def less_imp_diff_less unat_word_of_nat del: of_nat_diff)
  show "unat (v6_network std_ipnet b p) = unat b - low_bits (128 - unat p) b"
    using b by (simp add: std_ipnet_def low_bits_def less_imp_diff_less unat_word_of_nat del: of_nat_diff)
  show "unat (v4_broadcast std_ipnet a p) = unat a - low_bits (32 - unat p) a + (2 ^ (32 - unat p) - 1)"
    if "unat p \<le> 32"
    using network_plus_hosts_lt [OF a, of "32 - unat p"]
    by (simp add: std_ipnet_def low_bits_def unat_word_of_nat del: of_nat_diff of_nat_add)
  show "unat (v6_size std_ipnet p) = 2 ^ (128 - unat p)" if "0 < unat p" "unat p \<le> 128"
  proof -
    have "(2::nat) ^ (128 - unat p) < 2 ^ 128" using that by (intro power_strict_increasing) auto
    then show ?thesis by (simp add: std_ipnet_def unat_word_of_nat del: of_nat_power)
  qed
qed

end
