(* ===== verification/Kernel_Exit.thy ===== *)
theory Kernel_Exit
  imports Ip_Nets Tunnel_Manager
begin

text \<open>
  The two ends of an exit tunnel in the operating system: \<open>exit_server_tunnel.rs\<close> configures the WireGuard
  interfaces of an exit for its clients, \<open>exit_client_tunnel.rs\<close> the one of a client, \<open>ip_addr.rs\<close> the
  addresses it is given.
\<close>

section \<open>The exit\<close>

record exit_client =
  xc_internal_ip :: ip_addr
  xc_internet_ipv6 :: "ip_network option"
  xc_public_key :: wg_key
  xc_mesh_ip :: ip_addr
  xc_port :: u16

definition client_args :: "ipnet \<Rightarrow> (wg_key \<Rightarrow> string) \<Rightarrow> exit_client \<Rightarrow> string list" where
  "client_args IN show_key c =
     [''peer'', show_key (xc_public_key c), ''endpoint'',
      ''['' @ show_ip (xc_mesh_ip c) @ '']:'' @ dec (unat (xc_port c)), ''allowed-ips'',
      show_ip (xc_internal_ip c) @ (case xc_internet_ipv6 c of Some n \<Rightarrow> '','' @ show_network IN n | None \<Rightarrow> [])]"

definition wg_config_args ::
  "ipnet \<Rightarrow> (wg_key \<Rightarrow> string) \<Rightarrow> exit_client list \<Rightarrow> u16 \<Rightarrow> string \<Rightarrow> string \<Rightarrow> string list" where
  "wg_config_args IN show_key clients listen_port private_key_path iface =
     [''set'', iface, ''listen-port'', dec (unat listen_port), ''private-key'', private_key_path]
     @ concat (map (client_args IN show_key) clients)"

definition wg_remove_peer :: "'w world \<Rightarrow> (wg_key \<Rightarrow> string) \<Rightarrow> string \<Rightarrow> wg_key \<Rightarrow> ('w, unit) kio" where
  "wg_remove_peer W show_key iface k =
     rbind (cmd W ''wg'' [''set'', iface, ''peer'', show_key k, ''remove'']) (\<lambda>_. rret ())"

text \<open>The clients come in the order in which the set is iterated.\<close>

definition set_exit_wg_config ::
  "'w world \<Rightarrow> ipnet \<Rightarrow> (wg_key \<Rightarrow> string) \<Rightarrow> (string \<Rightarrow> wg_key option) \<Rightarrow> exit_client list \<Rightarrow> u16 \<Rightarrow> string \<Rightarrow> string
     \<Rightarrow> ('w, unit) kio" where
  "set_exit_wg_config W IN show_key parse_key clients listen_port private_key_path iface =
     rbind (cmd W ''wg'' (wg_config_args IN show_key clients listen_port private_key_path iface)) (\<lambda>_.
     rbind (get_peers W parse_key iface) (\<lambda>wg_peers.
       rfor wg_peers (\<lambda>k. if k \<notin> set (map xc_public_key clients) then wg_remove_peer W show_key iface k
                           else rret ())))"

definition setup_individual_client_routes :: "'w world \<Rightarrow> ip_addr \<Rightarrow> ip_addr \<Rightarrow> string \<Rightarrow> ('w, unit) kio" where
  "setup_individual_client_routes W client_ip exit_ip iface =
     rexpect (rbind (cmd W ''ip'' [''route'', ''show'', show_ip client_ip]) (\<lambda>out.
       rbind (expect_utf8 (co_stdout out)) (\<lambda>route.
         if \<not> contains_str route (iface @ '' '') then
           rbind (cmd W ''ip'' [''route'', ''del'', show_ip client_ip]) (\<lambda>_.
           rbind (cmd W ''ip'' [''route'', ''add'', show_ip client_ip, ''dev'', iface, ''src'', show_ip exit_ip]) (\<lambda>_.
             rret ()))
         else rret ())))"

definition teardown_individual_client_routes :: "'w world \<Rightarrow> ip_addr \<Rightarrow> ('w, unit) kio" where
  "teardown_individual_client_routes W client_ip =
     rexpect (rbind (cmd W ''ip'' [''route'', ''show'', show_ip client_ip]) (\<lambda>out.
       rbind (expect_utf8 (co_stdout out)) (\<lambda>route.
         if route \<noteq> [] then rbind (cmd W ''ip'' [''route'', ''del'', show_ip client_ip]) (\<lambda>_. rret ())
         else rret ())))"

text \<open>\<open>assert!\<close>\<close>

definition rassert :: "bool \<Rightarrow> ('w, 'e, unit) rio" where
  "rassert b = (\<lambda>w. if b then Some (Inr (), w) else None)"

definition is_ipv4 :: "ip_addr \<Rightarrow> bool" where
  "is_ipv4 ip = (case ip of V4 _ \<Rightarrow> True | V6 _ \<Rightarrow> False)"

definition add_with_netmask :: "'w world \<Rightarrow> string \<Rightarrow> (ip_addr \<times> u8) option \<Rightarrow> (ip_addr \<Rightarrow> u8 \<Rightarrow> bool) \<Rightarrow> ('w, unit) kio" where
  "add_with_netmask W iface address sane =
     (case address of
        None \<Rightarrow> rret ()
      | Some (ip, netmask) \<Rightarrow>
          rbind (rassert (sane ip netmask)) (\<lambda>_.
          rbind (ip_address_add W (show_ip ip @ ''/'' @ dec (unat netmask)) iface) (\<lambda>_. rret ())))"

definition link_set :: "'w world \<Rightarrow> string \<Rightarrow> string list \<Rightarrow> ('w, unit) kio" where
  "link_set W iface args =
     rbind (cmd W ''ip'' ([''link'', ''set'', ''dev'', iface] @ args)) (\<lambda>out.
       if \<not> stream_is_empty (co_stderr out) then fail_with_stderr RuntimeError out else rret ())"

definition one_time_exit_setup ::
  "'w world \<Rightarrow> (ip_addr \<times> u8) option \<Rightarrow> (ip_addr \<times> u8) option \<Rightarrow> ip_addr \<Rightarrow> string \<Rightarrow> bool \<Rightarrow> ('w, unit) kio" where
  "one_time_exit_setup W local_v4 external_v6 exit_mesh iface enforcement =
     rbind (add_with_netmask W iface local_v4 (\<lambda>ip n. is_ipv4 ip \<and> unat n < 32)) (\<lambda>_.
     rbind (add_with_netmask W iface external_v6 (\<lambda>ip n. \<not> is_ipv4 ip \<and> unat n < 128)) (\<lambda>_.
     rbind (link_local_text exit_mesh) (\<lambda>ll.
     rbind (ip_address_add W ll iface) (\<lambda>_.
     rbind (link_set W iface [''mtu'', ''1500'']) (\<lambda>_.
     rbind (link_set W iface [''up'']) (\<lambda>_.
     rbind (has_limit W iface) (\<lambda>limited.
       if \<not> limited \<and> enforcement then rexpect (create_root_classful_limit W iface) else rret ())))))))"

definition setup_nat :: "'w world \<Rightarrow> string \<Rightarrow> string \<Rightarrow> (ip_addr \<times> u8) option \<Rightarrow> ('w, unit) kio" where
  "setup_nat W external_interface iface external_v6 =
     rbind (does_nftables_exist W) (\<lambda>nft1.
     rbind (if \<not> nft1
            then add_iptables_rule W ''iptables'' [''-w'', ''-t'', ''nat'', ''-A'', ''POSTROUTING'', ''-o'',
                   external_interface, ''-j'', ''MASQUERADE'']
            else init_nat_chain W external_interface) (\<lambda>_.
     rbind (does_nftables_exist W) (\<lambda>nft2.
       if \<not> nft2 then
         rbind (add_iptables_rule W ''iptables'' [''-w'', ''-t'', ''filter'', ''-A'', ''FORWARD'', ''-o'',
           external_interface, ''-i'', iface, ''-j'', ''ACCEPT'']) (\<lambda>_.
         rbind (add_iptables_rule W ''iptables'' [''-w'', ''-t'', ''filter'', ''-A'', ''FORWARD'', ''-o'', iface,
           ''-i'', external_interface, ''-m'', ''state'', ''--state'', ''RELATED,ESTABLISHED'', ''-j'', ''ACCEPT'']) (\<lambda>_.
         rbind (add_iptables_rule W ''ip6tables'' [''-A'', ''FORWARD'', ''-i'', iface, ''-o'', external_interface,
           ''-j'', ''ACCEPT'']) (\<lambda>_.
           case external_v6 of
             Some (ip, netmask) \<Rightarrow> add_iptables_rule W ''ip6tables'' [''-A'', ''FORWARD'', ''-d'',
               show_ip ip @ ''/'' @ dec (unat netmask), ''-i'', external_interface, ''-o'', iface, ''-j'', ''ACCEPT'']
           | None \<Rightarrow> rret ())))
       else insert_nft_exit_forward_rules W iface external_interface external_v6)))"

section \<open>The client\<close>

record client_exit_tunnel_config =
  ct_endpoint :: socket_addr
  ct_pubkey :: wg_key
  ct_private_key_path :: string
  ct_listen_port :: u16
  ct_local_ip :: ip_addr
  ct_netmask :: u8
  ct_rita_hello_port :: u16
  ct_user_specified_speed :: "nat option"

definition wg_exit_address :: "'w world \<Rightarrow> string \<Rightarrow> string \<Rightarrow> u8 \<Rightarrow> ('w, unit) kio" where
  "wg_exit_address W operation ip netmask =
     rbind (cmd W ''ip'' [''address'', operation, ip @ ''/'' @ dec (unat netmask), ''dev'', ''wg_exit'']) (\<lambda>_. rret ())"

definition replace_exit_ip :: "'w world \<Rightarrow> (string \<Rightarrow> string option) \<Rightarrow> client_exit_tunnel_config \<Rightarrow> ('w, unit) kio" where
  "replace_exit_ip W inet_cap args =
     rbind (rattempt (get_global_device_ip_v4 W inet_cap ''wg_exit'')) (\<lambda>prev. case prev of
        Inr prev_ip \<Rightarrow>
          if V4 prev_ip \<noteq> ct_local_ip args then
            rbind (wg_exit_address W ''delete'' (show_ipv4 prev_ip) (ct_netmask args)) (\<lambda>_.
              wg_exit_address W ''add'' (show_ip (ct_local_ip args)) (ct_netmask args))
          else rret ()
      | Inl _ \<Rightarrow> wg_exit_address W ''add'' (show_ip (ct_local_ip args)) (ct_netmask args))"

text \<open>A missing link local address is set up; failing to is only logged.\<close>

definition ensure_link_local :: "'w world \<Rightarrow> 'w files \<Rightarrow> ip_addr option \<Rightarrow> ('w, unit) kio" where
  "ensure_link_local W files local_mesh =
     rbind (rattempt (get_link_local_device_ip files ''wg_exit'')) (\<lambda>r. case r of
        Inr _ \<Rightarrow> rret ()
      | Inl _ \<Rightarrow> (case local_mesh of
          Some mesh \<Rightarrow> rbind (link_local_text mesh) (\<lambda>ll. rignore (ip_address_add W ll ''wg_exit''))
        | None \<Rightarrow> rret ()))"

definition set_client_exit_tunnel_config ::
  "'w world \<Rightarrow> 'w files \<Rightarrow> (string \<Rightarrow> string option) \<Rightarrow> (wg_key \<Rightarrow> string) \<Rightarrow> (string \<Rightarrow> wg_key option)
     \<Rightarrow> client_exit_tunnel_config \<Rightarrow> ip_addr option \<Rightarrow> ('w, unit) kio" where
  "set_client_exit_tunnel_config W files inet_cap show_key parse_key args local_mesh =
     rbind (cmd W ''wg'' [''set'', ''wg_exit'', ''listen-port'', dec (unat (ct_listen_port args)), ''private-key'',
        ct_private_key_path args, ''peer'', show_key (ct_pubkey args), ''endpoint'',
        ''['' @ show_ip (socket_ip (ct_endpoint args)) @ '']:'' @ dec (unat (socket_port (ct_endpoint args))),
        ''allowed-ips'', ''0.0.0.0/0, ::/0'', ''persistent-keepalive'', ''5'']) (\<lambda>_.
     rbind (get_peers W parse_key ''wg_exit'') (\<lambda>peers.
     rbind (rfor peers (\<lambda>k. if k \<noteq> ct_pubkey args then wg_remove_peer W show_key ''wg_exit'' k else rret ())) (\<lambda>_.
     rbind (replace_exit_ip W inet_cap args) (\<lambda>_.
     rbind (ensure_link_local W files local_mesh) (\<lambda>_.
     rbind (link_set W ''wg_exit'' [''mtu'', ''1340'']) (\<lambda>_.
     rbind (link_set W ''wg_exit'' [''up'']) (\<lambda>_.
       rignore (set_codel_shaping W ''br-lan'' (ct_user_specified_speed args)))))))))"

definition set_route_to_tunnel :: "'w world \<Rightarrow> ip_addr \<Rightarrow> ('w, unit) kio" where
  "set_route_to_tunnel W gateway =
     rbind (rignore (cmd W ''ip'' [''route'', ''del'', ''default''])) (\<lambda>_.
     rbind (cmd W ''ip'' [''route'', ''add'', ''default'', ''via'', show_ip gateway, ''dev'', ''wg_exit'']) (\<lambda>out.
       if \<not> stream_is_empty (co_stderr out) then fail_with_stderr RuntimeError out else rret ()))"

definition set_ipv6_route_to_tunnel :: "'w world \<Rightarrow> ('w, unit) kio" where
  "set_ipv6_route_to_tunnel W =
     rbind (rignore (cmd W ''ip'' [''-6'', ''route'', ''del'', ''default''])) (\<lambda>_.
     rbind (cmd W ''ip'' [''-6'', ''route'', ''add'', ''default'', ''dev'', ''wg_exit'']) (\<lambda>out.
       if \<not> stream_is_empty (co_stderr out) then fail_with_stderr RuntimeError out else rret ()))"

definition clamp_mss :: "'w world \<Rightarrow> string \<Rightarrow> ('w, unit) kio" where
  "clamp_mss W command =
     add_iptables_rule W command [''-I'', ''FORWARD'', ''-p'', ''tcp'', ''--tcp-flags'', ''SYN,RST'', ''SYN'', ''-j'',
       ''TCPMSS'', ''--clamp-mss-to-pmtu'']"

definition create_client_nat_rules :: "'w world \<Rightarrow> ('w, unit) kio" where
  "create_client_nat_rules W =
     rbind (does_nftables_exist W) (\<lambda>nftables.
       if \<not> nftables then
         rbind (add_iptables_rule W ''iptables'' [''-t'', ''nat'', ''-A'', ''POSTROUTING'', ''-o'', ''wg_exit'', ''-j'',
           ''MASQUERADE'']) (\<lambda>_.
         rbind (add_iptables_rule W ''iptables'' [''-A'', ''zone_lan_forward'', ''-j'', ''ACCEPT'']) (\<lambda>_.
         rbind (clamp_mss W ''iptables'') (\<lambda>_. clamp_mss W ''ip6tables'')))
       else rbind (init_nat_chain W ''wg_exit'') (\<lambda>_. set_nft_lan_fwd_rule W))"

definition block_client_nat :: "'w world \<Rightarrow> ('w, unit) kio" where
  "block_client_nat W =
     rbind (does_nftables_exist W) (\<lambda>nftables.
       if \<not> nftables then add_iptables_rule W ''iptables'' [''-I'', ''zone_lan_forward'', ''-j'', ''REJECT'']
       else insert_reject_rule W)"

definition restore_client_nat :: "'w world \<Rightarrow> ('w, unit) kio" where
  "restore_client_nat W =
     rbind (does_nftables_exist W) (\<lambda>nftables.
       if \<not> nftables then add_iptables_rule W ''iptables'' [''-D'', ''zone_lan_forward'', ''-j'', ''REJECT'']
       else delete_reject_rule W)"

section \<open>Addresses of a client\<close>

definition is_iface_up :: "'w files \<Rightarrow> string \<Rightarrow> 'w \<Rightarrow> bool option" where
  "is_iface_up files dev w =
     (case files (''/sys/class/net/'' @ dev @ ''/operstate'') w of
        Inr (l # _) \<Rightarrow> Some (contains_str l ''up'') | _ \<Rightarrow> None)"

definition add_ipv4_mask :: "'w world \<Rightarrow> u32 \<Rightarrow> u32 \<Rightarrow> string \<Rightarrow> ('w, bool) kio" where
  "add_ipv4_mask W ip netmask dev =
     rbind (rexpect (cmd W ''ip'' [''addr'', ''add'', show_ipv4 ip @ ''/'' @ dec (unat netmask), ''dev'', dev])) (\<lambda>out.
       case co_stderr out of
         None \<Rightarrow> rraise RuntimeError
       | Some s \<Rightarrow> (case lines_of s of
           line # _ \<Rightarrow> if contains_str line ''File exists'' then rret False else rraise RuntimeError
         | [] \<Rightarrow> rret True))"

definition add_ipv4 :: "'w world \<Rightarrow> u32 \<Rightarrow> string \<Rightarrow> ('w, bool) kio" where
  "add_ipv4 W ip dev =
     rbind (rexpect (cmd W ''ip'' [''addr'', ''add'', show_ipv4 ip @ ''/32'', ''dev'', dev])) (\<lambda>out.
       case co_stderr out of
         None \<Rightarrow> rraise RuntimeError
       | Some s \<Rightarrow> (case lines_of s of
           line # _ \<Rightarrow> if contains_str line ''File exists'' then rret False else rraise RuntimeError
         | [] \<Rightarrow> rret True))"

text \<open>\<open>inet6_caps\<close> are the groups of the match in a line of \<open>ip address show\<close>, all of them and the
  whole match; only a text with a slash that reads as address and length counts.\<close>

definition parse_u8 :: "string \<Rightarrow> u8 option" where
  "parse_u8 s = map_option word_of_nat (parse_uint 10 255 s)"

definition split_netmask :: "(string \<Rightarrow> 'a option) \<Rightarrow> string \<Rightarrow> ('a \<times> u8) option" where
  "split_netmask parse s =
     (case split_on (CHR ''/'') s of
        ip # netmask # _ \<Rightarrow> (case (parse ip, parse_u8 netmask) of
            (Some a, Some n) \<Rightarrow> Some (a, n) | _ \<Rightarrow> None)
      | _ \<Rightarrow> None)"

definition get_ip_from_iface ::
  "'w world \<Rightarrow> (string \<Rightarrow> string list) \<Rightarrow> string \<Rightarrow> ('w, (u32 \<times> u8) list) kio" where
  "get_ip_from_iface W inet_caps name =
     rbind (cmd W ''ip'' [''address'', ''show'', ''dev'', name]) (\<lambda>out.
     rbind (from_utf8 (co_stdout out)) (\<lambda>s.
       rret (List.map_filter (split_netmask parse_ipv4) (concat (map inet_caps (lines_of s))))))"

definition get_ipv6_from_iface ::
  "'w world \<Rightarrow> (string \<Rightarrow> string list) \<Rightarrow> string \<Rightarrow> ('w, (u128 \<times> u8) list) kio" where
  "get_ipv6_from_iface W inet6_caps name =
     rbind (cmd W ''ip'' [''address'', ''show'', ''dev'', name]) (\<lambda>out.
     rbind (from_utf8 (co_stdout out)) (\<lambda>s.
       rret (List.map_filter (split_netmask parse_ipv6) (concat (map inet6_caps (lines_of s))))))"

text \<open>The addresses of the bridge up to the new one are removed; a length that is no prefix panics. On the
  tunnel the new address ends the whole setup when it is already there.\<close>

fun clear_bridge_addresses :: "'w world \<Rightarrow> ipnet \<Rightarrow> ip_network \<Rightarrow> (u128 \<times> u8) list \<Rightarrow> ('w, unit) kio" where
  "clear_bridge_addresses W IN router_net [] = rret ()"
| "clear_bridge_addresses W IN router_net ((addr, netmask) # rest) =
     rbind (rassert (v6_valid IN netmask)) (\<lambda>_.
       let net = Net6 addr (unat netmask)
       in if net = router_net then rret ()
          else rbind (if \<not> is_link_local (V6 addr)
                      then rignore (cmd W ''ip'' [''addr'', ''del'', show_network IN net, ''dev'', ''br-lan''])
                      else rret ()) (\<lambda>_. clear_bridge_addresses W IN router_net rest))"

fun clear_tunnel_addresses :: "'w world \<Rightarrow> ip_addr \<Rightarrow> (u128 \<times> u8) list \<Rightarrow> ('w, bool) kio" where
  "clear_tunnel_addresses W router_ip [] = rret False"
| "clear_tunnel_addresses W router_ip ((addr, netmask) # rest) =
     (if V6 addr = router_ip then rret True
      else rbind (if \<not> is_link_local (V6 addr)
                  then rignore (cmd W ''ip'' [''addr'', ''del'', show_ipv6 addr, ''dev'', ''wg_exit''])
                  else rret ()) (\<lambda>_. clear_tunnel_addresses W router_ip rest))"

definition net_ip :: "ip_network \<Rightarrow> ip_addr" where
  "net_ip n = (case n of Net4 a _ \<Rightarrow> V4 a | Net6 a _ \<Rightarrow> V6 a)"

definition setup_ipv6_slaac ::
  "'w world \<Rightarrow> ipnet \<Rightarrow> (string \<Rightarrow> string list) \<Rightarrow> ip_network \<Rightarrow> ('w, unit) kio" where
  "setup_ipv6_slaac W IN inet6_caps router_net =
     rbind (rattempt (get_ipv6_from_iface W inet6_caps ''br-lan'')) (\<lambda>r. case r of
        Inl _ \<Rightarrow> rret ()
      | Inr v6_addrs \<Rightarrow>
          rbind (clear_bridge_addresses W IN router_net v6_addrs) (\<lambda>_.
          rbind (rignore (cmd W ''ip'' [''addr'', ''add'', show_network IN router_net, ''dev'', ''br-lan''])) (\<lambda>_.
          rbind (rattempt (get_ipv6_from_iface W inet6_caps ''wg_exit'')) (\<lambda>r. case r of
             Inl _ \<Rightarrow> rret ()
           | Inr v6_addrs \<Rightarrow>
               rbind (clear_tunnel_addresses W (net_ip router_net) v6_addrs) (\<lambda>already_set.
                 if already_set then rret ()
                 else rignore (cmd W ''ip'' [''addr'', ''add'', show_ip (net_ip router_net), ''dev'', ''wg_exit'']))))))"

end
