(* ===== verification/Exit_Database.thy ===== *)
theory Exit_Database
  imports Kernel_Exit Endpoint_Traffic Registration
begin

text \<open>
  The clients of an exit: \<open>rita_exit/src/database\<close> assigns every client an address inside the exit tunnel and an
  IPv6 network (\<open>in_memory_database.rs\<close>), finds out in which country a client is (\<open>geoip.rs\<close>), and sets up,
  removes and limits the clients (\<open>mod.rs\<close>). The static of the module is the record \<open>rita_exit_state\<close>; the functions
  that only use it are operations on it, the others work on the pair of it and the world.

  Parameters: the crate \<open>ipnetwork\<close>, the hash function of the standard library, whose algorithm is not specified
  (\<open>hasher\<close>), the text of keys, the GeoIP service, the registration server and the node the contract is read from.
\<close>

unbundle bit_operations_syntax

section \<open>Data\<close>

record rita_exit_state =
  ipv6_assignments :: "ip_addr \<rightharpoonup> wg_key"
  internal_ip_assignments :: "ip_addr \<rightharpoonup> wg_key"
  geoip_cache :: "ip_addr \<rightharpoonup> regions"

definition rita_exit_state_default :: rita_exit_state where
  "rita_exit_state_default =
     \<lparr>ipv6_assignments = Map.empty, internal_ip_assignments = Map.empty, geoip_cache = Map.empty\<rparr>"

text \<open>The settings of an exit; the set of allowed countries is a list in the order of its iteration.\<close>

record rita_exit_settings = exit_settings +
  exit_hello_port :: u16
  wg_tunnel_port :: u16
  wg_v2_tunnel_port :: u16
  own_internal_ip :: u32
  netmask :: u8
  subnet :: "ip_network option"
  client_subnet_size :: "u8 option"
  geoip_api_user :: "string option"
  geoip_api_key :: "string option"
  ex_wg_private_key_path :: string
  ex_enable_enforcement :: bool
  registered_users_contract_addr :: address
  ex_allowed_countries :: "regions list"
  ex_description :: string

type_synonym 'a dbio = "(rita_exit_state, rita_exit_error, 'a) rio"

definition CLIENT_WG_PORT :: u16 where "CLIENT_WG_PORT = 59999"
definition MAX_IP_RETRIES :: nat where "MAX_IP_RETRIES = 10"
definition DEFAULT_CLIENT_SUBNET_SIZE :: u8 where "DEFAULT_CLIENT_SUBNET_SIZE = 56"

section \<open>Addresses\<close>

definition add_new_ipv6_assignment :: "ip_addr \<Rightarrow> wg_key \<Rightarrow> rita_exit_state \<Rightarrow> rita_exit_state" where
  "add_new_ipv6_assignment addr key s = s\<lparr>ipv6_assignments := (ipv6_assignments s)(addr \<mapsto> key)\<rparr>"

definition add_new_internal_ip_assignement :: "ip_addr \<Rightarrow> wg_key \<Rightarrow> rita_exit_state \<Rightarrow> rita_exit_state" where
  "add_new_internal_ip_assignement addr key s =
     s\<lparr>internal_ip_assignments := (internal_ip_assignments s)(addr \<mapsto> key)\<rparr>"

definition net_prefix :: "ip_network \<Rightarrow> u8" where
  "net_prefix n = (case n of Net4 _ p \<Rightarrow> word_of_nat p | Net6 _ p \<Rightarrow> word_of_nat p)"

text \<open>\<open>1 << (a - b)\<close> on \<open>u64\<close> with \<open>u8\<close> operands: without overflow checks the difference wraps around
  and the shift is by its lowest six bits.\<close>

definition shl_one :: "u8 \<Rightarrow> u8 \<Rightarrow> u64" where
  "shl_one a b = push_bit (unat (a - b) mod 64) 1"

text \<open>The network of the exit must be IPv6, otherwise an error; the unwrapped \<open>Ipv6Network::new\<close> panics
  when the prefix is too long.\<close>

definition generate_iterative_client_subnet ::
  "ipnet \<Rightarrow> ip_network \<Rightarrow> u64 \<Rightarrow> u8 \<Rightarrow> (rita_exit_error + ip_network) option" where
  "generate_iterative_client_subnet IN exit_sub ind subprefix =
     (case exit_sub of
        Net4 _ _ \<Rightarrow> Some (Err ExitMiscStringError)
      | Net6 a p \<Rightarrow>
        (let addr = v6_network IN a (word_of_nat p) in
         if \<not> v6_valid IN subprefix then None
         else if subprefix < net_prefix exit_sub then Some (Err ExitMiscStringError)
         else if ind < shl_one subprefix (net_prefix exit_sub)
         then Some (Ok (Net6 (addr + ucast ind * v6_size IN subprefix) (unat subprefix)))
         else Some (Err ExitMiscStringError)))"

definition validate_internet_ipv6 :: "rita_exit_state \<Rightarrow> ip_network \<Rightarrow> wg_key \<Rightarrow> bool" where
  "validate_internet_ipv6 s client_subnet our_wgkey =
     (case ipv6_assignments s (net_ip client_subnet) of Some a \<Rightarrow> a = our_wgkey | None \<Rightarrow> True)"

definition validate_internal_ip :: "ipnet \<Rightarrow> rita_exit_state \<Rightarrow> u32 \<Rightarrow> u8 \<Rightarrow> u32 \<Rightarrow> u32 \<Rightarrow> wg_key \<Rightarrow> bool" where
  "validate_internal_ip IN s network_addr plen assigned_ip our_ip our_wgkey =
     (if assigned_ip = our_ip then False
      else if assigned_ip = v4_network IN network_addr plen then False
      else if assigned_ip = v4_broadcast IN network_addr plen then False
      else case internal_ip_assignments s (V4 assigned_ip) of Some a \<Rightarrow> a = our_wgkey | None \<Rightarrow> True)"

definition hash_wgkey :: "(string \<Rightarrow> u64) \<Rightarrow> (wg_key \<Rightarrow> string) \<Rightarrow> wg_key \<Rightarrow> u64" where
  "hash_wgkey hasher show_key key = hasher (show_key key)"

text \<open>The loops count the attempts that are left: one more than the number of retries.\<close>

fun ipv6_loop :: "ipnet \<Rightarrow> ip_network \<Rightarrow> u8 \<Rightarrow> u64 \<Rightarrow> wg_key \<Rightarrow> nat \<Rightarrow> u64 \<Rightarrow> ip_network option dbio" where
  "ipv6_loop IN exit_sub sub_size tot key 0 index = rraise ExitMiscStringError"
| "ipv6_loop IN exit_sub sub_size tot key (Suc k) index = (\<lambda>s.
     case generate_iterative_client_subnet IN exit_sub index sub_size of
       None \<Rightarrow> None
     | Some (Inl e) \<Rightarrow> Some (Err e, s)
     | Some (Inr client_subnet) \<Rightarrow>
         if validate_internet_ipv6 s client_subnet key
         then Some (Ok (Some client_subnet), add_new_ipv6_assignment (net_ip client_subnet) key s)
         else ipv6_loop IN exit_sub sub_size tot key k ((index + 1) mod tot) s)"

definition get_client_ipv6 ::
  "ipnet \<Rightarrow> (wg_key \<Rightarrow> u64) \<Rightarrow> identity \<Rightarrow> ip_network option \<Rightarrow> u8 \<Rightarrow> ip_network option dbio" where
  "get_client_ipv6 IN hash their_record exit_sub sub_size =
     (case exit_sub of
        None \<Rightarrow> rret None
      | Some net \<Rightarrow>
          let total_subnets = shl_one sub_size (net_prefix net)
          in ipv6_loop IN net sub_size total_subnets (wg_public_key their_record) (MAX_IP_RETRIES + 1)
               (hash (wg_public_key their_record) mod total_subnets))"

fun internal_ip_loop :: "ipnet \<Rightarrow> u32 \<Rightarrow> u8 \<Rightarrow> u64 \<Rightarrow> wg_key \<Rightarrow> nat \<Rightarrow> u64 \<Rightarrow> ip_addr dbio" where
  "internal_ip_loop IN gateway plen tot key 0 index = rraise ExitMiscStringError"
| "internal_ip_loop IN gateway plen tot key (Suc k) index = (\<lambda>s.
     let again = internal_ip_loop IN gateway plen tot key k ((index + 1) mod tot)
     in if 2 ^ 32 \<le> unat index then again s
        else case v4_nth IN gateway plen (ucast index) of
          None \<Rightarrow> again s
        | Some internal_ip \<Rightarrow>
            if validate_internal_ip IN s gateway plen internal_ip gateway key
            then Some (Ok (V4 internal_ip), add_new_internal_ip_assignement (V4 internal_ip) key s)
            else again s)"

text \<open>\<open>32 - netmask\<close> and the power wrap around; a remainder by zero panics.\<close>

definition get_client_internal_ip :: "ipnet \<Rightarrow> (wg_key \<Rightarrow> u64) \<Rightarrow> identity \<Rightarrow> u8 \<Rightarrow> u32 \<Rightarrow> ip_addr dbio" where
  "get_client_internal_ip IN hash their_record plen gateway = (\<lambda>s.
     let total_addresses = (2 :: u64) ^ unat (32 - plen)
     in if total_addresses = 0 then None
        else if \<not> v4_valid IN plen then Some (Err ExitMiscStringError, s)
        else internal_ip_loop IN gateway plen total_addresses (wg_public_key their_record) (MAX_IP_RETRIES + 1)
               (hash (wg_public_key their_record) mod total_addresses) s)"

definition assigned_ipv6 :: "ipnet \<Rightarrow> (wg_key \<Rightarrow> u64) \<Rightarrow> rita_exit_settings \<Rightarrow> identity \<Rightarrow> ip_network option dbio" where
  "assigned_ipv6 IN hash X client =
     get_client_ipv6 IN hash client (subnet X) (unwrap_or (client_subnet_size X) DEFAULT_CLIENT_SUBNET_SIZE)"

definition assigned_internal_ip :: "ipnet \<Rightarrow> (wg_key \<Rightarrow> u64) \<Rightarrow> rita_exit_settings \<Rightarrow> identity \<Rightarrow> ip_addr dbio" where
  "assigned_internal_ip IN hash X client = get_client_internal_ip IN hash client (netmask X) (own_internal_ip X)"

definition to_exit_client :: "ipnet \<Rightarrow> (wg_key \<Rightarrow> u64) \<Rightarrow> rita_exit_settings \<Rightarrow> identity \<Rightarrow> exit_client dbio" where
  "to_exit_client IN hash X client =
     rbind (assigned_ipv6 IN hash X client) (\<lambda>internet_ipv6.
     rbind (assigned_internal_ip IN hash X client) (\<lambda>internal_ip.
       rret \<lparr>xc_internal_ip = internal_ip, xc_internet_ipv6 = internet_ipv6, xc_public_key = wg_public_key client,
             xc_mesh_ip = mesh_ip client, xc_port = CLIENT_WG_PORT\<rparr>))"

section \<open>Where a client comes from\<close>

type_synonym ('w, 'a) xio = "(rita_exit_state \<times> 'w, rita_exit_error, 'a) rio"

definition on_db :: "(rita_exit_state, 'e, 'a) rio \<Rightarrow> (rita_exit_state \<times> 'w, 'e, 'a) rio" where
  "on_db m = (\<lambda>(s, w). case m s of None \<Rightarrow> None | Some (r, s') \<Rightarrow> Some (r, (s', w)))"

definition host_route :: "ip_addr \<Rightarrow> 'f route \<Rightarrow> bool" where
  "host_route ip route =
     (case rt_prefix route of Net6 a p \<Rightarrow> p = 128 \<and> rt_installed route \<and> V6 a = ip | Net4 _ _ \<Rightarrow> False)"

text \<open>The parameters of the exit's environment: the texts of the crates \<open>regex\<close> and \<open>ipnetwork\<close>, the
  orders in which sets are iterated, and the GeoIP service, which fails, answers with something else than the
  expected JSON, or names a country.\<close>

datatype geoip_answer = GeoRequestFailed | GeoBadJson | GeoCountry string

record ('w, 'f) exit_env =
  xe_world :: "'w world"
  xe_float :: "string \<Rightarrow> 'f option"
  xe_network :: "string \<Rightarrow> ip_network option"
  xe_endpoint_cap :: "string \<Rightarrow> (string option \<times> string option) option"
  xe_geoip :: "ip_addr \<Rightarrow> 'w \<Rightarrow> geoip_answer \<times> 'w"
  xe_show_key :: "wg_key \<Rightarrow> string"
  xe_parse_key :: "string \<Rightarrow> wg_key option"
  xe_ipnet :: ipnet
  xe_hasher :: "string \<Rightarrow> u64"
  xe_client_order :: "exit_client list \<Rightarrow> exit_client list"
  xe_key_order :: "wg_key set \<Rightarrow> wg_key list"

definition xe_hash :: "('w, 'f) exit_env \<Rightarrow> wg_key \<Rightarrow> u64" where
  "xe_hash E = hash_wgkey (xe_hasher E) (xe_show_key E)"

definition babel_routes :: "('w, 'f) exit_env \<Rightarrow> u16 \<Rightarrow> ('w, 'f route list) bio" where
  "babel_routes E port =
     rbind (open_babel_stream (xe_world E) port) (\<lambda>_. parse_routes (xe_world E) (xe_float E) (xe_network E))"

text \<open>The last matching route decides.\<close>

definition get_gateway_ip_single :: "('w, 'f) exit_env \<Rightarrow> rita_exit_settings \<Rightarrow> ip_addr \<Rightarrow> ('w, rita_exit_error, ip_addr) rio" where
  "get_gateway_ip_single E X their_ip =
     rbind (rmap_err (\<lambda>_. ExitMiscStringError) (babel_routes E (babel_port (network (ex_common X))))) (\<lambda>routes.
       case find (host_route their_ip) (rev routes) of
         Some route \<Rightarrow> rmap_err ExitKernelError (get_wg_remote_ip (xe_world E) (xe_endpoint_cap E) (rt_iface route))
       | None \<Rightarrow> rraise (IpAddrError their_ip))"

record ip_pair =
  ipp_mesh_ip :: ip_addr
  ipp_gateway_ip :: ip_addr

text \<open>One matching route: the endpoint of its interface is looked up once a round.\<close>

definition gateway_of_route ::
  "('w, 'f) exit_env \<Rightarrow> ip_addr \<Rightarrow> 'f route \<Rightarrow> (string \<rightharpoonup> ip_addr) \<times> ip_pair list
     \<Rightarrow> ('w, rita_exit_error, (string \<rightharpoonup> ip_addr) \<times> ip_pair list) rio" where
  "gateway_of_route E their_ip route st =
     (case st of (cache, results) \<Rightarrow>
        if \<not> host_route their_ip route then rret (cache, results)
        else case cache (rt_iface route) of
          Some remote_ip \<Rightarrow> rret (cache, results @ [\<lparr>ipp_mesh_ip = their_ip, ipp_gateway_ip = remote_ip\<rparr>])
        | None \<Rightarrow>
            rbind (rattempt (get_wg_remote_ip (xe_world E) (xe_endpoint_cap E) (rt_iface route))) (\<lambda>r. case r of
               Inr remote_ip \<Rightarrow> rret (cache(rt_iface route \<mapsto> remote_ip),
                 results @ [\<lparr>ipp_mesh_ip = their_ip, ipp_gateway_ip = remote_ip\<rparr>])
             | Inl _ \<Rightarrow> rret (cache, results)))"

fun rfold :: "('a \<Rightarrow> 's \<Rightarrow> ('w, 'e, 's) rio) \<Rightarrow> 'a list \<Rightarrow> 's \<Rightarrow> ('w, 'e, 's) rio" where
  "rfold f [] st = rret st"
| "rfold f (x # xs) st = rbind (f x st) (rfold f xs)"

definition get_gateway_ip_bulk ::
  "('w, 'f) exit_env \<Rightarrow> rita_exit_settings \<Rightarrow> ip_addr list \<Rightarrow> ('w, rita_exit_error, ip_pair list) rio" where
  "get_gateway_ip_bulk E X mesh_ip_list =
     rbind (rmap_err (ExitCommonError \<circ> BabelMonitorError) (babel_routes E (babel_port (network (ex_common X))))) (\<lambda>routes.
     rbind (rfold (\<lambda>ip st. rfold (gateway_of_route E ip) routes st) mesh_ip_list (Map.empty, [])) (\<lambda>(cache, results).
       rret results))"

definition UnkownRegion :: regions where "UnkownRegion = ''UnkownRegion''"

definition is_unicast_link_local :: "u128 \<Rightarrow> bool" where
  "is_unicast_link_local a \<longleftrightarrow> (ucast (drop_bit 112 a) AND 0xffc0 :: u16) = 0xfe80"

definition link_local_request :: "ip_addr \<Rightarrow> bool" where
  "link_local_request ip = (case ip of V6 a \<Rightarrow> is_unicast_link_local a | V4 _ \<Rightarrow> False)"

definition get_country :: "('w, 'f) exit_env \<Rightarrow> rita_exit_settings \<Rightarrow> ip_addr \<Rightarrow> ('w, regions) xio" where
  "get_country E X ip =
     (case ex_allowed_countries X of
        [] \<Rightarrow> rret UnkownRegion
      | c # _ \<Rightarrow>
        if link_local_request ip then rret c
        else if geoip_api_user X = None \<or> geoip_api_key X = None then (\<lambda>_. None)
        else (\<lambda>(s, w). case geoip_cache s ip of
            Some code \<Rightarrow> Some (Ok code, (s, w))
          | None \<Rightarrow>
            (case xe_geoip E ip w of
               (GeoRequestFailed, w') \<Rightarrow> Some (Err ExitMiscStringError, (s, w'))
             | (GeoBadJson, w') \<Rightarrow> Some (Err ExitMiscStringError, (s, w'))
             | (GeoCountry iso_code, w') \<Rightarrow>
                 let code = (case region_from_str iso_code of Inr r \<Rightarrow> r | Inl _ \<Rightarrow> UnkownRegion)
                 in Some (Ok code, (s\<lparr>geoip_cache := (geoip_cache s)(ip \<mapsto> code)\<rparr>, w')))))"

definition verify_ip :: "('w, 'f) exit_env \<Rightarrow> rita_exit_settings \<Rightarrow> ip_addr \<Rightarrow> ('w, bool) xio" where
  "verify_ip E X request_ip =
     (if link_local_request request_ip then rret True
      else if ex_allowed_countries X = [] then rret True
      else rbind (get_country E X request_ip) (\<lambda>country.
        if ex_allowed_countries X \<noteq> [] \<and> country \<notin> set (ex_allowed_countries X) then rret False else rret True))"

section \<open>Requests of clients\<close>

datatype exit_verif_mode = VerifPhone | VerifEmail | VerifOff

record exit_details =
  ed_server_internal_ip :: ip_addr
  ed_netmask :: u8
  ed_wg_exit_port :: u16
  ed_exit_price :: u64
  ed_exit_currency :: system_chain
  ed_description :: string
  ed_verif_mode :: exit_verif_mode

record exit_client_details =
  ecd_client_internal_ip :: ip_addr
  ecd_internet_ipv6_subnet :: "ip_network option"

text \<open>The message of a denial, which is only displayed, is left out.\<close>

datatype exit_state =
    New | GotInfo exit_details string | Pending exit_details string "string option" "string option"
  | Registered exit_details exit_client_details string | Denied

definition get_exit_info :: "rita_exit_settings \<Rightarrow> exit_details" where
  "get_exit_info X =
     \<lparr>ed_server_internal_ip = V4 (own_internal_ip X), ed_netmask = netmask X, ed_wg_exit_port = wg_tunnel_port X,
      ed_exit_price = exit_price X, ed_exit_currency = pay_system_chain (payment (ex_common X)),
      ed_description = ex_description X, ed_verif_mode = VerifPhone\<rparr>"

text \<open>The registration server: no answer, an answer that does not decode, or its result.\<close>

datatype signup_answer = NoAnswer | Undecodable | SignupAnswer exit_signup_return

definition forward_client_signup_request ::
  "(exit_client_identity \<Rightarrow> 'w \<Rightarrow> signup_answer \<times> 'w) \<Rightarrow> exit_client_identity \<Rightarrow> 'w \<Rightarrow> exit_signup_return \<times> 'w" where
  "forward_client_signup_request server client w =
     (case server client w of
        (NoAnswer, w') \<Rightarrow> (InternalServerErrorReturn, w')
      | (Undecodable, w') \<Rightarrow> (InternalServerErrorReturn, w')
      | (SignupAnswer r, w') \<Rightarrow> (r, w'))"

definition signup_client ::
  "('w, 'f) exit_env \<Rightarrow> (exit_client_identity \<Rightarrow> 'w \<Rightarrow> signup_answer \<times> 'w) \<Rightarrow> rita_exit_settings
     \<Rightarrow> exit_client_identity \<Rightarrow> ('w, exit_state) xio" where
  "signup_client E server X client =
     rbind (on_world (get_gateway_ip_single E X (mesh_ip (ec_global client)))) (\<lambda>gateway_ip.
     rbind (verify_ip E X gateway_ip) (\<lambda>verify_status.
       if \<not> verify_status then rret Denied
       else
         rbind (rattempt (on_db (to_exit_client (xe_ipnet E) (xe_hash E) X (ec_global client)))) (\<lambda>exit_client. case exit_client of
            Inl _ \<Rightarrow> rret Denied
          | Inr c \<Rightarrow> (\<lambda>(s, w). case forward_client_signup_request server client w of
              (r, w') \<Rightarrow> Some (Ok (case r of
                   RegistrationOk \<Rightarrow> Registered (get_exit_info X)
                     \<lparr>ecd_client_internal_ip = xc_internal_ip c, ecd_internet_ipv6_subnet = xc_internet_ipv6 c\<rparr>
                     ''Registration OK''
                 | PendingRegistration \<Rightarrow> Pending (get_exit_info X) ''awaiting email verification'' None None
                 | BadPhoneNumberReturn \<Rightarrow> Denied
                 | InternalServerErrorReturn \<Rightarrow> Denied), (s, w'))))))"

text \<open>\<open>lookup\<close> is \<open>get_registered_client_using_wgkey\<close> at the exit's node and contract.\<close>

definition client_status ::
  "('w, 'f) exit_env \<Rightarrow> (wg_key \<Rightarrow> ('w, identity) wio) \<Rightarrow> rita_exit_settings \<Rightarrow> exit_client_identity \<Rightarrow> ('w, exit_state) xio" where
  "client_status E lookup X client =
     rbind (on_world (rmap_err (\<lambda>_. NoClientError) (lookup (wg_public_key (ec_global client))))) (\<lambda>their_record.
     rbind (on_db (assigned_internal_ip (xe_ipnet E) (xe_hash E) X their_record)) (\<lambda>current_ip.
     rbind (on_db (assigned_ipv6 (xe_ipnet E) (xe_hash E) X their_record)) (\<lambda>current_internet_ipv6.
       rret (Registered (get_exit_info X)
         \<lparr>ecd_client_internal_ip = current_ip, ecd_internet_ipv6_subnet = current_internet_ipv6\<rparr>
         ''Registration OK''))))"

end
