(* ===== verification/Exit_Loop.thy ===== *)
theory Exit_Loop
  imports Exit_Database
begin

text \<open>
  What an exit does every few seconds: the rest of \<open>rita_exit/src/database/mod.rs\<close> (region checks, setting up the
  tunnels of the clients, enforcement), the loop of \<open>rita_exit/src/rita_loop/mod.rs\<close> that calls them, and the
  requests of \<open>rita_exit/src/network_endpoints\<close>.
\<close>

section \<open>Regions\<close>

text \<open>A later client with the same address replaces an earlier one; an address that is not in the map panics.\<close>

definition validate_clients_region ::
  "('w, 'f) exit_env \<Rightarrow> rita_exit_settings \<Rightarrow> identity list \<Rightarrow> ('w, identity list) xio" where
  "validate_clients_region E X clients_list =
     (let client_map = map_of (rev (map (\<lambda>c. (mesh_ip c, c)) clients_list)) in
      rbind (on_world (get_gateway_ip_bulk E X (map mesh_ip clients_list))) (\<lambda>pairs.
        rfold (\<lambda>item blacklist.
          rbind (rattempt (verify_ip E X (ipp_gateway_ip item))) (\<lambda>res.
            if res = Inr False
            then (case client_map (ipp_mesh_ip item) of Some c \<Rightarrow> rret (blacklist @ [c]) | None \<Rightarrow> (\<lambda>_. None))
            else rret blacklist)) pairs []))"

section \<open>Setting up clients\<close>

record exit_client_setup_states =
  old_clients :: "exit_client set"
  st_wg_exit_clients :: "wg_key set"
  st_wg_exit_v2_clients :: "wg_key set"

record current_exit_client_state =
  new_v2 :: "wg_key set"
  new_v1 :: "wg_key set"
  all_v2 :: "wg_key set"
  all_v1 :: "wg_key set"

datatype client_interface_type = LegacyInterface | ExitInterface

definition get_client_interface ::
  "identity \<Rightarrow> (wg_key \<rightharpoonup> instant) \<Rightarrow> (wg_key \<rightharpoonup> instant) \<Rightarrow> client_interface_type" where
  "get_client_interface c new_wg_exit_clients wg_exit_clients =
     (case (new_wg_exit_clients (wg_public_key c), wg_exit_clients (wg_public_key c)) of
        (Some _, None) \<Rightarrow> ExitInterface
      | (None, Some _) \<Rightarrow> LegacyInterface
      | (Some new, Some old) \<Rightarrow> if new > old then ExitInterface else LegacyInterface
      | (None, None) \<Rightarrow> LegacyInterface)"

definition find_changed_clients ::
  "exit_client_setup_states \<Rightarrow> (wg_key \<rightharpoonup> instant) \<Rightarrow> (wg_key \<rightharpoonup> instant) \<Rightarrow> identity list \<Rightarrow> current_exit_client_state" where
  "find_changed_clients states v2 v1 clients_list =
     (let keys = (\<lambda>t. wg_public_key ` set (filter (\<lambda>c. get_client_interface c v2 v1 = t) clients_list));
          v1_clients = keys LegacyInterface; v2_clients = keys ExitInterface
      in \<lparr>new_v2 = v2_clients - st_wg_exit_v2_clients states, new_v1 = v1_clients - st_wg_exit_clients states,
          all_v2 = v2_clients, all_v1 = v1_clients\<rparr>)"

text \<open>The clients whose addresses can be assigned, each once.\<close>

definition convert_clients :: "('w, 'f) exit_env \<Rightarrow> rita_exit_settings \<Rightarrow> identity list \<Rightarrow> exit_client list dbio" where
  "convert_clients E X clients =
     rfold (\<lambda>c acc. rbind (rattempt (to_exit_client (xe_ipnet E) (xe_hash E) X c)) (\<lambda>r.
       rret (case r of Inr a \<Rightarrow> set_insert a acc | Inl _ \<Rightarrow> acc))) clients []"

definition apply_wg_config :: "('w, 'f) exit_env \<Rightarrow> rita_exit_settings \<Rightarrow> exit_client list \<Rightarrow> ('w, rita_exit_error, unit) rio" where
  "apply_wg_config E X wg_clients =
     rbind (rignore (set_exit_wg_config (xe_world E) (xe_ipnet E) (xe_show_key E) (xe_parse_key E) wg_clients
              (wg_tunnel_port X) (ex_wg_private_key_path X) LEGACY_INTERFACE)) (\<lambda>_.
       rignore (set_exit_wg_config (xe_world E) (xe_ipnet E) (xe_show_key E) (xe_parse_key E) wg_clients
              (wg_v2_tunnel_port X) (wg_private_key_path (network (ex_common X))) EXIT_INTERFACE))"

definition handshake_map :: "('w, 'f) exit_env \<Rightarrow> string \<Rightarrow> ('w, wg_key \<rightharpoonup> instant) xio" where
  "handshake_map E iface =
     rbind (on_world (rexpect (get_last_active_handshake_time (xe_world E) (xe_parse_key E) iface))) (\<lambda>hs.
       rret (map_of (rev hs)))"

text \<open>The loops over the changed clients. A client whose address cannot be found is skipped.\<close>

definition for_changed ::
  "('w, 'f) exit_env \<Rightarrow> rita_exit_settings \<Rightarrow> (wg_key \<times> identity) list \<Rightarrow> wg_key set \<Rightarrow> (ip_addr \<Rightarrow> ('w, unit) kio)
     \<Rightarrow> ('w, unit) xio" where
  "for_changed E X key_to_client_map keys f =
     rfor (xe_key_order E keys) (\<lambda>k. case map_of key_to_client_map k of
        None \<Rightarrow> rret ()
      | Some c \<Rightarrow>
          rbind (rattempt (on_db (assigned_internal_ip (xe_ipnet E) (xe_hash E) X c))) (\<lambda>r. case r of
             Inl _ \<Rightarrow> rret ()
           | Inr ip \<Rightarrow> on_world (rexpect (f ip))))"

definition setup_clients ::
  "('w, 'f) exit_env \<Rightarrow> rita_exit_settings \<Rightarrow> identity list \<Rightarrow> identity list \<Rightarrow> exit_client_setup_states
     \<Rightarrow> ('w, exit_client_setup_states) xio" where
  "setup_clients E X clients_list geoip_blacklist client_states =
     (let key_to_client_map = ([] :: (wg_key \<times> identity) list) in
      rbind (on_db (convert_clients E X clients_list)) (\<lambda>clients.
      rbind (on_db (convert_clients E X geoip_blacklist)) (\<lambda>geoip_blacklist_map.
        let wg_clients = xe_client_order E (filter (\<lambda>c. c \<notin> set geoip_blacklist_map) clients) in
        rbind (if set wg_clients \<noteq> old_clients client_states then on_world (apply_wg_config E X wg_clients)
               else rret ()) (\<lambda>_.
        rbind (handshake_map E EXIT_INTERFACE) (\<lambda>new_timestamps.
        rbind (handshake_map E LEGACY_INTERFACE) (\<lambda>timestamps.
          let client_list_for_setup =
                map snd (filter (\<lambda>(k, v). new_timestamps k \<noteq> None \<or> timestamps k \<noteq> None) key_to_client_map);
              changed = find_changed_clients client_states new_timestamps timestamps client_list_for_setup
          in rbind (for_changed E X key_to_client_map (new_v1 changed)
                 (\<lambda>ip. setup_individual_client_routes (xe_world E) ip (V4 (own_internal_ip X)) LEGACY_INTERFACE)) (\<lambda>_.
             rbind (for_changed E X key_to_client_map (new_v2 changed)
                 (teardown_individual_client_routes (xe_world E))) (\<lambda>_.
               rret (client_states\<lparr>st_wg_exit_v2_clients := all_v2 changed, st_wg_exit_clients := all_v1 changed\<rparr>)))))))))"

section \<open>Enforcement\<close>

text \<open>Only a flow that exists on one of the interfaces leads to a setup.\<close>

definition flow_setup_required ::
  "kernel_interface_error + bool \<Rightarrow> kernel_interface_error + bool \<Rightarrow> bool" where
  "flow_setup_required exit_flow legacy_flow =
     (case (exit_flow, legacy_flow) of (Inr a, Inr b) \<Rightarrow> a \<or> b | _ \<Rightarrow> False)"

definition create_flows :: "('w, 'f) exit_env \<Rightarrow> rita_exit_settings \<Rightarrow> identity \<Rightarrow> u32 \<Rightarrow> ('w, unit) xio" where
  "create_flows E X client_id ip =
     rbind (on_world (rignore (create_flow_by_ip (xe_world E) LEGACY_INTERFACE ip))) (\<lambda>_.
     rbind (on_world (rignore (create_flow_by_ip (xe_world E) EXIT_INTERFACE ip))) (\<lambda>_.
     rbind (rattempt (on_db (assigned_ipv6 (xe_ipnet E) (xe_hash E) X client_id))) (\<lambda>client_ipv6. case client_ipv6 of
        Inr (Some net) \<Rightarrow>
          on_world (rignore (create_flow_by_ipv6 (xe_world E) EXIT_INTERFACE (show_network (xe_ipnet E) net) ip))
      | _ \<Rightarrow> rret ())))"

definition limit_client :: "('w, 'f) exit_env \<Rightarrow> rita_exit_settings \<Rightarrow> identity \<Rightarrow> u32 \<Rightarrow> ('w, unit) xio" where
  "limit_client E X client_id ip =
     (let free_tier_limit = free_tier_throughput (payment (ex_common X)) in
      rbind (on_world (rattempt (has_flow (xe_world E) ip EXIT_INTERFACE))) (\<lambda>exit_flow.
      rbind (on_world (rattempt (has_flow (xe_world E) ip LEGACY_INTERFACE))) (\<lambda>legacy_flow.
      rbind (if flow_setup_required exit_flow legacy_flow then create_flows E X client_id ip else rret ()) (\<lambda>_.
      rbind (on_world (rignore (set_class_limit (xe_world E) LEGACY_INTERFACE free_tier_limit free_tier_limit ip))) (\<lambda>_.
        on_world (rignore (set_class_limit (xe_world E) EXIT_INTERFACE free_tier_limit free_tier_limit ip)))))))"

definition release_client :: "('w, 'f) exit_env \<Rightarrow> u32 \<Rightarrow> ('w, unit) xio" where
  "release_client E ip =
     rbind (on_world (rattempt (has_class (xe_world E) ip LEGACY_INTERFACE))) (\<lambda>a.
     rbind (on_world (rattempt (has_class (xe_world E) ip EXIT_INTERFACE))) (\<lambda>b.
       let action_required = (case (a, b) of
             (Inr x, Inr y) \<Rightarrow> x \<or> y | (Inr x, Inl _) \<Rightarrow> x | (Inl _, Inr x) \<Rightarrow> x | (Inl _, Inl _) \<Rightarrow> False)
       in if action_required then
            rbind (on_world (rignore (delete_class (xe_world E) LEGACY_INTERFACE ip))) (\<lambda>_.
              on_world (rignore (delete_class (xe_world E) EXIT_INTERFACE ip)))
          else rret ()))"

definition enforce_entry ::
  "('w, 'f) exit_env \<Rightarrow> rita_exit_settings \<Rightarrow> (identity \<rightharpoonup> exit_client) \<Rightarrow> identity \<times> node_debt_data \<Rightarrow> ('w, unit) xio" where
  "enforce_entry E X clients_by_id entry =
     (case clients_by_id (fst entry) of
        None \<Rightarrow> rret ()
      | Some client \<Rightarrow>
        (case xc_internal_ip client of
           V6 _ \<Rightarrow> rret ()
         | V4 ip \<Rightarrow> if action (snd entry) = SuspendTunnel then limit_client E X (fst entry) ip
                    else release_client E ip))"

definition clients_by_id ::
  "('w, 'f) exit_env \<Rightarrow> rita_exit_settings \<Rightarrow> identity list \<Rightarrow> (identity \<rightharpoonup> exit_client) dbio" where
  "clients_by_id E X clients =
     rfold (\<lambda>c m. rbind (rattempt (to_exit_client (xe_ipnet E) (xe_hash E) X c)) (\<lambda>r.
       rret (case r of Inr a \<Rightarrow> m(c \<mapsto> a) | Inl _ \<Rightarrow> m))) clients Map.empty"

text \<open>\<open>debts\<close> is the list of the debt keeper.\<close>

definition enforce_exit_clients ::
  "num256 \<Rightarrow> ('w, 'f) exit_env \<Rightarrow> rita_exit_settings \<Rightarrow> identity list \<Rightarrow> debt_data_ser \<Rightarrow> (identity \<times> debt_action) set
     \<Rightarrow> ('w, (identity \<times> debt_action) set) xio" where
  "enforce_exit_clients N E X clients_list debts old_debt_actions =
     rbind (rassert (calculate_close_thresh N (payment (ex_common X)) \<noteq> None)) (\<lambda>_.
     rbind (on_db (clients_by_id E X clients_list)) (\<lambda>by_id.
       let new_debt_actions = set (map (\<lambda>(i, d). (i, action d)) debts)
       in if new_debt_actions = old_debt_actions then rret new_debt_actions
          else rbind (rfor debts (enforce_entry E X by_id)) (\<lambda>_. rret new_debt_actions)))"

section \<open>The loop\<close>

record rita_exit_cache =
  wg_clients :: "exit_client set"
  debt_actions :: "(identity \<times> debt_action) set"
  successful_setup :: bool
  cache_wg_exit_clients :: "wg_key set"
  cache_wg_exit_v2_clients :: "wg_key set"
  geoip_blacklist :: "identity list"

definition rita_exit_cache_default :: rita_exit_cache where
  "rita_exit_cache_default =
     \<lparr>wg_clients = {}, debt_actions = {}, successful_setup = False, cache_wg_exit_clients = {},
      cache_wg_exit_v2_clients = {}, geoip_blacklist = []\<rparr>"

text \<open>The state the loop works on: the static of the database, the usage history, the debt keeper, the usage
  tracker and the world.\<close>

record 'w exit_node =
  xn_db :: rita_exit_state
  xn_history :: wg_counters
  xn_debts :: debt_keeper
  xn_usage :: usage_state
  xn_world :: 'w

type_synonym ('w, 'a) nio = "('w exit_node, rita_exit_error, 'a) rio"

definition on_clients :: "('w, 'a) xio \<Rightarrow> ('w, 'a) nio" where
  "on_clients m = (\<lambda>n. case m (xn_db n, xn_world n) of
     None \<Rightarrow> None | Some (r, (s, w)) \<Rightarrow> Some (r, n\<lparr>xn_db := s, xn_world := w\<rparr>))"

definition on_node_world :: "('w, 'e, 'a) rio \<Rightarrow> ('w exit_node, 'e, 'a) rio" where
  "on_node_world m = (\<lambda>n. case m (xn_world n) of
     None \<Rightarrow> None | Some (r, w) \<Rightarrow> Some (r, n\<lparr>xn_world := w\<rparr>))"

text \<open>What a round reads besides the world: the captures of the counters' pattern, the clock, the current hour
  and the order of the debts.\<close>

record exit_round =
  xr_captures :: "string \<Rightarrow> (string \<times> string \<times> string) list"
  xr_hour :: "nat option"
  xr_now :: instant
  xr_debt_order :: "identity list"

definition watch_exit ::
  "num256 \<Rightarrow> ('w, 'f) exit_env \<Rightarrow> rita_exit_settings \<Rightarrow> exit_round \<Rightarrow> 'f route list \<Rightarrow> identity list \<Rightarrow> ('w, unit) nio" where
  "watch_exit N E X R routes ids = (\<lambda>n.
     case watch_exit_traffic N (xe_world E) (xe_parse_key E) (xr_captures R) (exit_settings.truncate X) (xr_hour R)
            (xr_now R) routes ids (xn_history n, xn_debts n, xn_usage n, xn_world n) of
       None \<Rightarrow> None
     | Some (r, history, debts, usage, w) \<Rightarrow>
         Some (r, n\<lparr>xn_history := history, xn_debts := debts, xn_usage := usage, xn_world := w\<rparr>))"

definition bill ::
  "num256 \<Rightarrow> ('w, 'f) exit_env \<Rightarrow> rita_exit_settings \<Rightarrow> exit_round \<Rightarrow> identity list \<Rightarrow> ('w, unit) nio" where
  "bill N E X R ids =
     rbind (rattempt (on_node_world (babel_routes E (babel_port (network (ex_common X)))))) (\<lambda>r. case r of
        Inl _ \<Rightarrow> rret ()
      | Inr routes \<Rightarrow> rignore (watch_exit N E X R routes ids))"

definition check_regions ::
  "('w, 'f) exit_env \<Rightarrow> rita_exit_settings \<Rightarrow> identity list \<Rightarrow> ('w, identity list option) xio" where
  "check_regions E X clients_list =
     (if ex_allowed_countries X \<noteq> [] then
        rbind (rattempt (validate_clients_region E X clients_list)) (\<lambda>r.
          rret (case r of Inl _ \<Rightarrow> None | Inr blacklist \<Rightarrow> Some blacklist))
      else rret None)"

definition setup_step ::
  "('w, 'f) exit_env \<Rightarrow> rita_exit_settings \<Rightarrow> identity list \<Rightarrow> rita_exit_cache \<Rightarrow> ('w, rita_exit_cache) xio" where
  "setup_step E X clients cache =
     rbind (rattempt (setup_clients E X clients (geoip_blacklist cache)
        \<lparr>old_clients = wg_clients cache, st_wg_exit_clients = cache_wg_exit_clients cache,
         st_wg_exit_v2_clients = cache_wg_exit_v2_clients cache\<rparr>)) (\<lambda>r.
       rret (case r of
          Inr states \<Rightarrow> cache\<lparr>successful_setup := True, wg_clients := old_clients states,
            cache_wg_exit_clients := st_wg_exit_clients states,
            cache_wg_exit_v2_clients := st_wg_exit_v2_clients states\<rparr>
        | Inl _ \<Rightarrow> cache))"

definition rita_exit_loop ::
  "num256 \<Rightarrow> ('w, 'f) exit_env \<Rightarrow> rita_exit_settings \<Rightarrow> exit_round \<Rightarrow> identity list \<Rightarrow> rita_exit_cache
     \<Rightarrow> ('w, rita_exit_cache) nio" where
  "rita_exit_loop N E X R reg_clients_list cache =
     rbind (bill N E X R reg_clients_list) (\<lambda>_.
     rbind (on_clients (setup_step E X reg_clients_list cache)) (\<lambda>cache1.
     rbind (on_clients (check_regions E X reg_clients_list)) (\<lambda>checked.
       let cache2 = (case checked of Some l \<Rightarrow> cache1\<lparr>geoip_blacklist := l\<rparr> | None \<Rightarrow> cache1) in
       (\<lambda>n. rbind (rattempt (on_clients (enforce_exit_clients N E X reg_clients_list
               (get_debts_list (xr_debt_order R) (xn_debts n)) (debt_actions cache2)))) (\<lambda>r.
            rret (case r of Inr new_debt_actions \<Rightarrow> cache2\<lparr>debt_actions := new_debt_actions\<rparr> | Inl _ \<Rightarrow> cache2)) n))))"

definition update_client_list ::
  "clarity \<Rightarrow> ('w, 'p, 'tx) eth_node \<Rightarrow> rita_exit_settings \<Rightarrow> identity list \<Rightarrow> ('w, rita_exit_error, identity list) rio" where
  "update_client_list C T X reg_clients_list =
     (case pay_eth_address (payment (ex_common X)) of
        None \<Rightarrow> (\<lambda>_. None)
      | Some our_address \<Rightarrow>
          rbind (rattempt (get_all_regsitered_clients C T our_address (registered_users_contract_addr X))) (\<lambda>r.
            rret (case r of Inr list \<Rightarrow> list | Inl _ \<Rightarrow> reg_clients_list)))"

text \<open>The body of the thread's loop.\<close>

definition exit_tick ::
  "num256 \<Rightarrow> clarity \<Rightarrow> ('w, 'p, 'tx) eth_node \<Rightarrow> ('w, 'f) exit_env \<Rightarrow> rita_exit_settings \<Rightarrow> exit_round
     \<Rightarrow> identity list \<times> rita_exit_cache \<Rightarrow> ('w, identity list \<times> rita_exit_cache) nio" where
  "exit_tick N C T E X R st =
     rbind (on_node_world (update_client_list C T X (fst st))) (\<lambda>clients.
     rbind (rita_exit_loop N E X R clients (snd st)) (\<lambda>cache. rret (clients, cache)))"

definition net_with_prefix :: "ip_network \<Rightarrow> ip_addr \<times> u8" where
  "net_with_prefix n = (net_ip n, net_prefix n)"

definition setup_exit_wg_tunnel :: "'w world \<Rightarrow> rita_exit_settings \<Rightarrow> ('w, rita_exit_error, unit) rio" where
  "setup_exit_wg_tunnel W X =
     (let S = network (ex_common X); external_v6 = map_option net_with_prefix (subnet X) in
      rbind (rignore (create_blank_wg_interface W LEGACY_INTERFACE)) (\<lambda>_.
      rbind (rignore (create_blank_wg_interface W EXIT_INTERFACE)) (\<lambda>_.
        case net_mesh_ip S of
          None \<Rightarrow> (\<lambda>_. None)
        | Some exit_mesh \<Rightarrow>
            rbind (rexpect (one_time_exit_setup W None None exit_mesh LEGACY_INTERFACE (ex_enable_enforcement X))) (\<lambda>_.
            rbind (rexpect (one_time_exit_setup W (Some (V4 (own_internal_ip X), netmask X)) external_v6 exit_mesh
                     EXIT_INTERFACE (ex_enable_enforcement X))) (\<lambda>_.
              case external_nic S of
                None \<Rightarrow> (\<lambda>_. None)
              | Some nic \<Rightarrow>
                  rbind (rexpect (setup_nat W nic LEGACY_INTERFACE None)) (\<lambda>_.
                    rexpect (setup_nat W nic EXIT_INTERFACE external_v6)))))))"

section \<open>Requests\<close>

text \<open>
  The crates \<open>sodiumoxide\<close> and \<open>serde_json\<close>: \<open>open_box\<close> decrypts a request with a secret key, \<open>None\<close> when it does not
  authenticate or is not UTF-8, and \<open>read_json\<close> decodes the text. A response is sealed for the client with one of
  the two secret keys of the exit, or is an error status.
\<close>

record 'c encrypted_request =
  er_pubkey :: wg_key
  er_cipher :: 'c

datatype http_response = Sealed exit_state wg_key | ServerError

definition decrypt_exit_client_id ::
  "('c \<Rightarrow> wg_key \<Rightarrow> wg_key \<Rightarrow> string option) \<Rightarrow> (string \<Rightarrow> exit_client_identity option) \<Rightarrow> 'c encrypted_request \<Rightarrow> wg_key
     \<Rightarrow> http_response + exit_client_identity" where
  "decrypt_exit_client_id open_box read_json val our_secretkey =
     (case open_box (er_cipher val) (er_pubkey val) our_secretkey of
        None \<Rightarrow> Inl (Sealed Denied our_secretkey)
      | Some decrypted_string \<Rightarrow>
        (case read_json decrypted_string of
           None \<Rightarrow> Inl (Sealed Denied our_secretkey)
         | Some decrypted_id \<Rightarrow> Inr decrypted_id))"

text \<open>The new key of the exit is preferred; when both fail the answer is the one for the new key.\<close>

definition decrypt_with_either ::
  "('c \<Rightarrow> wg_key \<Rightarrow> wg_key \<Rightarrow> string option) \<Rightarrow> (string \<Rightarrow> exit_client_identity option) \<Rightarrow> 'c encrypted_request
     \<Rightarrow> wg_key \<Rightarrow> wg_key \<Rightarrow> http_response + exit_client_identity \<times> wg_key" where
  "decrypt_with_either open_box read_json val new_key old_key =
     (case (decrypt_exit_client_id open_box read_json val new_key, decrypt_exit_client_id open_box read_json val old_key) of
        (Inr c, _) \<Rightarrow> Inr (c, new_key)
      | (Inl _, Inr c) \<Rightarrow> Inr (c, old_key)
      | (Inl failure, Inl _) \<Rightarrow> Inl failure)"

definition secure_setup_request ::
  "('c \<Rightarrow> wg_key \<Rightarrow> wg_key \<Rightarrow> string option) \<Rightarrow> (string \<Rightarrow> exit_client_identity option) \<Rightarrow> ('w, 'f) exit_env
     \<Rightarrow> (exit_client_identity \<Rightarrow> 'w \<Rightarrow> signup_answer \<times> 'w) \<Rightarrow> rita_exit_settings \<Rightarrow> wg_key \<Rightarrow> 'c encrypted_request
     \<Rightarrow> ip_addr option \<Rightarrow> ('w, http_response) xio" where
  "secure_setup_request open_box read_json E server X old_secretkey request peer_addr =
     (case net_wg_private_key (network (ex_common X)) of
        None \<Rightarrow> (\<lambda>_. None)
      | Some new_secretkey \<Rightarrow>
        (case decrypt_with_either open_box read_json request new_secretkey old_secretkey of
           Inl failure \<Rightarrow> rret failure
         | Inr (client, valid_secret_key) \<Rightarrow>
           (case peer_addr of
              None \<Rightarrow> rret ServerError
            | Some remote_mesh_ip \<Rightarrow>
                if remote_mesh_ip = mesh_ip (ec_global client)
                then rbind (rattempt (signup_client E server X client)) (\<lambda>r.
                       rret (case r of Inr st \<Rightarrow> Sealed st valid_secret_key | Inl _ \<Rightarrow> ServerError))
                else rret (Sealed Denied valid_secret_key))))"

text \<open>The address of the exit comes from its private key, \<open>key_address\<close> of the crate \<open>clarity\<close>.\<close>

definition secure_status_request ::
  "('c \<Rightarrow> wg_key \<Rightarrow> wg_key \<Rightarrow> string option) \<Rightarrow> (string \<Rightarrow> exit_client_identity option) \<Rightarrow> ('w, 'f) exit_env
     \<Rightarrow> clarity \<Rightarrow> ('w, 'p, 'tx) eth_node \<Rightarrow> (256 word \<Rightarrow> address) \<Rightarrow> rita_exit_settings \<Rightarrow> wg_key \<Rightarrow> 'c encrypted_request
     \<Rightarrow> ('w, http_response) xio" where
  "secure_status_request open_box read_json E C T key_address X old_secretkey request =
     (case (net_wg_private_key (network (ex_common X)), eth_private_key (payment (ex_common X))) of
        (Some new_secretkey, Some private_key) \<Rightarrow>
          (case decrypt_with_either open_box read_json request new_secretkey old_secretkey of
             Inl failure \<Rightarrow> rret failure
           | Inr (client, valid_secret_key) \<Rightarrow>
               rbind (rattempt (client_status E (\<lambda>k. get_registered_client_using_wgkey C T k (key_address private_key)
                        (registered_users_contract_addr X)) X client)) (\<lambda>r.
                 rret (case r of Inr st \<Rightarrow> Sealed st valid_secret_key | Inl _ \<Rightarrow> ServerError)))
      | _ \<Rightarrow> (\<lambda>_. None))"

definition get_exit_info_http :: "rita_exit_settings \<Rightarrow> exit_state" where
  "get_exit_info_http X = GotInfo (get_exit_info X) ''Got info successfully''"

text \<open>The list of exits for old clients: the exit filters by region and chain. \<open>None\<close> is the error status.\<close>

definition suits_client :: "rita_exit_settings \<Rightarrow> exit_identity \<Rightarrow> bool" where
  "suits_client X x =
     (let known = set (ei_allowed_regions x) - {UnkownRegion}
      in known \<inter> allowed_countries (network (ex_common X)) \<noteq> {}
         \<and> set (ei_payment_types x) \<inter> payment_chains (network (ex_common X)) \<noteq> {})"

definition exit_list_for :: "rita_exit_settings \<Rightarrow> identity \<Rightarrow> web3_error + exit_identity list \<Rightarrow> identity list option" where
  "exit_list_for X our_id exits =
     (case exits of
        Inl _ \<Rightarrow> Some []
      | Inr a \<Rightarrow>
          if allowed_countries (network (ex_common X)) = {} \<or> payment_chains (network (ex_common X)) = {} then None
          else Some (map exit_identity_to_id (filter (suits_client X) a) @ [our_id]))"

definition get_exit_list ::
  "clarity \<Rightarrow> ('w, 'p, 'tx) eth_node \<Rightarrow> (256 word \<Rightarrow> address) \<Rightarrow> rita_exit_settings
     \<Rightarrow> ('w, rita_exit_error, (identity list \<times> u16) option) rio" where
  "get_exit_list C T key_address X =
     (case (settings_identity (ex_common X), eth_private_key (payment (ex_common X))) of
        (Some our_id, Some private_key) \<Rightarrow>
          rbind (rattempt (get_exits_list C T (key_address private_key) (registered_users_contract_addr X))) (\<lambda>exits.
            rret (map_option (\<lambda>l. (l, wg_v2_tunnel_port X)) (exit_list_for X our_id exits)))
      | _ \<Rightarrow> (\<lambda>_. None))"

text \<open>The chains of the exit are a set in the settings and a list in the answer: \<open>chain_order\<close> iterates it.\<close>

definition get_exit_identity ::
  "(system_chain set \<Rightarrow> system_chain list) \<Rightarrow> rita_exit_settings \<Rightarrow> exit_identity option" where
  "get_exit_identity chain_order X =
     map_option (\<lambda>i. \<lparr>ei_mesh_ip = mesh_ip i, ei_wg_key = wg_public_key i, ei_eth_addr = eth_address i,
        ei_registration_port = exit_hello_port X, ei_wg_exit_listen_port = wg_v2_tunnel_port X,
        ei_allowed_regions = ex_allowed_countries X,
        ei_payment_types = chain_order (payment_chains (network (ex_common X)))\<rparr>)
       (settings_identity (ex_common X))"

definition get_exit_list_v2 ::
  "clarity \<Rightarrow> ('w, 'p, 'tx) eth_node \<Rightarrow> (256 word \<Rightarrow> address) \<Rightarrow> (system_chain set \<Rightarrow> system_chain list) \<Rightarrow> rita_exit_settings
     \<Rightarrow> ('w, rita_exit_error, exit_identity list option) rio" where
  "get_exit_list_v2 C T key_address chain_order X =
     (if net_wg_private_key (network (ex_common X)) = None then rret None
      else case eth_private_key (payment (ex_common X)) of
        None \<Rightarrow> (\<lambda>_. None)
      | Some private_key \<Rightarrow>
          rbind (rattempt (get_exits_list C T (key_address private_key) (registered_users_contract_addr X))) (\<lambda>exits.
            case get_exit_identity chain_order X of
              None \<Rightarrow> (\<lambda>_. None)
            | Some us \<Rightarrow> rret (Some ((case exits of Inr a \<Rightarrow> a | Inl _ \<Rightarrow> []) @ [us]))))"

text \<open>The debt of a client: the answer is \<open>Some None\<close> for a client that is not known. The operations are on 256 bit
  integers, and panic when they overflow.\<close>

definition get_client_debt ::
  "num256 \<Rightarrow> instant \<Rightarrow> blockchain_oracle \<Rightarrow> debt_data_ser \<Rightarrow> identity \<Rightarrow> int option option" where
  "get_client_debt N now orc debts client =
     (if potential_payment_issues_detected now orc then Some (Some 0)
      else case find (\<lambda>(i, d). i = client) debts of
        None \<Rightarrow> Some None
      | Some (_, d) \<Rightarrow>
          if debt d > 0 then Some (Some 0)
          else (case i256 N (- 1 * debt d) of
             None \<Rightarrow> None
           | Some owed \<Rightarrow> if int (incoming_payments d) > owed then Some (Some 0) else Some (Some owed)))"

end
