(* ===== verification/Exit_Safety.thy ===== *)
theory Exit_Safety
  imports Exit_Loop
begin

text \<open>
  What the assignment of addresses at an exit guarantees. An assignment is never taken back or given to another
  client, so the state only grows; the loops return the first candidate that is usable, and what was unusable for a
  client stays unusable while the state grows. Hence a client is given the same addresses every time and two clients
  never share one. All operations of the exit let the state grow.
\<close>

section \<open>Operations that keep a relation\<close>

definition keeps :: "('s \<Rightarrow> 's \<Rightarrow> bool) \<Rightarrow> ('s, 'e, 'a) rio \<Rightarrow> bool" where
  "keeps R m \<longleftrightarrow> (\<forall>s r s'. m s = Some (r, s') \<longrightarrow> R s s')"

locale preorder_rel =
  fixes R :: "'s \<Rightarrow> 's \<Rightarrow> bool"
  assumes refl: "R s s" and trans: "R s t \<Longrightarrow> R t u \<Longrightarrow> R s u"
begin

lemma keeps_rret: "keeps R (rret x)"
  by (auto simp: keeps_def rio_defs refl)

lemma keeps_rraise: "keeps R (rraise e)"
  by (auto simp: keeps_def rio_defs refl)

lemma keeps_panic: "keeps R (\<lambda>_. None)"
  by (simp add: keeps_def)

lemma keeps_rassert: "keeps R (rassert b)"
  by (auto simp: keeps_def rassert_def refl)

lemma keeps_rbind: "keeps R m \<Longrightarrow> (\<And>x. keeps R (f x)) \<Longrightarrow> keeps R (rbind m f)"
  unfolding keeps_def by (auto simp: rbind_Some_iff) (metis trans)

lemma keeps_rattempt: "keeps R m \<Longrightarrow> keeps R (rattempt m)"
  by (auto simp: keeps_def rattempt_def split: option.splits)

lemma keeps_rmap_err: "keeps R m \<Longrightarrow> keeps R (rmap_err h m)"
  by (auto simp: keeps_def rmap_err_def split: option.splits)

lemma keeps_rignore: "keeps R m \<Longrightarrow> keeps R (rignore m)"
  unfolding rignore_def by (intro keeps_rbind keeps_rattempt keeps_rret)

lemma keeps_rfor: "(\<And>x. keeps R (f x)) \<Longrightarrow> keeps R (rfor xs f)"
  by (induction xs) (auto intro: keeps_rret keeps_rbind)

lemma keeps_rfold: "(\<And>x st. keeps R (f x st)) \<Longrightarrow> keeps R (rfold f xs st)"
  by (induction xs arbitrary: st) (auto intro: keeps_rret keeps_rbind)

lemmas keeps_intros = keeps_rret keeps_rraise keeps_panic keeps_rassert keeps_rbind keeps_rattempt keeps_rmap_err
  keeps_rignore keeps_rfor keeps_rfold

end

section \<open>Growth\<close>

definition grows :: "rita_exit_state \<Rightarrow> rita_exit_state \<Rightarrow> bool" where
  "grows s t \<longleftrightarrow> internal_ip_assignments s \<subseteq>\<^sub>m internal_ip_assignments t \<and> ipv6_assignments s \<subseteq>\<^sub>m ipv6_assignments t"

interpretation grows: preorder_rel grows
  by unfold_locales (auto simp: grows_def intro: map_le_trans)

definition first_grows :: "rita_exit_state \<times> 'w \<Rightarrow> rita_exit_state \<times> 'w \<Rightarrow> bool" where
  "first_grows p q \<longleftrightarrow> grows (fst p) (fst q)"

interpretation first_grows: preorder_rel first_grows
  by unfold_locales (auto simp: first_grows_def intro: grows.refl grows.trans)

lemma on_db_grows: "keeps grows m \<Longrightarrow> keeps first_grows (on_db m)"
  by (auto simp: keeps_def on_db_def first_grows_def split: option.splits)

lemma on_world_grows: "keeps first_grows (on_world m)"
  by (auto simp: keeps_def on_world_def first_grows_def grows.refl split: option.splits)

lemma map_leD: "m \<subseteq>\<^sub>m n \<Longrightarrow> m a = Some b \<Longrightarrow> n a = Some b"
  by (metis domI map_le_def)

section \<open>The loops\<close>

text \<open>The indices a search tries, and the first of them that satisfies a predicate.\<close>

fun tried :: "u64 \<Rightarrow> nat \<Rightarrow> u64 \<Rightarrow> u64 list" where
  "tried tot 0 index = []"
| "tried tot (Suc k) index = index # tried tot k ((index + 1) mod tot)"

definition internal_candidate :: "ipnet \<Rightarrow> u32 \<Rightarrow> u8 \<Rightarrow> u64 \<Rightarrow> u32 option" where
  "internal_candidate IN gateway plen index =
     (if 2 ^ 32 \<le> unat index then None else v4_nth IN gateway plen (ucast index))"

definition internal_usable :: "ipnet \<Rightarrow> u32 \<Rightarrow> u8 \<Rightarrow> wg_key \<Rightarrow> rita_exit_state \<Rightarrow> u64 \<Rightarrow> bool" where
  "internal_usable IN gateway plen key s index \<longleftrightarrow>
     (case internal_candidate IN gateway plen index of
        None \<Rightarrow> False | Some x \<Rightarrow> validate_internal_ip IN s gateway plen x gateway key)"

lemma internal_ip_loop_find:
  "internal_ip_loop IN gateway plen tot key k index s =
     (case find (internal_usable IN gateway plen key s) (tried tot k index) of
        None \<Rightarrow> Some (Err ExitMiscStringError, s)
      | Some i \<Rightarrow>
          let x = V4 (the (internal_candidate IN gateway plen i))
          in Some (Ok x, add_new_internal_ip_assignement x key s))"
  by (induction k arbitrary: index)
    (auto simp: internal_usable_def internal_candidate_def rio_defs Let_def split: option.splits)

lemma validate_internal_grows:
  assumes "internal_ip_assignments s \<subseteq>\<^sub>m internal_ip_assignments t"
    and "validate_internal_ip IN t a p x g key"
  shows "validate_internal_ip IN s a p x g key"
  using assms(2) map_leD [OF assms(1)] unfolding validate_internal_ip_def
  by (fastforce split: if_splits option.splits)

lemma find_cong_first:
  assumes "find P xs = Some i" and "Q i" and "\<And>j. Q j \<Longrightarrow> P j"
  shows "find Q xs = Some i"
  using assms by (induction xs) (auto split: if_splits)

lemma find_antimono: "find P xs = None \<Longrightarrow> (\<And>j. Q j \<Longrightarrow> P j) \<Longrightarrow> find Q xs = None"
  by (induction xs) (auto split: if_splits)

lemma internal_usable_grows:
  "internal_ip_assignments s \<subseteq>\<^sub>m internal_ip_assignments t \<Longrightarrow> internal_usable IN g p key t i
     \<Longrightarrow> internal_usable IN g p key s i"
  by (auto simp: internal_usable_def split: option.splits intro: validate_internal_grows)

text \<open>The result of a search, from what it does to the state.\<close>

lemma internal_ip_loop_Ok:
  assumes "internal_ip_loop IN gateway plen tot key k index s = Some (Inr ip, s')"
  obtains i x where "find (internal_usable IN gateway plen key s) (tried tot k index) = Some i"
    and "internal_candidate IN gateway plen i = Some x" and "ip = V4 x"
    and "validate_internal_ip IN s gateway plen x gateway key"
    and "s' = add_new_internal_ip_assignement ip key s"
proof -
  obtain i where i: "find (internal_usable IN gateway plen key s) (tried tot k index) = Some i"
    and r: "ip = V4 (the (internal_candidate IN gateway plen i))" "s' = add_new_internal_ip_assignement ip key s"
    using assms unfolding internal_ip_loop_find by (auto simp: Let_def split: option.splits)
  from find_SomeD [OF i] obtain x where "internal_candidate IN gateway plen i = Some x"
    and "validate_internal_ip IN s gateway plen x gateway key"
    by (auto simp: internal_usable_def split: option.splits)
  with i r show ?thesis by (intro that) auto
qed

lemma internal_ip_loop_grows: "keeps grows (internal_ip_loop IN gateway plen tot key k index)"
proof (unfold keeps_def, intro allI impI)
  fix s r s' assume run: "internal_ip_loop IN gateway plen tot key k index s = Some (r, s')"
  show "grows s s'"
  proof (cases r)
    case (Inl e)
    with run have "s' = s" by (auto simp: internal_ip_loop_find Let_def split: option.splits)
    then show ?thesis by (simp add: grows.refl)
  next
    case (Inr ip)
    with run internal_ip_loop_Ok obtain x where "ip = V4 x"
      "validate_internal_ip IN s gateway plen x gateway key" "s' = add_new_internal_ip_assignement ip key s" by metis
    then show ?thesis
      by (auto simp: grows_def add_new_internal_ip_assignement_def validate_internal_ip_def map_le_def
          split: if_splits option.splits)
  qed
qed

lemma internal_ip_loop_stable:
  assumes "internal_ip_loop IN gateway plen tot key k index s = Some (Inr ip, s')" and "grows s' t"
  shows "internal_ip_loop IN gateway plen tot key k index t = Some (Inr ip, t)"
proof -
  from assms(1) internal_ip_loop_Ok obtain i x where
    i: "find (internal_usable IN gateway plen key s) (tried tot k index) = Some i"
    and x: "internal_candidate IN gateway plen i = Some x" "ip = V4 x"
    and v: "validate_internal_ip IN s gateway plen x gateway key"
    and s': "s' = add_new_internal_ip_assignement ip key s" by metis
  have own: "internal_ip_assignments t ip = Some key"
    using assms(2) unfolding s' grows_def map_le_def add_new_internal_ip_assignement_def by (auto dest: bspec [of _ _ ip])
  have le: "internal_ip_assignments s \<subseteq>\<^sub>m internal_ip_assignments t"
    using internal_ip_loop_grows assms grows.trans unfolding keeps_def grows_def by (metis map_le_trans)
  have "internal_usable IN gateway plen key t i"
    using v own x by (auto simp: internal_usable_def validate_internal_ip_def split: if_splits)
  then have "find (internal_usable IN gateway plen key t) (tried tot k index) = Some i"
    using find_cong_first [OF i] internal_usable_grows [OF le] by blast
  then show ?thesis
    using own x by (simp add: internal_ip_loop_find Let_def add_new_internal_ip_assignement_def fun_upd_idem)
qed

section \<open>The networks\<close>

definition net_usable :: "ipnet \<Rightarrow> ip_network \<Rightarrow> u8 \<Rightarrow> wg_key \<Rightarrow> rita_exit_state \<Rightarrow> u64 \<Rightarrow> bool" where
  "net_usable IN exit_sub sub_size key s index \<longleftrightarrow>
     (case generate_iterative_client_subnet IN exit_sub index sub_size of
        Some (Inr n) \<Rightarrow> validate_internet_ipv6 s n key | _ \<Rightarrow> True)"

lemma ipv6_loop_find:
  "ipv6_loop IN exit_sub sub_size tot key k index s =
     (case find (net_usable IN exit_sub sub_size key s) (tried tot k index) of
        None \<Rightarrow> Some (Err ExitMiscStringError, s)
      | Some i \<Rightarrow>
        (case generate_iterative_client_subnet IN exit_sub i sub_size of
           None \<Rightarrow> None
         | Some (Inl e) \<Rightarrow> Some (Err e, s)
         | Some (Inr n) \<Rightarrow> Some (Ok (Some n), add_new_ipv6_assignment (net_ip n) key s)))"
  by (induction k arbitrary: index) (auto simp: net_usable_def rio_defs split: option.splits sum.splits)

lemma net_usable_grows:
  assumes "ipv6_assignments s \<subseteq>\<^sub>m ipv6_assignments t" and "net_usable IN n z key t i"
  shows "net_usable IN n z key s i"
  using assms(2) map_leD [OF assms(1)] unfolding net_usable_def validate_internet_ipv6_def
  by (fastforce split: option.splits sum.splits)

lemma ipv6_loop_Ok:
  assumes "ipv6_loop IN exit_sub sub_size tot key k index s = Some (Inr r, s')"
  obtains i n where "find (net_usable IN exit_sub sub_size key s) (tried tot k index) = Some i"
    and "generate_iterative_client_subnet IN exit_sub i sub_size = Some (Inr n)" and "r = Some n"
    and "validate_internet_ipv6 s n key" and "s' = add_new_ipv6_assignment (net_ip n) key s"
proof -
  obtain i n where i: "find (net_usable IN exit_sub sub_size key s) (tried tot k index) = Some i"
    and n: "generate_iterative_client_subnet IN exit_sub i sub_size = Some (Inr n)" "r = Some n"
      "s' = add_new_ipv6_assignment (net_ip n) key s"
    using assms unfolding ipv6_loop_find by (auto split: option.splits sum.splits)
  moreover have "validate_internet_ipv6 s n key"
    using find_SomeD [OF i] n by (simp add: net_usable_def)
  ultimately show ?thesis by (intro that)
qed

lemma ipv6_loop_grows: "keeps grows (ipv6_loop IN exit_sub sub_size tot key k index)"
proof (unfold keeps_def, intro allI impI)
  fix s r s' assume run: "ipv6_loop IN exit_sub sub_size tot key k index s = Some (r, s')"
  show "grows s s'"
  proof (cases r)
    case (Inl e)
    with run have "s' = s" by (auto simp: ipv6_loop_find split: option.splits sum.splits)
    then show ?thesis by (simp add: grows.refl)
  next
    case (Inr ip)
    with run ipv6_loop_Ok obtain n where "validate_internet_ipv6 s n key"
      "s' = add_new_ipv6_assignment (net_ip n) key s" by metis
    then show ?thesis
      by (auto simp: grows_def add_new_ipv6_assignment_def validate_internet_ipv6_def map_le_def
          split: if_splits option.splits)
  qed
qed

lemma ipv6_loop_stable:
  assumes "ipv6_loop IN exit_sub sub_size tot key k index s = Some (Inr r, s')" and "grows s' t"
  shows "ipv6_loop IN exit_sub sub_size tot key k index t = Some (Inr r, t)"
proof -
  from assms(1) ipv6_loop_Ok obtain i n where
    i: "find (net_usable IN exit_sub sub_size key s) (tried tot k index) = Some i"
    and n: "generate_iterative_client_subnet IN exit_sub i sub_size = Some (Inr n)" "r = Some n"
    and s': "s' = add_new_ipv6_assignment (net_ip n) key s" by metis
  have own: "ipv6_assignments t (net_ip n) = Some key"
    using assms(2) unfolding s' grows_def map_le_def add_new_ipv6_assignment_def by (auto dest: bspec [of _ _ "net_ip n"])
  have le: "ipv6_assignments s \<subseteq>\<^sub>m ipv6_assignments t"
    using ipv6_loop_grows assms grows.trans unfolding keeps_def grows_def by (metis map_le_trans)
  have "net_usable IN exit_sub sub_size key t i"
    using own n by (simp add: net_usable_def validate_internet_ipv6_def)
  then have "find (net_usable IN exit_sub sub_size key t) (tried tot k index) = Some i"
    using find_cong_first [OF i] net_usable_grows [OF le] by blast
  then show ?thesis
    using own n by (simp add: ipv6_loop_find add_new_ipv6_assignment_def fun_upd_idem)
qed

declare internal_ip_loop.simps [simp del] ipv6_loop.simps [simp del]

section \<open>All operations\<close>

lemma assigned_internal_ip_grows: "keeps grows (assigned_internal_ip IN hash X c)"
  using internal_ip_loop_grows unfolding keeps_def assigned_internal_ip_def get_client_internal_ip_def
  by (auto simp: Let_def grows.refl split: if_splits)

lemma assigned_ipv6_grows: "keeps grows (assigned_ipv6 IN hash X c)"
  using ipv6_loop_grows grows.keeps_rret unfolding assigned_ipv6_def get_client_ipv6_def
  by (auto simp: Let_def split: option.splits)

lemma to_exit_client_grows: "keeps grows (to_exit_client IN hash X c)"
  unfolding to_exit_client_def by (intro grows.keeps_intros assigned_ipv6_grows assigned_internal_ip_grows)

lemma convert_clients_grows: "keeps grows (convert_clients E X cs)"
  unfolding convert_clients_def by (intro grows.keeps_intros to_exit_client_grows)

lemma clients_by_id_grows: "keeps grows (clients_by_id E X cs)"
  unfolding clients_by_id_def by (intro grows.keeps_intros to_exit_client_grows)

lemma get_country_grows: "keeps first_grows (get_country E X ip)"
  by (auto simp: keeps_def get_country_def rio_defs first_grows_def grows_def Let_def
      split: list.splits if_splits option.splits prod.splits geoip_answer.splits)

lemma verify_ip_grows: "keeps first_grows (verify_ip E X ip)"
  unfolding verify_ip_def by (auto intro!: first_grows.keeps_intros get_country_grows)

lemma validate_clients_region_grows: "keeps first_grows (validate_clients_region E X cs)"
  unfolding validate_clients_region_def Let_def
  by (auto intro!: first_grows.keeps_intros on_world_grows verify_ip_grows split: option.splits)

lemma check_regions_grows: "keeps first_grows (check_regions E X cs)"
  unfolding check_regions_def by (auto intro!: first_grows.keeps_intros validate_clients_region_grows)

lemma handshake_map_grows: "keeps first_grows (handshake_map E iface)"
  unfolding handshake_map_def by (intro first_grows.keeps_intros on_world_grows)

lemma for_changed_grows: "keeps first_grows (for_changed E X m keys f)"
  unfolding for_changed_def
  by (auto intro!: first_grows.keeps_intros on_world_grows on_db_grows assigned_internal_ip_grows
      split: option.splits sum.splits)

lemma setup_clients_grows: "keeps first_grows (setup_clients E X cs bl st)"
  unfolding setup_clients_def Let_def
  by (auto intro!: first_grows.keeps_intros on_world_grows on_db_grows convert_clients_grows handshake_map_grows
      for_changed_grows)

lemma limit_client_grows: "keeps first_grows (limit_client E X i ip)"
  unfolding limit_client_def create_flows_def Let_def
  by (auto intro!: first_grows.keeps_intros on_world_grows on_db_grows assigned_ipv6_grows
      split: option.splits sum.splits)

lemma release_client_grows: "keeps first_grows (release_client E ip)"
  unfolding release_client_def Let_def by (auto intro!: first_grows.keeps_intros on_world_grows)

lemma enforce_entry_grows: "keeps first_grows (enforce_entry E X m e)"
  unfolding enforce_entry_def
  by (auto intro!: first_grows.keeps_intros limit_client_grows release_client_grows
      split: option.splits ip_addr.splits)

lemma enforce_exit_clients_grows: "keeps first_grows (enforce_exit_clients N E X cs debts old)"
  unfolding enforce_exit_clients_def Let_def
  by (auto intro!: first_grows.keeps_intros on_db_grows clients_by_id_grows enforce_entry_grows)

lemma answer_grows: "keeps first_grows (\<lambda>(s, w). case g w of (r, w') \<Rightarrow> Some (Inr (h r), (s, w')))"
  by (auto simp: keeps_def first_grows_def grows.refl split: prod.splits)

lemma signup_client_grows: "keeps first_grows (signup_client E server X c)"
  unfolding signup_client_def
  by (auto intro!: first_grows.keeps_intros on_world_grows on_db_grows verify_ip_grows to_exit_client_grows answer_grows
      split: sum.splits)

lemma client_status_grows: "keeps first_grows (client_status E lookup X c)"
  unfolding client_status_def
  by (intro first_grows.keeps_intros on_world_grows on_db_grows assigned_internal_ip_grows assigned_ipv6_grows)

lemma secure_setup_request_grows: "keeps first_grows (secure_setup_request ob rj E server X k req peer)"
  unfolding secure_setup_request_def
  by (auto intro!: first_grows.keeps_intros signup_client_grows split: option.splits sum.splits)

lemma secure_status_request_grows: "keeps first_grows (secure_status_request ob rj E C T ka X k req)"
  unfolding secure_status_request_def
  by (auto intro!: first_grows.keeps_intros client_status_grows split: option.splits sum.splits)

definition db_grows :: "'w exit_node \<Rightarrow> 'w exit_node \<Rightarrow> bool" where
  "db_grows n m \<longleftrightarrow> grows (xn_db n) (xn_db m)"

interpretation db_grows: preorder_rel db_grows
  by unfold_locales (auto simp: db_grows_def intro: grows.refl grows.trans)

lemma on_clients_grows: "keeps first_grows m \<Longrightarrow> keeps db_grows (on_clients m)"
  by (fastforce simp: keeps_def on_clients_def db_grows_def first_grows_def split: option.splits)

lemma on_node_world_grows: "keeps db_grows (on_node_world m)"
  by (auto simp: keeps_def on_node_world_def db_grows_def grows.refl split: option.splits)

lemma watch_exit_grows: "keeps db_grows (watch_exit N E X R routes ids)"
  by (auto simp: keeps_def watch_exit_def db_grows_def grows.refl split: option.splits)

lemma rita_exit_loop_grows: "keeps db_grows (rita_exit_loop N E X R cs cache)"
proof -
  have bill: "keeps db_grows (bill N E X R cs)"
    unfolding bill_def
    by (auto intro!: db_grows.keeps_intros on_node_world_grows watch_exit_grows split: sum.splits)
  have setup_grows: "keeps first_grows (setup_step E X cs cache)"
    unfolding setup_step_def by (intro first_grows.keeps_intros setup_clients_grows)
  have enforce: "keeps db_grows (\<lambda>n. rbind (rattempt (on_clients (enforce_exit_clients N E X cs (d n) (a))))
      (\<lambda>r. rret (f r)) n)" for d a and f :: "_ \<Rightarrow> 'z"
    using db_grows.keeps_rbind [OF db_grows.keeps_rattempt [OF on_clients_grows [OF enforce_exit_clients_grows]]
        db_grows.keeps_rret]
    unfolding keeps_def by metis
  show ?thesis unfolding rita_exit_loop_def Let_def
    by (intro db_grows.keeps_intros bill on_clients_grows setup_grows check_regions_grows enforce)
qed

lemma exit_tick_grows: "keeps db_grows (exit_tick N C T E X R st)"
  unfolding exit_tick_def by (intro db_grows.keeps_intros on_node_world_grows rita_exit_loop_grows)

end
