(* ===== verification/Exit_Properties.thy ===== *)
theory Exit_Properties
  imports Exit_Safety
begin

text \<open>
  The exit as a whole: what addresses its clients get, which of them are set up, and what enforcement and the caches
  of the loop achieve.
\<close>

section \<open>Networks of clients\<close>

lemma subnet_split:
  fixes i :: nat
  assumes "p \<le> z" and "z \<le> 128"
  shows "Q * 2 ^ (128 - p) + i * 2 ^ (128 - z) = (Q * 2 ^ (z - p) + i) * 2 ^ (128 - z)"
proof -
  have "(2::nat) ^ (128 - p) = 2 ^ (z - p) * 2 ^ (128 - z)" using assms by (simp flip: power_add)
  then show ?thesis by (simp add: algebra_simps)
qed

lemma unat_shl_one:
  assumes "b \<le> a"
  shows "unat (shl_one a b) = 2 ^ ((unat a - unat b) mod 64)"
proof -
  have "unat (a - b) = unat a - unat b" using assms by (simp add: unat_sub)
  moreover have "unat (push_bit k (1 :: u64)) = 2 ^ k" if "k < 64" for k
  proof -
    have "(2::nat) ^ k < 2 ^ 64" using that by (intro power_strict_increasing) auto
    then have "unat (word_of_nat (2 ^ k) :: u64) = 2 ^ k" by (intro unat_word_of_nat) simp
    then show ?thesis by (simp add: push_bit_eq_mult)
  qed
  ultimately show ?thesis by (simp add: shl_one_def)
qed

context ipnet_laws
begin

lemma client_subnet:
  assumes gen: "generate_iterative_client_subnet IN (Net6 a p) i z = Some (Inr n)" and p: "p \<le> 128"
  defines "Q \<equiv> unat a div 2 ^ (128 - p)"
  shows "\<exists>b. n = Net6 b (unat z) \<and> p \<le> unat z \<and> unat z \<le> 128 \<and> unat i < 2 ^ (unat z - p)
    \<and> unat b = (Q * 2 ^ (unat z - p) + unat i) * 2 ^ (128 - unat z)"
proof -
  let ?z = "unat z" and ?base = "v6_network IN a (word_of_nat p)"
  have pw: "unat (word_of_nat p :: u8) = p" using p by (intro unat_word_of_nat) simp
  have z: "?z \<le> 128" and pz: "word_of_nat p \<le> z" and i: "i < shl_one z (word_of_nat p)"
    and n: "n = Net6 (?base + ucast i * v6_size IN z) ?z"
    using gen v6_valid by (auto simp: generate_iterative_client_subnet_def net_prefix_def Let_def split: if_splits)
  have pz': "p \<le> ?z" using pz pw by (simp add: word_le_nat_alt)
  have "unat i < 2 ^ ((?z - p) mod 64)" using i unat_shl_one [OF pz] pw by (simp add: word_less_nat_alt)
  also have "\<dots> \<le> 2 ^ (?z - p)" by (intro power_increasing) auto
  finally have i': "unat i < 2 ^ (?z - p)" .
  have base: "unat ?base = Q * 2 ^ (128 - p)"
    using v6_network [of "word_of_nat p" a] p pw by (simp add: low_bits_def Q_def minus_mod_eq_div_mult)
  have "unat a < 2 ^ 128" using unsigned_less [of a, where ?'a = nat] by simp
  then have "Q < 2 ^ p" unfolding Q_def using p by (simp add: less_mult_imp_div_less flip: power_add)
  then have "Q * 2 ^ (?z - p) + unat i < 2 ^ p * 2 ^ (?z - p)"
    using i' mult_le_mono1 [of "Suc Q" "2 ^ p" "2 ^ (?z - p)"] by simp
  then have q: "Q * 2 ^ (?z - p) + unat i < 2 ^ ?z" using pz' by (simp flip: power_add)
  then have sum: "(Q * 2 ^ (?z - p) + unat i) * 2 ^ (128 - ?z) < 2 ^ 128"
  proof -
    have "(Q * 2 ^ (?z - p) + unat i) * 2 ^ (128 - ?z) < 2 ^ ?z * 2 ^ (128 - ?z)" using q by simp
    also have "\<dots> = 2 ^ 128" using z by (simp flip: power_add)
    finally show ?thesis .
  qed
  have size: "unat (ucast i * v6_size IN z :: u128) = unat i * 2 ^ (128 - ?z)"
  proof (cases "?z = 0")
    case True
    with i' have "unat i = 0" by simp
    then have "i = 0" by (simp add: unat_eq_0)
    then show ?thesis by simp
  next
    case False
    have "unat i * 2 ^ (128 - ?z) < 2 ^ 128" using sum by (simp add: algebra_simps)
    moreover have "unat (ucast i :: u128) = unat i"
      using unsigned_less [of i, where ?'a = nat] by (simp add: unsigned_ucast_eq take_bit_nat_eq_self)
    ultimately show ?thesis using False v6_size [of z] z by (simp add: unat_mult_lem [THEN iffD1])
  qed
  have "unat (?base + ucast i * v6_size IN z) = Q * 2 ^ (128 - p) + unat i * 2 ^ (128 - ?z)"
    using sum base size subnet_split [OF pz' z, of Q "unat i"] by (subst unat_add_lem [THEN iffD1]) auto
  then show ?thesis using n z pz' i' subnet_split [OF pz' z, of Q "unat i"] by auto
qed

lemma client_subnets_disjoint:
  assumes "generate_iterative_client_subnet IN (Net6 a p) i z = Some (Inr (Net6 b z'))"
    and "generate_iterative_client_subnet IN (Net6 a p) j z = Some (Inr (Net6 c z''))" and "p \<le> 128" and "b \<noteq> c"
  shows "v6_hosts b z' \<inter> v6_hosts c z'' = {}"
proof -
  let ?B = "\<lambda>i. unat a div 2 ^ (128 - p) * 2 ^ (unat z - p) + unat (i :: u64)"
  from client_subnet [OF assms(1,3)] client_subnet [OF assms(2,3)]
  have z: "z' = unat z" "z'' = unat z" and b: "unat b = ?B i * 2 ^ (128 - unat z)"
    and c: "unat c = ?B j * 2 ^ (128 - unat z)" by auto
  have "?B i \<noteq> ?B j" using b c assms(4) by (metis unsigned_word_eqI)
  then show ?thesis using z b c by (auto simp: v6_hosts_def)
qed

lemma client_subnet_inside:
  assumes "generate_iterative_client_subnet IN (Net6 a p) i z = Some (Inr (Net6 b z'))" and "p \<le> 128"
  shows "z' = unat z \<and> v6_hosts b z' \<subseteq> v6_hosts a p"
proof -
  let ?Q = "unat a div 2 ^ (128 - p)"
  from client_subnet [OF assms] have z': "z' = unat z" and pz: "p \<le> unat z" "unat z \<le> 128"
    and i: "unat i < 2 ^ (unat z - p)" and b: "unat b = (?Q * 2 ^ (unat z - p) + unat i) * 2 ^ (128 - unat z)" by auto
  have "unat x div 2 ^ (128 - p) = ?Q" if "x \<in> v6_hosts b z'" for x
  proof -
    have "unat x div 2 ^ (128 - unat z) = ?Q * 2 ^ (unat z - p) + unat i"
      using that b z' by (simp add: v6_hosts_def)
    then have "unat x div 2 ^ (128 - unat z) div 2 ^ (unat z - p) = ?Q" using i by simp
    moreover have "(2::nat) ^ (128 - p) = 2 ^ (128 - unat z) * 2 ^ (unat z - p)"
      using pz by (simp flip: power_add)
    ultimately show ?thesis by (simp add: div_mult2_eq)
  qed
  then show ?thesis using z' by (auto simp: v6_hosts_def)
qed

end

section \<open>Assigned addresses\<close>

definition net_ok :: "rita_exit_settings \<Rightarrow> bool" where
  "net_ok X = (case subnet X of Some (Net6 _ p) \<Rightarrow> p \<le> 128 | _ \<Rightarrow> True)"

definition sub_len :: "rita_exit_settings \<Rightarrow> u8" where
  "sub_len X = unwrap_or (client_subnet_size X) DEFAULT_CLIENT_SUBNET_SIZE"

definition disjoint_nets :: "ip_network option \<Rightarrow> ip_network option \<Rightarrow> bool" where
  "disjoint_nets m n =
     (case (m, n) of (Some (Net6 b z), Some (Net6 c y)) \<Rightarrow> v6_hosts b z \<inter> v6_hosts c y = {} | _ \<Rightarrow> True)"

lemma assigned_internal_ipE:
  assumes "assigned_internal_ip IN hash X c s = Some (Inr ip, s')"
  obtains i x where "internal_candidate IN (own_internal_ip X) (netmask X) i = Some x" and "ip = V4 x"
    and "v4_valid IN (netmask X)"
    and "validate_internal_ip IN s (own_internal_ip X) (netmask X) x (own_internal_ip X) (wg_public_key c)"
    and "internal_ip_assignments s' ip = Some (wg_public_key c)"
proof -
  from assms have v: "v4_valid IN (netmask X)" and run: "\<exists>tot k index. internal_ip_loop IN (own_internal_ip X) (netmask X) tot
      (wg_public_key c) k index s = Some (Inr ip, s')"
    by (auto simp: assigned_internal_ip_def get_client_internal_ip_def Let_def split: if_splits)
  from run obtain i x where "internal_candidate IN (own_internal_ip X) (netmask X) i = Some x" "ip = V4 x"
    "validate_internal_ip IN s (own_internal_ip X) (netmask X) x (own_internal_ip X) (wg_public_key c)"
    "s' = add_new_internal_ip_assignement ip (wg_public_key c) s" using internal_ip_loop_Ok by metis
  with v show ?thesis by (intro that) (auto simp: add_new_internal_ip_assignement_def)
qed

lemma assigned_internal_ip_stable:
  assumes "assigned_internal_ip IN hash X c s = Some (Inr ip, s')" and "grows s' t" and "wg_public_key d = wg_public_key c"
  shows "assigned_internal_ip IN hash X d t = Some (Inr ip, t)"
  using assms internal_ip_loop_stable
  by (auto simp: assigned_internal_ip_def get_client_internal_ip_def Let_def split: if_splits)

lemma assigned_ipv6E:
  assumes "assigned_ipv6 IN hash X c s = Some (Inr r, s')"
  obtains (none) "subnet X = None" and "r = None" and "s' = s"
  | (net) a p b z i where "subnet X = Some (Net6 a p)" and "r = Some (Net6 b z)"
    and "generate_iterative_client_subnet IN (Net6 a p) i (sub_len X) = Some (Inr (Net6 b z))"
    and "validate_internet_ipv6 s (Net6 b z) (wg_public_key c)"
    and "ipv6_assignments s' (V6 b) = Some (wg_public_key c)"
proof (cases "subnet X")
  case None
  with assms show ?thesis by (intro none) (auto simp: assigned_ipv6_def get_client_ipv6_def rio_defs)
next
  case (Some e)
  with assms have "\<exists>tot k index. ipv6_loop IN e (sub_len X) tot (wg_public_key c) k index s = Some (Inr r, s')"
    by (auto simp: assigned_ipv6_def get_client_ipv6_def sub_len_def Let_def)
  then obtain i n where n: "generate_iterative_client_subnet IN e i (sub_len X) = Some (Inr n)" "r = Some n"
    "validate_internet_ipv6 s n (wg_public_key c)" "s' = add_new_ipv6_assignment (net_ip n) (wg_public_key c) s"
    using ipv6_loop_Ok by metis
  then obtain a p b z where "e = Net6 a p" "n = Net6 b z"
    by (auto simp: generate_iterative_client_subnet_def Let_def split: ip_network.splits if_splits)
  with n Some show ?thesis by (intro net) (auto simp: add_new_ipv6_assignment_def net_ip_def)
qed

lemma assigned_ipv6_stable:
  assumes "assigned_ipv6 IN hash X c s = Some (Inr r, s')" and "grows s' t" and "wg_public_key d = wg_public_key c"
  shows "assigned_ipv6 IN hash X d t = Some (Inr r, t)"
  using assms ipv6_loop_stable
  by (auto simp: assigned_ipv6_def get_client_ipv6_def Let_def rio_defs split: option.splits)

lemma to_exit_clientE:
  assumes "to_exit_client IN hash X c s = Some (Inr a, s')"
  obtains s1 where "assigned_ipv6 IN hash X c s = Some (Inr (xc_internet_ipv6 a), s1)"
    and "assigned_internal_ip IN hash X c s1 = Some (Inr (xc_internal_ip a), s')"
    and "xc_public_key a = wg_public_key c" and "xc_mesh_ip a = mesh_ip c" and "xc_port a = CLIENT_WG_PORT"
  using assms by (auto simp: to_exit_client_def rbind_Some_iff rret_def intro: that)

lemma to_exit_client_stable:
  assumes "to_exit_client IN hash X c s = Some (Inr a, s')" and "grows s' t"
  shows "to_exit_client IN hash X c t = Some (Inr a, t)"
proof -
  from assms(1) obtain s1 where s1: "assigned_ipv6 IN hash X c s = Some (Inr (xc_internet_ipv6 a), s1)"
    "assigned_internal_ip IN hash X c s1 = Some (Inr (xc_internal_ip a), s')"
    and a: "xc_public_key a = wg_public_key c" "xc_mesh_ip a = mesh_ip c" "xc_port a = CLIENT_WG_PORT"
    by (rule to_exit_clientE)
  have "grows s1 t" using s1(2) assms(2) assigned_internal_ip_grows grows.trans unfolding keeps_def by metis
  then have "assigned_ipv6 IN hash X c t = Some (Inr (xc_internet_ipv6 a), t)"
    "assigned_internal_ip IN hash X c t = Some (Inr (xc_internal_ip a), t)"
    using s1 assms(2) by (auto intro: assigned_ipv6_stable assigned_internal_ip_stable)
  then show ?thesis using a by (simp add: to_exit_client_def rbind_def rret_def)
qed

section \<open>Runs of the exit\<close>

text \<open>What happens to an exit over time: rounds of its loop and requests of clients, in any order. The environment
  differs from step to step, as the orders of iteration do.\<close>

inductive exit_run ::
  "num256 \<Rightarrow> clarity \<Rightarrow> ('w, 'p, 'tx) eth_node \<Rightarrow> (nat \<Rightarrow> ('w, 'f) exit_env) \<Rightarrow> ('c \<Rightarrow> wg_key \<Rightarrow> wg_key \<Rightarrow> string option)
     \<Rightarrow> rita_exit_settings \<Rightarrow> 'w exit_node \<Rightarrow> 'w exit_node \<Rightarrow> bool"
  for N C T env open_box X where
  run_start: "exit_run N C T env open_box X n n"
| run_tick: "exit_run N C T env open_box X n n1 \<Longrightarrow> exit_tick N C T (env i) X R st n1 = Some (r, n2)
    \<Longrightarrow> exit_run N C T env open_box X n n2"
| run_setup: "exit_run N C T env open_box X n n1
    \<Longrightarrow> on_clients (secure_setup_request open_box read_json (env i) server X key req peer) n1 = Some (r', n2)
    \<Longrightarrow> exit_run N C T env open_box X n n2"
| run_status: "exit_run N C T env open_box X n n1
    \<Longrightarrow> on_clients (secure_status_request open_box read_json (env i) C T key_address X key req) n1 = Some (r', n2)
    \<Longrightarrow> exit_run N C T env open_box X n n2"

lemma exit_run_grows: "exit_run N C T env open_box X n m \<Longrightarrow> db_grows n m"
proof (induction rule: exit_run.induct)
  case (run_tick n n1 i R st r n2)
  then show ?case using exit_tick_grows db_grows.trans unfolding keeps_def by metis
next
  case (run_setup n n1 read_json i server key req peer r' n2)
  then show ?case using on_clients_grows [OF secure_setup_request_grows] db_grows.trans unfolding keeps_def by metis
next
  case (run_status n n1 read_json i key_address key req r' n2)
  then show ?case using on_clients_grows [OF secure_status_request_grows] db_grows.trans unfolding keeps_def by metis
qed (rule db_grows.refl)

lemma unique_internal_ip:
  assumes "assigned_internal_ip IN hash X c s = Some (Inr ip, s')" and "grows s' t"
    and "assigned_internal_ip IN hash X d t = Some (Inr ip', t')" and "wg_public_key c \<noteq> wg_public_key d"
  shows "ip \<noteq> ip'"
proof
  assume eq: "ip = ip'"
  from assms(1) have "internal_ip_assignments s' ip = Some (wg_public_key c)" by (rule assigned_internal_ipE)
  then have "internal_ip_assignments t ip = Some (wg_public_key c)"
    using assms(2) unfolding grows_def by (blast intro: map_leD)
  moreover from assms(3) obtain x where "ip' = V4 x"
    "validate_internal_ip IN t (own_internal_ip X) (netmask X) x (own_internal_ip X) (wg_public_key d)"
    by (rule assigned_internal_ipE)
  ultimately show False using eq assms(4) by (auto simp: validate_internal_ip_def split: if_splits)
qed

lemma unique_ipv6:
  assumes laws: "ipnet_laws IN" and net: "net_ok X" and c: "assigned_ipv6 IN hash X c s = Some (Inr m, s')"
    and g: "grows s' t" and d: "assigned_ipv6 IN hash X d t = Some (Inr n, t')" and ne: "wg_public_key c \<noteq> wg_public_key d"
  shows "disjoint_nets m n"
  using c
proof (cases rule: assigned_ipv6E)
  case none
  then show ?thesis by (simp add: disjoint_nets_def)
next
  case (net a p b z i)
  have own: "ipv6_assignments t (V6 b) = Some (wg_public_key c)"
    using net(5) g unfolding grows_def by (blast intro: map_leD)
  from d net(1) obtain b' z' j where n: "n = Some (Net6 b' z')"
    "generate_iterative_client_subnet IN (Net6 a p) j (sub_len X) = Some (Inr (Net6 b' z'))"
    "validate_internet_ipv6 t (Net6 b' z') (wg_public_key d)" by (cases rule: assigned_ipv6E) auto
  have "b \<noteq> b'" using own n(3) ne by (auto simp: validate_internet_ipv6_def net_ip_def)
  moreover have "p \<le> 128" using \<open>net_ok X\<close> net(1) by (simp add: net_ok_def)
  ultimately show ?thesis
    using ipnet_laws.client_subnets_disjoint [OF laws net(3) n(2)] net(2) n(1) by (simp add: disjoint_nets_def)
qed

text \<open>C11: Addresses at an exit are stable and unique. Whatever rounds of the loop and requests of clients lie
  between two assignments, a client with the same WireGuard key is given the same internal address and the same IPv6
  network, and clients with different keys are given different internal addresses and disjoint networks.\<close>

theorem client_addresses_are_stable_and_unique:
  assumes "ipnet_laws IN" and "net_ok X"
    and "to_exit_client IN hash X c1 (xn_db n0) = Some (Inr a1, s1)"
    and "exit_run N C T env open_box X (n0\<lparr>xn_db := s1\<rparr>) n2"
    and "to_exit_client IN hash X c2 (xn_db n2) = Some (Inr a2, s3)"
  shows "if wg_public_key c1 = wg_public_key c2
    then xc_internal_ip a1 = xc_internal_ip a2 \<and> xc_internet_ipv6 a1 = xc_internet_ipv6 a2
    else xc_internal_ip a1 \<noteq> xc_internal_ip a2 \<and> disjoint_nets (xc_internet_ipv6 a1) (xc_internet_ipv6 a2)"
proof -
  from assms(3) obtain t1 where c1: "assigned_ipv6 IN hash X c1 (xn_db n0) = Some (Inr (xc_internet_ipv6 a1), t1)"
    "assigned_internal_ip IN hash X c1 t1 = Some (Inr (xc_internal_ip a1), s1)" by (rule to_exit_clientE)
  from assms(5) obtain t2 where c2: "assigned_ipv6 IN hash X c2 (xn_db n2) = Some (Inr (xc_internet_ipv6 a2), t2)"
    "assigned_internal_ip IN hash X c2 t2 = Some (Inr (xc_internal_ip a2), s3)" by (rule to_exit_clientE)
  have s1: "grows s1 (xn_db n2)" using exit_run_grows [OF assms(4)] by (simp add: db_grows_def)
  have t1: "grows t1 (xn_db n2)"
    using c1(2) s1 assigned_internal_ip_grows grows.trans unfolding keeps_def by metis
  have t2: "grows s1 t2" using c2(1) s1 assigned_ipv6_grows grows.trans unfolding keeps_def by metis
  show ?thesis
  proof (cases "wg_public_key c1 = wg_public_key c2")
    case True
    then show ?thesis
      using assigned_ipv6_stable [OF c1(1) t1] assigned_internal_ip_stable [OF c1(2) t2] c2 by simp
  next
    case False
    then show ?thesis
      using unique_internal_ip [OF c1(2) t2 c2(2)] unique_ipv6 [OF assms(1,2) c1(1) t1 c2(1)] by simp
  qed
qed

definition sample_exit :: rita_exit_settings where
  "sample_exit =
     \<lparr>ex_common = \<lparr>payment = payment_settings_default, network = network_settings_default, settings_identity = None\<rparr>,
      exit_price = 10, exit_hello_port = 4875, wg_tunnel_port = 59999, wg_v2_tunnel_port = 59998,
      own_internal_ip = 0xAC10FFFE, netmask = 12, subnet = Some (Net6 0x2602FBAD001000000000000000000000 48),
      client_subnet_size = None, geoip_api_user = None, geoip_api_key = None, ex_wg_private_key_path = ''/tmp/exit'',
      ex_enable_enforcement = True, registered_users_contract_addr = 1, ex_allowed_countries = [],
      ex_description = ''exit''\<rparr>"

definition sample_client :: "wg_key \<Rightarrow> identity" where
  "sample_client k = \<lparr>mesh_ip = V6 (ucast k), eth_address = ucast k, wg_public_key = k\<rparr>"

lemma std_ipnet_simps:
  "v4_valid std_ipnet p \<longleftrightarrow> unat p \<le> 32"
  "v4_network std_ipnet a p = word_of_nat (unat a - unat a mod 2 ^ (32 - unat p))"
  "v4_broadcast std_ipnet a p = word_of_nat (unat a - unat a mod 2 ^ (32 - unat p) + (2 ^ (32 - unat p) - 1))"
  "v4_nth std_ipnet a p n = (if unat n < 2 ^ (32 - unat p)
     then Some (word_of_nat (unat a - unat a mod 2 ^ (32 - unat p)) + n) else None)"
  "v6_valid std_ipnet p \<longleftrightarrow> unat p \<le> 128"
  "v6_network std_ipnet b p = word_of_nat (unat b - unat b mod 2 ^ (128 - unat p))"
  "v6_size std_ipnet p = word_of_nat (2 ^ (128 - unat p))"
  unfolding std_ipnet_def low_bits_def by simp_all

lemma sample_internal:
  "assigned_internal_ip std_ipnet (\<lambda>_. 7) sample_exit (sample_client k) s =
    (if internal_ip_assignments s (V4 0xAC100007) \<in> {None, Some k}
     then Some (Inr (V4 0xAC100007), add_new_internal_ip_assignement (V4 0xAC100007) k s)
     else internal_ip_loop std_ipnet 0xAC10FFFE 12 0x100000 k MAX_IP_RETRIES 8 s)"
  by (simp add: assigned_internal_ip_def get_client_internal_ip_def sample_exit_def sample_client_def
      internal_ip_loop.simps validate_internal_ip_def std_ipnet_simps split: option.splits)

lemma sample_ipv6:
  "assigned_ipv6 std_ipnet (\<lambda>_. 7) sample_exit (sample_client k) s =
    (let n = Net6 0x2602FBAD001007000000000000000000 56 in
     if ipv6_assignments s (net_ip n) \<in> {None, Some k}
     then Some (Inr (Some n), add_new_ipv6_assignment (net_ip n) k s)
     else ipv6_loop std_ipnet (Net6 0x2602FBAD001000000000000000000000 48) 56 256 k MAX_IP_RETRIES 8 s)"
  by (simp add: assigned_ipv6_def get_client_ipv6_def sample_exit_def sample_client_def Let_def
      ipv6_loop.simps validate_internet_ipv6_def generate_iterative_client_subnet_def net_prefix_def shl_one_def
      DEFAULT_CLIENT_SUBNET_SIZE_def std_ipnet_simps split: option.splits)

lemma sample_first:
  "\<exists>a s. to_exit_client std_ipnet (\<lambda>_. 7) sample_exit (sample_client k) rita_exit_state_default = Some (Inr a, s)
     \<and> internal_ip_assignments s = [V4 0xAC100007 \<mapsto> k] \<and> ipv6_assignments s = [V6 0x2602FBAD001007000000000000000000 \<mapsto> k]"
  by (simp add: to_exit_client_def rbind_def rret_def sample_ipv6 sample_internal Let_def net_ip_def
      add_new_ipv6_assignment_def add_new_internal_ip_assignement_def rita_exit_state_default_def)

lemma sample_second:
  assumes "internal_ip_assignments s = [V4 0xAC100007 \<mapsto> 1]"
    and "ipv6_assignments s = [V6 0x2602FBAD001007000000000000000000 \<mapsto> 1]"
  shows "\<exists>a t. to_exit_client std_ipnet (\<lambda>_. 7) sample_exit (sample_client 2) s = Some (Inr a, t)"
proof -
  obtain k where m: "MAX_IP_RETRIES = Suc k" by (simp add: MAX_IP_RETRIES_def numeral_eq_Suc)
  have v6: "\<exists>n t. assigned_ipv6 std_ipnet (\<lambda>_. 7) sample_exit (sample_client 2) s = Some (Inr n, t)
      \<and> internal_ip_assignments t = internal_ip_assignments s"
    using assms by (simp add: sample_ipv6 Let_def net_ip_def m ipv6_loop.simps generate_iterative_client_subnet_def
        validate_internet_ipv6_def net_prefix_def shl_one_def std_ipnet_simps add_new_ipv6_assignment_def)
  then obtain n t where n: "assigned_ipv6 std_ipnet (\<lambda>_. 7) sample_exit (sample_client 2) s = Some (Inr n, t)"
    and t: "internal_ip_assignments t = internal_ip_assignments s" by blast
  have "\<exists>ip u. assigned_internal_ip std_ipnet (\<lambda>_. 7) sample_exit (sample_client 2) t = Some (Inr ip, u)"
    using assms t by (simp add: sample_internal m internal_ip_loop.simps validate_internal_ip_def std_ipnet_simps)
  then show ?thesis using n by (auto simp: to_exit_client_def rbind_def rret_def)
qed

definition sample_node :: "rita_exit_state \<Rightarrow> unit exit_node" where
  "sample_node s = \<lparr>xn_db = s, xn_history = [], xn_debts = \<lparr>last_save = None, debt_data = Map.empty\<rparr>,
     xn_usage =
       (\<lparr>last_save_hour = 0, client_bandwidth = [], relay_bandwidth = [], exit_bandwidth = [], ut_payments = []\<rparr>,
        let d = \<lparr>last_sample_time = None, duration_of_this_sample = 0, bytes_used = 0\<rparr>
        in \<lparr>tp_client = d, tp_relay = d, tp_exit = d\<rparr>), xn_world = ()\<rparr>"

theorem client_addresses_are_stable_and_unique_witness:
  "\<exists>a1 s1 a2 s3.
     to_exit_client std_ipnet (\<lambda>_. 7) sample_exit (sample_client 1) rita_exit_state_default = Some (Inr a1, s1)
     \<and> to_exit_client std_ipnet (\<lambda>_. 7) sample_exit (sample_client 2) s1 = Some (Inr a2, s3)
     \<and> xc_internal_ip a1 \<noteq> xc_internal_ip a2 \<and> disjoint_nets (xc_internet_ipv6 a1) (xc_internet_ipv6 a2)"
proof -
  obtain a1 s1 where a1: "to_exit_client std_ipnet (\<lambda>_. 7) sample_exit (sample_client 1) rita_exit_state_default = Some (Inr a1, s1)"
    and s1: "internal_ip_assignments s1 = [V4 0xAC100007 \<mapsto> 1]"
      "ipv6_assignments s1 = [V6 0x2602FBAD001007000000000000000000 \<mapsto> 1]" using sample_first [of 1] by blast
  from sample_second [OF s1] obtain a2 s3 where
    a2: "to_exit_client std_ipnet (\<lambda>_. 7) sample_exit (sample_client 2) s1 = Some (Inr a2, s3)" by blast
  let ?n = "sample_node rita_exit_state_default" and ?m = "sample_node s1"
  have m: "?n\<lparr>xn_db := s1\<rparr> = ?m" by (simp add: sample_node_def)
  have db: "xn_db ?n = rita_exit_state_default" "xn_db ?m = s1" by (simp_all add: sample_node_def)
  have run: "exit_run N C T env open_box sample_exit (?n\<lparr>xn_db := s1\<rparr>) ?m" for N C T env open_box
    unfolding m by (rule run_start)
  have "net_ok sample_exit" by (simp add: net_ok_def sample_exit_def)
  from client_addresses_are_stable_and_unique [OF std_ipnet.ipnet_laws_axioms this, where ?n0.0 = ?n and ?n2.0 = ?m,
      unfolded db, OF a1 run a2]
  have "if wg_public_key (sample_client 1) = wg_public_key (sample_client 2)
    then xc_internal_ip a1 = xc_internal_ip a2 \<and> xc_internet_ipv6 a1 = xc_internet_ipv6 a2
    else xc_internal_ip a1 \<noteq> xc_internal_ip a2 \<and> disjoint_nets (xc_internet_ipv6 a1) (xc_internet_ipv6 a2)" .
  then show ?thesis using a1 a2 by (auto simp: sample_client_def)
qed

section \<open>What an assignment looks like\<close>

definition net_wellformed :: "rita_exit_settings \<Rightarrow> ip_network option \<Rightarrow> bool" where
  "net_wellformed X n =
     (case (subnet X, n) of
        (None, None) \<Rightarrow> True
      | (Some (Net6 a p), Some (Net6 b z)) \<Rightarrow> z = unat (sub_len X) \<and> v6_hosts b z \<subseteq> v6_hosts a p
      | _ \<Rightarrow> False)"

definition internal_wellformed :: "ipnet \<Rightarrow> rita_exit_settings \<Rightarrow> ip_addr \<Rightarrow> bool" where
  "internal_wellformed IN X ip =
     (case ip of
        V6 _ \<Rightarrow> False
      | V4 x \<Rightarrow> x \<in> v4_hosts (own_internal_ip X) (netmask X)
          \<and> x \<notin> {own_internal_ip X, v4_network IN (own_internal_ip X) (netmask X),
                   v4_broadcast IN (own_internal_ip X) (netmask X)})"

text \<open>C12: The client record the exit builds is well formed. The internal address is an IPv4 address in the network of
  the exit, and none of the exit's own, the network and the broadcast address; there is an IPv6 network exactly when the
  exit has one, it lies inside the exit's network and has the configured length; key and mesh address are the client's,
  and the port is the fixed client port.\<close>

theorem exit_client_is_wellformed:
  assumes "ipnet_laws IN" and "net_ok X" and "to_exit_client IN hash X c s = Some (Inr a, s')"
  shows "internal_wellformed IN X (xc_internal_ip a) \<and> net_wellformed X (xc_internet_ipv6 a)
    \<and> xc_public_key a = wg_public_key c \<and> xc_mesh_ip a = mesh_ip c \<and> xc_port a = 59999"
proof -
  from assms(3) obtain s1 where v6: "assigned_ipv6 IN hash X c s = Some (Inr (xc_internet_ipv6 a), s1)"
    and v4: "assigned_internal_ip IN hash X c s1 = Some (Inr (xc_internal_ip a), s')"
    and a: "xc_public_key a = wg_public_key c" "xc_mesh_ip a = mesh_ip c" "xc_port a = CLIENT_WG_PORT"
    by (rule to_exit_clientE)
  from v4 obtain i x where x: "internal_candidate IN (own_internal_ip X) (netmask X) i = Some x" "xc_internal_ip a = V4 x"
    "v4_valid IN (netmask X)"
    "validate_internal_ip IN s1 (own_internal_ip X) (netmask X) x (own_internal_ip X) (wg_public_key c)"
    by (rule assigned_internal_ipE)
  have "x \<in> v4_hosts (own_internal_ip X) (netmask X)"
    using ipnet_laws.v4_nth_hosts [OF assms(1)] ipnet_laws.v4_valid [OF assms(1)] x(1,3)
    by (auto simp: internal_candidate_def split: if_splits)
  then have "internal_wellformed IN X (xc_internal_ip a)"
    using x(2,4) by (auto simp: internal_wellformed_def validate_internal_ip_def split: if_splits)
  moreover from v6 have "net_wellformed X (xc_internet_ipv6 a)"
  proof (cases rule: assigned_ipv6E)
    case none
    then show ?thesis by (simp add: net_wellformed_def)
  next
    case (net e p b z i)
    have "p \<le> 128" using assms(2) net(1) by (simp add: net_ok_def)
    with ipnet_laws.client_subnet_inside [OF assms(1) net(3)] net(1,2) show ?thesis
      by (auto simp: net_wellformed_def)
  qed
  ultimately show ?thesis using a by (simp add: CLIENT_WG_PORT_def)
qed

theorem exit_client_is_wellformed_witness:
  "\<exists>a s. to_exit_client std_ipnet (\<lambda>_. 7) sample_exit (sample_client 1) rita_exit_state_default = Some (Inr a, s)
     \<and> internal_wellformed std_ipnet sample_exit (xc_internal_ip a) \<and> net_wellformed sample_exit (xc_internet_ipv6 a)
     \<and> xc_public_key a = 1 \<and> xc_port a = 59999"
proof -
  obtain a s where a: "to_exit_client std_ipnet (\<lambda>_. 7) sample_exit (sample_client 1) rita_exit_state_default = Some (Inr a, s)"
    using sample_first [of 1] by blast
  have "net_ok sample_exit" by (simp add: net_ok_def sample_exit_def)
  from exit_client_is_wellformed [OF std_ipnet.ipnet_laws_axioms this a] a show ?thesis
    by (auto simp: sample_client_def)
qed

section \<open>When an address is found\<close>

lemma tried_nth:
  assumes "unat tot \<le> 2 ^ 32" and "index < tot"
  shows "map unat (tried tot k index) = map (\<lambda>j. (unat index + j) mod unat tot) [0..<k]"
  using assms(2)
proof (induction k arbitrary: index)
  case (Suc k)
  let ?next = "(index + 1) mod tot"
  have lt: "unat index < unat tot" using Suc.prems by (simp add: word_less_nat_alt)
  have "unat (index + 1) = unat index + 1"
    using lt assms(1) by (subst unat_add_lem [THEN iffD1]) auto
  then have nxt: "unat ?next = (unat index + 1) mod unat tot" by (simp add: unat_mod)
  have "?next < tot" using lt by (simp add: word_less_nat_alt nxt)
  from Suc.IH [OF this] nxt have "map unat (tried tot k ?next) = map (\<lambda>j. (unat index + Suc j) mod unat tot) [0..<k]"
    by (simp add: mod_add_left_eq)
  then show ?case using lt
    by (simp only: tried.simps list.map upt_conv_Cons [of 0 "Suc k"] map_Suc_upt [symmetric] map_map o_def) simp
qed simp

lemma mod_shift_inj:
  assumes "k \<le> (T :: nat)"
  shows "inj_on (\<lambda>j. (i + j) mod T) {0..<k}"
proof -
  have "x = y" if "x \<le> y" "y < k" "(i + x) mod T = (i + y) mod T" for x y
  proof -
    have "T dvd (i + y) - (i + x)"
      using that(1) that(3) [symmetric] mod_eq_dvd_iff_nat [of "i + x" "i + y" T] by simp
    then have "T dvd y - x" by simp
    moreover have "y - x < T" using that assms by simp
    ultimately have "\<not> 0 < y - x" using dvd_imp_le [of T "y - x"] by auto
    then show ?thesis using that(1) by simp
  qed
  note sym = this
  show ?thesis
  proof (rule inj_onI)
    fix x y assume "x \<in> {0..<k}" "y \<in> {0..<k}" "(i + x) mod T = (i + y) mod T"
    then show "x = y" using sym [of x y] sym [of y x] by (cases "x \<le> y") auto
  qed
qed

lemma tried_distinct:
  assumes "unat tot \<le> 2 ^ 32" and "index < tot" and "k \<le> unat tot"
  shows "distinct (tried tot k index)" and "length (tried tot k index) = k"
    and "\<forall>i \<in> set (tried tot k index). unat i < unat tot"
proof -
  have m: "map unat (tried tot k index) = map (\<lambda>j. (unat index + j) mod unat tot) [0..<k]"
    by (rule tried_nth [OF assms(1,2)])
  have "distinct (map (\<lambda>j. (unat index + j) mod unat tot) [0..<k])"
    using mod_shift_inj [OF assms(3), of "unat index"] by (simp add: distinct_map)
  then show "distinct (tried tot k index)" unfolding m [symmetric] by (simp add: distinct_map)
  show "length (tried tot k index) = k" by (induction k arbitrary: index) auto
  have "0 < unat tot" using assms(2) by (simp add: word_less_nat_alt)
  moreover have "unat ` set (tried tot k index) \<subseteq> (\<lambda>j. (unat index + j) mod unat tot) ` {0..<k}"
    using arg_cong [OF m, of set] by simp
  ultimately show "\<forall>i \<in> set (tried tot k index). unat i < unat tot" by fastforce
qed

context ipnet_laws
begin

lemma internal_candidate_inj:
  assumes "unat p \<le> 32" and "unat i < 2 ^ (32 - unat p)" and "unat j < 2 ^ (32 - unat p)"
  shows "\<exists>x. internal_candidate IN g p i = Some x"
    and "internal_candidate IN g p i = internal_candidate IN g p j \<Longrightarrow> i = j"
proof -
  have le: "(2::nat) ^ (32 - unat p) \<le> 2 ^ 32" by (intro power_increasing) auto
  have u: "unat (ucast k :: u32) = unat k" if "unat k < 2 ^ (32 - unat p)" for k :: u64
    using that le by (simp add: unsigned_ucast_eq take_bit_nat_eq_self)
  have c: "internal_candidate IN g p k = Some (v4_network IN g p + ucast k)" if "unat k < 2 ^ (32 - unat p)" for k
    using that le u [OF that] v4_nth [OF assms(1)] by (simp add: internal_candidate_def)
  show "\<exists>x. internal_candidate IN g p i = Some x" using c [OF assms(2)] by simp
  assume "internal_candidate IN g p i = internal_candidate IN g p j"
  then have "(ucast i :: u32) = ucast j" using c assms by simp
  then have "unat i = unat j" using u [OF assms(2)] u [OF assms(3)] by metis
  then show "i = j" by (simp add: unsigned_word_eqI)
qed

end

definition taken_by_others :: "rita_exit_state \<Rightarrow> wg_key \<Rightarrow> u32 set" where
  "taken_by_others s key = {x. internal_ip_assignments s (V4 x) \<notin> {None, Some key}}"

lemma few_blocked:
  assumes "card (taken_by_others s key) \<le> 7"
  shows "card ({a, b, c} \<union> taken_by_others s key) \<le> 10"
proof -
  have "card {a, b, c} \<le> 3" by (simp add: card_insert_if)
  then show ?thesis using assms card_Un_le [of "{a, b, c}" "taken_by_others s key"] by linarith
qed

lemma blocked_candidate:
  "internal_candidate IN g p j = Some x \<Longrightarrow> \<not> internal_usable IN g p key s j
     \<Longrightarrow> x \<in> {g, v4_network IN g p, v4_broadcast IN g p} \<union> taken_by_others s key"
  by (auto simp: internal_usable_def validate_internal_ip_def taken_by_others_def split: if_splits option.splits)

lemma search_succeeds:
  assumes laws: "ipnet_laws IN" and p: "unat p \<le> 32" and few: "card (taken_by_others s key) \<le> 7"
    and L: "distinct L" "10 < length L" "\<forall>i \<in> set L. unat i < 2 ^ (32 - unat p)"
  shows "find (internal_usable IN g p key s) L \<noteq> None"
proof
  assume "find (internal_usable IN g p key s) L = None"
  then have un: "\<not> internal_usable IN g p key s j" if "j \<in> set L" for j using that by (rule find_NoneD)
  let ?B = "{g, v4_network IN g p, v4_broadcast IN g p} \<union> taken_by_others s key"
  let ?x = "\<lambda>j. the (internal_candidate IN g p j)"
  have cand: "internal_candidate IN g p j = Some (?x j)" if "j \<in> set L" for j
    using ipnet_laws.internal_candidate_inj(1) [OF laws p, of j j g] that L(3) by auto
  have inj: "inj_on ?x (set L)"
  proof (rule inj_onI)
    fix j k assume j: "j \<in> set L" and k: "k \<in> set L" and eq: "?x j = ?x k"
    from cand [OF j] cand [OF k] eq have "internal_candidate IN g p j = internal_candidate IN g p k" by simp
    then show "j = k" using ipnet_laws.internal_candidate_inj(2) [OF laws p, of j k g] j k L(3) by simp
  qed
  have "?x ` set L \<subseteq> ?B" using blocked_candidate [OF cand un] by blast
  then have "card (set L) \<le> card ?B" using inj by (metis card_inj_on_le finite)
  then show False using few_blocked [OF few] distinct_card [OF L(1)] L(2) by (metis le_trans not_le)
qed

text \<open>Eleven attempts are enough on an exit that is not crowded. On a network of sixteen addresses or more, of
  which at most seven are taken by other clients, every client is given an internal address, whatever the hash function
  says.\<close>

theorem address_is_found:
  assumes laws: "ipnet_laws IN" and p: "unat (netmask X) \<le> 28" and few: "card (taken_by_others s (wg_public_key c)) \<le> 7"
  shows "\<exists>ip s'. assigned_internal_ip IN hash X c s = Some (Inr ip, s')"
proof -
  let ?p = "netmask X" and ?key = "wg_public_key c"
  define T :: u64 where "T = 2 ^ unat (32 - ?p)"
  let ?i = "hash ?key mod T"
  have sub: "unat (32 - ?p) = 32 - unat ?p" using p by (subst unat_sub) (simp_all add: word_le_nat_alt)
  have "(2::nat) ^ (32 - unat ?p) < 2 ^ 64" by (intro power_strict_increasing) auto
  then have T: "unat T = 2 ^ (32 - unat ?p)"
    using unat_word_of_nat [of "2 ^ (32 - unat ?p)", where ?'a = 64] by (simp add: T_def sub)
  have T32: "unat T \<le> 2 ^ 32" unfolding T by (intro power_increasing) auto
  have "(2::nat) ^ 4 \<le> 2 ^ (32 - unat ?p)" using p by (intro power_increasing) auto
  then have T16: "11 \<le> unat T" unfolding T by simp
  have T0: "T \<noteq> 0" using T16 by auto
  then have "?i < T" by (simp add: word_less_nat_alt unat_mod unat_gt_0)
  note tr = tried_distinct [OF T32 this T16]
  have "find (internal_usable IN (own_internal_ip X) ?p ?key s) (tried T 11 ?i) \<noteq> None"
    using search_succeeds [OF laws _ few tr(1)] tr(2,3) p T by simp
  then obtain j where "find (internal_usable IN (own_internal_ip X) ?p ?key s) (tried T 11 ?i) = Some j" by blast
  then show ?thesis
    using T0 p ipnet_laws.v4_valid [OF laws]
    by (simp add: assigned_internal_ip_def get_client_internal_ip_def internal_ip_loop_find MAX_IP_RETRIES_def Let_def
        flip: T_def)
qed

theorem address_is_found_witness:
  "\<exists>ip s. assigned_internal_ip std_ipnet (\<lambda>_. 7) sample_exit (sample_client 1) rita_exit_state_default = Some (Inr ip, s)"
  by (rule address_is_found [OF std_ipnet.ipnet_laws_axioms])
    (simp_all add: sample_exit_def taken_by_others_def rita_exit_state_default_def)

end
