(* ===== verification/Exit_Setup.thy ===== *)
theory Exit_Setup
  imports Exit_Properties
begin

text \<open>
  What the loop of an exit does to the operating system: which clients WireGuard lets in, and what enforcement does to
  the traffic of clients that do not pay. WireGuard and the traffic control of the kernel are outside the repository;
  what the code relies on are the locales \<open>wg_device\<close> and \<open>tc_filters\<close>, interpreted on small models of them.
\<close>

section \<open>Clients that are assigned addresses\<close>

definition assigned_clients ::
  "ipnet \<Rightarrow> (wg_key \<Rightarrow> u64) \<Rightarrow> rita_exit_settings \<Rightarrow> rita_exit_state \<Rightarrow> identity set \<Rightarrow> exit_client set" where
  "assigned_clients IN hash X s cs = {a. \<exists>c \<in> cs. to_exit_client IN hash X c s = Some (Inr a, s)}"

lemma find_weaker:
  "find P xs = Some i \<Longrightarrow> find Q xs = Some j \<Longrightarrow> (\<And>x. P x \<Longrightarrow> Q x) \<Longrightarrow> j = i \<or> \<not> P j"
  by (induction xs) (auto split: if_splits)

lemma find_weaker_Some: "find P xs = Some i \<Longrightarrow> (\<And>x. P x \<Longrightarrow> Q x) \<Longrightarrow> \<exists>j. find Q xs = Some j"
  by (induction xs) (auto split: if_splits)

lemma assigned_internal_ip_back:
  assumes "assigned_internal_ip IN hash X c t = Some (Inr ip, t')" and "grows s t"
  shows "\<exists>ip s'. assigned_internal_ip IN hash X c s = Some (Inr ip, s')"
proof -
  let ?u = "\<lambda>s. internal_usable IN (own_internal_ip X) (netmask X) (wg_public_key c) s"
  have le: "internal_ip_assignments s \<subseteq>\<^sub>m internal_ip_assignments t" using assms(2) by (simp add: grows_def)
  show ?thesis
    using assms(1) find_weaker_Some [of "?u t" _ _ "?u s"] internal_usable_grows [OF le]
    by (fastforce simp: assigned_internal_ip_def get_client_internal_ip_def internal_ip_loop_find Let_def
        split: if_splits option.splits)
qed

lemma ipv6_loop_back:
  assumes "ipv6_loop IN e z tot key k index t = Some (Inr r, t')" and "grows s t"
  shows "\<exists>r s'. ipv6_loop IN e z tot key k index s = Some (Inr r, s')"
proof -
  let ?u = "\<lambda>s. net_usable IN e z key s"
  have le: "ipv6_assignments s \<subseteq>\<^sub>m ipv6_assignments t" using assms(2) by (simp add: grows_def)
  from assms(1) obtain i n where i: "find (?u t) (tried tot k index) = Some i"
    and n: "generate_iterative_client_subnet IN e i z = Some (Inr n)" by (rule ipv6_loop_Ok)
  from find_weaker_Some [OF i, of "?u s"] net_usable_grows [OF le]
  obtain j where j: "find (?u s) (tried tot k index) = Some j" by blast
  from find_weaker [OF i j] net_usable_grows [OF le] have "j = i \<or> \<not> ?u t j" by blast
  then obtain m where "generate_iterative_client_subnet IN e j z = Some (Inr m)"
    using n by (auto simp: net_usable_def split: option.splits sum.splits)
  with j show ?thesis by (simp add: ipv6_loop_find)
qed

lemma assigned_ipv6_back:
  assumes "assigned_ipv6 IN hash X c t = Some (Inr r, t')" and "grows s t"
  shows "\<exists>r s'. assigned_ipv6 IN hash X c s = Some (Inr r, s')"
  using assms ipv6_loop_back
  by (fastforce simp: assigned_ipv6_def get_client_ipv6_def Let_def rio_defs split: option.splits)

lemma to_exit_client_back:
  assumes "to_exit_client IN hash X c t = Some (Inr a, t')" and "grows s' t"
    and "to_exit_client IN hash X c s = Some (r, s')"
  shows "\<exists>b. r = Inr b"
proof -
  have s: "grows s s'" using assms(3) to_exit_client_grows unfolding keeps_def by metis
  from assms(1) obtain t1 where t1: "assigned_ipv6 IN hash X c t = Some (Inr (xc_internet_ipv6 a), t1)"
    "assigned_internal_ip IN hash X c t1 = Some (Inr (xc_internal_ip a), t')" by (rule to_exit_clientE)
  have gt1: "grows t t1" using t1(1) assigned_ipv6_grows unfolding keeps_def by metis
  obtain v s1 where v: "assigned_ipv6 IN hash X c s = Some (Inr v, s1)"
    using assigned_ipv6_back [OF t1(1)] s assms(2) grows.trans by metis
  then have run: "rbind (assigned_internal_ip IN hash X c) (\<lambda>ip. rret \<lparr>xc_internal_ip = ip, xc_internet_ipv6 = v,
      xc_public_key = wg_public_key c, xc_mesh_ip = mesh_ip c, xc_port = CLIENT_WG_PORT\<rparr>) s1 = Some (r, s')"
    using assms(3) by (simp add: to_exit_client_def rbind_def)
  have "keeps grows (rbind (assigned_internal_ip IN hash X c) (\<lambda>ip. rret (f ip)))" for f :: "ip_addr \<Rightarrow> exit_client"
    by (intro grows.keeps_intros assigned_internal_ip_grows)
  with run have "grows s1 s'" unfolding keeps_def by metis
  with gt1 assms(2) have "grows s1 t1" using grows.trans by metis
  from assigned_internal_ip_back [OF t1(2) this] run show ?thesis by (auto simp: rbind_def rret_def)
qed

lemma assigned_clients_insert:
  assumes "to_exit_client IN hash X c s = Some (r, s')" and "grows s' t"
  shows "assigned_clients IN hash X t (insert c cs) =
    (case r of Inr a \<Rightarrow> {a} | Inl _ \<Rightarrow> {}) \<union> assigned_clients IN hash X t cs"
proof (cases r)
  case (Inl e)
  then have "to_exit_client IN hash X c t \<noteq> Some (Inr a, t)" for a
    using to_exit_client_back [OF _ assms(2,1)] by auto
  then show ?thesis using Inl by (auto simp: assigned_clients_def)
next
  case (Inr a)
  then have "to_exit_client IN hash X c t = Some (Inr a, t)" using to_exit_client_stable assms by blast
  then show ?thesis using Inr by (auto simp: assigned_clients_def)
qed

lemma convert_fold:
  assumes "rfold (\<lambda>c acc. rbind (rattempt (to_exit_client IN hash X c)) (\<lambda>r.
       rret (case r of Inr a \<Rightarrow> set_insert a acc | Inl _ \<Rightarrow> acc))) cs acc s = Some (r, s')"
  shows "\<exists>l. r = Inr l \<and> grows s s'
    \<and> (\<forall>t. grows s' t \<longrightarrow> set l = set acc \<union> assigned_clients IN hash X t (set cs))"
  using assms
proof (induction cs arbitrary: acc s)
  case Nil
  then show ?case by (auto simp: rret_def assigned_clients_def grows.refl)
next
  case (Cons c cs)
  from Cons.prems obtain r1 s1 where c: "to_exit_client IN hash X c s = Some (r1, s1)"
    by (auto simp: rbind_def rattempt_def split: option.splits)
  with Cons.prems have "rfold (\<lambda>c acc. rbind (rattempt (to_exit_client IN hash X c)) (\<lambda>r.
       rret (case r of Inr a \<Rightarrow> set_insert a acc | Inl _ \<Rightarrow> acc))) cs
      (case r1 of Inr a \<Rightarrow> set_insert a acc | Inl _ \<Rightarrow> acc) s1 = Some (r, s')"
    by (simp add: rbind_def rattempt_def rret_def)
  from Cons.IH [OF this] obtain l where l: "r = Inr l" "grows s1 s'"
    "\<forall>t. grows s' t \<longrightarrow> set l = set (case r1 of Inr a \<Rightarrow> set_insert a acc | Inl _ \<Rightarrow> acc)
       \<union> assigned_clients IN hash X t (set cs)" by blast
  have "grows s s1" using c to_exit_client_grows unfolding keeps_def by metis
  moreover have "set l = set acc \<union> assigned_clients IN hash X t (set (c # cs))" if "grows s' t" for t
    using that l(2,3) assigned_clients_insert [OF c, of t "set cs"] grows.trans
    by (auto split: sum.splits)
  ultimately show ?case using l(1,2) grows.trans by blast
qed

lemma convert_clients_Ok:
  assumes "convert_clients E X cs s = Some (Inr l, s')"
  shows "grows s s'" and "grows s' t \<Longrightarrow> set l = assigned_clients (xe_ipnet E) (xe_hash E) X t (set cs)"
  using convert_fold [OF assms [unfolded convert_clients_def]] by auto

lemma convert_clients_no_error: "convert_clients E X cs s \<noteq> Some (Inl e, s')"
  using convert_fold unfolding convert_clients_def by fastforce

section \<open>WireGuard\<close>

text \<open>
  What the code relies on: on an interface that exists, \<open>wg set\<close> adds the peers it names and keeps the others, takes
  one out after \<open>remove\<close>, and \<open>wg show\<close> lists the keys one to a line and changes nothing. \<open>peers\<close> are the peers of an
  interface. The endpoint is written in brackets, so the address of a client is an IPv6 address.
\<close>

locale wg_device =
  fixes W :: "'w world" and IN :: ipnet and show_key :: "wg_key \<Rightarrow> string" and parse_key :: "string \<Rightarrow> wg_key option"
    and ifaces :: "string set" and peers :: "'w \<Rightarrow> string \<Rightarrow> wg_key set"
  assumes config: "iface \<in> ifaces \<Longrightarrow> \<forall>c \<in> set cs. \<not> is_ipv4 (xc_mesh_ip c) \<Longrightarrow>
      run_command W ''wg'' (wg_config_args IN show_key cs port path iface) w = (r, w') \<Longrightarrow>
      (\<exists>out. r = Inr out) \<and> peers w' = (peers w)(iface := peers w iface \<union> xc_public_key ` set cs)"
    and list_peers: "iface \<in> ifaces \<Longrightarrow> run_command W ''wg'' [''show'', iface, ''peers''] w = (r, w') \<Longrightarrow>
      peers w' = peers w \<and> (\<exists>out s. r = Inr out \<and> co_stdout out = Some s
        \<and> set (List.map_filter parse_key (lines_of s)) = peers w iface)"
    and remove_peer: "iface \<in> ifaces \<Longrightarrow>
      run_command W ''wg'' [''set'', iface, ''peer'', show_key k, ''remove''] w = (r, w') \<Longrightarrow>
      (\<exists>out. r = Inr out) \<and> peers w' = (peers w)(iface := peers w iface - {k})"
    and handshakes: "run_command W ''wg'' [''show'', iface, ''latest-handshakes''] w = (r, w') \<Longrightarrow> peers w' = peers w"
begin

lemma remove_others:
  assumes "iface \<in> ifaces"
  shows "\<exists>w'. rfor ks (\<lambda>k. if k \<notin> keep then wg_remove_peer W show_key iface k else rret ()) w = Some (Inr (), w')
    \<and> peers w' = (peers w)(iface := peers w iface - (set ks - keep))"
proof (induction ks arbitrary: w)
  case Nil
  then show ?case by (simp add: rret_def)
next
  case (Cons k ks)
  let ?f = "\<lambda>k. if k \<notin> keep then wg_remove_peer W show_key iface k else rret ()"
  have "\<exists>w1. ?f k w = Some (Inr (), w1) \<and> peers w1 = (peers w)(iface := peers w iface - ({k} - keep))"
  proof (cases "k \<in> keep")
    case True
    then show ?thesis by (simp add: rret_def)
  next
    case False
    obtain r w1 where c: "run_command W ''wg'' [''set'', iface, ''peer'', show_key k, ''remove''] w = (r, w1)" by fastforce
    from False have "{k} - keep = {k}" by auto
    with remove_peer [OF assms c] c False show ?thesis by (auto simp: wg_remove_peer_def cmd_def rbind_def rret_def)
  qed
  then obtain w1 where w1: "?f k w = Some (Inr (), w1)" "peers w1 = (peers w)(iface := peers w iface - ({k} - keep))" by blast
  obtain w2 where w2: "rfor ks ?f w1 = Some (Inr (), w2)" "peers w2 = (peers w1)(iface := peers w1 iface - (set ks - keep))"
    using Cons.IH by blast
  have "rfor (k # ks) ?f w = Some (Inr (), w2)" using w1(1) w2(1) by (simp add: rbind_def)
  moreover have "A - ({k} - keep) - (set ks - keep) = A - (set (k # ks) - keep)" for A by auto
  then have "peers w2 = (peers w)(iface := peers w iface - (set (k # ks) - keep))" using w1(2) w2(2) by simp
  ultimately show ?case by blast
qed

text \<open>After the configuration the peers of the interface are the clients given and no others.\<close>

lemma set_config:
  assumes "iface \<in> ifaces" and "\<forall>c \<in> set cs. \<not> is_ipv4 (xc_mesh_ip c)"
  shows "\<exists>w'. set_exit_wg_config W IN show_key parse_key cs port path iface w = Some (Inr (), w')
    \<and> peers w' = (peers w)(iface := xc_public_key ` set cs)"
proof -
  obtain r w1 where c: "run_command W ''wg'' (wg_config_args IN show_key cs port path iface) w = (r, w1)" by fastforce
  from config [OF assms c] obtain o1 where r: "r = Inr o1"
    and p1: "peers w1 = (peers w)(iface := peers w iface \<union> xc_public_key ` set cs)" by blast
  obtain r2 w2 where l: "run_command W ''wg'' [''show'', iface, ''peers''] w1 = (r2, w2)" by fastforce
  from list_peers [OF assms(1) l] obtain o2 t where t: "r2 = Inr o2" "co_stdout o2 = Some t"
    "set (List.map_filter parse_key (lines_of t)) = peers w1 iface" "peers w2 = peers w1" by blast
  let ?ks = "List.map_filter parse_key (lines_of t)"
  obtain w3 where f: "rfor ?ks (\<lambda>k. if k \<notin> xc_public_key ` set cs then wg_remove_peer W show_key iface k else rret ()) w2
      = Some (Inr (), w3)" and p3: "peers w3 = (peers w2)(iface := peers w2 iface - (set ?ks - xc_public_key ` set cs))"
    using remove_others [OF assms(1)] by metis
  have "set_exit_wg_config W IN show_key parse_key cs port path iface w = Some (Inr (), w3)"
    using c r l t f by (simp add: set_exit_wg_config_def get_peers_def cmd_def from_utf8_def rbind_def rret_def)
  moreover have "A \<union> B - (A \<union> B - B) = B" for A B :: "wg_key set" by auto
  then have "peers w3 = (peers w)(iface := xc_public_key ` set cs)" using p1 p3 t(3,4) by simp
  ultimately show ?thesis by blast
qed

lemma handshake_map_peers:
  assumes "xe_world E = W" and "handshake_map E iface (s, w) = Some (r, (s', w'))"
  shows "s' = s \<and> peers w' = peers w"
proof -
  obtain c w1 where c: "run_command W ''wg'' [''show'', iface, ''latest-handshakes''] w = (c, w1)" by fastforce
  have "get_last_active_handshake_time W parse iface w = Some (q, w2) \<Longrightarrow> w2 = w1" for parse q w2
    using c by (auto simp: get_last_active_handshake_time_def cmd_def from_utf8_def rio_defs split: option.splits sum.splits)
  with assms have "s' = s" "w' = w1"
    by (auto simp: handshake_map_def rbind_Some_iff on_world_def rexpect_def rret_def split: option.splits sum.splits)
  with handshakes [OF c] show ?thesis by simp
qed

end

section \<open>The clients WireGuard lets in\<close>

lemma for_changed_none: "for_changed E X [] keys f = rret ()"
proof -
  have "rfor ks (\<lambda>k. rret ()) = rret ()" for ks :: "wg_key list" by (induction ks) (auto simp: rbind_def rret_def)
  then show ?thesis by (simp add: for_changed_def)
qed

lemma db_step_iff: "on_db m (s, w) = Some (r, (s', w')) \<longleftrightarrow> m s = Some (r, s') \<and> w' = w"
  by (auto simp: on_db_def split: option.splits)

lemma world_step_iff: "on_world m (s, w) = Some (r, (s', w')) \<longleftrightarrow> m w = Some (r, w') \<and> s' = s"
  by (auto simp: on_world_def split: option.splits)

lemma handshake_map_db: "handshake_map E iface (s, w) = Some (r, (s', w')) \<Longrightarrow> s' = s"
  by (auto simp: handshake_map_def rbind_Some_iff world_step_iff rret_def)

lemma setup_clientsE:
  assumes "setup_clients E X cs bl st (s, w) = Some (Inr st', (s', w'))"
  obtains l s1 b w1 w2 ts ts' where "convert_clients E X cs s = Some (Inr l, s1)" and "convert_clients E X bl s1 = Some (Inr b, s')"
    and "if set (xe_client_order E (filter (\<lambda>c. c \<notin> set b) l)) = old_clients st then w1 = w
         else apply_wg_config E X (xe_client_order E (filter (\<lambda>c. c \<notin> set b) l)) w = Some (Inr (), w1)"
    and "handshake_map E EXIT_INTERFACE (s', w1) = Some (Inr ts, (s', w2))"
    and "handshake_map E LEGACY_INTERFACE (s', w2) = Some (Inr ts', (s', w'))"
    and "st' = st\<lparr>st_wg_exit_v2_clients := {}, st_wg_exit_clients := {}\<rparr>"
proof -
  from assms obtain l s1 b s2 where c: "convert_clients E X cs s = Some (Inr l, s1)" "convert_clients E X bl s1 = Some (Inr b, s2)"
    by (auto simp: setup_clients_def Let_def rbind_Some_iff db_step_iff split_paired_Ex)
  let ?W = "xe_client_order E (filter (\<lambda>c. c \<notin> set b) l)"
  let ?m = "if set ?W \<noteq> old_clients st then on_world (apply_wg_config E X ?W) else rret ()"
  from assms c obtain w1 s3 where a: "?m (s2, w) = Some (Inr (), (s3, w1))"
    by (auto simp: setup_clients_def Let_def rbind_Some_iff db_step_iff split_paired_Ex)
  then have s3: "s3 = s2" by (auto simp: world_step_iff rret_def split: if_splits)
  from assms c a s3 obtain ts w2 s4 where h1: "handshake_map E EXIT_INTERFACE (s2, w1) = Some (Inr ts, (s4, w2))"
    by (auto simp: setup_clients_def Let_def rbind_Some_iff db_step_iff split_paired_Ex)
  then have s4: "s4 = s2" by (rule handshake_map_db)
  from assms c a s3 h1 s4 obtain ts' w3 s5 where h2: "handshake_map E LEGACY_INTERFACE (s2, w2) = Some (Inr ts', (s5, w3))"
    by (auto simp: setup_clients_def Let_def rbind_Some_iff db_step_iff split_paired_Ex)
  then have s5: "s5 = s2" by (rule handshake_map_db)
  have e: "s' = s2" "w' = w3" "st' = st\<lparr>st_wg_exit_v2_clients := {}, st_wg_exit_clients := {}\<rparr>"
    using assms c a s3 h1 s4 h2 s5
    by (auto simp: setup_clients_def Let_def rbind_Some_iff db_step_iff split_paired_Ex for_changed_none rret_def
        find_changed_clients_def)
  show thesis
    by (rule that [of l s1 b w1 ts w2 ts']) (use c a s3 h1 s4 h2 s5 e in \<open>auto simp: world_step_iff rret_def split: if_splits\<close>)
qed

context wg_device
begin

lemma apply_config:
  assumes "xe_world E = W" "xe_ipnet E = IN" "xe_show_key E = show_key" "xe_parse_key E = parse_key"
    and "{LEGACY_INTERFACE, EXIT_INTERFACE} \<subseteq> ifaces" and "\<forall>c \<in> set cs. \<not> is_ipv4 (xc_mesh_ip c)"
  shows "\<exists>w'. apply_wg_config E X cs w = Some (Inr (), w')
    \<and> peers w' = (peers w)(LEGACY_INTERFACE := xc_public_key ` set cs, EXIT_INTERFACE := xc_public_key ` set cs)"
proof -
  have i: "LEGACY_INTERFACE \<in> ifaces" "EXIT_INTERFACE \<in> ifaces" using assms(5) by auto
  obtain w1 where w1: "set_exit_wg_config W IN show_key parse_key cs (wg_tunnel_port X) (ex_wg_private_key_path X)
      LEGACY_INTERFACE w = Some (Inr (), w1)" "peers w1 = (peers w)(LEGACY_INTERFACE := xc_public_key ` set cs)"
    using set_config [OF i(1) assms(6)] by blast
  obtain w2 where w2: "set_exit_wg_config W IN show_key parse_key cs (wg_v2_tunnel_port X)
      (wg_private_key_path (network (ex_common X))) EXIT_INTERFACE w1 = Some (Inr (), w2)"
      "peers w2 = (peers w1)(EXIT_INTERFACE := xc_public_key ` set cs)"
    using set_config [OF i(2) assms(6)] by blast
  have "apply_wg_config E X cs w = Some (Inr (), w2)"
    using w1(1) w2(1) assms(1-4) by (simp add: apply_wg_config_def rignore_def rio_defs)
  then show ?thesis using w1(2) w2(2) by auto
qed

end

lemma assigned_clients_mesh: "a \<in> assigned_clients IN hash X s cs \<Longrightarrow> \<exists>c \<in> cs. xc_mesh_ip a = mesh_ip c \<and> xc_public_key a = wg_public_key c"
  by (fastforce simp: assigned_clients_def to_exit_client_def rbind_Some_iff rret_def)

text \<open>C13: Setting up the clients lets exactly the right ones in. If it returns and the set of clients differs from the
  one of the last configuration, then on both exit interfaces the peers of WireGuard are the keys of the registered
  clients that have addresses, without those on the region blacklist: peers that are no longer registered are taken out,
  and no other interface is touched. If the set did not change, no peer does.\<close>

theorem setup_authorizes_exactly:
  assumes "wg_device (xe_world E) (xe_ipnet E) (xe_show_key E) (xe_parse_key E) {LEGACY_INTERFACE, EXIT_INTERFACE} peers"
    and order: "\<And>l. set (xe_client_order E l) = set l" and v6: "\<forall>c \<in> set cs. \<not> is_ipv4 (mesh_ip c)"
    and run: "setup_clients E X cs bl st (s, w) = Some (Inr st', (s', w'))"
  shows "let A = assigned_clients (xe_ipnet E) (xe_hash E) X s' (set cs)
                 - assigned_clients (xe_ipnet E) (xe_hash E) X s' (set bl)
    in peers w' = (if A = old_clients st then peers w
       else (peers w)(LEGACY_INTERFACE := xc_public_key ` A, EXIT_INTERFACE := xc_public_key ` A))"
proof -
  note dev = assms(1)
  let ?A = "\<lambda>t cs. assigned_clients (xe_ipnet E) (xe_hash E) X t cs"
  from run obtain l s1 b w1 w2 ts ts' where c: "convert_clients E X cs s = Some (Inr l, s1)"
      "convert_clients E X bl s1 = Some (Inr b, s')"
    and a: "if set (xe_client_order E (filter (\<lambda>c. c \<notin> set b) l)) = old_clients st then w1 = w
         else apply_wg_config E X (xe_client_order E (filter (\<lambda>c. c \<notin> set b) l)) w = Some (Inr (), w1)"
    and h: "handshake_map E EXIT_INTERFACE (s', w1) = Some (Inr ts, (s', w2))"
      "handshake_map E LEGACY_INTERFACE (s', w2) = Some (Inr ts', (s', w'))" by (rule setup_clientsE)
  let ?W = "xe_client_order E (filter (\<lambda>c. c \<notin> set b) l)"
  have W: "set ?W = ?A s' (set cs) - ?A s' (set bl)"
    using order convert_clients_Ok(2) [OF c(1) convert_clients_Ok(1) [OF c(2)]] convert_clients_Ok(2) [OF c(2) grows.refl]
    by auto
  then have "\<forall>c \<in> set ?W. \<not> is_ipv4 (xc_mesh_ip c)" using v6 assigned_clients_mesh by fastforce
  then obtain wa where "apply_wg_config E X ?W w = Some (Inr (), wa)"
    "peers wa = (peers w)(LEGACY_INTERFACE := xc_public_key ` set ?W, EXIT_INTERFACE := xc_public_key ` set ?W)"
    using wg_device.apply_config [OF dev refl refl refl refl order_refl] by blast
  then have "peers w1 = (if set ?W = old_clients st then peers w
       else (peers w)(LEGACY_INTERFACE := xc_public_key ` set ?W, EXIT_INTERFACE := xc_public_key ` set ?W))"
    using a by (auto split: if_splits)
  moreover have "peers w' = peers w1"
    using wg_device.handshake_map_peers [OF dev refl h(1)] wg_device.handshake_map_peers [OF dev refl h(2)] by simp
  ultimately show ?thesis using W by (simp add: Let_def)
qed

subsection \<open>A WireGuard device\<close>

text \<open>The state is the list of the peers of each interface; keys are printed as numbers.\<close>

definition wg_text :: "wg_key \<Rightarrow> string" where
  "wg_text k = dec (unat k)"

definition wg_untext :: "string \<Rightarrow> wg_key option" where
  "wg_untext s = map_option word_of_nat (parse_uint 10 (2 ^ 256 - 1) s)"

fun named_peers :: "string list \<Rightarrow> wg_key list" where
  "named_peers (_ # k # _ # _ # _ # _ # rest) = (case wg_untext k of Some key \<Rightarrow> [key] | None \<Rightarrow> []) @ named_peers rest"
| "named_peers _ = []"

definition wg_answer :: "string \<Rightarrow> kernel_interface_error + cmd_output" where
  "wg_answer s = Inr \<lparr>co_success = True, co_stdout = Some s, co_stderr = Some []\<rparr>"

definition wg_run :: "string list \<Rightarrow> (string \<Rightarrow> wg_key list) \<Rightarrow> (kernel_interface_error + cmd_output) \<times> (string \<Rightarrow> wg_key list)" where
  "wg_run args w =
     (let iface = args ! 1 in
      if args ! 0 = ''show''
      then (wg_answer (if args ! 2 = ''peers'' then concat (map (\<lambda>k. wg_text k @ [LF]) (w iface)) else []), w)
      else if args ! 2 = ''peer'' then (wg_answer [], w(iface := filter (\<lambda>k. wg_text k \<noteq> args ! 3) (w iface)))
      else (wg_answer [], w(iface := w iface @ named_peers (drop 6 args))))"

definition wg_world :: "(string \<Rightarrow> wg_key list) world" where
  "wg_world =
     \<lparr>run_command = (\<lambda>prog args w. if prog = ''wg'' then wg_run args w else (Inl RuntimeError, w)),
      sys_class_net = (\<lambda>_. Inl RuntimeError), proc_net_udp = (\<lambda>_. Inl RuntimeError), tcp_connect = (\<lambda>_ w. (Inl (), w)),
      tcp_write = (\<lambda>_ w. (Inl (), w)), tcp_read_op = (\<lambda>w. (ReadIoError, w))\<rparr>"

lemma wg_untext_text: "wg_untext (wg_text k) = Some k"
proof -
  have "unat k < 2 ^ LENGTH(256)" by (rule unsigned_less)
  then have "unat k \<le> 2 ^ 256 - 1" by simp
  then show ?thesis by (simp add: wg_untext_def wg_text_def parse_uint_dec)
qed

lemma wg_text_inject: "wg_text j = wg_text k \<longleftrightarrow> j = k"
  by (metis wg_untext_text option.inject)

lemma dec_chars: "c \<in> set (dec n) \<Longrightarrow> \<exists>d < 10. c = digit_char d"
proof (induction n rule: dec.induct)
  case (1 n)
  show ?case
  proof (cases "n < 10")
    case True
    then show ?thesis using 1(2) by (subst (asm) dec.simps) auto
  next
    case False
    then have "c \<in> set (dec (n div 10)) \<or> c = digit_char (n mod 10)" using 1(2) by (subst (asm) dec.simps) auto
    moreover have "n mod 10 < 10" by simp
    ultimately show ?thesis using 1(1) [OF False] by blast
  qed
qed

lemma digit_char_neq: "d < 10 \<Longrightarrow> of_char c < (48 :: nat) \<Longrightarrow> digit_char d \<noteq> c"
  using of_char_digit_char [of d] by auto

lemma wg_text_one_line: "LF \<notin> set (wg_text k) \<and> CR \<notin> set (wg_text k)"
proof -
  have "of_char LF < (48 :: nat)" "of_char CR < (48 :: nat)" by (simp_all add: LF_def CR_def)
  then show ?thesis using dec_chars [of _ "unat k"] digit_char_neq unfolding wg_text_def by metis
qed

lemma lines_of_listing:
  assumes "\<forall>l \<in> set ls. LF \<notin> set l \<and> CR \<notin> set l"
  shows "lines_of (concat (map (\<lambda>l. l @ [LF]) ls)) = ls"
proof -
  have "split_on LF (concat (map (\<lambda>l. l @ [LF]) ls)) = ls @ [[]]"
    using assms by (induction ls) (auto simp: split_on_append)
  moreover have "map strip_cr ls = ls"
    using assms last_in_set by (fastforce intro!: map_idI simp: strip_cr_def)
  ultimately show ?thesis by (simp add: lines_of_def)
qed

lemma wg_listing: "List.map_filter wg_untext (lines_of (concat (map (\<lambda>k. wg_text k @ [LF]) ks))) = ks"
proof -
  have "\<forall>l \<in> set (map wg_text ks). LF \<notin> set l \<and> CR \<notin> set l" using wg_text_one_line by simp
  from lines_of_listing [OF this] have "lines_of (concat (map (\<lambda>k. wg_text k @ [LF]) ks)) = map wg_text ks"
    by (simp add: comp_def)
  moreover have "List.map_filter wg_untext (map wg_text ks) = ks"
    by (induction ks) (auto simp: wg_untext_text List.map_filter_simps)
  ultimately show ?thesis by simp
qed

lemma named_peers_args: "named_peers (concat (map (client_args IN wg_text) cs)) = map xc_public_key cs"
  by (induction cs) (auto simp: client_args_def wg_untext_text)

interpretation std_wg: wg_device wg_world std_ipnet wg_text wg_untext "{LEGACY_INTERFACE, EXIT_INTERFACE}" "\<lambda>w i. set (w i)"
proof (unfold_locales, goal_cases)
  case (1 iface cs port path w r w')
  then show ?case
    by (auto simp: wg_world_def wg_run_def wg_config_args_def wg_answer_def named_peers_args Let_def intro!: ext)
next
  case (2 iface w r w')
  then show ?case by (auto simp: wg_world_def wg_run_def wg_answer_def wg_listing Let_def)
next
  case (3 iface k w r w')
  then show ?case by (auto simp: wg_world_def wg_run_def wg_answer_def wg_text_inject Let_def intro!: ext)
next
  case (4 iface w r w')
  then show ?case by (auto simp: wg_world_def wg_run_def Let_def)
qed

subsection \<open>An exit with one client\<close>

definition wg_env :: "(string \<Rightarrow> wg_key list, nat) exit_env" where
  "wg_env =
     \<lparr>xe_world = wg_world, xe_float = (\<lambda>_. None), xe_network = (\<lambda>_. None), xe_endpoint_cap = (\<lambda>_. None),
      xe_geoip = (\<lambda>_ w. (GeoRequestFailed, w)), xe_show_key = wg_text, xe_parse_key = wg_untext, xe_ipnet = std_ipnet,
      xe_hasher = (\<lambda>_. 7), xe_client_order = (\<lambda>l. l), xe_key_order = (\<lambda>_. [])\<rparr>"

definition no_clients :: exit_client_setup_states where
  "no_clients = \<lparr>old_clients = {}, st_wg_exit_clients = {}, st_wg_exit_v2_clients = {}\<rparr>"

lemma wg_env_simps [simp]:
  "xe_world wg_env = wg_world" "xe_ipnet wg_env = std_ipnet" "xe_show_key wg_env = wg_text"
  "xe_parse_key wg_env = wg_untext" "xe_client_order wg_env l = l" "xe_hash wg_env = (\<lambda>_. 7)"
  by (simp_all add: wg_env_def xe_hash_def hash_wgkey_def fun_eq_iff)

lemma wg_env_handshakes: "handshake_map wg_env iface (s, w) = Some (Inr Map.empty, (s, w))"
  by (simp add: handshake_map_def on_world_def rexpect_def get_last_active_handshake_time_def cmd_def wg_world_def wg_run_def
      wg_answer_def from_utf8_def rio_defs lines_of_def)

lemma wg_env_setup:
  assumes "convert_clients wg_env X cs s = Some (Inr l, s')" and "\<forall>c \<in> set l. \<not> is_ipv4 (xc_mesh_ip c)"
  shows "\<exists>st w'. setup_clients wg_env X cs [] no_clients (s, w) = Some (Inr st, (s', w'))"
proof -
  obtain w1 where "apply_wg_config wg_env X l w = Some (Inr (), w1)"
    using std_wg.apply_config [where E = wg_env and cs = l] assms(2) by fastforce
  then show ?thesis using assms(1)
    by (cases "l = []") (simp_all add: setup_clients_def Let_def rbind_def on_db_def on_world_def convert_clients_def [of _ _ "[]"] rret_def
        wg_env_handshakes for_changed_none no_clients_def)
qed

theorem setup_authorizes_exactly_witness:
  "\<exists>st s w. setup_clients wg_env sample_exit [sample_client 1] [] no_clients (rita_exit_state_default, \<lambda>_. [9])
      = Some (Inr st, (s, w)) \<and> set (w LEGACY_INTERFACE) = {1} \<and> set (w EXIT_INTERFACE) = {1} \<and> set (w ''wg0'') = {9}"
proof -
  obtain a s where a: "to_exit_client std_ipnet (\<lambda>_. 7) sample_exit (sample_client 1) rita_exit_state_default = Some (Inr a, s)"
    using sample_first by blast
  then have k: "xc_public_key a = 1" "xc_mesh_ip a = V6 1"
    by (auto simp: to_exit_client_def rbind_Some_iff rret_def sample_client_def)
  from a have c: "convert_clients wg_env sample_exit [sample_client 1] rita_exit_state_default = Some (Inr [a], s)"
    by (simp add: convert_clients_def rio_defs set_insert_def)
  have v: "\<not> is_ipv4 (xc_mesh_ip a)" using k by (simp add: is_ipv4_def)
  obtain st w where r: "setup_clients wg_env sample_exit [sample_client 1] [] no_clients (rita_exit_state_default, \<lambda>_. [9])
      = Some (Inr st, (s, w))" using wg_env_setup [OF c] v by fastforce
  have "assigned_clients std_ipnet (\<lambda>_. 7) sample_exit s {sample_client 1} = {a}"
    using convert_clients_Ok(2) [OF c grows.refl] by simp
  moreover have "\<forall>c \<in> set [sample_client 1]. \<not> is_ipv4 (mesh_ip c)" by (simp add: sample_client_def is_ipv4_def)
  ultimately have "(\<lambda>i. set (w i)) = (\<lambda>_. {9})(LEGACY_INTERFACE := {1}, EXIT_INTERFACE := {1})"
    using setup_authorizes_exactly [OF _ _ _ r, where peers = "\<lambda>w i. set (w i)"] std_wg.wg_device_axioms k(1)
    by (simp add: Let_def no_clients_def assigned_clients_def)
  from fun_cong [OF this] r show ?thesis by (auto simp: LEGACY_INTERFACE_def EXIT_INTERFACE_def)
qed

section \<open>The last client\<close>

text \<open>The caches of the loop over any number of ticks; between two ticks the rest of the exit may change arbitrarily.\<close>

inductive exit_caches for N C T E X where
  cache_start: "exit_caches N C T E X (clients, rita_exit_cache_default)"
| cache_tick: "exit_caches N C T E X p \<Longrightarrow> exit_tick N C T E X R p n = Some (Inr q, n') \<Longrightarrow> exit_caches N C T E X q"

definition no_setup_cached :: "rita_exit_cache \<Rightarrow> bool" where
  "no_setup_cached cache \<longleftrightarrow> wg_clients cache = {} \<and> cache_wg_exit_clients cache = {} \<and> cache_wg_exit_v2_clients cache = {}"

lemma setup_clients_no_error: "setup_clients E X cs bl st (s, w) \<noteq> Some (Inl e, (s', w'))"
proof -
  have "handshake_map E iface p \<noteq> Some (Inl e, q)" for iface p q
    by (cases p) (auto simp: handshake_map_def rbind_Some_iff on_world_def rexpect_def rret_def split: option.splits sum.splits)
  moreover have "on_world (apply_wg_config E X l) p \<noteq> Some (Inl e, q)" for l and p q :: "rita_exit_state \<times> _"
    by (cases p) (auto simp: apply_wg_config_def rignore_def on_world_def rbind_Some_iff rattempt_def rret_def split: option.splits)
  ultimately show ?thesis
    by (simp add: setup_clients_def Let_def rbind_Some_iff db_step_iff split_paired_Ex convert_clients_no_error
        for_changed_none rret_def)
qed

lemma setup_step_Ok:
  assumes "setup_step E X cs cache (s, w) = Some (r, (s', w'))"
  obtains st where "setup_clients E X cs (geoip_blacklist cache)
      \<lparr>old_clients = wg_clients cache, st_wg_exit_clients = cache_wg_exit_clients cache,
       st_wg_exit_v2_clients = cache_wg_exit_v2_clients cache\<rparr> (s, w) = Some (Inr st, (s', w'))"
    and "r = Inr (cache\<lparr>successful_setup := True, wg_clients := wg_clients cache, cache_wg_exit_clients := {},
      cache_wg_exit_v2_clients := {}\<rparr>)"
proof -
  let ?st = "\<lparr>old_clients = wg_clients cache, st_wg_exit_clients = cache_wg_exit_clients cache,
       st_wg_exit_v2_clients = cache_wg_exit_v2_clients cache\<rparr>"
  from assms obtain q where q: "setup_clients E X cs (geoip_blacklist cache) ?st (s, w) = Some (q, (s', w'))"
    by (auto simp: setup_step_def rbind_def rattempt_def rret_def split: option.splits)
  with setup_clients_no_error obtain st where st: "q = Inr st" by (metis obj_sumE)
  with q have r: "setup_clients E X cs (geoip_blacklist cache) ?st (s, w) = Some (Inr st, (s', w'))" by simp
  moreover have "st = ?st\<lparr>st_wg_exit_v2_clients := {}, st_wg_exit_clients := {}\<rparr>" using r by (rule setup_clientsE)
  ultimately show thesis using assms that by (simp add: setup_step_def rbind_def rattempt_def rret_def)
qed

lemma loop_keeps_cache_empty:
  assumes "rita_exit_loop N E X R cs cache n = Some (Inr cache', n')" and "no_setup_cached cache"
  shows "no_setup_cached cache'"
proof -
  from assms(1) obtain n1 cache1 n2 checked n3 q where r: "on_clients (setup_step E X cs cache) n1 = Some (Inr cache1, n2)"
      and "cache' = (let c = (case checked of Some l \<Rightarrow> cache1\<lparr>geoip_blacklist := l\<rparr> | None \<Rightarrow> cache1)
        in case q of Inr new \<Rightarrow> c\<lparr>debt_actions := new\<rparr> | Inl (e :: rita_exit_error) \<Rightarrow> c)"
    by (fastforce simp: rita_exit_loop_def rbind_Some_iff Let_def rret_def)
  then have c: "no_setup_cached cache' = no_setup_cached cache1"
    by (simp add: no_setup_cached_def Let_def split: option.splits sum.splits)
  from r obtain s w where "setup_step E X cs cache (xn_db n1, xn_world n1) = Some (Inr cache1, (s, w))"
    by (auto simp: on_clients_def split: option.splits)
  then obtain st where "(Inr cache1 :: rita_exit_error + rita_exit_cache) = Inr (cache\<lparr>successful_setup := True, wg_clients := wg_clients cache,
      cache_wg_exit_clients := {}, cache_wg_exit_v2_clients := {}\<rparr>)" by (rule setup_step_Ok)
  with c assms(2) show ?thesis by (simp add: no_setup_cached_def)
qed

lemma caches_stay_empty: "exit_caches N C T E X p \<Longrightarrow> no_setup_cached (snd p)"
proof (induction rule: exit_caches.induct)
  case (cache_start clients)
  then show ?case by (simp add: no_setup_cached_def rita_exit_cache_default_def)
next
  case (cache_tick p R n q n')
  then show ?case by (auto simp: exit_tick_def rbind_Some_iff rret_def dest: loop_keeps_cache_empty)
qed

text \<open>C14: The last client keeps its access. The set of clients of the last configuration is compared against but never
  recorded, so in every tick of the loop it is empty. When no client is left that may be let in, because the last one is
  no longer registered or its region is no longer allowed, the set is found unchanged and WireGuard keeps every peer.\<close>

theorem last_client_keeps_access:
  assumes "wg_device (xe_world E) (xe_ipnet E) (xe_show_key E) (xe_parse_key E) {LEGACY_INTERFACE, EXIT_INTERFACE} peers"
    and "\<And>l. set (xe_client_order E l) = set l"
    and "exit_caches N C T E X (reg, cache)" and "setup_step E X cs cache (s, w) = Some (r, (s', w'))"
    and "assigned_clients (xe_ipnet E) (xe_hash E) X s' (set cs)
      \<subseteq> assigned_clients (xe_ipnet E) (xe_hash E) X s' (set (geoip_blacklist cache))"
  shows "peers w' = peers w"
proof -
  from caches_stay_empty [OF assms(3)] have e: "wg_clients cache = {}" by (simp add: no_setup_cached_def)
  from assms(4) obtain st where run: "setup_clients E X cs (geoip_blacklist cache)
      \<lparr>old_clients = wg_clients cache, st_wg_exit_clients = cache_wg_exit_clients cache,
       st_wg_exit_v2_clients = cache_wg_exit_v2_clients cache\<rparr> (s, w) = Some (Inr st, (s', w'))" by (rule setup_step_Ok)
  from run obtain l s1 b w1 w2 ts ts' where c: "convert_clients E X cs s = Some (Inr l, s1)"
      "convert_clients E X (geoip_blacklist cache) s1 = Some (Inr b, s')"
    and a: "if set (xe_client_order E (filter (\<lambda>c. c \<notin> set b) l)) = wg_clients cache then w1 = w
         else apply_wg_config E X (xe_client_order E (filter (\<lambda>c. c \<notin> set b) l)) w = Some (Inr (), w1)"
    and h: "handshake_map E EXIT_INTERFACE (s', w1) = Some (Inr ts, (s', w2))"
      "handshake_map E LEGACY_INTERFACE (s', w2) = Some (Inr ts', (s', w'))"
    by (rule setup_clientsE) simp
  have "set l \<subseteq> set b"
    using assms(5) convert_clients_Ok(2) [OF c(1) convert_clients_Ok(1) [OF c(2)]] convert_clients_Ok(2) [OF c(2) grows.refl]
    by auto
  then have "set (xe_client_order E (filter (\<lambda>c. c \<notin> set b) l)) = {}" unfolding assms(2) by auto
  then have "w1 = w" using a e by simp
  then show ?thesis
    using wg_device.handshake_map_peers [OF assms(1) refl h(1)] wg_device.handshake_map_peers [OF assms(1) refl h(2)] by simp
qed

theorem last_client_keeps_access_witness:
  "\<exists>r s w. setup_step wg_env sample_exit [] rita_exit_cache_default (rita_exit_state_default, \<lambda>_. [9]) = Some (r, (s, w))
     \<and> set (w EXIT_INTERFACE) = {9}"
proof -
  have "convert_clients wg_env sample_exit [] rita_exit_state_default = Some (Inr [], rita_exit_state_default)"
    by (simp add: convert_clients_def rret_def)
  from wg_env_setup [OF this] obtain st w where
    s: "setup_clients wg_env sample_exit [] [] no_clients (rita_exit_state_default, \<lambda>_. [9]) = Some (Inr st, (rita_exit_state_default, w))"
    by fastforce
  then have "\<exists>r. setup_step wg_env sample_exit [] rita_exit_cache_default (rita_exit_state_default, \<lambda>_. [9]) = Some (r, (rita_exit_state_default, w))"
    by (simp add: setup_step_def rita_exit_cache_default_def no_clients_def rbind_def rattempt_def rret_def)
  then obtain r where r: "setup_step wg_env sample_exit [] rita_exit_cache_default (rita_exit_state_default, \<lambda>_. [9]) = Some (r, (rita_exit_state_default, w))"
    by blast
  have "(\<lambda>i. set (w i)) = (\<lambda>i. set ((\<lambda>_. [9]) i))"
    using last_client_keeps_access [OF _ _ cache_start r, where peers = "\<lambda>w i. set (w i)"] std_wg.wg_device_axioms
    by (simp add: assigned_clients_def)
  from fun_cong [OF this] r show ?thesis by auto
qed

section \<open>Enforcement\<close>

lemma rbind_attempt: "m w = Some (a, w1) \<Longrightarrow> rbind (on_world (rattempt m)) f (s, w) = f a (s, w1)"
  by (simp add: rbind_def on_world_def rattempt_def)

text \<open>
  What the code relies on: \<open>tc filter show\<close> changes nothing, and prints nothing on an interface without filters; the
  commands on classes leave the filters alone. \<open>filters\<close> are the filters of an interface.
\<close>

locale tc_filters =
  fixes W :: "'w world" and filters :: "'w \<Rightarrow> string \<Rightarrow> string list"
  assumes show_filters: "run_command W ''tc'' [''filter'', ''show'', ''dev'', iface] w = (r, w') \<Longrightarrow>
      filters w' = filters w \<and> (\<forall>out. filters w iface = [] \<longrightarrow> r = Inr out \<longrightarrow> co_success out \<longrightarrow> co_stdout out = Some [])"
    and class_commands: "run_command W ''tc'' (''class'' # args) w = (r, w') \<Longrightarrow> filters w' = filters w"
begin

definition unclassified :: "'w \<Rightarrow> bool" where
  "unclassified w \<longleftrightarrow> filters w LEGACY_INTERFACE = [] \<and> filters w EXIT_INTERFACE = []"

definition stays :: "'w \<Rightarrow> 'w \<Rightarrow> bool" where
  "stays v w \<longleftrightarrow> (unclassified v \<longrightarrow> unclassified w)"

definition stays_pair :: "'s \<times> 'w \<Rightarrow> 's \<times> 'w \<Rightarrow> bool" where
  "stays_pair p q \<longleftrightarrow> stays (snd p) (snd q)"

lemma has_flow_none:
  assumes "has_flow W ip iface w = Some (r, w')"
  shows "filters w' = filters w" and "filters w iface = [] \<Longrightarrow> r \<noteq> Inr True"
proof -
  obtain c w1 where c: "run_command W ''tc'' [''filter'', ''show'', ''dev'', iface] w = (c, w1)" by fastforce
  have t: "\<not> contains_str [] (class_tag ip)" by (simp add: class_tag_def)
  show "filters w' = filters w" using show_filters [OF c] c assms
    by (auto simp: has_flow_def cmd_def from_utf8_def fail_with_stderr_def rio_defs split: sum.splits if_splits option.splits)
  show "r \<noteq> Inr True" if "filters w iface = []" using show_filters [OF c] c assms that t
    by (auto simp: has_flow_def cmd_def from_utf8_def fail_with_stderr_def rio_defs split: sum.splits if_splits option.splits)
qed

end

sublocale tc_filters \<subseteq> w: preorder_rel stays
  by unfold_locales (auto simp: stays_def)

sublocale tc_filters \<subseteq> p: preorder_rel stays_pair
  by unfold_locales (auto simp: stays_pair_def stays_def)

context tc_filters
begin

lemma on_world_stays: "keeps stays m \<Longrightarrow> keeps stays_pair (on_world m)"
  by (auto simp: keeps_def on_world_def stays_pair_def split: option.splits)

lemma on_db_stays: "keeps stays_pair (on_db m)"
  by (auto simp: keeps_def on_db_def stays_pair_def stays_def split: option.splits)

lemma class_stays: "keeps stays (cmd W ''tc'' (''class'' # args))"
  unfolding keeps_def cmd_def stays_def unclassified_def using class_commands by fastforce

lemma from_utf8_stays: "keeps stays (from_utf8 b)"
  unfolding from_utf8_def by (cases b) (auto intro: w.keeps_intros)

lemma fail_stays: "keeps stays (fail_with_stderr e out)"
  unfolding fail_with_stderr_def by (intro w.keeps_intros from_utf8_stays)

lemma has_class_stays: "keeps stays (has_class W ip iface)"
  unfolding has_class_def by (auto intro!: w.keeps_intros class_stays from_utf8_stays fail_stays)

lemma set_class_limit_stays: "keeps stays (set_class_limit W iface lo hi ip)"
  unfolding set_class_limit_def by (auto intro!: w.keeps_intros class_stays has_class_stays fail_stays)

lemma delete_class_stays: "keeps stays (delete_class W iface ip)"
  unfolding delete_class_def by (auto intro!: w.keeps_intros class_stays has_class_stays)

lemma release_client_stays:
  assumes "xe_world E = W"
  shows "keeps stays_pair (release_client E ip)"
  unfolding release_client_def Let_def assms
  by (auto intro!: p.keeps_intros w.keeps_intros on_world_stays has_class_stays delete_class_stays)

lemma flows_not_required:
  assumes "unclassified w" and "has_flow W ip EXIT_INTERFACE w = Some (a, w1)"
    and "has_flow W ip LEGACY_INTERFACE w1 = Some (b, w2)"
  shows "unclassified w2" and "\<not> flow_setup_required a b"
  using assms(1) has_flow_none [OF assms(2)] has_flow_none [OF assms(3)]
  by (auto simp: unclassified_def flow_setup_required_def split: sum.splits)

lemma limit_client_stays:
  assumes "xe_world E = W"
  shows "keeps stays_pair (limit_client E X c ip)"
proof -
  let ?rest = "rbind (on_world (rignore (set_class_limit (xe_world E) LEGACY_INTERFACE
       (free_tier_throughput (payment (ex_common X))) (free_tier_throughput (payment (ex_common X))) ip))) (\<lambda>_.
     on_world (rignore (set_class_limit (xe_world E) EXIT_INTERFACE
       (free_tier_throughput (payment (ex_common X))) (free_tier_throughput (payment (ex_common X))) ip)))"
  have rest: "keeps stays_pair ?rest" unfolding assms
    by (intro p.keeps_intros w.keeps_intros on_world_stays set_class_limit_stays)
  have "unclassified w'" if run: "limit_client E X c ip (s, w) = Some (r, (s', w'))" and w: "unclassified w" for s w r s' w'
  proof -
    from run obtain a w1 where a: "has_flow W ip EXIT_INTERFACE w = Some (a, w1)"
      by (auto simp: limit_client_def Let_def rbind_def rattempt_def on_world_def assms split: option.splits)
    with run obtain b w2 where b: "has_flow W ip LEGACY_INTERFACE w1 = Some (b, w2)"
      by (auto simp: limit_client_def Let_def rbind_def rattempt_def on_world_def assms split: option.splits)
    have "?rest (s, w2) = Some (r, (s', w'))"
      using run flows_not_required(2) [OF w a b]
      by (simp add: limit_client_def Let_def assms rbind_attempt [of "has_flow W ip EXIT_INTERFACE", OF a]
          rbind_attempt [of "has_flow W ip LEGACY_INTERFACE", OF b] rbind_rret)
    with rest have "stays w2 w'" by (fastforce simp: keeps_def stays_pair_def)
    then show ?thesis using flows_not_required(1) [OF w a b] by (simp add: stays_def)
  qed
  then show ?thesis by (auto simp: keeps_def stays_pair_def stays_def)
qed

lemma enforce_entry_stays:
  assumes "xe_world E = W"
  shows "keeps stays_pair (enforce_entry E X m entry)"
  unfolding enforce_entry_def
  using limit_client_stays [OF assms] release_client_stays [OF assms]
  by (simp add: p.keeps_rret split: option.splits ip_addr.splits)

lemma enforce_stays:
  assumes "xe_world E = W"
  shows "keeps stays_pair (enforce_exit_clients N E X cs debts old)"
  using enforce_entry_stays [OF assms] unfolding enforce_exit_clients_def Let_def
  by (simp add: p.keeps_intros on_db_stays)

end

text \<open>C15: Clients are never classified. Whether flows are set up for a suspended client is decided by the flows that exist
  already, the wrong way round: as long as neither exit interface has a filter, enforcement leaves it so for every list of
  clients and every debts. The classes with the free tier limit are created, and no traffic is ever sent to them.\<close>

theorem suspended_clients_are_not_classified:
  assumes "tc_filters (xe_world E) filters"
    and "enforce_exit_clients N E X cs debts old (s, w) = Some (r, (s', w'))"
    and "filters w LEGACY_INTERFACE = []" and "filters w EXIT_INTERFACE = []"
  shows "filters w' LEGACY_INTERFACE = [] \<and> filters w' EXIT_INTERFACE = []"
  using tc_filters.enforce_stays [OF assms(1) refl, of N X cs debts old] assms
  by (auto simp: keeps_def tc_filters.stays_pair_def tc_filters.stays_def tc_filters.unclassified_def)

text \<open>A traffic control that records the classes and the filters of each interface.\<close>

definition flow_run ::
  "string list \<Rightarrow> (string \<Rightarrow> string list) \<times> (string \<Rightarrow> string list)
     \<Rightarrow> (kernel_interface_error + cmd_output) \<times> (string \<Rightarrow> string list) \<times> (string \<Rightarrow> string list)" where
  "flow_run args w =
     (let (classes, filters) = w; text = (\<lambda>ls. concat (map (\<lambda>l. l @ [LF]) ls)) in
      if args ! 0 = ''class'' then
        (if args ! 1 = ''show'' then (wg_answer (text (classes (args ! 3))), w)
         else if args ! 1 = ''del'' then (wg_answer [], classes(args ! 3 := removeAll (args ! 7) (classes (args ! 3))), filters)
         else (wg_answer [], classes(args ! 3 := args ! 7 # classes (args ! 3)), filters))
      else if args ! 1 = ''show'' then (wg_answer (text (filters (args ! 3))), w)
      else (wg_answer [], classes, filters(args ! 3 := last args # filters (args ! 3))))"

definition flow_world :: "((string \<Rightarrow> string list) \<times> (string \<Rightarrow> string list)) world" where
  "flow_world =
     \<lparr>run_command = (\<lambda>prog args w. if prog = ''tc'' then flow_run args w else (Inl RuntimeError, w)),
      sys_class_net = (\<lambda>_. Inl RuntimeError), proc_net_udp = (\<lambda>_. Inl RuntimeError), tcp_connect = (\<lambda>_ w. (Inl (), w)),
      tcp_write = (\<lambda>_ w. (Inl (), w)), tcp_read_op = (\<lambda>w. (ReadIoError, w))\<rparr>"

interpretation std_flows: tc_filters flow_world snd
  by unfold_locales (auto simp: flow_world_def flow_run_def wg_answer_def Let_def split: prod.splits if_splits)

definition flow_env :: "((string \<Rightarrow> string list) \<times> (string \<Rightarrow> string list), nat) exit_env" where
  "flow_env =
     \<lparr>xe_world = flow_world, xe_float = (\<lambda>_. None), xe_network = (\<lambda>_. None), xe_endpoint_cap = (\<lambda>_. None),
      xe_geoip = (\<lambda>_ w. (GeoRequestFailed, w)), xe_show_key = wg_text, xe_parse_key = wg_untext, xe_ipnet = std_ipnet,
      xe_hasher = (\<lambda>_. 7), xe_client_order = (\<lambda>l. l), xe_key_order = (\<lambda>_. [])\<rparr>"

definition suspended_debts :: debt_data_ser where
  "suspended_debts = [(sample_client 1, node_debt_data_new\<lparr>action := SuspendTunnel\<rparr>)]"

lemma flow_env_limit:
  "\<exists>w'. limit_client flow_env sample_exit c ip (s, \<lambda>_. [], \<lambda>_. []) = Some (Inr (), (s, w'))
    \<and> class_tag ip \<in> set (fst w' EXIT_INTERFACE)"
proof -
  have t: "class_tag ip \<noteq> []" by (simp add: class_tag_def)
  have e: "EXIT_INTERFACE \<noteq> LEGACY_INTERFACE" by (simp add: EXIT_INTERFACE_def LEGACY_INTERFACE_def)
  show ?thesis
    by (simp add: flow_env_def limit_client_def on_world_def rattempt_def rbind_def rret_def has_flow_def cmd_def flow_world_def
        flow_run_def wg_answer_def from_utf8_def flow_setup_required_def rignore_def set_class_limit_def has_class_def
        lines_of_def t e Let_def)
qed

theorem suspended_clients_are_not_classified_witness:
  "\<exists>r s w. enforce_exit_clients checked_num256 flow_env sample_exit [sample_client 1] suspended_debts {}
        (rita_exit_state_default, \<lambda>_. [], \<lambda>_. []) = Some (r, (s, w))
     \<and> fst w EXIT_INTERFACE \<noteq> [] \<and> snd w EXIT_INTERFACE = []"
proof -
  obtain a s where a: "to_exit_client std_ipnet (\<lambda>_. 7) sample_exit (sample_client 1) rita_exit_state_default = Some (Inr a, s)"
    using sample_first by blast
  obtain ip where ip: "xc_internal_ip a = V4 ip"
    using a by (rule to_exit_clientE) (auto elim!: assigned_internal_ipE)
  have h: "xe_hash flow_env = (\<lambda>_. 7)" "xe_ipnet flow_env = std_ipnet"
    by (simp_all add: flow_env_def xe_hash_def hash_wgkey_def fun_eq_iff)
  have c: "clients_by_id flow_env sample_exit [sample_client 1] rita_exit_state_default = Some (Inr [sample_client 1 \<mapsto> a], s)"
    using a by (simp add: clients_by_id_def h rio_defs)
  obtain w where w: "limit_client flow_env sample_exit (sample_client 1) ip (s, \<lambda>_. [], \<lambda>_. []) = Some (Inr (), (s, w))"
    "class_tag ip \<in> set (fst w EXIT_INTERFACE)" using flow_env_limit by blast
  have t: "calculate_close_thresh checked_num256 (payment (ex_common sample_exit)) \<noteq> None"
    by (subst checked256.calculate_close_thresh_small)
      (simp_all add: sample_exit_def payment_settings_default_def default_payment_threshold_def)
  obtain r where r: "enforce_exit_clients checked_num256 flow_env sample_exit [sample_client 1] suspended_debts {}
      (rita_exit_state_default, \<lambda>_. [], \<lambda>_. []) = Some (r, (s, w))"
    using c w ip t by (simp add: enforce_exit_clients_def rassert_def rbind_def on_db_def suspended_debts_def enforce_entry_def
        rret_def Let_def)
  have "tc_filters (xe_world flow_env) snd" using std_flows.tc_filters_axioms by (simp add: flow_env_def)
  from suspended_clients_are_not_classified [OF this r] w(2) r show ?thesis by auto
qed

end
