(* ===== verification/Exit_Switcher.thy ===== *)
theory Exit_Switcher
  imports Exit_Database
begin

text \<open>
  How a client chooses its exit (\<open>rita_client/src/exit_manager/exit_switcher.rs\<close>, the selection and the blacklist of
  \<open>exit_manager/mod.rs\<close>, the types of \<open>settings/src/client.rs\<close>). Every tick the metrics of the routes to the exits are
  read; one exit is tracked as a candidate, and the values seen for it fill a vector of 180 entries, a quarter of an hour
  of ticks, before the client moves to it. The statics \<open>SELECTED_EXIT_DETAILS\<close>, \<open>EXIT_TRACKER\<close> and \<open>METRIC_VALUES\<close> are
  the record \<open>switcher\<close>; a panic is \<open>None\<close>. A hash map of routes is an association list whose first entry for a key counts.
\<close>

section \<open>Data\<close>

definition FAST_LOOP_SPEED :: nat where "FAST_LOOP_SPEED = 5"
definition METRIC_ENTRIES :: nat where "METRIC_ENTRIES = (15 * 60) div FAST_LOOP_SPEED"
definition MAX_BLACKLIST_STRIKES :: u16 where "MAX_BLACKLIST_STRIKES = 100"

record exit_tracker =
  last_added_metric :: u16
  running_total :: u64
  ticker_len :: u16

record exit_metrics =
  is_exit_down :: bool
  cur_exit :: "ip_addr option"
  cur_exit_babel_met :: u16
  em_tracking_exit :: "ip_addr option"
  tracking_met :: u16
  best_exit :: "ip_addr option"
  best_exit_met :: u16

record selected_exit =
  selected_id :: "ip_addr option"
  selected_id_metric :: "u16 option"
  selected_id_degradation :: "u16 option"
  tracking_exit :: "ip_addr option"

datatype exit_switching_code =
    InitialExitSetup | ContinueCurrentReset | ContinueCurrent | SwitchExit | ContinueTracking | ResetTracking

datatype warning_type = HardWarning | SoftWarning

record exit_blacklist =
  blacklisted_exits :: "ip_addr set"
  potential_blacklists :: "ip_addr \<rightharpoonup> u16"

record switcher =
  sw_selected :: selected_exit
  sw_blacklist :: exit_blacklist
  sw_tracker :: "ip_addr \<rightharpoonup> exit_tracker"
  sw_metrics :: "u16 list"

definition switcher_new :: switcher where
  "switcher_new =
     \<lparr>sw_selected = \<lparr>selected_id = None, selected_id_metric = None, selected_id_degradation = None, tracking_exit = None\<rparr>,
      sw_blacklist = \<lparr>blacklisted_exits = {}, potential_blacklists = Map.empty\<rparr>, sw_tracker = Map.empty, sw_metrics = []\<rparr>"

section \<open>The blacklist\<close>

definition blacklist_strike_ip :: "ip_addr \<Rightarrow> warning_type \<Rightarrow> exit_blacklist \<Rightarrow> exit_blacklist" where
  "blacklist_strike_ip ip warning b =
     (case warning of
        SoftWarning \<Rightarrow>
          (case potential_blacklists b ip of
             Some warning_count \<Rightarrow>
               if warning_count \<ge> MAX_BLACKLIST_STRIKES
               then b\<lparr>blacklisted_exits := insert ip (blacklisted_exits b),
                      potential_blacklists := (potential_blacklists b)(ip := None)\<rparr>
               else b\<lparr>potential_blacklists := (potential_blacklists b)(ip \<mapsto> warning_count + 1)\<rparr>
           | None \<Rightarrow> b\<lparr>potential_blacklists := (potential_blacklists b)(ip \<mapsto> 1)\<rparr>)
      | HardWarning \<Rightarrow> b\<lparr>blacklisted_exits := insert ip (blacklisted_exits b)\<rparr>)"

definition reset_blacklist_warnings :: "ip_addr \<Rightarrow> exit_blacklist \<Rightarrow> exit_blacklist" where
  "reset_blacklist_warnings ip b =
     b\<lparr>blacklisted_exits := blacklisted_exits b - {ip}, potential_blacklists := (potential_blacklists b)(ip := None)\<rparr>"

definition reset_exit_blacklist :: "exit_blacklist \<Rightarrow> exit_blacklist" where
  "reset_exit_blacklist b = b\<lparr>blacklisted_exits := {}, potential_blacklists := Map.empty\<rparr>"

section \<open>Metrics\<close>

definition get_routes_hashmap :: "'f route list \<Rightarrow> (ip_addr \<times> 'f route) list" where
  "get_routes_hashmap routes = rev (map (\<lambda>r. (net_ip (rt_prefix r), r)) routes)"

definition observe_cluster_metrics ::
  "ip_addr \<Rightarrow> u16 \<Rightarrow> (ip_addr \<rightharpoonup> exit_tracker) \<Rightarrow> (ip_addr \<rightharpoonup> exit_tracker)" where
  "observe_cluster_metrics ip met exit_map =
     (let met_64 = ucast met in
      case exit_map ip of
        None \<Rightarrow> exit_map(ip \<mapsto> \<lparr>last_added_metric = met, running_total = met_64, ticker_len = 1\<rparr>)
      | Some t \<Rightarrow>
          if last_added_metric t = 0 then
            exit_map(ip \<mapsto> \<lparr>last_added_metric = met, running_total = running_total t + met_64,
                             ticker_len = ticker_len t + 1\<rparr>)
          else if met < last_added_metric t then
            exit_map(ip \<mapsto> t\<lparr>running_total := running_total t - ucast (last_added_metric t) + met_64,
                             last_added_metric := met\<rparr>)
          else exit_map)"

definition set_last_added_to_zero :: "(ip_addr \<rightharpoonup> exit_tracker) \<Rightarrow> (ip_addr \<rightharpoonup> exit_tracker)" where
  "set_last_added_to_zero exit_map = map_option (\<lambda>v. v\<lparr>last_added_metric := 0\<rparr>) \<circ> exit_map"

definition reset_exit_tracking :: "(ip_addr \<rightharpoonup> exit_tracker) \<Rightarrow> (ip_addr \<rightharpoonup> exit_tracker)" where
  "reset_exit_tracking exit_map =
     map_option (\<lambda>v. \<lparr>last_added_metric = 0, running_total = 0, ticker_len = 0\<rparr>) \<circ> exit_map"

text \<open>The variables of the loop over the exits, and its body. An exit without a route is skipped.\<close>

record metric_scan =
  sc_best_exit :: "ip_addr option"
  sc_best_metric :: u16
  sc_current_exit_down :: bool
  sc_current_exit_metric :: u16
  sc_tracking_metric :: u16
  sc_all_exits_blacklisted :: bool
  sc_exit_map :: "ip_addr \<rightharpoonup> exit_tracker"

definition scan_route ::
  "ip_addr option \<Rightarrow> ip_addr option \<Rightarrow> u16 \<Rightarrow> ip_addr \<Rightarrow> u16 \<Rightarrow> metric_scan \<Rightarrow> metric_scan" where
  "scan_route current_exit_ip tracking initial_best_metric ip metric sc =
     (let up = current_exit_ip = Some ip \<and> metric \<noteq> - 1 \<and> initial_best_metric \<noteq> - 1;
          tracked = tracking = Some ip \<and> metric \<noteq> - 1;
          better = metric < sc_best_metric sc
      in \<lparr>sc_best_exit = (if better then Some ip else sc_best_exit sc),
          sc_best_metric = (if better then metric else sc_best_metric sc),
          sc_current_exit_down = (sc_current_exit_down sc \<and> \<not> up),
          sc_current_exit_metric =
            (if up \<and> sc_current_exit_metric sc > metric then metric else sc_current_exit_metric sc),
          sc_tracking_metric =
            (if tracked \<and> sc_tracking_metric sc > metric then metric else sc_tracking_metric sc),
          sc_all_exits_blacklisted = False,
          sc_exit_map = observe_cluster_metrics ip metric (sc_exit_map sc)\<rparr>)"

definition scan_exit ::
  "(ip_addr \<times> 'f route) list \<Rightarrow> ip_addr set \<Rightarrow> ip_addr option \<Rightarrow> ip_addr option \<Rightarrow> u16 \<Rightarrow> identity \<Rightarrow> metric_scan \<Rightarrow> metric_scan" where
  "scan_exit route_hashmap blacklisted current_exit_ip tracking initial_best_metric exit sc =
     (case map_of route_hashmap (mesh_ip exit) of
        None \<Rightarrow> sc
      | Some route \<Rightarrow>
          let ip = net_ip (rt_prefix route)
          in if ip \<notin> blacklisted
             then scan_route current_exit_ip tracking initial_best_metric ip (rt_metric route) sc else sc)"

definition scan_start :: "(ip_addr \<rightharpoonup> exit_tracker) \<Rightarrow> metric_scan" where
  "scan_start exit_map =
     \<lparr>sc_best_exit = None, sc_best_metric = - 1, sc_current_exit_down = True, sc_current_exit_metric = - 1,
      sc_tracking_metric = - 1, sc_all_exits_blacklisted = True, sc_exit_map = exit_map\<rparr>"

definition get_exit_metrics ::
  "(ip_addr \<times> 'f route) list \<Rightarrow> ip_addr option \<Rightarrow> ip_addr option \<Rightarrow> ip_addr option \<Rightarrow> u16 \<Rightarrow> identity list
     \<Rightarrow> exit_blacklist \<Rightarrow> (ip_addr \<rightharpoonup> exit_tracker) \<Rightarrow> exit_metrics \<times> exit_blacklist \<times> (ip_addr \<rightharpoonup> exit_tracker)" where
  "get_exit_metrics route_hashmap current_exit_ip tracking initial_best_exit initial_best_metric exit_list blacklist exit_map =
     (let sc = fold (scan_exit route_hashmap (blacklisted_exits blacklist) current_exit_ip tracking initial_best_metric)
                 exit_list (scan_start exit_map);
          keep = \<not> sc_current_exit_down sc \<and> initial_best_metric < sc_best_metric sc
      in (\<lparr>is_exit_down = sc_current_exit_down sc, cur_exit = current_exit_ip,
           cur_exit_babel_met = sc_current_exit_metric sc, em_tracking_exit = tracking,
           tracking_met = sc_tracking_metric sc,
           best_exit = (if keep then initial_best_exit else sc_best_exit sc),
           best_exit_met = (if keep then initial_best_metric else sc_best_metric sc)\<rparr>,
          if sc_all_exits_blacklisted sc then reset_exit_blacklist blacklist else blacklist,
          set_last_added_to_zero (sc_exit_map sc)))"

section \<open>The decision\<close>

definition calculate_average :: "u16 list \<Rightarrow> u16 option" where
  "calculate_average vals =
     (if vals = [] then None
      else Some (ucast (sum_list (map ucast vals) div (word_of_nat (length vals) :: u64))))"

text \<open>The averages are at most 65535 and exact in double precision, and a quotient of two of them that is not one half
  differs from it by more than the precision, so the comparison of the quotient with \<open>0.5\<close> is one of integers.\<close>

definition worth_switching_tracking_exit ::
  "u16 list \<Rightarrow> ip_addr \<Rightarrow> (ip_addr \<rightharpoonup> exit_tracker) \<Rightarrow> bool option" where
  "worth_switching_tracking_exit metric_vec best_ip exit_map =
     (case calculate_average metric_vec of
        None \<Rightarrow> Some False
      | Some avg_tracking_metric \<Rightarrow>
        (case exit_map best_ip of
           None \<Rightarrow> None
         | Some t \<Rightarrow>
             if ticker_len t = 0 then Some False
             else
               let avg_best_metric = ucast (running_total t div ucast (ticker_len t)) :: u16
               in Some (\<not> (avg_tracking_metric < avg_best_metric \<or> avg_best_metric = 0)
                        \<and> 2 * (unat avg_tracking_metric - unat avg_best_metric) > unat avg_tracking_metric)))"

text \<open>The recursive call of \<open>update_metric_value\<close> has the tracked exit as the best one.\<close>

function update_metric_value ::
  "exit_metrics \<Rightarrow> u16 list \<Rightarrow> (ip_addr \<rightharpoonup> exit_tracker)
     \<Rightarrow> (exit_switching_code \<times> u16 list \<times> (ip_addr \<rightharpoonup> exit_tracker)) option" where
  "update_metric_value m metric_vec exit_map =
     (let is_full = length metric_vec = METRIC_ENTRIES in
      case cur_exit m of
        None \<Rightarrow> if metric_vec \<noteq> [] then None else Some (InitialExitSetup, metric_vec, exit_map)
      | Some current \<Rightarrow>
        (case best_exit m of
           None \<Rightarrow> None
         | Some best \<Rightarrow>
             let tracking = (case em_tracking_exit m of Some a \<Rightarrow> a | None \<Rightarrow> best)
             in if best = tracking then
                  (if is_full
                   then Some (if current = tracking then ContinueCurrentReset else SwitchExit,
                              [best_exit_met m], reset_exit_tracking exit_map)
                   else Some (if current = tracking then ContinueCurrent else ContinueTracking,
                              metric_vec @ [best_exit_met m], exit_map))
                else
                  (case worth_switching_tracking_exit metric_vec best exit_map of
                     None \<Rightarrow> None
                   | Some True \<Rightarrow> Some (ResetTracking, [best_exit_met m], reset_exit_tracking exit_map)
                   | Some False \<Rightarrow>
                       update_metric_value
                         (m\<lparr>em_tracking_exit := Some tracking, best_exit := Some tracking,
                            best_exit_met := tracking_met m\<rparr>) metric_vec exit_map)))"
  by pat_completeness auto

termination
  by (relation "measure (\<lambda>(m, _, _). if best_exit m = em_tracking_exit m then 0 else 1)")
    (auto split: option.splits)

declare update_metric_value.simps [simp del]

definition checked_sub16 :: "u16 \<Rightarrow> u16 \<Rightarrow> u16 option" where
  "checked_sub16 a b = (if b \<le> a then Some (a - b) else None)"

definition set_exit_state ::
  "exit_switching_code \<Rightarrow> exit_metrics \<Rightarrow> u16 list \<Rightarrow> selected_exit \<Rightarrow> (ip_addr \<times> selected_exit) option" where
  "set_exit_state exit_code m metric_vec sel =
     (case exit_code of
        InitialExitSetup \<Rightarrow> None
      | ContinueCurrentReset \<Rightarrow>
          Option.bind (selected_id_metric sel) (\<lambda>metric.
            map_option (\<lambda>ip. (ip, sel\<lparr>selected_id_degradation := checked_sub16 (cur_exit_babel_met m) metric\<rparr>))
              (cur_exit m))
      | ContinueCurrent \<Rightarrow>
          Option.bind
            (case selected_id_degradation sel of
               None \<Rightarrow>
                 Option.bind (calculate_average metric_vec) (\<lambda>average_metric.
                 Option.bind (selected_id_metric sel) (\<lambda>metric.
                   Some (sel\<lparr>selected_id_degradation := checked_sub16 average_metric metric\<rparr>)))
             | Some degradation \<Rightarrow>
                 (case checked_sub16 (cur_exit_babel_met m) degradation of
                    None \<Rightarrow> Some sel
                  | Some res \<Rightarrow> Some (sel\<lparr>selected_id_metric := Some res\<rparr>)))
            (\<lambda>sel'. map_option (\<lambda>ip. (ip, sel')) (cur_exit m))
      | SwitchExit \<Rightarrow>
          map_option (\<lambda>ip. (ip, \<lparr>selected_id = best_exit m, selected_id_metric = Some (best_exit_met m),
             selected_id_degradation = None, tracking_exit = best_exit m\<rparr>)) (best_exit m)
      | ContinueTracking \<Rightarrow> map_option (\<lambda>ip. (ip, sel)) (cur_exit m)
      | ResetTracking \<Rightarrow> map_option (\<lambda>ip. (ip, sel\<lparr>tracking_exit := best_exit m\<rparr>)) (cur_exit m))"

definition set_best_exit ::
  "identity list \<Rightarrow> (ip_addr \<times> 'f route) list \<Rightarrow> (switcher, rita_client_error, ip_addr) rio" where
  "set_best_exit exit_list route_hashmap s =
     (if route_hashmap = [] then Some (Err ClientMiscStringError, s)
      else
        let sel = sw_selected s;
            current_adjusted_metric = unwrap_or (selected_id_metric sel) (- 1);
            (m, blacklist, exit_map) = get_exit_metrics route_hashmap (selected_id sel) (tracking_exit sel) (selected_id sel)
               current_adjusted_metric exit_list (sw_blacklist s) (sw_tracker s);
            s1 = s\<lparr>sw_blacklist := blacklist, sw_tracker := exit_map\<rparr>
        in case best_exit m of
             None \<Rightarrow> Some (Err ClientMiscStringError, s1)
           | Some best \<Rightarrow>
             (case update_metric_value m (sw_metrics s1) exit_map of
                None \<Rightarrow> None
              | Some (exit_code, metric_vec, exit_map') \<Rightarrow>
                  if is_exit_down m then
                    Some (Ok best, s1\<lparr>sw_selected := \<lparr>selected_id = Some best, selected_id_metric = Some (best_exit_met m),
                        selected_id_degradation = None, tracking_exit = Some best\<rparr>,
                      sw_metrics := [], sw_tracker := reset_exit_tracking exit_map'\<rparr>)
                  else map_option (\<lambda>(ip, sel'). (Ok ip, s1\<lparr>sw_selected := sel', sw_metrics := metric_vec, sw_tracker := exit_map'\<rparr>))
                         (set_exit_state exit_code m metric_vec sel)))"

definition get_current_exit :: "switcher \<Rightarrow> ip_addr option" where
  "get_current_exit s = selected_id (sw_selected s)"

definition select_exit_id :: "ip_addr \<Rightarrow> switcher \<Rightarrow> switcher" where
  "select_exit_id ip s =
     s\<lparr>sw_selected := \<lparr>selected_id = Some ip, selected_id_metric = None, selected_id_degradation = None, tracking_exit = None\<rparr>\<rparr>"

end
