(* ===== verification/Contact_Info.thy ===== *)
theory Contact_Info
  imports Althea_Types Str_Util
begin

text \<open>
  The contact information of a client (\<open>althea_types/src/contact_info.rs\<close>): the enumeration the code works on, its
  storage in the configuration, the details sent to an exit, and the conversions between them. Phone numbers and email
  addresses are the types of the crates \<open>phonenumber\<close> and \<open>lettre\<close>; their parsers and printers are the parameter
  \<open>contact_texts\<close>, of which the code relies on what is printed being read back.
\<close>

section \<open>Data\<close>

record ('p, 'e) contact_texts =
  parse_phone :: "string \<Rightarrow> 'p option"
  show_phone :: "'p \<Rightarrow> string"
  parse_email :: "string \<Rightarrow> 'e option"
  show_email :: "'e \<Rightarrow> string"

record contact_details =
  cd_phone :: "string option"
  cd_email :: "string option"

datatype ('p, 'e) contact_type =
    ContactPhone 'p "u32 option"
  | ContactEmail 'e "u32 option"
  | ContactBoth 'p 'e "u32 option"
  | ContactBad (invalid_number: "string option") (invalid_email: "string option") "u32 option"

record ('p, 'e) contact_storage =
  cs_number :: "'p option"
  cs_email :: "'e option"
  cs_invalid_number :: "string option"
  cs_invalid_email :: "string option"
  cs_sequence_number :: u32

record exit_registration_details =
  rd_email :: "string option"
  rd_email_code :: "string option"
  rd_phone :: "string option"
  rd_phone_code :: "string option"
  rd_sequence_number :: "u32 option"

section \<open>Conversions\<close>

fun contact_to_details :: "('p, 'e) contact_texts \<Rightarrow> ('p, 'e) contact_type \<Rightarrow> contact_details" where
  "contact_to_details T (ContactPhone number _) = \<lparr>cd_phone = Some (show_phone T number), cd_email = None\<rparr>"
| "contact_to_details T (ContactEmail email _) = \<lparr>cd_phone = None, cd_email = Some (show_email T email)\<rparr>"
| "contact_to_details T (ContactBoth number email _) =
     \<lparr>cd_phone = Some (show_phone T number), cd_email = Some (show_email T email)\<rparr>"
| "contact_to_details T (ContactBad number email _) = \<lparr>cd_phone = number, cd_email = email\<rparr>"

definition contact_option_to_details :: "('p, 'e) contact_texts \<Rightarrow> ('p, 'e) contact_type option \<Rightarrow> contact_details" where
  "contact_option_to_details T c =
     (case c of Some v \<Rightarrow> contact_to_details T v | None \<Rightarrow> \<lparr>cd_phone = None, cd_email = None\<rparr>)"

fun get_sequence :: "('p, 'e) contact_type \<Rightarrow> u32 option" where
  "get_sequence (ContactPhone _ s) = s"
| "get_sequence (ContactEmail _ s) = s"
| "get_sequence (ContactBoth _ _ s) = s"
| "get_sequence (ContactBad _ _ _) = None"

fun get_phone :: "('p, 'e) contact_type \<Rightarrow> 'p option" where
  "get_phone (ContactPhone n _) = Some n"
| "get_phone (ContactBoth n _ _) = Some n"
| "get_phone _ = None"

fun get_email :: "('p, 'e) contact_type \<Rightarrow> 'e option" where
  "get_email (ContactEmail e _) = Some e"
| "get_email (ContactBoth _ e _) = Some e"
| "get_email _ = None"

definition get_sequence_num :: "('p, 'e) contact_storage \<Rightarrow> u32" where
  "get_sequence_num cs = cs_sequence_number cs"

fun contact_to_storage :: "('p, 'e) contact_type \<Rightarrow> ('p, 'e) contact_storage" where
  "contact_to_storage (ContactBoth number email s) =
     \<lparr>cs_number = Some number, cs_email = Some email, cs_invalid_number = None, cs_invalid_email = None,
      cs_sequence_number = unwrap_or s 0\<rparr>"
| "contact_to_storage (ContactPhone number s) =
     \<lparr>cs_number = Some number, cs_email = None, cs_invalid_number = None, cs_invalid_email = None,
      cs_sequence_number = unwrap_or s 0\<rparr>"
| "contact_to_storage (ContactEmail email s) =
     \<lparr>cs_number = None, cs_email = Some email, cs_invalid_number = None, cs_invalid_email = None,
      cs_sequence_number = unwrap_or s 0\<rparr>"
| "contact_to_storage (ContactBad val_p val_e s) =
     \<lparr>cs_number = None, cs_email = None, cs_invalid_number = val_p, cs_invalid_email = val_e,
      cs_sequence_number = unwrap_or s 0\<rparr>"

definition storage_to_contact :: "('p, 'e) contact_storage \<Rightarrow> ('p, 'e) contact_type" where
  "storage_to_contact cs =
     (let s = Some (cs_sequence_number cs) in
      case (cs_number cs, cs_email cs) of
        (Some phone, Some email) \<Rightarrow> ContactBoth phone email s
      | (Some phone, None) \<Rightarrow> ContactPhone phone s
      | (None, Some email) \<Rightarrow> ContactEmail email s
      | (None, None) \<Rightarrow> ContactBad (cs_invalid_number cs) (cs_invalid_email cs) s)"

text \<open>Of two texts of which one is invalid, the invalid one is dropped.\<close>

definition storage_convert ::
  "('p, 'e) contact_texts \<Rightarrow> exit_registration_details \<Rightarrow> ('p, 'e) contact_storage option" where
  "storage_convert T old =
     (let mk = (\<lambda>n e ni ei. Some \<lparr>cs_number = n, cs_email = e, cs_invalid_number = ni, cs_invalid_email = ei,
                                 cs_sequence_number = unwrap_or (rd_sequence_number old) 0\<rparr>) in
      case (rd_phone old, rd_email old) of
        (Some phone, Some email) \<Rightarrow>
          (case (parse_phone T phone, parse_email T email) of
             (Some p, Some e) \<Rightarrow> mk (Some p) (Some e) None None
           | (None, Some e) \<Rightarrow> mk None (Some e) None None
           | (Some p, None) \<Rightarrow> mk (Some p) None None None
           | (None, None) \<Rightarrow> mk None None (Some phone) (Some email))
      | (Some phone, None) \<Rightarrow>
          (case parse_phone T phone of
             Some p \<Rightarrow> mk (Some p) None None None
           | None \<Rightarrow> mk None None (Some phone) None)
      | (None, Some email) \<Rightarrow>
          (case parse_email T email of
             Some e \<Rightarrow> mk None (Some e) None None
           | None \<Rightarrow> mk None None None (Some email))
      | (None, None) \<Rightarrow> mk None None None None)"

definition contact_convert ::
  "('p, 'e) contact_texts \<Rightarrow> contact_details \<Rightarrow> u32 option \<Rightarrow> ('p, 'e) contact_type option" where
  "contact_convert T val s =
     map_option storage_to_contact (storage_convert T
       \<lparr>rd_email = cd_email val, rd_email_code = None, rd_phone = cd_phone val, rd_phone_code = None,
        rd_sequence_number = s\<rparr>)"

fun contact_to_registration :: "('p, 'e) contact_texts \<Rightarrow> ('p, 'e) contact_type \<Rightarrow> exit_registration_details" where
  "contact_to_registration T (ContactBoth number email s) =
     \<lparr>rd_email = Some (show_email T email), rd_email_code = None, rd_phone = Some (show_phone T number),
      rd_phone_code = None, rd_sequence_number = s\<rparr>"
| "contact_to_registration T (ContactEmail email s) =
     \<lparr>rd_email = Some (show_email T email), rd_email_code = None, rd_phone = None, rd_phone_code = None,
      rd_sequence_number = s\<rparr>"
| "contact_to_registration T (ContactPhone number s) =
     \<lparr>rd_email = None, rd_email_code = None, rd_phone = Some (show_phone T number), rd_phone_code = None,
      rd_sequence_number = s\<rparr>"
| "contact_to_registration T (ContactBad number email s) =
     \<lparr>rd_email = email, rd_email_code = None, rd_phone = number, rd_phone_code = None, rd_sequence_number = s\<rparr>"

definition storage_to_registration :: "('p, 'e) contact_texts \<Rightarrow> ('p, 'e) contact_storage \<Rightarrow> exit_registration_details" where
  "storage_to_registration T cs = contact_to_registration T (storage_to_contact cs)"

section \<open>Round trips\<close>

text \<open>A contact as the parsers make it: a text is kept as invalid only when it does not parse.\<close>

definition genuine :: "('p, 'e) contact_texts \<Rightarrow> ('p, 'e) contact_type \<Rightarrow> bool" where
  "genuine T c \<longleftrightarrow> (case c of
     ContactBad n e _ \<Rightarrow> Option.bind n (parse_phone T) = None \<and> Option.bind e (parse_email T) = None
   | _ \<Rightarrow> True)"

text \<open>The storage has no place for a missing sequence number: it becomes zero.\<close>

fun numbered :: "('p, 'e) contact_type \<Rightarrow> ('p, 'e) contact_type" where
  "numbered (ContactPhone n s) = ContactPhone n (Some (unwrap_or s 0))"
| "numbered (ContactEmail e s) = ContactEmail e (Some (unwrap_or s 0))"
| "numbered (ContactBoth n e s) = ContactBoth n e (Some (unwrap_or s 0))"
| "numbered (ContactBad n e s) = ContactBad n e (Some (unwrap_or s 0))"

lemma storage_to_contact_storage: "storage_to_contact (contact_to_storage c) = numbered c"
  by (cases c) (simp_all add: storage_to_contact_def)

lemma storage_convert_genuine: "storage_convert T d = Some cs \<Longrightarrow> genuine T (storage_to_contact cs)"
  by (auto simp: storage_convert_def storage_to_contact_def genuine_def Let_def split: option.splits)

text \<open>The law of the two crates, and what it gives for the conversions.\<close>

locale contact_laws =
  fixes T :: "('p, 'e) contact_texts"
  assumes phone_text: "parse_phone T (show_phone T p) = Some p"
    and email_text: "parse_email T (show_email T e) = Some e"
begin

lemma convert_registration:
  "genuine T c \<Longrightarrow> storage_convert T (contact_to_registration T c) = Some (contact_to_storage c)"
  by (cases c) (auto simp: storage_convert_def genuine_def phone_text email_text split: option.splits)

lemma convert_details:
  "genuine T c \<Longrightarrow> contact_convert T (contact_to_details T c) s = Some (numbered (case c of
     ContactPhone n _ \<Rightarrow> ContactPhone n s | ContactEmail e _ \<Rightarrow> ContactEmail e s
   | ContactBoth n e _ \<Rightarrow> ContactBoth n e s | ContactBad n e _ \<Rightarrow> ContactBad n e s))"
  by (cases c) (auto simp: contact_convert_def storage_convert_def storage_to_contact_def genuine_def phone_text email_text
      split: option.splits)

end

text \<open>Both kinds of text as the numbers they print.\<close>

definition number_texts :: "(u64, u64) contact_texts" where
  "number_texts =
     (let read = (\<lambda>s. map_option word_of_nat (parse_uint 10 (2 ^ 64 - 1) s)); print = (\<lambda>n. dec (unat n))
      in \<lparr>parse_phone = read, show_phone = print, parse_email = read, show_email = print\<rparr>)"

lemma number_text: "map_option word_of_nat (parse_uint 10 (2 ^ 64 - 1) (dec (unat n))) = Some (n :: u64)"
proof -
  have "unat n < 2 ^ LENGTH(64)" by (rule unsigned_less)
  then show ?thesis by (simp add: parse_uint_dec)
qed

interpretation std_contact: contact_laws number_texts
  using number_text by unfold_locales (simp_all add: number_texts_def Let_def)

text \<open>C40: Contact information survives its conversions. A contact whose texts are kept as invalid only when they do not
  parse is the same again, with a missing sequence number read as zero, after it was stored, after it was turned into the
  registration details and back, and after it was turned into the details of the dashboard and back; and whatever
  registration details are converted, the result is such a contact.\<close>

theorem contact_round_trip:
  assumes "contact_laws T" and "genuine T c"
  shows "storage_to_contact (contact_to_storage c) = numbered c
    \<and> map_option storage_to_contact (storage_convert T (contact_to_registration T c)) = Some (numbered c)
    \<and> contact_convert T (contact_to_details T c) (Some (cs_sequence_number (contact_to_storage c))) = Some (numbered c)
    \<and> (\<forall>d. case storage_convert T d of Some cs \<Rightarrow> genuine T (storage_to_contact cs) | None \<Rightarrow> False)"
proof -
  have "contact_convert T (contact_to_details T c) (Some (cs_sequence_number (contact_to_storage c))) = Some (numbered c)"
    using contact_laws.convert_details [OF assms] by (cases c) simp_all
  moreover have "storage_convert T d \<noteq> None" for d
    by (simp add: storage_convert_def Let_def split: option.splits)
  ultimately show ?thesis
    using contact_laws.convert_registration [OF assms] storage_convert_genuine
    by (auto simp: storage_to_contact_storage split: option.splits)
qed

theorem contact_round_trip_witness:
  "map_option storage_to_contact (storage_convert number_texts (contact_to_registration number_texts
      (ContactBoth 5551234 7 None))) = Some (ContactBoth 5551234 7 (Some 0))"
  using contact_round_trip [OF std_contact.contact_laws_axioms, of "ContactBoth 5551234 7 None"]
  by (simp add: genuine_def)

end
