(* ===== verification/Exit_Manager.thy ===== *)
theory Exit_Manager
  imports Exit_Switcher Contact_Info
begin

text \<open>
  The exit manager of a client (\<open>rita_client/src/exit_manager\<close>: \<open>mod.rs\<close>, \<open>exit_loop.rs\<close>, \<open>time_sync.rs\<close>, and the
  endpoints of \<open>dashboard/exits.rs\<close>): registering at exits, asking for their state and their list of exits, choosing one
  with the switcher, and setting up the tunnel, the time, the address translation and billing.

  The HTTP client, the boxes of \<open>sodiumoxide\<close> and the JSON of \<open>serde\<close> are parameters in \<open>client_env\<close>, as are the
  crates behind the kernel interface. The exit reads a few fields of the request, the record \<open>exit_client_identity\<close> of the
  theory \<open>Registration\<close>; the client's side has all of them. The settings and the statics are the record \<open>client_node\<close>; hash maps are
  maps, and \<open>ce_order\<close> is the order in which the map of exits is iterated. Requests that the code awaits together are run
  one after the other: each writes only the entry of its own exit.
\<close>

section \<open>Data\<close>

record exit_server =
  es_exit_id :: identity
  es_registration_port :: u16
  es_wg_exit_listen_port :: u16
  es_info :: exit_state

record ('p, 'e) client_settings =
  cl_common :: rita_settings
  cl_exits :: "ip_addr \<rightharpoonup> exit_server"
  cl_wg_listen_port :: u16
  cl_contact_info :: "('p, 'e) contact_storage option"

record last_exit_states =
  last_exit :: "ip_addr option"
  last_exit_details :: "exit_state option"

record exit_manager =
  nat_setup :: bool
  em_exit_list :: "exit_identity list"
  last_exit_state :: last_exit_states
  last_status_request :: "instant option"

definition exit_manager_default :: exit_manager where
  "exit_manager_default =
     \<lparr>nat_setup = False, em_exit_list = [], last_exit_state = \<lparr>last_exit = None, last_exit_details = None\<rparr>,
      last_status_request = None\<rparr>"

record ('w, 'p, 'e) client_node =
  cn_settings :: "('p, 'e) client_settings"
  cn_switcher :: switcher
  cn_manager :: exit_manager
  cn_watch :: traffic_watcher
  cn_debts :: debt_keeper
  cn_usage :: usage_state
  cn_world :: 'w

type_synonym ('w, 'p, 'e, 'a) cio = "(('w, 'p, 'e) client_node, rita_client_error, 'a) rio"

text \<open>The request a client seals for an exit.\<close>

record exit_client_request =
  eq_global :: identity
  eq_wg_port :: u16
  eq_reg_details :: exit_registration_details

datatype 'c http_reply = HttpTimeout | HttpFailed | HttpBadJson | HttpReply 'c

datatype box_text = BoxClosed | BoxNotUtf8 | BoxText string

record ('w, 'f, 'p, 'e, 'c) client_env =
  ce_world :: "'w world"
  ce_files :: "'w files"
  ce_float :: "string \<Rightarrow> 'f option"
  ce_network :: "string \<Rightarrow> ip_network option"
  ce_inet_cap :: "string \<Rightarrow> string option"
  ce_inet6_caps :: "string \<Rightarrow> string list"
  ce_captures :: "string \<Rightarrow> (string \<times> string \<times> string) list"
  ce_show_key :: "wg_key \<Rightarrow> string"
  ce_parse_key :: "string \<Rightarrow> wg_key option"
  ce_ipnet :: ipnet
  ce_texts :: "('p, 'e) contact_texts"
  ce_seal :: "wg_key \<Rightarrow> wg_key \<Rightarrow> exit_client_request \<Rightarrow> 'w \<Rightarrow> 'c \<times> 'w"
  ce_post :: "string \<Rightarrow> wg_key \<Rightarrow> 'c \<Rightarrow> 'w \<Rightarrow> 'c http_reply \<times> 'w"
  ce_open :: "'c \<Rightarrow> wg_key \<Rightarrow> wg_key \<Rightarrow> box_text"
  ce_read_state :: "string \<Rightarrow> exit_state option"
  ce_read_list :: "string \<Rightarrow> exit_identity list option"
  ce_get_time :: "string \<Rightarrow> 'w \<Rightarrow> instant option \<times> 'w"
  ce_ping :: "ip_addr \<Rightarrow> string option \<Rightarrow> 'w \<Rightarrow> (kernel_interface_error + bool) \<times> 'w"
  ce_order :: "(ip_addr \<rightharpoonup> exit_server) \<Rightarrow> ip_addr list"

definition on_cworld :: "('w, 'x, 'a) rio \<Rightarrow> (('w, 'p, 'e) client_node, 'x, 'a) rio" where
  "on_cworld m = (\<lambda>n. case m (cn_world n) of None \<Rightarrow> None | Some (r, w) \<Rightarrow> Some (r, n\<lparr>cn_world := w\<rparr>))"

definition cmodify :: "(('w, 'p, 'e) client_node \<Rightarrow> ('w, 'p, 'e) client_node) \<Rightarrow> ('w, 'p, 'e, unit) cio" where
  "cmodify f = (\<lambda>n. Some (Inr (), f n))"

definition cget :: "(('w, 'p, 'e) client_node \<Rightarrow> 'a) \<Rightarrow> ('w, 'p, 'e, 'a) cio" where
  "cget f = (\<lambda>n. Some (Inr (f n), n))"

definition cexpect :: "'a option \<Rightarrow> ('w, 'p, 'e, 'a) cio" where
  "cexpect x = (case x of Some v \<Rightarrow> rret v | None \<Rightarrow> (\<lambda>_. None))"

definition kernel_error :: "('w, kernel_interface_error, 'a) rio \<Rightarrow> ('w, rita_client_error, 'a) rio" where
  "kernel_error m = rmap_err (\<lambda>e. ClientCommonError (KernelInterfaceError e)) m"

section \<open>State of an exit\<close>

fun general_details :: "exit_state \<Rightarrow> exit_details option" where
  "general_details (GotInfo d _) = Some d"
| "general_details (Pending d _ _ _) = Some d"
| "general_details (Registered d _ _) = Some d"
| "general_details _ = None"

fun our_details :: "exit_state \<Rightarrow> exit_client_details option" where
  "our_details (Registered _ d _) = Some d"
| "our_details _ = None"

definition set_exit_list :: "exit_identity list \<Rightarrow> exit_manager \<Rightarrow> bool \<times> exit_manager" where
  "set_exit_list list em = (if list \<noteq> [] then (True, em\<lparr>em_exit_list := list\<rparr>) else (False, em))"

definition get_identity :: "rita_settings \<Rightarrow> identity option" where
  "get_identity S =
     (case (net_mesh_ip (network S), pay_eth_address (payment S), net_wg_public_key (network S)) of
        (Some ip, Some a, Some k) \<Rightarrow> Some \<lparr>mesh_ip = ip, eth_address = a, wg_public_key = k\<rparr>
      | _ \<Rightarrow> None)"

definition get_selected_exit_server :: "('w, 'p, 'e) client_node \<Rightarrow> exit_server option" where
  "get_selected_exit_server n = Option.bind (get_current_exit (cn_switcher n)) (cl_exits (cn_settings n))"

definition strike :: "ip_addr \<Rightarrow> warning_type \<Rightarrow> ('w, 'p, 'e, unit) cio" where
  "strike ip warning =
     cmodify (\<lambda>n. n\<lparr>cn_switcher := (cn_switcher n)\<lparr>sw_blacklist := blacklist_strike_ip ip warning (sw_blacklist (cn_switcher n))\<rparr>\<rparr>)"

definition forgive :: "ip_addr \<Rightarrow> ('w, 'p, 'e, unit) cio" where
  "forgive ip =
     cmodify (\<lambda>n. n\<lparr>cn_switcher := (cn_switcher n)\<lparr>sw_blacklist := reset_blacklist_warnings ip (sw_blacklist (cn_switcher n))\<rparr>\<rparr>)"

section \<open>The tunnel\<close>

text \<open>The exit whose key and address are used is the selected one; the internal addresses are arguments.\<close>

definition exit_tunnel_args ::
  "exit_server \<Rightarrow> ('p, 'e) client_settings \<Rightarrow> network_settings \<Rightarrow> exit_details \<Rightarrow> exit_client_details \<Rightarrow> client_exit_tunnel_config" where
  "exit_tunnel_args selected S net gd od =
     \<lparr>ct_endpoint = socket_new (mesh_ip (es_exit_id selected)) (es_wg_exit_listen_port selected),
      ct_pubkey = wg_public_key (es_exit_id selected), ct_private_key_path = wg_private_key_path net,
      ct_listen_port = cl_wg_listen_port S, ct_local_ip = ecd_client_internal_ip od, ct_netmask = ed_netmask gd,
      ct_rita_hello_port = rita_hello_port net, ct_user_specified_speed = user_bandwidth_limit net\<rparr>"

definition linux_setup_exit_tunnel ::
  "('w, 'f, 'p, 'e, 'c) client_env \<Rightarrow> exit_details \<Rightarrow> exit_client_details \<Rightarrow> ('w, 'p, 'e, unit) cio" where
  "linux_setup_exit_tunnel E gd od =
     rbind (cget (\<lambda>n. cn_settings n)) (\<lambda>rita_client.
     let net = network (cl_common rita_client) in
     rbind (on_cworld (kernel_error (update_settings_route (ce_world E) (last_default_route net)))) (\<lambda>(_, route).
     rbind (on_cworld (rattempt (create_blank_wg_interface (ce_world E) ''wg_exit''))) (\<lambda>r.
     if r = Inl RuntimeError then rraise ClientMiscStringError
     else
       rbind (cget get_selected_exit_server) (\<lambda>sel.
       rbind (cexpect sel) (\<lambda>selected.
       let net' = net\<lparr>last_default_route := route\<rparr>;
           args = exit_tunnel_args selected rita_client net' gd od
       in rbind (cmodify (\<lambda>n. n\<lparr>cn_settings := rita_client\<lparr>cl_common := (cl_common rita_client)\<lparr>network := net'\<rparr>\<rparr>\<rparr>)) (\<lambda>_.
          on_cworld (kernel_error (
            rbind (set_client_exit_tunnel_config (ce_world E) (ce_files E) (ce_inet_cap E) (ce_show_key E) (ce_parse_key E)
                     args (net_mesh_ip net)) (\<lambda>_.
            rbind (set_route_to_tunnel (ce_world E) (ed_server_internal_ip gd)) (\<lambda>_.
            rbind (set_ipv6_route_to_tunnel (ce_world E)) (\<lambda>_.
              create_client_nat_rules (ce_world E)))))))))))) "

definition restore_nat :: "('w, 'f, 'p, 'e, 'c) client_env \<Rightarrow> ('w, 'p, 'e, unit) cio" where
  "restore_nat E = on_cworld (rignore (restore_client_nat (ce_world E)))"

definition remove_nat :: "('w, 'f, 'p, 'e, 'c) client_env \<Rightarrow> ('w, 'p, 'e, unit) cio" where
  "remove_nat E = on_cworld (rignore (block_client_nat (ce_world E)))"

section \<open>Requests to an exit\<close>

definition encrypt_exit_client_id ::
  "('w, 'f, 'p, 'e, 'c) client_env \<Rightarrow> wg_key \<Rightarrow> exit_client_request \<Rightarrow> ('w, 'p, 'e, wg_key \<times> 'c) cio" where
  "encrypt_exit_client_id E exit_pubkey i =
     rbind (cget (\<lambda>n. network (cl_common (cn_settings n)))) (\<lambda>net.
     rbind (cexpect (net_wg_public_key net)) (\<lambda>our_publickey.
     rbind (cexpect (net_wg_private_key net)) (\<lambda>our_secretkey.
       on_cworld (\<lambda>w. case ce_seal E exit_pubkey our_secretkey i w of (c, w') \<Rightarrow> Some (Inr (our_publickey, c), w')))))"

definition open_text :: "('w, 'f, 'p, 'e, 'c) client_env \<Rightarrow> (string \<Rightarrow> 'a option) \<Rightarrow> 'c \<Rightarrow> wg_key \<Rightarrow> ('w, 'p, 'e, 'a) cio" where
  "open_text E read_json cipher exit_pubkey =
     rbind (cget (\<lambda>n. net_wg_private_key (network (cl_common (cn_settings n))))) (\<lambda>k.
     rbind (cexpect k) (\<lambda>our_secretkey.
       case ce_open E cipher exit_pubkey our_secretkey of
         BoxClosed \<Rightarrow> rraise ClientMiscStringError
       | BoxNotUtf8 \<Rightarrow> rraise ClientFromUtf8Error
       | BoxText s \<Rightarrow> (case read_json s of Some a \<Rightarrow> rret a | None \<Rightarrow> rraise SerdeJsonError)))"

definition decrypt_exit_state ::
  "('w, 'f, 'p, 'e, 'c) client_env \<Rightarrow> 'c \<Rightarrow> wg_key \<Rightarrow> ('w, 'p, 'e, exit_state) cio" where
  "decrypt_exit_state E = open_text E (ce_read_state E)"

definition decrypt_exit_list ::
  "('w, 'f, 'p, 'e, 'c) client_env \<Rightarrow> 'c \<Rightarrow> wg_key \<Rightarrow> ('w, 'p, 'e, exit_identity list) cio" where
  "decrypt_exit_list E = open_text E (ce_read_list E)"

text \<open>Sending a request and judging the exit by its answer: a timeout is a soft warning, an answer that cannot be decrypted
  a hard one, and anything that arrives at all clears the warnings.\<close>

definition judge_reply ::
  "ip_addr \<Rightarrow> wg_key \<Rightarrow> ('c \<Rightarrow> wg_key \<Rightarrow> ('w, 'p, 'e, 'a) cio) \<Rightarrow> 'c http_reply \<Rightarrow> ('w, 'p, 'e, 'a) cio" where
  "judge_reply ip exit_pubkey decrypt response = (case response of
        HttpTimeout \<Rightarrow> rbind (strike ip SoftWarning) (\<lambda>_. rraise ClientSendRequestError)
      | HttpFailed \<Rightarrow> rraise ClientSendRequestError
      | HttpBadJson \<Rightarrow> rbind (forgive ip) (\<lambda>_. rraise ClientJsonPayloadError)
      | HttpReply value \<Rightarrow>
          rbind (forgive ip) (\<lambda>_.
          rbind (rattempt (decrypt value exit_pubkey)) (\<lambda>r. case r of
             Inl e \<Rightarrow> rbind (strike ip HardWarning) (\<lambda>_. rraise e)
           | Inr a \<Rightarrow> rbind (forgive ip) (\<lambda>_. rret a))))"

definition ask_exit ::
  "('w, 'f, 'p, 'e, 'c) client_env \<Rightarrow> string \<Rightarrow> wg_key \<Rightarrow> ip_addr \<Rightarrow> u16 \<Rightarrow> exit_client_request
     \<Rightarrow> ('c \<Rightarrow> wg_key \<Rightarrow> ('w, 'p, 'e, 'a) cio) \<Rightarrow> ('w, 'p, 'e, 'a) cio" where
  "ask_exit E path exit_pubkey ip port ident decrypt =
     rbind (encrypt_exit_client_id E exit_pubkey ident) (\<lambda>(pubkey, cipher).
     rbind (on_cworld (\<lambda>w. case ce_post E (''http://['' @ show_ip ip @ '']:'' @ dec (unat port) @ path) pubkey cipher w of
              (r, w') \<Rightarrow> Some (Inr r, w'))) (judge_reply ip exit_pubkey decrypt))"

definition send_exit_setup_request ::
  "('w, 'f, 'p, 'e, 'c) client_env \<Rightarrow> wg_key \<Rightarrow> ip_addr \<Rightarrow> u16 \<Rightarrow> exit_client_request \<Rightarrow> ('w, 'p, 'e, exit_state) cio" where
  "send_exit_setup_request E exit_pubkey ip port ident =
     ask_exit E ''/secure_setup'' exit_pubkey ip port ident (decrypt_exit_state E)"

definition send_exit_status_request ::
  "('w, 'f, 'p, 'e, 'c) client_env \<Rightarrow> wg_key \<Rightarrow> ip_addr \<Rightarrow> u16 \<Rightarrow> exit_client_request \<Rightarrow> ('w, 'p, 'e, exit_state) cio" where
  "send_exit_status_request E exit_pubkey ip port ident =
     ask_exit E ''/secure_status'' exit_pubkey ip port ident (decrypt_exit_state E)"

text \<open>The identity sent with a request, and the two reasons for not having one.\<close>

definition request_identity ::
  "('w, 'f, 'p, 'e, 'c) client_env \<Rightarrow> ('w, 'p, 'e, exit_client_request) cio" where
  "request_identity E =
     rbind (cget (\<lambda>n. cn_settings n)) (\<lambda>S. case cl_contact_info S of
        None \<Rightarrow> rraise ClientMiscStringError
      | Some contact \<Rightarrow>
        (case get_identity (cl_common S) of
           None \<Rightarrow> rraise ClientMiscStringError
         | Some i \<Rightarrow> rret \<lparr>eq_global = i, eq_wg_port = cl_wg_listen_port S,
                           eq_reg_details = storage_to_registration (ce_texts E) contact\<rparr>))"

definition set_exit_info :: "ip_addr \<Rightarrow> exit_state \<Rightarrow> ('w, 'p, 'e) client_node \<Rightarrow> ('w, 'p, 'e) client_node" where
  "set_exit_info ip st n =
     (let S = cn_settings n in
      n\<lparr>cn_settings := S\<lparr>cl_exits := (case cl_exits S ip of
           None \<Rightarrow> cl_exits S | Some s \<Rightarrow> (cl_exits S)(ip \<mapsto> s\<lparr>es_info := st\<rparr>))\<rparr>\<rparr>)"

text \<open>The first exit that is new or pending is asked to register us.\<close>

definition exit_setup_request ::
  "('w, 'f, 'p, 'e, 'c) client_env \<Rightarrow> string option \<Rightarrow> ('w, 'p, 'e, unit) cio" where
  "exit_setup_request E code =
     rbind (cget (\<lambda>n. cl_exits (cn_settings n))) (\<lambda>exits.
       case find (\<lambda>s. (case es_info s of New \<Rightarrow> True | Pending _ _ _ _ \<Rightarrow> True | _ \<Rightarrow> False))
              (List.map_filter exits (ce_order E exits)) of
         None \<Rightarrow> rraise ClientMiscStringError
       | Some exit \<Rightarrow>
           rbind (request_identity E) (\<lambda>ident.
           rbind (send_exit_setup_request E (wg_public_key (es_exit_id exit)) (mesh_ip (es_exit_id exit))
                    (es_registration_port exit)
                    (ident\<lparr>eq_reg_details := (eq_reg_details ident)\<lparr>rd_phone_code := code\<rparr>\<rparr>)) (\<lambda>response.
             cmodify (set_exit_info (mesh_ip (es_exit_id exit)) response))))"

definition exit_status_request ::
  "('w, 'f, 'p, 'e, 'c) client_env \<Rightarrow> ip_addr \<Rightarrow> ('w, 'p, 'e, unit) cio" where
  "exit_status_request E exit =
     rbind (cget (\<lambda>n. cl_exits (cn_settings n) exit)) (\<lambda>r. case r of
        None \<Rightarrow> rraise NoExitError
      | Some current_exit \<Rightarrow>
          rbind (request_identity E) (\<lambda>ident.
          rbind (send_exit_status_request E (wg_public_key (es_exit_id current_exit)) (mesh_ip (es_exit_id current_exit))
                   (es_registration_port current_exit) ident) (\<lambda>response.
          rbind (cget (\<lambda>n. cl_exits (cn_settings n) exit)) (\<lambda>again. case again of
             None \<Rightarrow> rraise ExitNotFound
           | Some _ \<Rightarrow> cmodify (set_exit_info exit response)))))"

definition client_get_exit_list ::
  "('w, 'f, 'p, 'e, 'c) client_env \<Rightarrow> ip_addr \<Rightarrow> ('w, 'p, 'e, exit_identity list) cio" where
  "client_get_exit_list E exit =
     rbind (cget (\<lambda>n. cl_exits (cn_settings n) exit)) (\<lambda>r. case r of
        None \<Rightarrow> rraise NoExitError
      | Some current_exit \<Rightarrow>
          rbind (request_identity E) (\<lambda>ident.
            ask_exit E ''/exit_list_v2'' (wg_public_key (es_exit_id current_exit)) (mesh_ip (es_exit_id current_exit))
              (es_registration_port current_exit) ident (decrypt_exit_list E)))"

definition add_exits_to_exit_server_list :: "exit_identity list \<Rightarrow> ('p, 'e) client_settings \<Rightarrow> ('p, 'e) client_settings" where
  "add_exits_to_exit_server_list list S =
     S\<lparr>cl_exits := fold (\<lambda>e m. case m (ei_mesh_ip e) of
          Some _ \<Rightarrow> m
        | None \<Rightarrow> m(ei_mesh_ip e \<mapsto> \<lparr>es_exit_id = exit_identity_to_id e, es_registration_port = ei_registration_port e,
                     es_wg_exit_listen_port = ei_wg_exit_listen_port e, es_info = New\<rparr>)) list (cl_exits S)\<rparr>"

definition correct_default_route :: "default_route option \<Rightarrow> bool" where
  "correct_default_route input = (case input of Some v \<Rightarrow> is_althea_default_route v | None \<Rightarrow> False)"

definition get_ready_to_switch_exits :: "exit_identity list \<Rightarrow> (ip_addr \<rightharpoonup> exit_server) \<Rightarrow> identity list" where
  "get_ready_to_switch_exits exit_list exits =
     List.map_filter (\<lambda>e. case exits (ei_mesh_ip e) of
        Some server \<Rightarrow> (case es_info server of Registered _ _ _ \<Rightarrow> Some (exit_identity_to_id e) | _ \<Rightarrow> None)
      | None \<Rightarrow> None) exit_list"

definition get_client_pub_ipv6 :: "('w, 'p, 'e) client_node \<Rightarrow> ip_network option" where
  "get_client_pub_ipv6 n =
     Option.bind (get_selected_exit_server n) (\<lambda>s. case es_info s of
        Registered _ od _ \<Rightarrow> ecd_internet_ipv6_subnet od | _ \<Rightarrow> None)"

definition has_exit_changed :: "last_exit_states \<Rightarrow> ip_addr option \<Rightarrow> exit_server \<Rightarrow> bool" where
  "has_exit_changed st selected cluster =
     (let instance_has_changed = \<not> (last_exit st \<noteq> None \<and> selected \<noteq> None \<and> last_exit st = selected);
          exit_reg_has_changed = \<not> (last_exit_details st = Some (es_info cluster))
      in instance_has_changed \<or> exit_reg_has_changed)"

section \<open>The clock\<close>

definition MAX_DIFF_LOCAL_EXIT_TIME :: duration where "MAX_DIFF_LOCAL_EXIT_TIME = from_secs 60"
definition MAX_EXIT_TUNNEL_HANDSHAKE :: duration where "MAX_EXIT_TUNNEL_HANDSHAKE = from_secs (60 * 3)"

text \<open>System times are nanoseconds since the epoch.\<close>

definition set_local_time :: "'w world \<Rightarrow> instant \<Rightarrow> ('w, cmd_output) kio" where
  "set_local_time W time = cmd W ''date'' [''-s'', ''@'' @ dec (as_secs time)]"

definition get_exit_time :: "('w, 'f, 'p, 'e, 'c) client_env \<Rightarrow> exit_server \<Rightarrow> ('w, 'p, 'e, instant option) cio" where
  "get_exit_time E exit =
     rbind (cget (\<lambda>n. get_current_exit (cn_switcher n))) (\<lambda>ip.
     rbind (cexpect ip) (\<lambda>exit_ip.
       on_cworld (\<lambda>w. case ce_get_time E (''http://['' @ show_ip exit_ip @ '']:'' @ dec (unat (es_registration_port exit)) @ ''/time'') w of
         (r, w') \<Rightarrow> Some (Inr r, w'))))"

definition get_latest_exit_handshake :: "('w, 'f, 'p, 'e, 'c) client_env \<Rightarrow> ('w, 'p, 'e, instant option) cio" where
  "get_latest_exit_handshake E =
     rbind (on_cworld (rattempt (get_last_handshake_time (ce_world E) (ce_parse_key E) ''wg_exit''))) (\<lambda>r.
       rret (case r of Inr ((_, time) # _) \<Rightarrow> Some time | _ \<Rightarrow> None))"

definition recent_handshake :: "instant \<Rightarrow> instant option \<Rightarrow> bool" where
  "recent_handshake now handshake = (case handshake of
     None \<Rightarrow> False
   | Some t \<Rightarrow> t \<noteq> 0 \<and> t \<le> now \<and> now - t < MAX_EXIT_TUNNEL_HANDSHAKE)"

definition maybe_set_local_to_exit_time ::
  "('w, 'f, 'p, 'e, 'c) client_env \<Rightarrow> instant \<Rightarrow> exit_server \<Rightarrow> ('w, 'p, 'e, unit) cio" where
  "maybe_set_local_to_exit_time E now exit =
     rbind (get_latest_exit_handshake E) (\<lambda>last_handshake.
       if recent_handshake now last_handshake then rret ()
       else
         rbind (get_exit_time E exit) (\<lambda>t. case t of
            None \<Rightarrow> rret ()
          | Some exit_time \<Rightarrow>
              if now \<le> exit_time \<and> exit_time - now > MAX_DIFF_LOCAL_EXIT_TIME
              then on_cworld (rignore (set_local_time (ce_world E) exit_time))
              else rret ()))"

section \<open>The dashboard\<close>

record exit_info =
  in_nickname :: string
  in_exit_settings :: exit_server
  in_is_selected :: bool
  in_have_route :: bool
  in_is_reachable :: bool
  in_is_tunnel_working :: bool

definition is_selected :: "exit_server \<Rightarrow> exit_server option \<Rightarrow> bool" where
  "is_selected exit current_exit = (case current_exit of None \<Rightarrow> False | Some i \<Rightarrow> i = exit)"

definition ping_check ::
  "('w, 'f, 'p, 'e, 'c) client_env \<Rightarrow> ip_addr \<Rightarrow> string option \<Rightarrow> ('w, kernel_interface_error, bool) rio" where
  "ping_check E ip iface = (\<lambda>w. Some (ce_ping E ip iface w))"

definition is_tunnel_working ::
  "('w, 'f, 'p, 'e, 'c) client_env \<Rightarrow> exit_server \<Rightarrow> exit_server option \<Rightarrow> ('w, 'p, 'e, bool) cio" where
  "is_tunnel_working E exit current_exit =
     (case (current_exit, is_selected exit current_exit) of
        (Some current, True) \<Rightarrow>
          (case general_details (es_info current) of
             Some details \<Rightarrow>
               rbind (on_cworld (rattempt (ping_check E (ed_server_internal_ip details) (Some ''wg_exit'')))) (\<lambda>r.
                 rret (case r of Inr b \<Rightarrow> b | Inl _ \<Rightarrow> False))
           | None \<Rightarrow> rret False)
      | _ \<Rightarrow> rret False)"

definition babel_table :: "('w, 'f, 'p, 'e, 'c) client_env \<Rightarrow> ('w, 'p, 'e, 'f route list) cio" where
  "babel_table E =
     rbind (cget (\<lambda>n. babel_port (network (cl_common (cn_settings n))))) (\<lambda>port.
       on_cworld (rmap_err (\<lambda>_. ClientMiscStringError)
         (rbind (open_babel_stream (ce_world E) port) (\<lambda>_. parse_routes (ce_world E) (ce_float E) (ce_network E)))))"

definition exit_info_entry ::
  "('w, 'f, 'p, 'e, 'c) client_env \<Rightarrow> 'f route list \<Rightarrow> exit_server option \<Rightarrow> ip_addr \<times> exit_server \<Rightarrow> ('w, 'p, 'e, exit_info) cio" where
  "exit_info_entry E routes current_exit entry =
     (case entry of (route_ip, exit) \<Rightarrow>
       rbind (rlift (case do_we_have_route route_ip routes of
                Inl e \<Rightarrow> Inl (ClientCommonError (BabelMonitorError e)) | Inr b \<Rightarrow> Inr b)) (\<lambda>have_route.
       rbind (if have_route then on_cworld (kernel_error (ping_check E route_ip None)) else rret False) (\<lambda>reachable.
       rbind (if have_route \<and> is_selected exit current_exit then is_tunnel_working E exit current_exit else rret False) (\<lambda>working.
         rret \<lparr>in_nickname = show_ip route_ip, in_exit_settings = exit, in_is_selected = is_selected exit current_exit,
               in_have_route = have_route, in_is_reachable = reachable, in_is_tunnel_working = working\<rparr>))))"

fun exit_info_entries ::
  "('w, 'f, 'p, 'e, 'c) client_env \<Rightarrow> 'f route list \<Rightarrow> exit_server option \<Rightarrow> (ip_addr \<times> exit_server) list
     \<Rightarrow> ('w, 'p, 'e, exit_info list) cio" where
  "exit_info_entries E routes current [] = rret []"
| "exit_info_entries E routes current (e # es) =
     rbind (exit_info_entry E routes current e) (\<lambda>i.
     rbind (exit_info_entries E routes current es) (\<lambda>is. rret (i # is)))"

definition exits_in_order :: "('w, 'f, 'p, 'e, 'c) client_env \<Rightarrow> (ip_addr \<rightharpoonup> exit_server) \<Rightarrow> (ip_addr \<times> exit_server) list" where
  "exits_in_order E exits = List.map_filter (\<lambda>ip. map_option (Pair ip) (exits ip)) (ce_order E exits)"

definition dashboard_get_exit_info :: "('w, 'f, 'p, 'e, 'c) client_env \<Rightarrow> ('w, 'p, 'e, exit_info list) cio" where
  "dashboard_get_exit_info E =
     rbind (babel_table E) (\<lambda>routes.
     rbind (cget (\<lambda>n. cl_exits (cn_settings n))) (\<lambda>exits.
     rbind (cget get_selected_exit_server) (\<lambda>current_exit.
       exit_info_entries E routes current_exit (exits_in_order E exits))))"

text \<open>Saving the configuration to the file is not part of the state; a failure to save is only logged.\<close>

definition add_exits :: "(ip_addr \<rightharpoonup> exit_server) \<Rightarrow> ('w, 'p, 'e, ip_addr \<rightharpoonup> exit_server) cio" where
  "add_exits new_exits =
     rbind (cmodify (\<lambda>n. n\<lparr>cn_settings := (cn_settings n)\<lparr>cl_exits := cl_exits (cn_settings n) ++ new_exits\<rparr>\<rparr>)) (\<lambda>_.
       cget (\<lambda>n. cl_exits (cn_settings n)))"

text \<open>The answers are \<open>200\<close>, or \<open>400\<close> as \<open>False\<close>.\<close>

definition reset_exit :: "('w, 'f, 'p, 'e, 'c) client_env \<Rightarrow> ip_addr \<Rightarrow> ('w, 'p, 'e, bool) cio" where
  "reset_exit E exit_name =
     rbind (cget (\<lambda>n. cl_exits (cn_settings n) exit_name)) (\<lambda>r. case r of
        None \<Rightarrow> rret False
      | Some _ \<Rightarrow>
          rbind (on_cworld (rignore (del_interface (ce_world E) ''wg_exit''))) (\<lambda>_.
          rbind (cmodify (set_exit_info exit_name New)) (\<lambda>_. rret True)))"

definition select_exit :: "ip_addr \<Rightarrow> ('w, 'p, 'e, bool) cio" where
  "select_exit exit_name =
     rbind (cget (\<lambda>n. cl_exits (cn_settings n) exit_name)) (\<lambda>r. case r of
        None \<Rightarrow> rret False
      | Some _ \<Rightarrow>
          rbind (cmodify (\<lambda>n. n\<lparr>cn_switcher := select_exit_id exit_name (cn_switcher n)\<rparr>)) (\<lambda>_. rret True))"

definition register_to_exit :: "('w, 'f, 'p, 'e, 'c) client_env \<Rightarrow> ('w, 'p, 'e, bool) cio" where
  "register_to_exit E = rbind (rattempt (exit_setup_request E None)) (\<lambda>r. rret (case r of Inl _ \<Rightarrow> False | Inr _ \<Rightarrow> True))"

definition verify_on_exit_with_code :: "('w, 'f, 'p, 'e, 'c) client_env \<Rightarrow> string \<Rightarrow> ('w, 'p, 'e, bool) cio" where
  "verify_on_exit_with_code E code =
     rbind (rattempt (exit_setup_request E (Some code))) (\<lambda>r. rret (case r of Inl _ \<Rightarrow> False | Inr _ \<Rightarrow> True))"

end
