(* ===== verification/Switcher_Properties.thy ===== *)
theory Switcher_Properties
  imports Exit_Switcher
begin

text \<open>
  Properties of the exit switcher: it never panics, it moves to the best exit when the current one is down, it leaves an
  exit that is up at most once in a quarter of an hour, and the exit it then moves to is the best of one tick.
\<close>

section \<open>The scan of the routes\<close>

text \<open>The exits a tick considers, with their metrics.\<close>

definition considered :: "(ip_addr \<times> 'f route) list \<Rightarrow> ip_addr set \<Rightarrow> identity list \<Rightarrow> (ip_addr \<times> u16) list" where
  "considered routes bl exits = List.map_filter (\<lambda>e.
     case map_of routes (mesh_ip e) of
       None \<Rightarrow> None
     | Some r \<Rightarrow> if net_ip (rt_prefix r) \<in> bl then None else Some (net_ip (rt_prefix r), rt_metric r)) exits"

abbreviation infinite_metric :: u16 where
  "infinite_metric \<equiv> - 1"

definition current_up :: "ip_addr option \<Rightarrow> u16 \<Rightarrow> (ip_addr \<times> u16) list \<Rightarrow> bool" where
  "current_up cur initial cs \<longleftrightarrow>
     initial \<noteq> infinite_metric \<and> (\<exists>(ip, m) \<in> set cs. cur = Some ip \<and> m \<noteq> infinite_metric)"

lemma scan_considered:
  "fold (scan_exit routes bl cur tr initial) exits sc
     = fold (\<lambda>(ip, m). scan_route cur tr initial ip m) (considered routes bl exits) sc"
proof (induction exits arbitrary: sc)
  case (Cons e es)
  then show ?case
    by (cases "map_of routes (mesh_ip e)") (simp_all add: scan_exit_def considered_def List.map_filter_simps Let_def)
qed (simp add: considered_def List.map_filter_simps)

lemma scan_down:
  "sc_current_exit_down (fold (\<lambda>(ip, m). scan_route cur tr initial ip m) cs sc)
     \<longleftrightarrow> sc_current_exit_down sc \<and> \<not> current_up cur initial cs"
proof (induction cs arbitrary: sc)
  case (Cons c cs)
  obtain ip m where c: "c = (ip, m)" by (cases c)
  have "sc_current_exit_down (scan_route cur tr initial ip m sc) \<longleftrightarrow> sc_current_exit_down sc \<and> \<not> current_up cur initial [c]"
    unfolding c by (simp add: scan_route_def current_up_def Let_def) blast
  moreover have "current_up cur initial (c # cs) \<longleftrightarrow> current_up cur initial [c] \<or> current_up cur initial cs"
    unfolding current_up_def by auto
  ultimately show ?case using Cons.IH by (simp add: c)
qed (simp add: current_up_def)

lemma scan_all_blacklisted:
  "sc_all_exits_blacklisted (fold (\<lambda>(ip, m). scan_route cur tr initial ip m) cs sc)
     \<longleftrightarrow> sc_all_exits_blacklisted sc \<and> cs = []"
proof (induction cs arbitrary: sc)
  case (Cons c cs)
  then show ?case by (cases c) (simp add: scan_route_def Let_def)
qed simp

lemma observe_dom: "dom (observe_cluster_metrics ip met em) = insert ip (dom em)"
  by (cases "em ip") (auto simp: observe_cluster_metrics_def Let_def)

lemma scan_dom:
  "dom (sc_exit_map (fold (\<lambda>(ip, m). scan_route cur tr initial ip m) cs sc)) = fst ` set cs \<union> dom (sc_exit_map sc)"
proof (induction cs arbitrary: sc)
  case (Cons c cs)
  then show ?case by (cases c) (simp add: scan_route_def Let_def observe_dom)
qed simp

text \<open>The best exit has the least metric, and there is none exactly when every metric is infinite.\<close>

lemma scan_best:
  fixes cs :: "(ip_addr \<times> u16) list" and cur tr :: "ip_addr option" and initial :: u16
  defines "res sc \<equiv> fold (\<lambda>(ip, m). scan_route cur tr initial ip m) cs sc"
  shows "sc_best_metric (res sc) \<le> sc_best_metric sc \<and> (\<forall>(ip, m) \<in> set cs. sc_best_metric (res sc) \<le> m)
    \<and> ((\<exists>ip. sc_best_exit (res sc) = Some ip \<and> (ip, sc_best_metric (res sc)) \<in> set cs
          \<and> sc_best_metric (res sc) < sc_best_metric sc)
       \<or> sc_best_exit (res sc) = sc_best_exit sc \<and> sc_best_metric (res sc) = sc_best_metric sc)"
  unfolding res_def
proof (induction cs arbitrary: sc)
  case (Cons c cs)
  obtain ip m where c: "c = (ip, m)" by (cases c)
  let ?sc = "scan_route cur tr initial ip m sc"
  have "sc_best_metric ?sc = min m (sc_best_metric sc)"
    and "m < sc_best_metric sc \<Longrightarrow> sc_best_exit ?sc = Some ip" and "\<not> m < sc_best_metric sc \<Longrightarrow> sc_best_exit ?sc = sc_best_exit sc"
    by (auto simp: scan_route_def Let_def min_def)
  with Cons.IH [of ?sc] show ?case unfolding c
    by (cases "m < sc_best_metric sc") (auto simp: min_def split: if_splits)
qed simp

section \<open>One tick\<close>

text \<open>What a tick works with: the metric of the selected exit, and the exits considered.\<close>

definition adjusted_metric :: "switcher \<Rightarrow> u16" where
  "adjusted_metric s = unwrap_or (selected_id_metric (sw_selected s)) infinite_metric"

definition tick_exits :: "identity list \<Rightarrow> (ip_addr \<times> 'f route) list \<Rightarrow> switcher \<Rightarrow> (ip_addr \<times> u16) list" where
  "tick_exits exits routes s = considered routes (blacklisted_exits (sw_blacklist s)) exits"

definition exit_up :: "identity list \<Rightarrow> (ip_addr \<times> 'f route) list \<Rightarrow> switcher \<Rightarrow> bool" where
  "exit_up exits routes s \<longleftrightarrow> current_up (get_current_exit s) (adjusted_metric s) (tick_exits exits routes s)"

definition tick_metrics ::
  "identity list \<Rightarrow> (ip_addr \<times> 'f route) list \<Rightarrow> switcher \<Rightarrow> exit_metrics \<times> exit_blacklist \<times> (ip_addr \<rightharpoonup> exit_tracker)" where
  "tick_metrics exits routes s = get_exit_metrics routes (get_current_exit s) (tracking_exit (sw_selected s)) (get_current_exit s)
     (adjusted_metric s) exits (sw_blacklist s) (sw_tracker s)"

lemma tick_metrics_facts:
  assumes "tick_metrics exits routes s = (m, bl, em)"
  shows "is_exit_down m \<longleftrightarrow> \<not> exit_up exits routes s" and "cur_exit m = get_current_exit s"
    and "em_tracking_exit m = tracking_exit (sw_selected s)"
    and "fst ` set (tick_exits exits routes s) \<subseteq> dom em"
    and "best_exit m = None \<longleftrightarrow> \<not> exit_up exits routes s \<and> (\<forall>(ip, k) \<in> set (tick_exits exits routes s). k = infinite_metric)"
    and "best_exit m = Some b \<Longrightarrow>
      (b, best_exit_met m) \<in> set (tick_exits exits routes s) \<and> (\<forall>(ip, k) \<in> set (tick_exits exits routes s). best_exit_met m \<le> k)
      \<or> exit_up exits routes s \<and> get_current_exit s = Some b \<and> best_exit_met m = adjusted_metric s"
proof -
  let ?cs = "tick_exits exits routes s"
  let ?sc = "fold (\<lambda>(ip, k). scan_route (get_current_exit s) (tracking_exit (sw_selected s)) (adjusted_metric s) ip k) ?cs
    (scan_start (sw_tracker s))"
  have m: "m = \<lparr>is_exit_down = sc_current_exit_down ?sc, cur_exit = get_current_exit s,
      cur_exit_babel_met = sc_current_exit_metric ?sc, em_tracking_exit = tracking_exit (sw_selected s),
      tracking_met = sc_tracking_metric ?sc,
      best_exit = (if \<not> sc_current_exit_down ?sc \<and> adjusted_metric s < sc_best_metric ?sc then get_current_exit s else sc_best_exit ?sc),
      best_exit_met = (if \<not> sc_current_exit_down ?sc \<and> adjusted_metric s < sc_best_metric ?sc then adjusted_metric s else sc_best_metric ?sc)\<rparr>"
    and em: "em = set_last_added_to_zero (sc_exit_map ?sc)"
    using assms by (auto simp: tick_metrics_def get_exit_metrics_def scan_considered tick_exits_def Let_def)
  have down: "sc_current_exit_down ?sc \<longleftrightarrow> \<not> exit_up exits routes s"
    by (simp add: scan_down exit_up_def scan_start_def)
  have cur: "exit_up exits routes s \<Longrightarrow> get_current_exit s \<noteq> None"
    by (auto simp: exit_up_def current_up_def)
  have best: "(\<forall>(ip, k) \<in> set ?cs. sc_best_metric ?sc \<le> k)
    \<and> ((\<exists>ip. sc_best_exit ?sc = Some ip \<and> (ip, sc_best_metric ?sc) \<in> set ?cs \<and> sc_best_metric ?sc < infinite_metric)
       \<or> sc_best_exit ?sc = None \<and> sc_best_metric ?sc = infinite_metric)"
    using scan_best [of "get_current_exit s" "tracking_exit (sw_selected s)" "adjusted_metric s" ?cs "scan_start (sw_tracker s)"]
    by (auto simp: scan_start_def)
  show "is_exit_down m \<longleftrightarrow> \<not> exit_up exits routes s" using m down by simp
  show "cur_exit m = get_current_exit s" "em_tracking_exit m = tracking_exit (sw_selected s)" using m by simp_all
  show "fst ` set ?cs \<subseteq> dom em" unfolding em set_last_added_to_zero_def using scan_dom by (auto simp: dom_def)
  have inf: "k \<le> infinite_metric" "infinite_metric \<le> k \<longleftrightarrow> k = infinite_metric" for k :: u16
    by (auto simp: word_order.extremum_unique)
  show "best_exit m = None \<longleftrightarrow> \<not> exit_up exits routes s \<and> (\<forall>(ip, k) \<in> set ?cs. k = infinite_metric)"
  proof (cases "exit_up exits routes s")
    case True
    then have "\<exists>(ip, k) \<in> set ?cs. k \<noteq> infinite_metric" by (auto simp: exit_up_def current_up_def)
    then have "sc_best_exit ?sc \<noteq> None" using best inf by fastforce
    then show ?thesis using True m cur by auto
  next
    case False
    then show ?thesis using m down best inf by fastforce
  qed
  show "(b, best_exit_met m) \<in> set ?cs \<and> (\<forall>(ip, k) \<in> set ?cs. best_exit_met m \<le> k)
      \<or> exit_up exits routes s \<and> get_current_exit s = Some b \<and> best_exit_met m = adjusted_metric s"
    if "best_exit m = Some b"
    using that m down best by (auto split: if_splits)
qed

section \<open>The code of a tick\<close>

lemma METRIC_ENTRIES_eq: "METRIC_ENTRIES = 180"
  by (simp add: METRIC_ENTRIES_def FAST_LOOP_SPEED_def)

text \<open>The exit that is tracked is the best one.\<close>

definition follow ::
  "ip_addr \<Rightarrow> ip_addr \<Rightarrow> u16 \<Rightarrow> u16 list \<Rightarrow> (ip_addr \<rightharpoonup> exit_tracker) \<Rightarrow> exit_switching_code \<times> u16 list \<times> (ip_addr \<rightharpoonup> exit_tracker)" where
  "follow current tracked met vec em =
     (if length vec = METRIC_ENTRIES
      then (if current = tracked then ContinueCurrentReset else SwitchExit, [met], reset_exit_tracking em)
      else (if current = tracked then ContinueCurrent else ContinueTracking, vec @ [met], em))"

lemma update_same:
  "cur_exit m = Some c \<Longrightarrow> best_exit m = Some b \<Longrightarrow> em_tracking_exit m \<in> {None, Some b}
     \<Longrightarrow> update_metric_value m vec em = Some (follow c b (best_exit_met m) vec em)"
  by (subst update_metric_value.simps) (auto simp: follow_def Let_def)

lemma update_other:
  assumes "cur_exit m = Some c" "best_exit m = Some b" "em_tracking_exit m = Some t" "t \<noteq> b"
  shows "update_metric_value m vec em = map_option (\<lambda>w. if w
    then (ResetTracking, [best_exit_met m], reset_exit_tracking em) else follow c t (tracking_met m) vec em)
    (worth_switching_tracking_exit vec b em)"
proof -
  let ?m = "m\<lparr>em_tracking_exit := Some t, best_exit := Some t, best_exit_met := tracking_met m\<rparr>"
  have "update_metric_value ?m vec em = Some (follow c t (tracking_met m) vec em)"
    using update_same [of ?m c t] assms(1) by simp
  then show ?thesis
    by (subst update_metric_value.simps) (use assms in \<open>auto simp: Let_def split: option.splits bool.splits\<close>)
qed

text \<open>What the rest of the tick needs to know of the code.\<close>

lemma update_facts:
  assumes "cur_exit m = None \<Longrightarrow> vec = []" and "best_exit m = Some b" and "b \<in> dom em" and "length vec \<le> METRIC_ENTRIES"
  obtains code v em' where "update_metric_value m vec em = Some (code, v, em')"
    and "length v \<le> METRIC_ENTRIES" and "length v \<le> Suc (length vec)"
    and "code = SwitchExit \<Longrightarrow> length vec = METRIC_ENTRIES \<and> length v = 1"
    and "cur_exit m \<noteq> None \<Longrightarrow> code \<noteq> InitialExitSetup \<and> v \<noteq> []"
proof (cases "cur_exit m")
  case None
  then have "update_metric_value m vec em = Some (InitialExitSetup, [], em)"
    using assms(1) by (subst update_metric_value.simps) simp
  then show thesis by (rule that) (simp_all add: None)
next
  case (Some c)
  have f: "length (fst (snd (follow c t k vec em))) \<le> METRIC_ENTRIES
      \<and> length (fst (snd (follow c t k vec em))) \<le> Suc (length vec)
      \<and> (fst (follow c t k vec em) = SwitchExit \<longrightarrow> length vec = METRIC_ENTRIES \<and> length (fst (snd (follow c t k vec em))) = 1)
      \<and> fst (follow c t k vec em) \<noteq> InitialExitSetup \<and> fst (snd (follow c t k vec em)) \<noteq> []" for t k
    using assms(4) by (simp add: follow_def METRIC_ENTRIES_eq)
  have "\<exists>r. update_metric_value m vec em = Some r \<and> (r = (ResetTracking, [best_exit_met m], reset_exit_tracking em)
      \<or> (\<exists>t k. r = follow c t k vec em))"
  proof (cases "em_tracking_exit m \<in> {None, Some b}")
    case True
    then show ?thesis using update_same [OF Some assms(2)] by blast
  next
    case False
    then obtain t where t: "em_tracking_exit m = Some t" "t \<noteq> b" by auto
    have "worth_switching_tracking_exit vec b em \<noteq> None"
      using assms(3) by (auto simp: worth_switching_tracking_exit_def Let_def split: option.splits)
    then obtain w where "worth_switching_tracking_exit vec b em = Some w" by blast
    then show ?thesis unfolding update_other [OF Some assms(2) t] by (cases w) auto
  qed
  then obtain r where r: "update_metric_value m vec em = Some r"
    and k: "r = (ResetTracking, [best_exit_met m], reset_exit_tracking em) \<or> (\<exists>t k. r = follow c t k vec em)" by blast
  show thesis
    by (rule that [of "fst r" "fst (snd r)" "snd (snd r)"]) (use r k f in \<open>auto simp: METRIC_ENTRIES_eq\<close>)
qed

section \<open>The switcher does not panic\<close>

definition sw_ok :: "switcher \<Rightarrow> bool" where
  "sw_ok s \<longleftrightarrow> (get_current_exit s = None \<longrightarrow> sw_metrics s = []) \<and> length (sw_metrics s) \<le> METRIC_ENTRIES"

lemma set_best_exit_tick:
  assumes "routes \<noteq> []" and "tick_metrics exits routes s = (m, bl, em)"
  shows "set_best_exit exits routes s =
    (let s1 = s\<lparr>sw_blacklist := bl, sw_tracker := em\<rparr> in
     case best_exit m of
       None \<Rightarrow> Some (Err ClientMiscStringError, s1)
     | Some best \<Rightarrow>
       (case update_metric_value m (sw_metrics s) em of
          None \<Rightarrow> None
        | Some (exit_code, metric_vec, exit_map') \<Rightarrow>
            if is_exit_down m then
              Some (Ok best, s1\<lparr>sw_selected := \<lparr>selected_id = Some best, selected_id_metric = Some (best_exit_met m),
                  selected_id_degradation = None, tracking_exit = Some best\<rparr>,
                sw_metrics := [], sw_tracker := reset_exit_tracking exit_map'\<rparr>)
            else map_option (\<lambda>(ip, sel'). (Ok ip, s1\<lparr>sw_selected := sel', sw_metrics := metric_vec, sw_tracker := exit_map'\<rparr>))
                   (set_exit_state exit_code m metric_vec (sw_selected s))))"
  using assms unfolding set_best_exit_def tick_metrics_def get_current_exit_def adjusted_metric_def
  by (simp add: Let_def split: option.splits)

lemma best_in_tracker:
  assumes "tick_metrics exits routes s = (m, bl, em)" and "best_exit m = Some b"
  shows "b \<in> dom em"
  using tick_metrics_facts(6) [OF assms] tick_metrics_facts(4) [OF assms(1)]
  by (force simp: exit_up_def current_up_def)

lemma exit_state_total:
  assumes "cur_exit m = Some c" and "code \<noteq> InitialExitSetup" and "vec \<noteq> []" and "selected_id_metric sel \<noteq> None"
    and "best_exit m = Some b"
  obtains ip sel' where "set_exit_state code m vec sel = Some (ip, sel')"
    and "selected_id sel' = (if code = SwitchExit then Some b else selected_id sel)"
    and "ip = (if code = SwitchExit then b else c)"
proof -
  from assms(4) obtain k where k: "selected_id_metric sel = Some k" by blast
  have a: "\<exists>x. calculate_average vec = Some x" using assms(3) by (simp add: calculate_average_def)
  have "\<exists>ip sel'. set_exit_state code m vec sel = Some (ip, sel')
      \<and> selected_id sel' = (if code = SwitchExit then Some b else selected_id sel) \<and> ip = (if code = SwitchExit then b else c)"
    using assms k a by (cases code) (auto simp: set_exit_state_def split: option.splits)
  then show thesis using that by blast
qed

text \<open>The result of a tick, by cases.\<close>

lemma tick_result:
  assumes "sw_ok s" and "routes \<noteq> []"
  obtains (none) s' where "set_best_exit exits routes s = Some (Err ClientMiscStringError, s')"
      and "sw_selected s' = sw_selected s" and "sw_metrics s' = sw_metrics s" and "\<not> exit_up exits routes s"
      and "\<forall>(ip, k) \<in> set (tick_exits exits routes s). k = infinite_metric"
  | (down) b k s' where "set_best_exit exits routes s = Some (Ok b, s')" and "\<not> exit_up exits routes s"
      and "get_current_exit s' = Some b" and "sw_metrics s' = []" and "selected_id_metric (sw_selected s') = Some k"
      and "(b, k) \<in> set (tick_exits exits routes s)" and "\<forall>(ip, j) \<in> set (tick_exits exits routes s). k \<le> j"
  | (up) m bl em code vec em' c b ip s' where "set_best_exit exits routes s = Some (Ok ip, s')" and "exit_up exits routes s"
      and "tick_metrics exits routes s = (m, bl, em)" and "best_exit m = Some b"
      and "update_metric_value m (sw_metrics s) em = Some (code, vec, em')"
      and "get_current_exit s = Some c" and "get_current_exit s' = (if code = SwitchExit then Some b else Some c)"
      and "ip = (if code = SwitchExit then b else c)" and "sw_metrics s' = vec"
      and "length vec \<le> METRIC_ENTRIES" and "length vec \<le> Suc (length (sw_metrics s))"
      and "code = SwitchExit \<Longrightarrow> length (sw_metrics s) = METRIC_ENTRIES \<and> length vec = 1"
proof -
  obtain m bl em where t: "tick_metrics exits routes s = (m, bl, em)" by (cases "tick_metrics exits routes s")
  note facts = tick_metrics_facts [OF t] and run = set_best_exit_tick [OF assms(2) t]
  show thesis
  proof (cases "best_exit m")
    case None
    then show thesis using run facts(5) none by (simp add: Let_def)
  next
    case (Some b)
    obtain code v em' where u: "update_metric_value m (sw_metrics s) em = Some (code, v, em')"
      and v: "length v \<le> METRIC_ENTRIES" "length v \<le> Suc (length (sw_metrics s))"
        "code = SwitchExit \<Longrightarrow> length (sw_metrics s) = METRIC_ENTRIES \<and> length v = 1"
        "cur_exit m \<noteq> None \<Longrightarrow> code \<noteq> InitialExitSetup \<and> v \<noteq> []"
    proof (rule update_facts [of m "sw_metrics s" b em])
      show "cur_exit m = None \<Longrightarrow> sw_metrics s = []" using assms(1) facts(2) by (simp add: sw_ok_def)
      show "length (sw_metrics s) \<le> METRIC_ENTRIES" using assms(1) by (simp add: sw_ok_def)
    qed (use Some best_in_tracker [OF t Some] in blast)+
    show thesis
    proof (cases "exit_up exits routes s")
      case False
      then show thesis
        using down [of b _ "best_exit_met m"] run Some u facts(1) facts(6) [OF Some]
        by (simp add: Let_def get_current_exit_def)
    next
      case True
      then obtain c where c: "get_current_exit s = Some c" by (auto simp: exit_up_def current_up_def)
      have "selected_id_metric (sw_selected s) \<noteq> None"
        using True by (cases "selected_id_metric (sw_selected s)") (auto simp: exit_up_def current_up_def adjusted_metric_def)
      then obtain ip sel' where e: "set_exit_state code m v (sw_selected s) = Some (ip, sel')"
        "selected_id sel' = (if code = SwitchExit then Some b else selected_id (sw_selected s))"
        "ip = (if code = SwitchExit then b else c)"
        using exit_state_total [of m c code v "sw_selected s" b] v(4) facts(2) c Some by auto
      then show thesis
        using up [of ip _ m bl em b code v em' c] True t Some u c v(1-3) run facts(1)
        by (simp add: Let_def get_current_exit_def)
    qed
  qed
qed

text \<open>The life of the switcher: ticks with any exits and routes, selections in the dashboard, and changes of the blacklist.
  The number counts the ticks.\<close>

inductive switching :: "nat \<Rightarrow> switcher \<Rightarrow> switcher \<Rightarrow> bool" where
  sw_start: "switching 0 s s"
| sw_tick: "switching n s t \<Longrightarrow> set_best_exit exits (routes :: (ip_addr \<times> nat route) list) t = Some (r, t') \<Longrightarrow> switching (Suc n) s t'"
| sw_select: "switching n s t \<Longrightarrow> switching n s (select_exit_id ip t)"
| sw_blacklist: "switching n s t \<Longrightarrow> switching n s (t\<lparr>sw_blacklist := b\<rparr>)"

lemma tick_returns:
  assumes "sw_ok s"
  shows "\<exists>r s'. set_best_exit exits routes s = Some (r, s')"
proof (cases "routes = []")
  case True
  then show ?thesis by (simp add: set_best_exit_def)
next
  case False
  with assms show ?thesis by (cases rule: tick_result [where exits = exits]) blast+
qed

lemma tick_keeps_ok:
  assumes "sw_ok s" and "set_best_exit exits routes s = Some (r, s')"
  shows "sw_ok s' \<and> length (sw_metrics s') \<le> Suc (length (sw_metrics s))"
proof (cases "routes = []")
  case True
  then show ?thesis using assms by (simp add: set_best_exit_def)
next
  case False
  with assms(1) show ?thesis
    by (cases rule: tick_result [where exits = exits]) (use assms in \<open>auto simp: sw_ok_def get_current_exit_def split: if_splits\<close>)
qed

lemma switching_facts:
  "switching n s t \<Longrightarrow> sw_ok s \<Longrightarrow> sw_ok t \<and> length (sw_metrics t) \<le> length (sw_metrics s) + n"
proof (induction rule: switching.induct)
  case (sw_tick n s t exits routes r t')
  then show ?case using tick_keeps_ok [OF _ sw_tick.hyps(2)] by fastforce
qed (auto simp: sw_ok_def get_current_exit_def select_exit_id_def)

text \<open>C35: The exit switcher never panics. Whatever exits and routes the ticks of a client see, in any order with
  selections in the dashboard and changes of the blacklist, each tick returns: the panics and failed expectations of the
  code are not reached, and the vector of metrics never outgrows its 180 entries.\<close>

theorem switcher_never_panics:
  assumes "switching n switcher_new s"
  shows "length (sw_metrics s) \<le> 180 \<and> (\<exists>r s'. set_best_exit exits (routes :: (ip_addr \<times> nat route) list) s = Some (r, s'))"
proof -
  have "sw_ok switcher_new" by (simp add: sw_ok_def switcher_new_def)
  with switching_facts [OF assms] have ok: "sw_ok s" by blast
  then show ?thesis using tick_returns [OF ok] by (simp add: sw_ok_def METRIC_ENTRIES_eq)
qed

lemma exit_upI:
  assumes "get_current_exit s = Some ip" and "selected_id_metric (sw_selected s) = Some k" and "k \<noteq> infinite_metric"
    and "e \<in> set exits" and "map_of routes (mesh_ip e) = Some rt" and "net_ip (rt_prefix rt) = ip"
    and "rt_metric rt \<noteq> infinite_metric" and "ip \<notin> blacklisted_exits (sw_blacklist s)"
  shows "exit_up exits routes s"
proof -
  have "(ip, rt_metric rt) \<in> set (tick_exits exits routes s)"
    using assms(4-6,8) by (force simp: tick_exits_def considered_def List.map_filter_def)
  then show ?thesis using assms(1-3,7) by (auto simp: exit_up_def current_up_def adjusted_metric_def)
qed

text \<open>C36: The client does not flap between exits that work. Let a client have just moved to an exit, so that at most one
  value is in the vector, and let ticks with any routes, selections in the dashboard and changes of the blacklist follow.
  If a tick then leaves an exit that is in the list, has a route with a finite metric, is not blacklisted and has a finite
  metric stored by an earlier tick, at least 179 ticks came before it, which with the interval of five seconds is a quarter of
  an hour. The four conditions are needed: an exit that fails one of them counts as down and is left in the next tick, so a
  blacklisted exit is left at once, and so is one just selected in the dashboard, for which no metric is stored.\<close>

theorem exits_do_not_flap:
  assumes "sw_ok s" and "length (sw_metrics s) \<le> 1" and "switching n s t"
    and "set_best_exit exits (routes :: (ip_addr \<times> nat route) list) t = Some (r, t')"
    and "get_current_exit t = Some ip" and "selected_id_metric (sw_selected t) = Some k" and "k \<noteq> infinite_metric"
    and "e \<in> set exits" and "map_of routes (mesh_ip e) = Some rt" and "net_ip (rt_prefix rt) = ip"
    and "rt_metric rt \<noteq> infinite_metric" and "ip \<notin> blacklisted_exits (sw_blacklist t)"
    and "get_current_exit t' \<noteq> Some ip"
  shows "179 \<le> n"
proof -
  from switching_facts [OF assms(3,1)] have ok: "sw_ok t" and l: "length (sw_metrics t) \<le> length (sw_metrics s) + n" by auto
  have u: "exit_up exits routes t" using assms(5-12) by (rule exit_upI)
  have "routes \<noteq> []" using assms(9) by auto
  with ok show ?thesis
  proof (cases rule: tick_result [where exits = exits])
    case (up m bl em code vec em' c b ip s')
    then have "code = SwitchExit" using assms(4,5,13) by (auto split: if_splits)
    with up show ?thesis using l assms(2) by (simp add: METRIC_ENTRIES_eq)
  qed (use assms u in auto)
qed

text \<open>C37: Failover. When the route to the current exit is gone, or no exit is selected yet, a tick moves to the exit with the
  least metric among the exits of the list that have a route and are not blacklisted, provided one of them can be
  reached at all; tracking starts afresh.\<close>

theorem failover_selects_best:
  assumes "switching n switcher_new s" and "\<not> exit_up exits (routes :: (ip_addr \<times> nat route) list) s"
    and "(j, k) \<in> set (tick_exits exits routes s)" and "k \<noteq> infinite_metric"
  shows "\<exists>ip m s'. set_best_exit exits routes s = Some (Ok ip, s') \<and> get_current_exit s' = Some ip \<and> sw_metrics s' = []
    \<and> (ip, m) \<in> set (tick_exits exits routes s) \<and> (\<forall>(i, l) \<in> set (tick_exits exits routes s). m \<le> l)"
proof -
  have "sw_ok switcher_new" by (simp add: sw_ok_def switcher_new_def)
  with switching_facts [OF assms(1)] have ok: "sw_ok s" by blast
  have "routes \<noteq> []" using assms(3) by (auto simp: tick_exits_def considered_def List.map_filter_def split: option.splits)
  with ok show ?thesis
    by (cases rule: tick_result [where exits = exits]) (use assms in \<open>blast | fastforce\<close>)+
qed

text \<open>C38: An exit selected in the dashboard is given up in the next tick. The selection stores no metric, which counts as
  the exit being down, so the next tick moves to the exit with the least metric, whichever one was selected.\<close>

theorem manual_selection_is_overridden:
  assumes "switching n switcher_new s" and "(j, k) \<in> set (tick_exits exits routes s)" and "k \<noteq> infinite_metric"
    and "set_best_exit exits (routes :: (ip_addr \<times> nat route) list) (select_exit_id chosen s) = Some (r, s')"
  shows "\<exists>ip m. get_current_exit s' = Some ip \<and> (ip, m) \<in> set (tick_exits exits routes s)
    \<and> (\<forall>(i, l) \<in> set (tick_exits exits routes s). m \<le> l)"
proof -
  have "sw_ok switcher_new" by (simp add: sw_ok_def switcher_new_def)
  with switching_facts [OF sw_select [OF assms(1)]] have ok: "sw_ok (select_exit_id chosen s)" by blast
  have e: "tick_exits exits routes (select_exit_id chosen s) = tick_exits exits routes s"
    by (simp add: tick_exits_def select_exit_id_def)
  have d: "\<not> exit_up exits routes (select_exit_id chosen s)"
    by (simp add: exit_up_def current_up_def adjusted_metric_def select_exit_id_def)
  have "routes \<noteq> []" using assms(2) by (auto simp: tick_exits_def considered_def List.map_filter_def split: option.splits)
  with ok show ?thesis
    by (cases rule: tick_result [where exits = exits]) (use assms d in \<open>fastforce simp: e\<close>)+
qed

text \<open>C39: The exit the client moves to is the best one of the last tick, not the one it tracked. When the vector is full, the
  tracked exit is not the current one, and some other exit is the best in this very tick without being worth tracking,
  the code for the switch comes from the tracked exit, but the exit selected is that other one, even if it was
  seen for the first time.\<close>

theorem momentary_best_is_selected:
  assumes "routes \<noteq> []" and "exit_up exits routes s" and "tick_metrics exits routes s = (m, bl, em)"
    and "get_current_exit s = Some c" and "tracking_exit (sw_selected s) = Some t" and "c \<noteq> t"
    and "best_exit m = Some b" and "b \<noteq> t" and "length (sw_metrics s) = METRIC_ENTRIES"
    and "worth_switching_tracking_exit (sw_metrics s) b em = Some False"
  shows "\<exists>s'. set_best_exit exits routes s = Some (Ok b, s') \<and> get_current_exit s' = Some b"
proof -
  note facts = tick_metrics_facts [OF assms(3)]
  have "update_metric_value m (sw_metrics s) em = Some (follow c t (tracking_met m) (sw_metrics s) em)"
    using update_other [of m c b t] assms facts(2,3) by simp
  then show ?thesis
    using set_best_exit_tick [OF assms(1,3)] assms(2,6,7,9) facts(1)
    by (simp add: follow_def set_exit_state_def get_current_exit_def Let_def)
qed

section \<open>Samples\<close>

text \<open>Three exits, of which the second is better than the first, and the third is better still.\<close>

definition sw_exit :: "u128 \<Rightarrow> identity" where
  "sw_exit a = \<lparr>mesh_ip = V6 a, eth_address = 0, wg_public_key = 0\<rparr>"

definition sw_route :: "u128 \<Rightarrow> u16 \<Rightarrow> ip_addr \<times> nat route" where
  "sw_route a metric = (V6 a, \<lparr>rt_id = [], rt_iface = [], rt_xroute = False, rt_installed = True, rt_neigh_ip = V6 9,
     rt_prefix = Net6 a 128, rt_metric = metric, rt_refmetric = 0, rt_full_path_rtt = 0, rt_price = 0, rt_fee = 0\<rparr>)"

definition sw_exits :: "identity list" where "sw_exits = [sw_exit 1, sw_exit 2, sw_exit 3]"
definition two_routes :: "(ip_addr \<times> nat route) list" where "two_routes = [sw_route 1 200, sw_route 2 100]"
definition three_routes :: "(ip_addr \<times> nat route) list" where
  "three_routes = [sw_route 1 200, sw_route 2 100, sw_route 3 99]"

definition following :: "u16 list \<Rightarrow> switcher" where
  "following vec =
     \<lparr>sw_selected = \<lparr>selected_id = Some (V6 1), selected_id_metric = Some 200, selected_id_degradation = None,
                    tracking_exit = Some (V6 2)\<rparr>,
      sw_blacklist = \<lparr>blacklisted_exits = {}, potential_blacklists = Map.empty\<rparr>, sw_tracker = Map.empty, sw_metrics = vec\<rparr>"

lemmas sw_sample_defs = sw_exits_def sw_exit_def sw_route_def two_routes_def three_routes_def following_def

lemma considered_samples:
  "considered two_routes {} sw_exits = [(V6 1, 200), (V6 2, 100)]"
  "considered three_routes {} sw_exits = [(V6 1, 200), (V6 2, 100), (V6 3, 99)]"
  by (simp_all add: considered_def sw_sample_defs List.map_filter_simps net_ip_def)

lemma following_tick:
  assumes "sw_selected s = sw_selected (following [])" and "sw_blacklist s = sw_blacklist (following [])"
    and "length (sw_metrics s) \<le> 180"
  shows "\<exists>r s'. set_best_exit sw_exits two_routes s = Some (r, s')
    \<and> (if length (sw_metrics s) = 180 then get_current_exit s' = Some (V6 2)
       else sw_selected s' = sw_selected s \<and> sw_blacklist s' = sw_blacklist s
         \<and> length (sw_metrics s') = Suc (length (sw_metrics s)))"
proof -
  have e: "tick_exits sw_exits two_routes s = [(V6 1, 200), (V6 2, 100)]"
    using assms(2) by (simp add: tick_exits_def following_def considered_samples)
  have u: "exit_up sw_exits two_routes s"
    using assms(1) by (simp add: exit_up_def e current_up_def adjusted_metric_def get_current_exit_def following_def)
  obtain m bl em where t: "tick_metrics sw_exits two_routes s = (m, bl, em)" by (cases "tick_metrics sw_exits two_routes s")
  have b: "best_exit m = Some (V6 2)" "bl = sw_blacklist s"
    using t assms(1,2) by (auto simp: tick_metrics_def get_exit_metrics_def scan_considered following_def considered_samples
        scan_route_def scan_start_def adjusted_metric_def get_current_exit_def Let_def split: if_splits)
  note facts = tick_metrics_facts [OF t]
  have c: "cur_exit m = Some (V6 1)" "em_tracking_exit m = Some (V6 2)"
    using facts(2,3) assms(1) by (simp_all add: get_current_exit_def following_def)
  have "update_metric_value m (sw_metrics s) em = Some (follow (V6 1) (V6 2) (best_exit_met m) (sw_metrics s) em)"
    using update_same [OF c(1) b(1)] c(2) by simp
  moreover have "two_routes \<noteq> []" by (simp add: two_routes_def)
  ultimately show ?thesis
    using set_best_exit_tick [OF _ t] b c u facts(1) assms(3)
    by (simp add: follow_def METRIC_ENTRIES_eq set_exit_state_def get_current_exit_def Let_def)
qed

lemma following_run:
  "n \<le> 179 \<Longrightarrow> \<exists>t. switching n (following [100]) t \<and> sw_selected t = sw_selected (following [])
     \<and> sw_blacklist t = sw_blacklist (following []) \<and> length (sw_metrics t) = Suc n"
proof (induction n)
  case 0
  show ?case by (rule exI [of _ "following [100]"]) (simp add: sw_start following_def)
next
  case (Suc n)
  then obtain t where t: "switching n (following [100]) t" "sw_selected t = sw_selected (following [])"
    "sw_blacklist t = sw_blacklist (following [])" "length (sw_metrics t) = Suc n" by auto
  with following_tick [OF t(2,3)] Suc.prems obtain r t' where t': "set_best_exit sw_exits two_routes t = Some (r, t')"
    "sw_selected t' = sw_selected t \<and> sw_blacklist t' = sw_blacklist t \<and> length (sw_metrics t') = Suc (length (sw_metrics t))"
    by fastforce
  then show ?case using sw_tick [OF t(1) t'(1)] t by auto
qed

theorem exits_do_not_flap_witness:
  "\<exists>t r t'. switching 179 (following [100]) t \<and> set_best_exit sw_exits two_routes t = Some (r, t')
     \<and> get_current_exit t = Some (V6 1) \<and> get_current_exit t' = Some (V6 2) \<and> (179 :: nat) \<le> 179"
proof -
  obtain t where t: "switching 179 (following [100]) t" "sw_selected t = sw_selected (following [])"
    "sw_blacklist t = sw_blacklist (following [])" "length (sw_metrics t) = 180" using following_run [of 179] by auto
  from following_tick [OF t(2,3)] t(4) obtain r t' where t': "set_best_exit sw_exits two_routes t = Some (r, t')"
    "get_current_exit t' = Some (V6 2)" by auto
  have c: "get_current_exit t = Some (V6 1)" using t(2) by (simp add: get_current_exit_def following_def)
  have ok: "sw_ok (following [100])" by (simp add: sw_ok_def following_def METRIC_ENTRIES_eq get_current_exit_def)
  have "(179 :: nat) \<le> 179"
    by (rule exits_do_not_flap [OF ok _ t(1) t'(1) c, of 200 "sw_exit 1" "snd (sw_route 1 200)"])
      (use t(2,3) t'(2) in \<open>simp_all add: sw_sample_defs net_ip_def\<close>)
  with t(1) t' c show ?thesis by blast
qed

theorem switcher_never_panics_witness:
  "\<exists>r s'. set_best_exit sw_exits three_routes switcher_new = Some (r, s')"
  using switcher_never_panics [OF sw_start, of sw_exits three_routes] by blast

theorem failover_selects_best_witness:
  "\<exists>s'. set_best_exit sw_exits three_routes switcher_new = Some (Ok (V6 3), s') \<and> get_current_exit s' = Some (V6 3)"
proof -
  have e: "tick_exits sw_exits three_routes switcher_new = [(V6 1, 200), (V6 2, 100), (V6 3, 99)]"
    by (simp add: tick_exits_def switcher_new_def considered_samples)
  have "\<not> exit_up sw_exits three_routes switcher_new"
    by (simp add: exit_up_def current_up_def adjusted_metric_def switcher_new_def)
  from failover_selects_best [OF sw_start this, of "V6 1" 200] show ?thesis unfolding e by auto
qed

theorem manual_selection_is_overridden_witness:
  "\<exists>r s'. set_best_exit sw_exits three_routes (select_exit_id (V6 1) switcher_new) = Some (r, s')
     \<and> get_current_exit s' = Some (V6 3)"
proof -
  have e: "tick_exits sw_exits three_routes switcher_new = [(V6 1, 200), (V6 2, 100), (V6 3, 99)]"
    by (simp add: tick_exits_def switcher_new_def considered_samples)
  obtain r s' where r: "set_best_exit sw_exits three_routes (select_exit_id (V6 1) switcher_new) = Some (r, s')"
    using tick_returns [of "select_exit_id (V6 1) switcher_new" sw_exits three_routes]
    by (auto simp: sw_ok_def switcher_new_def select_exit_id_def)
  from manual_selection_is_overridden [OF sw_start _ _ r, of "V6 1" 200] r show ?thesis unfolding e by auto
qed

theorem momentary_best_is_selected_witness:
  "\<exists>s'. set_best_exit sw_exits three_routes (following (replicate 180 100)) = Some (Ok (V6 3), s')
     \<and> get_current_exit s' = Some (V6 3)"
proof -
  let ?s = "following (replicate 180 100)"
  have e: "tick_exits sw_exits three_routes ?s = [(V6 1, 200), (V6 2, 100), (V6 3, 99)]"
    by (simp add: tick_exits_def following_def considered_samples)
  have u: "exit_up sw_exits three_routes ?s"
    by (simp add: exit_up_def e current_up_def adjusted_metric_def get_current_exit_def) (simp add: following_def)
  obtain m bl em where t: "tick_metrics sw_exits three_routes ?s = (m, bl, em)" by (cases "tick_metrics sw_exits three_routes ?s")
  have b: "best_exit m = Some (V6 3)" "em (V6 3) = Some \<lparr>last_added_metric = 0, running_total = 99, ticker_len = 1\<rparr>"
    using t by (auto simp: tick_metrics_def get_exit_metrics_def scan_considered following_def considered_samples
        scan_route_def scan_start_def adjusted_metric_def get_current_exit_def Let_def observe_cluster_metrics_def
        set_last_added_to_zero_def)
  have "calculate_average (replicate 180 (100 :: u16)) = Some 100"
    by (simp add: calculate_average_def sum_list_replicate)
  then have "worth_switching_tracking_exit (sw_metrics ?s) (V6 3) em = Some False"
    using b(2) by (simp add: worth_switching_tracking_exit_def following_def)
  from momentary_best_is_selected [OF _ u t _ _ _ b(1) _ _ this, of "V6 1" "V6 2"] show ?thesis
    by (simp add: three_routes_def following_def get_current_exit_def METRIC_ENTRIES_eq)
qed

end
