(* ===== verification/Exit_Manager_Loop.thy ===== *)
theory Exit_Manager_Loop
  imports Exit_Manager Switcher_Properties
begin

text \<open>
  The loop of the exit manager (\<open>rita_client/src/exit_manager/exit_loop.rs\<close>): one tick of the inner thread. What a
  tick reads from outside the node is the record \<open>tick_input\<close>: the monotonic clock, the system clock, the hour the usage
  tracker files under, the balance the oracle last saw, whether the client is its own gateway, and the answer of the
  exit to the query of the debt. A \<open>continue\<close> ends the tick early; a panic of the thread, \<open>None\<close>, restarts it with the
  default \<open>ExitManager\<close>, which the watchdog around it does.
\<close>

section \<open>A tick\<close>

definition STATUS_REQUEST_QUERY :: duration where "STATUS_REQUEST_QUERY = from_secs 600"

record tick_input =
  ti_now :: instant
  ti_system_time :: instant
  ti_hour :: "nat option"
  ti_oracle :: blockchain_oracle
  ti_gateway :: bool
  ti_debt :: exit_answer

definition on_switcher :: "(switcher, 'x, 'a) rio \<Rightarrow> (('w, 'p, 'e) client_node, 'x, 'a) rio" where
  "on_switcher m = (\<lambda>n. case m (cn_switcher n) of None \<Rightarrow> None | Some (r, s) \<Rightarrow> Some (r, n\<lparr>cn_switcher := s\<rparr>))"

definition on_manager :: "(exit_manager \<Rightarrow> exit_manager) \<Rightarrow> ('w, 'p, 'e, unit) cio" where
  "on_manager f = cmodify (\<lambda>n. n\<lparr>cn_manager := f (cn_manager n)\<rparr>)"

text \<open>The list of exits of the cluster, from the selected exit, into the configuration and the state of the loop.\<close>

definition refresh_exit_list :: "('w, 'f, 'p, 'e, 'c) client_env \<Rightarrow> ip_addr \<Rightarrow> ('w, 'p, 'e, unit) cio" where
  "refresh_exit_list E current_exit_id =
     rbind (rattempt (client_get_exit_list E current_exit_id)) (\<lambda>r.
     let exit_list = (case r of Inr a \<Rightarrow> a | Inl _ \<Rightarrow> []) in
     rbind (cmodify (\<lambda>n. n\<lparr>cn_settings := add_exits_to_exit_server_list exit_list (cn_settings n)\<rparr>)) (\<lambda>_.
       on_manager (\<lambda>em. snd (set_exit_list exit_list em))))"

definition choose_exit :: "'f route list \<Rightarrow> ('w, 'p, 'e, ip_addr) cio" where
  "choose_exit routes =
     rbind (cget (\<lambda>n. get_ready_to_switch_exits (em_exit_list (cn_manager n)) (cl_exits (cn_settings n)))) (\<lambda>ready.
       on_switcher (set_best_exit ready (get_routes_hashmap routes)))"

text \<open>The tunnel is set up again when the exit changed, or when a DHCP client overwrote the default route.\<close>

definition setup_tunnel_if_needed ::
  "('w, 'f, 'p, 'e, 'c) client_env \<Rightarrow> exit_details \<Rightarrow> exit_client_details option \<Rightarrow> bool \<Rightarrow> bool \<Rightarrow> ('w, 'p, 'e, unit) cio" where
  "setup_tunnel_if_needed E gd od exit_has_changed default_route_correct =
     (case od of
        Some details \<Rightarrow>
          if exit_has_changed \<or> \<not> default_route_correct then
            rbind (rattempt (linux_setup_exit_tunnel E gd details)) (\<lambda>r. case r of
               Inl _ \<Rightarrow> (\<lambda>_. None)
             | Inr _ \<Rightarrow> on_manager (\<lambda>em. em\<lparr>nat_setup := True\<rparr>))
          else rret ()
      | None \<Rightarrow> rret ())"

definition update_nat :: "('w, 'f, 'p, 'e, 'c) client_env \<Rightarrow> bool \<Rightarrow> bool \<Rightarrow> ('w, 'p, 'e, unit) cio" where
  "update_nat E low free_tier =
     rbind (cget (\<lambda>n. nat_setup (cn_manager n))) (\<lambda>nat.
       case (low, free_tier, nat) of
         (True, False, True) \<Rightarrow> rbind (remove_nat E) (\<lambda>_. on_manager (\<lambda>em. em\<lparr>nat_setup := False\<rparr>))
       | (False, _, False) \<Rightarrow> rbind (restore_nat E) (\<lambda>_. on_manager (\<lambda>em. em\<lparr>nat_setup := True\<rparr>))
       | (True, True, False) \<Rightarrow> rbind (restore_nat E) (\<lambda>_. on_manager (\<lambda>em. em\<lparr>nat_setup := True\<rparr>))
       | _ \<Rightarrow> rret ())"

definition bill_exit ::
  "num256 \<Rightarrow> ('w, 'f, 'p, 'e, 'c) client_env \<Rightarrow> tick_input \<Rightarrow> exit_server \<Rightarrow> exit_details \<Rightarrow> 'f route list \<Rightarrow> ('w, 'p, 'e, unit) cio" where
  "bill_exit N E T exit gd routes = (\<lambda>n.
     case query_exit_debts N (ce_world E) (ce_parse_key E) (ce_captures E) (cl_common (cn_settings n)) (ti_hour T) (ti_now T)
            (ti_gateway T) (ti_debt T) (es_exit_id exit) (ed_exit_price gd) routes
            (cn_watch n, cn_debts n, cn_usage n, cn_world n) of
       None \<Rightarrow> None
     | Some (tw, dk, us, w) \<Rightarrow> Some (Inr (), n\<lparr>cn_watch := tw, cn_debts := dk, cn_usage := us, cn_world := w\<rparr>))"

text \<open>The part for the selected exit, once it has told its details. The result says whether the tick goes on.\<close>

definition after_selection ::
  "num256 \<Rightarrow> ('w, 'f, 'p, 'e, 'c) client_env \<Rightarrow> tick_input \<Rightarrow> bool \<Rightarrow> last_exit_states \<Rightarrow> exit_server \<Rightarrow> exit_details \<Rightarrow> ip_addr
     \<Rightarrow> ('w, 'p, 'e, bool) cio" where
  "after_selection N E T free_tier last_states exit gd selected =
     rbind (on_manager (\<lambda>em. em\<lparr>last_exit_state := \<lparr>last_exit = Some selected, last_exit_details = Some (es_info exit)\<rparr>\<rparr>)) (\<lambda>_.
     rbind (maybe_set_local_to_exit_time E (ti_system_time T) exit) (\<lambda>_.
     rbind (on_cworld (rattempt (get_default_route (ce_world E)))) (\<lambda>r. case r of
        Inl _ \<Rightarrow> rret False
      | Inr route \<Rightarrow>
          rbind (setup_tunnel_if_needed E gd (our_details (es_info exit)) (has_exit_changed last_states (Some selected) exit)
                   (correct_default_route route)) (\<lambda>_.
          rbind (cget (\<lambda>n. low_balance (payment (cl_common (cn_settings n))) (ti_oracle T))) (\<lambda>low.
          rbind (update_nat E low free_tier) (\<lambda>_.
            if our_details (es_info exit) = None then rret True
            else
              rbind (rattempt (babel_table E)) (\<lambda>routes. case routes of
                 Inl _ \<Rightarrow> rret False
               | Inr routes \<Rightarrow> rbind (bill_exit N E T exit gd routes) (\<lambda>_. rret True))))))))"

definition connect_to_exit ::
  "num256 \<Rightarrow> ('w, 'f, 'p, 'e, 'c) client_env \<Rightarrow> tick_input \<Rightarrow> bool \<Rightarrow> last_exit_states \<Rightarrow> ip_addr \<Rightarrow> exit_server \<Rightarrow> exit_details
     \<Rightarrow> ('w, 'p, 'e, bool) cio" where
  "connect_to_exit N E T free_tier last_states current_exit_id exit gd =
     rbind (rattempt (babel_table E)) (\<lambda>r.
     let routes = (case r of Inr a \<Rightarrow> a | Inl _ \<Rightarrow> []) in
     rbind (refresh_exit_list E current_exit_id) (\<lambda>_.
     rbind (rattempt (choose_exit routes)) (\<lambda>r. case r of
        Inl _ \<Rightarrow> rret False
      | Inr selected \<Rightarrow> after_selection N E T free_tier last_states exit gd selected)))"

text \<open>The requests of the second part; the errors of the joined requests are dropped.\<close>

definition status_due :: "instant \<Rightarrow> exit_manager \<Rightarrow> bool" where
  "status_due now em = (case last_status_request em of
     None \<Rightarrow> True | Some last_query \<Rightarrow> now - last_query > STATUS_REQUEST_QUERY)"

definition wants_status :: "instant \<Rightarrow> exit_manager \<Rightarrow> exit_server \<Rightarrow> bool" where
  "wants_status now em s = (case es_info s of
     New \<Rightarrow> True | Pending _ _ _ _ \<Rightarrow> True | Registered _ _ _ \<Rightarrow> status_due now em | _ \<Rightarrow> False)"

definition is_registered :: "exit_state \<Rightarrow> bool" where
  "is_registered st = (case st of Registered _ _ _ \<Rightarrow> True | _ \<Rightarrow> False)"

definition request_states :: "('w, 'f, 'p, 'e, 'c) client_env \<Rightarrow> instant \<Rightarrow> ('w, 'p, 'e, unit) cio" where
  "request_states E now =
     rbind (cget (\<lambda>n. exits_in_order E (cl_exits (cn_settings n)))) (\<lambda>servers.
     rbind (cget cn_manager) (\<lambda>em.
     rbind (on_manager (\<lambda>em. if \<exists>(k, s) \<in> set servers. is_registered (es_info s) \<and> status_due now em
                             then em\<lparr>last_status_request := Some now\<rparr> else em)) (\<lambda>_.
     rbind (rfor (filter (\<lambda>(k, s). es_info s = New) servers) (\<lambda>(k, s). rignore (exit_status_request E k))) (\<lambda>_.
       rfor (filter (\<lambda>(k, s). es_info s \<noteq> New \<and> wants_status now em s) servers) (\<lambda>(k, s). rignore (exit_status_request E k))))))"

definition setup_slaac :: "('w, 'f, 'p, 'e, 'c) client_env \<Rightarrow> ('w, 'p, 'e, unit) cio" where
  "setup_slaac E =
     rbind (cget get_client_pub_ipv6) (\<lambda>r. case r of
        None \<Rightarrow> rret ()
      | Some ipv6_sub \<Rightarrow> on_cworld (rignore (setup_ipv6_slaac (ce_world E) (ce_ipnet E) (ce_inet6_caps E) ipv6_sub)))"

definition exit_manager_tick :: "num256 \<Rightarrow> ('w, 'f, 'p, 'e, 'c) client_env \<Rightarrow> tick_input \<Rightarrow> ('w, 'p, 'e, unit) cio" where
  "exit_manager_tick N E T =
     rbind (cget (\<lambda>n. n)) (\<lambda>n0.
     let free_tier = client_can_use_free_tier (payment (cl_common (cn_settings n0)));
         last_states = last_exit_state (cn_manager n0);
         work = (case get_current_exit (cn_switcher n0) of
           None \<Rightarrow> rret True
         | Some current_exit_id \<Rightarrow>
           (case cl_exits (cn_settings n0) current_exit_id of
              None \<Rightarrow> rret True
            | Some exit \<Rightarrow>
              (case general_details (es_info exit) of
                 None \<Rightarrow> rret True
               | Some gd \<Rightarrow> connect_to_exit N E T free_tier last_states current_exit_id exit gd)))
     in rbind work (\<lambda>go_on.
          if go_on then rbind (request_states E (ti_now T)) (\<lambda>_. setup_slaac E) else rret ()))"

end
