(* ===== verification/Lan_Gate.thy ===== *)
theory Lan_Gate
  imports Exit_Setup
begin

text \<open>
  What \<open>block_client_nat\<close> and \<open>restore_client_nat\<close> of \<open>exit_client_tunnel.rs\<close> do to the firewall of a client. The programs
  \<open>iptables\<close> and \<open>nft\<close> are parameters: a locale for each states what the commands the code runs do to the rules that reject
  what the users of the client send. Both give the contract \<open>lan_gate\<close> for the two operations of the code, which the
  exit manager relies on.
\<close>

section \<open>The contract\<close>

text \<open>\<open>rules\<close> are the rules that reject the traffic of the users, by their handles, the first one first.\<close>

locale lan_gate =
  fixes block restore :: "('w, unit) kio" and rules :: "'w \<Rightarrow> u32 list"
  assumes blocks: "\<exists>w'. block w = Some (Ok (), w') \<and> length (rules w') = max 1 (length (rules w))"
    and restores: "\<exists>w'. restore w = Some (Ok (), w') \<and> rules w' = tl (rules w)"
begin

lemma ignored_block: "\<exists>w'. rignore block w = Some (Inr (), w') \<and> length (rules w') = max 1 (length (rules w))"
  using blocks[of w] by (auto simp: rignore_def rattempt_def rbind_def rret_def)

lemma ignored_restore: "\<exists>w'. rignore restore w = Some (Inr (), w') \<and> rules w' = tl (rules w)"
  using restores[of w] by (auto simp: rignore_def rattempt_def rbind_def rret_def)

end

section \<open>Machines with iptables\<close>

locale iptables_firewall =
  fixes W :: "'w world" and rules :: "'w \<Rightarrow> u32 list"
  assumes no_nft: "\<exists>r w'. run_command W ''nft'' [''-v''] w = (r, w') \<and> rules w' = rules w
      \<and> (\<forall>out s. r = Inr out \<longrightarrow> co_stdout out = Some s \<longrightarrow> \<not> contains_str s ''nftables'')"
    and check: "\<exists>out w'. run_command W ''iptables'' [''-C'', ''zone_lan_forward'', ''-j'', ''REJECT''] w = (Inr out, w')
      \<and> (co_success out \<longleftrightarrow> rules w \<noteq> []) \<and> rules w' = rules w"
    and insert: "\<exists>out h w'. run_command W ''iptables'' [''-I'', ''zone_lan_forward'', ''-j'', ''REJECT''] w = (Inr out, w')
      \<and> rules w' = h # rules w"
    and delete: "\<exists>out w'. run_command W ''iptables'' [''-D'', ''zone_lan_forward'', ''-j'', ''REJECT''] w = (Inr out, w')
      \<and> (co_success out \<longleftrightarrow> rules w \<noteq> []) \<and> rules w' = tl (rules w)"
begin

lemma nft_missing: "\<exists>w'. does_nftables_exist W w = Some (Inr False, w') \<and> rules w' = rules w"
proof -
  from no_nft[of w] obtain r w' where r: "run_command W ''nft'' [''-v''] w = (r, w')" "rules w' = rules w"
    "\<And>out s. r = Inr out \<Longrightarrow> co_stdout out = Some s \<Longrightarrow> \<not> contains_str s ''nftables''" by blast
  then show ?thesis
    by (cases r) (auto simp: does_nftables_exist_def nft_def cmd_def rbind_def rattempt_def rret_def split: option.splits)
qed

lemma reject_check: "check_args [''-I'', ''zone_lan_forward'', ''-j'', ''REJECT''] [''-I'', ''zone_lan_forward'', ''-j'', ''REJECT''] 0 None
    = Some [''-C'', ''zone_lan_forward'', ''-j'', ''REJECT'']"
  "check_args [''-D'', ''zone_lan_forward'', ''-j'', ''REJECT''] [''-D'', ''zone_lan_forward'', ''-j'', ''REJECT''] 0 None
    = Some [''-D'', ''zone_lan_forward'', ''-j'', ''REJECT'']"
  by (simp_all add: nth_opt_def parse_u32_def parse_uint_def digit_val_def)

lemma iptables_block: "\<exists>w'. block_client_nat W w = Some (Ok (), w') \<and> length (rules w') = max 1 (length (rules w))"
proof -
  obtain w1 where w1: "does_nftables_exist W w = Some (Inr False, w1)" "rules w1 = rules w" using nft_missing by blast
  obtain out w2 where w2: "run_command W ''iptables'' [''-C'', ''zone_lan_forward'', ''-j'', ''REJECT''] w1 = (Inr out, w2)"
    "co_success out \<longleftrightarrow> rules w1 \<noteq> []" "rules w2 = rules w1" using check by blast
  obtain out' h w3 where w3: "run_command W ''iptables'' [''-I'', ''zone_lan_forward'', ''-j'', ''REJECT''] w2 = (Inr out', w3)"
    "rules w3 = h # rules w2" using insert by blast
  show ?thesis
    using w1 w2 w3 by (cases "rules w")
      (simp_all add: block_client_nat_def rbind_def add_iptables_rule_def reject_check cmd_def rret_def del: check_args.simps)
qed

lemma iptables_restore: "\<exists>w'. restore_client_nat W w = Some (Ok (), w') \<and> rules w' = tl (rules w)"
proof -
  obtain w1 where w1: "does_nftables_exist W w = Some (Inr False, w1)" "rules w1 = rules w" using nft_missing by blast
  obtain out w2 where w2: "run_command W ''iptables'' [''-D'', ''zone_lan_forward'', ''-j'', ''REJECT''] w1 = (Inr out, w2)"
    "co_success out \<longleftrightarrow> rules w1 \<noteq> []" "rules w2 = tl (rules w1)" using delete by blast
  obtain out' w3 where w3: "run_command W ''iptables'' [''-D'', ''zone_lan_forward'', ''-j'', ''REJECT''] w2 = (Inr out', w3)"
    "rules w3 = tl (rules w2)" using delete by blast
  show ?thesis
    using w1 w2 w3 by (cases "rules w")
      (simp_all add: restore_client_nat_def rbind_def add_iptables_rule_def reject_check cmd_def rret_def del: check_args.simps)
qed

end

sublocale iptables_firewall \<subseteq> iptables: lan_gate "block_client_nat W" "restore_client_nat W" rules
  by unfold_locales (rule iptables_block, rule iptables_restore)

section \<open>Machines with nftables\<close>

locale nft_firewall =
  fixes W :: "'w world" and rules :: "'w \<Rightarrow> u32 list"
  assumes version: "\<exists>out s w'. run_command W ''nft'' [''-v''] w = (Inr out, w') \<and> co_stdout out = Some s
      \<and> contains_str s ''nftables'' \<and> rules w' = rules w"
    and listing: "\<exists>out s w'. run_command W ''nft'' [''-a'', ''list'', ''chain'', ''inet'', ''fw4'', ''forward_lan''] w = (Inr out, w')
      \<and> co_stdout out = Some s \<and> rules w' = rules w
      \<and> (case rules w of
           [] \<Rightarrow> find (\<lambda>l. contains_str l ''reject'') (lines_of s) = None
         | h # _ \<Rightarrow> \<exists>text. find (\<lambda>l. contains_str l ''reject'') (lines_of s) = Some (text @ '' '' @ dec (unat h)))"
    and insert: "\<exists>out h w'. run_command W ''nft'' [''insert'', ''rule'', ''inet'', ''fw4'', ''forward_lan'', ''reject''] w = (Inr out, w')
      \<and> rules w' = h # rules w"
    and delete: "rules w = h # hs \<Longrightarrow>
      \<exists>out w'. run_command W ''nft'' [''delete'', ''rule'', ''inet'', ''fw4'', ''forward_lan'', ''handle'', dec (unat h)] w = (Inr out, w')
        \<and> rules w' = hs"

lemma dec_no_char: "of_char c < (48 :: nat) \<Longrightarrow> c \<notin> set (dec n)"
  using dec_chars[of c n] digit_char_neq by metis

lemma split_on_snoc: "d \<notin> set w \<Longrightarrow> split_on d (s @ d # w) = split_on d s @ [w]"
proof (induction s)
  case (Cons a s)
  then show ?case using split_on_nonempty[of d s] by (cases "split_on d s") auto
qed (simp add: split_on_no_delim)

lemma parse_handle: "parse_u32 (last (split_on (CHR '' '') (text @ '' '' @ dec (unat h)))) = Some h"
proof -
  have "unat h < 2 ^ LENGTH(32)" by (rule unsigned_less)
  moreover have "CHR '' '' \<notin> set (dec (unat h))" by (rule dec_no_char) simp
  ultimately show ?thesis by (simp add: split_on_snoc parse_u32_def parse_uint_dec)
qed

context nft_firewall
begin

lemma nft_present: "\<exists>w'. does_nftables_exist W w = Some (Inr True, w') \<and> rules w' = rules w"
  using version[of w] by (auto simp: does_nftables_exist_def nft_def cmd_def rbind_def rattempt_def rret_def)

lemma reject_rule: "\<exists>w'. get_reject_rule_handle W w = Some (Inr (case rules w of [] \<Rightarrow> None | h # _ \<Rightarrow> Some h), w') \<and> rules w' = rules w"
  using listing[of w]
  by (auto simp: get_reject_rule_handle_def nft_def cmd_def rbind_def rret_def expect_utf8_def reject_handle_def parse_handle
      simp del: append.simps split: list.splits)

lemma nft_block: "\<exists>w'. block_client_nat W w = Some (Ok (), w') \<and> length (rules w') = max 1 (length (rules w))"
proof -
  obtain w1 where w1: "does_nftables_exist W w = Some (Inr True, w1)" "rules w1 = rules w" using nft_present by blast
  obtain w2 where w2: "get_reject_rule_handle W w1 = Some (Inr (case rules w1 of [] \<Rightarrow> None | h # _ \<Rightarrow> Some h), w2)"
    "rules w2 = rules w1" using reject_rule by blast
  obtain out h w3 where "run_command W ''nft'' [''insert'', ''rule'', ''inet'', ''fw4'', ''forward_lan'', ''reject''] w2 = (Inr out, w3)"
    "rules w3 = h # rules w2" using insert by blast
  then show ?thesis
    using w1 w2 by (cases "rules w")
      (simp_all add: block_client_nat_def insert_reject_rule_def rbind_def nft_def cmd_def rret_def)
qed

lemma nft_restore: "\<exists>w'. restore_client_nat W w = Some (Ok (), w') \<and> rules w' = tl (rules w)"
proof -
  obtain w1 where w1: "does_nftables_exist W w = Some (Inr True, w1)" "rules w1 = rules w" using nft_present by blast
  obtain w2 where w2: "get_reject_rule_handle W w1 = Some (Inr (case rules w1 of [] \<Rightarrow> None | h # _ \<Rightarrow> Some h), w2)"
    "rules w2 = rules w1" using reject_rule by blast
  show ?thesis
  proof (cases "rules w")
    case Nil
    then show ?thesis using w1 w2 by (simp add: restore_client_nat_def delete_reject_rule_def rbind_def rret_def)
  next
    case (Cons h hs)
    with w1 w2 have "rules w2 = h # hs" by simp
    with delete obtain out w3 where
      "run_command W ''nft'' [''delete'', ''rule'', ''inet'', ''fw4'', ''forward_lan'', ''handle'', dec (unat h)] w2 = (Inr out, w3)"
      "rules w3 = hs" by blast
    then show ?thesis
      using w1 w2 Cons by (simp add: restore_client_nat_def delete_reject_rule_def rbind_def nft_def cmd_def rret_def)
  qed
qed

end

sublocale nft_firewall \<subseteq> nftables: lan_gate "block_client_nat W" "restore_client_nat W" rules
  by unfold_locales (rule nft_block, rule nft_restore)

lemma gate_of_iptables:
  "iptables_firewall W rules \<Longrightarrow> lan_gate (block_client_nat W) (restore_client_nat W) rules"
  by (intro lan_gate.intro) (rule iptables_firewall.iptables_block iptables_firewall.iptables_restore, assumption)+

lemma gate_of_nft: "nft_firewall W rules \<Longrightarrow> lan_gate (block_client_nat W) (restore_client_nat W) rules"
  by (intro lan_gate.intro) (rule nft_firewall.nft_block nft_firewall.nft_restore, assumption)+

section \<open>Concrete machines\<close>

text \<open>The state is the list of the handles of the rejecting rules; every other command fails. The answers are those of the
  programs for the commands of the code.\<close>

definition answer :: "bool \<Rightarrow> string \<Rightarrow> kernel_interface_error + cmd_output" where
  "answer ok text = Inr \<lparr>co_success = ok, co_stdout = Some text, co_stderr = Some []\<rparr>"

definition iptables_run :: "string list \<Rightarrow> u32 list \<Rightarrow> (kernel_interface_error + cmd_output) \<times> u32 list" where
  "iptables_run args hs =
     (if args = [''-C'', ''zone_lan_forward'', ''-j'', ''REJECT''] then (answer (hs \<noteq> []) [], hs)
      else if args = [''-I'', ''zone_lan_forward'', ''-j'', ''REJECT''] then (answer True [], 0 # hs)
      else if args = [''-D'', ''zone_lan_forward'', ''-j'', ''REJECT''] then (answer (hs \<noteq> []) [], tl hs)
      else (Inl RuntimeError, hs))"

definition rule_line :: "u32 \<Rightarrow> string" where
  "rule_line h = ''reject # handle'' @ '' '' @ dec (unat h)"

definition nft_run :: "string list \<Rightarrow> u32 list \<Rightarrow> (kernel_interface_error + cmd_output) \<times> u32 list" where
  "nft_run args hs =
     (if args = [''-v''] then (answer True ''nftables v1.0.2'', hs)
      else if args = [''-a'', ''list'', ''chain'', ''inet'', ''fw4'', ''forward_lan'']
      then (answer True (concat (map (\<lambda>h. rule_line h @ [LF]) hs)), hs)
      else if args = [''insert'', ''rule'', ''inet'', ''fw4'', ''forward_lan'', ''reject'']
      then (answer True [], (if hs = [] then 1 else hd hs + 1) # hs)
      else if hs \<noteq> [] \<and> args = [''delete'', ''rule'', ''inet'', ''fw4'', ''forward_lan'', ''handle'', dec (unat (hd hs))]
      then (answer True [], tl hs) else (Inl RuntimeError, hs))"

definition firewall_machine ::
  "(string \<Rightarrow> string list \<Rightarrow> u32 list \<Rightarrow> (kernel_interface_error + cmd_output) \<times> u32 list) \<Rightarrow> u32 list world" where
  "firewall_machine run = \<lparr>run_command = run, sys_class_net = (\<lambda>_. Inl RuntimeError), proc_net_udp = (\<lambda>_. Inl RuntimeError),
     tcp_connect = (\<lambda>_ w. (Inl (), w)), tcp_write = (\<lambda>_ w. (Inl (), w)), tcp_read_op = (\<lambda>w. (ReadIoError, w))\<rparr>"

definition iptables_machine :: "u32 list world" where
  "iptables_machine = firewall_machine (\<lambda>prog args hs. if prog = ''iptables'' then iptables_run args hs else (Inl RuntimeError, hs))"

definition nft_machine :: "u32 list world" where
  "nft_machine = firewall_machine (\<lambda>prog args hs. if prog = ''nft'' then nft_run args hs else (Inl RuntimeError, hs))"

interpretation old_machine: iptables_firewall iptables_machine "\<lambda>hs. hs"
  by unfold_locales (simp_all add: iptables_machine_def firewall_machine_def iptables_run_def answer_def)

lemma reject_lines: "lines_of (concat (map (\<lambda>h. rule_line h @ [LF]) hs)) = map rule_line hs"
proof -
  have "\<forall>l \<in> set (map rule_line hs). LF \<notin> set l \<and> CR \<notin> set l"
    by (auto simp: rule_line_def LF_def CR_def dec_no_char)
  then show ?thesis using lines_of_listing[of "map rule_line hs"] by (simp add: comp_def)
qed

lemma rule_line_rejects: "contains_str (rule_line h) ''reject''"
  by (simp add: rule_line_def)

lemma nft_machine_runs:
  "run_command nft_machine ''nft'' [''-v''] hs = (answer True ''nftables v1.0.2'', hs)"
  "run_command nft_machine ''nft'' [''-a'', ''list'', ''chain'', ''inet'', ''fw4'', ''forward_lan''] hs
     = (answer True (concat (map (\<lambda>h. rule_line h @ [LF]) hs)), hs)"
  "run_command nft_machine ''nft'' [''insert'', ''rule'', ''inet'', ''fw4'', ''forward_lan'', ''reject''] hs
     = (answer True [], (if hs = [] then 1 else hd hs + 1) # hs)"
  "run_command nft_machine ''nft'' [''delete'', ''rule'', ''inet'', ''fw4'', ''forward_lan'', ''handle'', dec (unat h)] (h # hs)
     = (answer True [], hs)"
  by (simp_all add: nft_machine_def firewall_machine_def nft_run_def)

lemma first_reject:
  "find (\<lambda>l. contains_str l ''reject'') (map rule_line hs) = (case hs of [] \<Rightarrow> None | h # _ \<Rightarrow> Some (rule_line h))"
  by (cases hs) (simp_all only: list.map find.simps rule_line_rejects list.case if_True)

lemma first_listed:
  "case hs of
     [] \<Rightarrow> find (\<lambda>l. contains_str l ''reject'') (lines_of (concat (map (\<lambda>h. rule_line h @ [LF]) hs))) = None
   | h # _ \<Rightarrow> \<exists>text. find (\<lambda>l. contains_str l ''reject'') (lines_of (concat (map (\<lambda>h. rule_line h @ [LF]) hs)))
       = Some (text @ '' '' @ dec (unat h))"
  unfolding reject_lines first_reject
proof (cases hs)
  case (Cons h hs')
  have "\<exists>text. Some (rule_line h) = Some (text @ '' '' @ dec (unat h))" unfolding rule_line_def by blast
  then show "case hs of [] \<Rightarrow> (case hs of [] \<Rightarrow> None | h # _ \<Rightarrow> Some (rule_line h)) = None
    | h # _ \<Rightarrow> \<exists>text. (case hs of [] \<Rightarrow> None | h # _ \<Rightarrow> Some (rule_line h)) = Some (text @ '' '' @ dec (unat h))"
    by (simp only: Cons list.case)
qed simp

interpretation new_machine: nft_firewall nft_machine "\<lambda>hs. hs"
proof unfold_locales
  fix w :: "u32 list"
  show "\<exists>out s w'. run_command nft_machine ''nft'' [''-a'', ''list'', ''chain'', ''inet'', ''fw4'', ''forward_lan''] w = (Inr out, w')
      \<and> co_stdout out = Some s \<and> w' = w
      \<and> (case w of
           [] \<Rightarrow> find (\<lambda>l. contains_str l ''reject'') (lines_of s) = None
         | h # _ \<Rightarrow> \<exists>text. find (\<lambda>l. contains_str l ''reject'') (lines_of s) = Some (text @ '' '' @ dec (unat h)))"
    unfolding nft_machine_runs answer_def
    by (intro exI conjI, rule refl, simp, rule refl, rule first_listed)
  show "\<exists>out s w'. run_command nft_machine ''nft'' [''-v''] w = (Inr out, w') \<and> co_stdout out = Some s
      \<and> contains_str s ''nftables'' \<and> w' = w"
    unfolding nft_machine_runs answer_def by simp
  show "\<exists>out h w'. run_command nft_machine ''nft'' [''insert'', ''rule'', ''inet'', ''fw4'', ''forward_lan'', ''reject''] w = (Inr out, w')
      \<and> w' = h # w"
    unfolding nft_machine_runs answer_def by simp
next
  fix w hs :: "u32 list" and h assume "w = h # hs"
  then show "\<exists>out w'. run_command nft_machine ''nft'' [''delete'', ''rule'', ''inet'', ''fw4'', ''forward_lan'', ''handle'',
      dec (unat h)] w = (Inr out, w') \<and> w' = hs"
    by (simp only: nft_machine_runs answer_def) simp
qed

end
