(* ===== verification/Client_Properties.thy ===== *)
theory Client_Properties
  imports Exit_Manager_Loop Exit_Safety Lan_Gate
begin

text \<open>
  Properties of the exit manager of a client over every sequence of ticks and requests of the dashboard. The locale
  \<open>node_rel\<close> collects what a relation between two states of the node has to allow for all operations but the selection
  of an exit to respect it; it is interpreted for the relations the properties rest on.
\<close>

section \<open>Operations and relations on the node\<close>

lemmas node_defs = cget_def cmodify_def on_cworld_def on_switcher_def on_manager_def

lemma keepsD: "keeps R m \<Longrightarrow> m s = Some (r, s') \<Longrightarrow> R s s'"
  by (simp add: keeps_def)

lemma on_cworld_Some: "on_cworld m n = Some (r, n') \<Longrightarrow> \<exists>w. n' = n\<lparr>cn_world := w\<rparr>"
  by (auto simp: on_cworld_def split: option.splits)

lemma linux_setup_shape:
  assumes "linux_setup_exit_tunnel E gd od n = Some (r, n')"
  shows "(\<exists>w. n' = n\<lparr>cn_world := w\<rparr>) \<or> (\<exists>net w. n' = n\<lparr>cn_settings := (cn_settings n)\<lparr>cl_common :=
    (cl_common (cn_settings n))\<lparr>network := net\<rparr>\<rparr>, cn_world := w\<rparr>)"
  using assms unfolding linux_setup_exit_tunnel_def Let_def cget_def cmodify_def cexpect_def
  by (auto simp: rbind_Some_iff rret_def rraise_def split: if_splits option.splits prod.splits dest!: on_cworld_Some) blast+

locale node_rel = preorder_rel R for R :: "('w, 'p, 'e) client_node \<Rightarrow> ('w, 'p, 'e) client_node \<Rightarrow> bool" +
  assumes world: "R n (n\<lparr>cn_world := w\<rparr>)"
    and manager: "R n (n\<lparr>cn_manager := em\<rparr>)"
    and blacklist: "R n (n\<lparr>cn_switcher := (cn_switcher n)\<lparr>sw_blacklist := b\<rparr>\<rparr>)"
    and books: "R n (n\<lparr>cn_watch := tw, cn_debts := dk, cn_usage := us, cn_world := w\<rparr>)"
    and info: "R n (set_exit_info ip st n)"
    and listed: "R n (n\<lparr>cn_settings := add_exits_to_exit_server_list exits (cn_settings n)\<rparr>)"
    and route: "R n (n\<lparr>cn_settings := (cn_settings n)\<lparr>cl_common := (cl_common (cn_settings n))\<lparr>network := net\<rparr>\<rparr>, cn_world := w\<rparr>)"
begin

lemma keeps_cget: "keeps R (cget f)"
  by (simp add: keeps_def cget_def refl)

lemma keeps_cexpect: "keeps R (cexpect x)"
  by (cases x) (simp_all add: cexpect_def keeps_rret keeps_panic)

lemma keeps_world: "keeps R (on_cworld m)"
  by (auto simp: keeps_def on_cworld_def world split: option.splits)

lemma keeps_manager: "keeps R (on_manager f)"
  by (simp add: keeps_def on_manager_def cmodify_def manager)

lemma keeps_info: "keeps R (cmodify (set_exit_info ip st))"
  by (simp add: keeps_def cmodify_def info)

lemma keeps_strike: "keeps R (strike ip warning)"
  by (simp add: keeps_def strike_def cmodify_def blacklist)

lemma keeps_forgive: "keeps R (forgive ip)"
  by (simp add: keeps_def forgive_def cmodify_def blacklist)

lemma keeps_bill: "keeps R (bill_exit N E T exit gd routes)"
  by (auto simp: keeps_def bill_exit_def books split: option.splits)

lemmas keeps_node = keeps_intros keeps_cget keeps_cexpect keeps_world keeps_manager keeps_info keeps_strike keeps_forgive keeps_bill

lemma keeps_encrypt: "keeps R (encrypt_exit_client_id E k i)"
  unfolding encrypt_exit_client_id_def by (intro keeps_node)

lemma keeps_open_text: "keeps R (open_text E read c k)"
proof -
  have "keeps R (case ce_open E c k s of BoxClosed \<Rightarrow> rraise ClientMiscStringError | BoxNotUtf8 \<Rightarrow> rraise ClientFromUtf8Error
      | BoxText t \<Rightarrow> (case read t of Some a \<Rightarrow> rret a | None \<Rightarrow> rraise SerdeJsonError))" for s
    by (auto split: box_text.splits option.splits intro: keeps_rret keeps_rraise)
  then show ?thesis unfolding open_text_def by (intro keeps_node)
qed

lemma keeps_ask:
  assumes "\<And>c k. keeps R (decrypt c k)"
  shows "keeps R (ask_exit E path k ip port ident decrypt)"
proof -
  have opened: "keeps R (rbind (rattempt (decrypt v k)) (\<lambda>r. case r of Inl e \<Rightarrow> rbind (strike ip HardWarning) (\<lambda>_. rraise e)
      | Inr a \<Rightarrow> rbind (forgive ip) (\<lambda>_. rret a)))" for v
    by (intro keeps_rbind keeps_rattempt assms) (auto split: sum.splits intro: keeps_node)
  have judged: "keeps R (judge_reply ip k decrypt reply)" for reply
  proof (cases reply)
    case (HttpReply v)
    then show ?thesis by (simp add: judge_reply_def keeps_rbind [OF keeps_forgive opened])
  qed (simp_all add: judge_reply_def keeps_rbind keeps_strike keeps_forgive keeps_rraise)
  have "keeps R (case x of (pubkey, cipher) \<Rightarrow> rbind (on_cworld (m pubkey cipher)) (judge_reply ip k decrypt))" for x m
    by (cases x) (simp add: keeps_rbind [OF keeps_world judged])
  then show ?thesis
    unfolding ask_exit_def by (rule keeps_rbind [OF keeps_encrypt])
qed

lemma keeps_request_identity: "keeps R (request_identity E)"
  unfolding request_identity_def
  by (intro keeps_rbind keeps_cget) (auto split: option.splits intro: keeps_rret keeps_rraise)

lemma keeps_setup_request: "keeps R (exit_setup_request E code)"
  unfolding exit_setup_request_def send_exit_setup_request_def decrypt_exit_state_def
  by (intro keeps_rbind keeps_cget)
    (auto split: option.splits intro!: keeps_rbind keeps_rraise keeps_request_identity keeps_ask keeps_open_text keeps_info)

lemma keeps_status_request: "keeps R (exit_status_request E ip)"
  unfolding exit_status_request_def send_exit_status_request_def decrypt_exit_state_def
  by (intro keeps_rbind keeps_cget)
    (auto split: option.splits
      intro!: keeps_rbind keeps_rraise keeps_request_identity keeps_ask keeps_open_text keeps_info keeps_cget)

lemma keeps_refresh: "keeps R (refresh_exit_list E ip)"
proof -
  have add: "keeps R (cmodify (\<lambda>n. n\<lparr>cn_settings := add_exits_to_exit_server_list l (cn_settings n)\<rparr>))" for l
    by (simp add: keeps_def cmodify_def listed)
  have "keeps R (client_get_exit_list E ip)"
    unfolding client_get_exit_list_def decrypt_exit_list_def
    by (intro keeps_rbind keeps_cget)
      (auto split: option.splits intro!: keeps_rbind keeps_rraise keeps_request_identity keeps_ask keeps_open_text)
  then show ?thesis
    unfolding refresh_exit_list_def Let_def by (intro keeps_rbind keeps_rattempt add keeps_manager)
qed

lemma keeps_linux_setup: "keeps R (linux_setup_exit_tunnel E gd od)"
  unfolding keeps_def using linux_setup_shape world route by metis

lemma keeps_after_selection: "keeps R (after_selection N E T free st exit gd sel)"
proof -
  have time: "keeps R (maybe_set_local_to_exit_time E now exit)" for now
    unfolding maybe_set_local_to_exit_time_def get_latest_exit_handshake_def get_exit_time_def
    by (intro keeps_rbind keeps_world keeps_rret)
      (auto split: if_splits option.splits intro!: keeps_rbind keeps_cget keeps_cexpect keeps_world keeps_rret)
  have tunnel: "keeps R (setup_tunnel_if_needed E gd od changed correct)" for od changed correct
    unfolding setup_tunnel_if_needed_def
    by (auto split: option.splits sum.splits intro!: keeps_rbind keeps_rattempt keeps_linux_setup keeps_panic keeps_manager keeps_rret)
  have nat: "keeps R (update_nat E low free)" for low
    unfolding update_nat_def restore_nat_def remove_nat_def
    by (intro keeps_rbind keeps_cget) (auto split: bool.splits intro!: keeps_rbind keeps_world keeps_manager keeps_rret)
  have table: "keeps R (babel_table E)"
    unfolding babel_table_def by (intro keeps_node)
  show ?thesis
    unfolding after_selection_def
    by (intro keeps_rbind keeps_manager time keeps_world)
      (auto split: sum.splits intro!: keeps_rbind tunnel nat keeps_cget keeps_rattempt table keeps_bill keeps_rret)
qed

lemma keeps_connect:
  assumes "\<And>routes :: 'f route list. keeps R (choose_exit routes)"
  shows "keeps R (connect_to_exit N (E :: ('w, 'f, 'p, 'e, 'c) client_env) T free st ip exit gd)"
proof -
  have table: "keeps R (babel_table E)"
    unfolding babel_table_def by (intro keeps_node)
  show ?thesis
    unfolding connect_to_exit_def Let_def
    by (intro keeps_rbind keeps_rattempt table keeps_refresh assms)
      (auto split: sum.splits intro: keeps_rret keeps_after_selection)
qed

lemma keeps_request_states: "keeps R (request_states E now)"
  unfolding request_states_def
  by (intro keeps_rbind keeps_cget keeps_manager keeps_rfor) (auto intro!: keeps_rignore keeps_status_request)

lemma keeps_slaac: "keeps R (setup_slaac E)"
  unfolding setup_slaac_def by (intro keeps_rbind keeps_cget) (auto split: option.splits intro: keeps_rret keeps_world)

lemma keeps_reset: "keeps R (reset_exit E ip)"
  unfolding reset_exit_def
  by (intro keeps_rbind keeps_cget) (auto split: option.splits intro!: keeps_rbind keeps_rret keeps_world keeps_info)

lemma keeps_register: "keeps R (register_to_exit E)" "keeps R (verify_on_exit_with_code E code)"
  unfolding register_to_exit_def verify_on_exit_with_code_def
  by (intro keeps_rbind keeps_rattempt keeps_setup_request keeps_rret)+

text \<open>A tick respects the relation when the selection of an exit does, and also, without that, when no exit is selected.\<close>

lemma keeps_tick:
  assumes "\<And>routes :: 'f route list. keeps R (choose_exit routes)"
  shows "keeps R (exit_manager_tick N (E :: ('w, 'f, 'p, 'e, 'c) client_env) T)"
  unfolding exit_manager_tick_def Let_def
  by (intro keeps_rbind keeps_cget)
    (auto split: option.splits intro!: keeps_rret keeps_connect assms keeps_rbind keeps_request_states keeps_slaac)

lemma idle_tick:
  assumes "get_current_exit (cn_switcher n) = None" and "exit_manager_tick N E T n = Some (r, n')"
  shows "R n n'"
proof -
  have eq: "exit_manager_tick N E T n = rbind (request_states E (ti_now T)) (\<lambda>_. setup_slaac E) n"
    using assms(1) by (simp add: exit_manager_tick_def cget_def rbind_def rret_def)
  have "keeps R (rbind (request_states E (ti_now T)) (\<lambda>_. setup_slaac E))"
    by (intro keeps_rbind keeps_request_states keeps_slaac)
  then show ?thesis by (rule keepsD) (rule assms(2) [unfolded eq])
qed

end

section \<open>Runs\<close>

text \<open>The life of the exit manager: ticks of its loop, and requests of the dashboard between them.\<close>

datatype client_action = Tick tick_input | Register | Verify string | Reset ip_addr | Select ip_addr
  | AddExits "ip_addr \<rightharpoonup> exit_server"

definition client_step ::
  "num256 \<Rightarrow> ('w, 'f, 'p, 'e, 'c) client_env \<Rightarrow> client_action \<Rightarrow> ('w, 'p, 'e) client_node \<Rightarrow> ('w, 'p, 'e) client_node option" where
  "client_step N E a n = (case a of
     Tick T \<Rightarrow> map_option snd (exit_manager_tick N E T n)
   | Register \<Rightarrow> map_option snd (register_to_exit E n)
   | Verify code \<Rightarrow> map_option snd (verify_on_exit_with_code E code n)
   | Reset ip \<Rightarrow> map_option snd (reset_exit E ip n)
   | Select ip \<Rightarrow> map_option snd (select_exit ip n)
   | AddExits m \<Rightarrow> map_option snd (add_exits m n))"

fun client_run ::
  "num256 \<Rightarrow> ('w, 'f, 'p, 'e, 'c) client_env \<Rightarrow> client_action list \<Rightarrow> ('w, 'p, 'e) client_node \<Rightarrow> ('w, 'p, 'e) client_node option" where
  "client_run N E [] n = Some n"
| "client_run N E (a # as) n = Option.bind (client_step N E a n) (client_run N E as)"

fun adds_exits :: "client_action \<Rightarrow> bool" where
  "adds_exits (AddExits _) = True"
| "adds_exits _ = False"

fun selects :: "client_action \<Rightarrow> bool" where
  "selects (Select _) = True"
| "selects _ = False"

lemma client_run_induct:
  assumes "client_run N E as n = Some n'" and "\<And>n. P n n"
    and "\<And>a n m u. a \<in> set as \<Longrightarrow> client_step N E a n = Some m \<Longrightarrow> P m u \<Longrightarrow> P n u"
  shows "P n n'"
  using assms
proof (induction as arbitrary: n)
  case (Cons a as)
  from Cons.prems(1) obtain m where m: "client_step N E a n = Some m" "client_run N E as m = Some n'"
    by (auto simp: bind_eq_Some_conv)
  have "P m n'" using Cons.IH [OF m(2) Cons.prems(2)] Cons.prems(3) by (metis list.set_intros(2))
  then show ?case using Cons.prems(3) m(1) by (metis list.set_intros(1))
qed simp

section \<open>The selected exit\<close>

definition configured :: "('w, 'p, 'e) client_node \<Rightarrow> bool" where
  "configured n \<longleftrightarrow> sw_ok (cn_switcher n)
     \<and> (case get_current_exit (cn_switcher n) of None \<Rightarrow> True | Some ip \<Rightarrow> cl_exits (cn_settings n) ip \<noteq> None)"

definition same_exit :: "exit_server \<Rightarrow> exit_server \<Rightarrow> bool" where
  "same_exit s t \<longleftrightarrow> es_exit_id t = es_exit_id s \<and> es_registration_port t = es_registration_port s
     \<and> es_wg_exit_listen_port t = es_wg_exit_listen_port s"

definition pins :: "('w, 'p, 'e) client_node \<Rightarrow> ('w, 'p, 'e) client_node \<Rightarrow> bool" where
  "pins n n' \<longleftrightarrow> (\<forall>ip s. cl_exits (cn_settings n) ip = Some s
     \<longrightarrow> (\<exists>t. cl_exits (cn_settings n') ip = Some t \<and> same_exit s t))"

definition safe_step :: "('w, 'p, 'e) client_node \<Rightarrow> ('w, 'p, 'e) client_node \<Rightarrow> bool" where
  "safe_step n n' \<longleftrightarrow> pins n n' \<and> (configured n \<longrightarrow> configured n')"

definition same_selection :: "('w, 'p, 'e) client_node \<Rightarrow> ('w, 'p, 'e) client_node \<Rightarrow> bool" where
  "same_selection n n' \<longleftrightarrow> get_current_exit (cn_switcher n') = get_current_exit (cn_switcher n)"

lemma same_exit_refl [simp]: "same_exit s s"
  by (simp add: same_exit_def)

lemma same_exit_trans: "same_exit s t \<Longrightarrow> same_exit t u \<Longrightarrow> same_exit s u"
  by (simp add: same_exit_def)

lemma pins_refl: "pins n n"
  by (simp add: pins_def)

lemma pins_trans: "pins n m \<Longrightarrow> pins m u \<Longrightarrow> pins n u"
  unfolding pins_def by (meson same_exit_trans)

text \<open>A step that keeps the exits, and the selection but for the blacklist, is safe.\<close>

lemma safe_stepI:
  assumes "pins n n'" and "get_current_exit (cn_switcher n') = get_current_exit (cn_switcher n)"
    and "sw_metrics (cn_switcher n') = sw_metrics (cn_switcher n)"
  shows "safe_step n n'"
proof (cases "get_current_exit (cn_switcher n)")
  case None
  then show ?thesis using assms by (simp add: safe_step_def configured_def sw_ok_def)
next
  case (Some ip)
  have "cl_exits (cn_settings n) ip \<noteq> None \<Longrightarrow> cl_exits (cn_settings n') ip \<noteq> None"
    using assms(1) unfolding pins_def by (metis not_Some_eq)
  then show ?thesis using assms Some by (simp add: safe_step_def configured_def sw_ok_def)
qed

lemma add_exits_keeps: "cl_exits S ip = Some s \<Longrightarrow> cl_exits (add_exits_to_exit_server_list exits S) ip = Some s"
proof -
  have "m ip = Some s \<Longrightarrow> fold (\<lambda>e m. case m (ei_mesh_ip e) of Some _ \<Rightarrow> m
      | None \<Rightarrow> m(ei_mesh_ip e \<mapsto> \<lparr>es_exit_id = exit_identity_to_id e, es_registration_port = ei_registration_port e,
          es_wg_exit_listen_port = ei_wg_exit_listen_port e, es_info = New\<rparr>)) exits m ip = Some s" for m
  proof (induction exits arbitrary: m)
    case (Cons e es)
    then show ?case by (cases "m (ei_mesh_ip e)") (auto intro!: Cons.IH)
  qed simp
  then show "cl_exits S ip = Some s \<Longrightarrow> ?thesis" by (simp add: add_exits_to_exit_server_list_def)
qed

lemma set_info_pins: "pins n (set_exit_info ip st n)"
  by (auto simp: pins_def set_exit_info_def same_exit_def Let_def split: option.splits)

lemma set_info_switcher [simp]: "cn_switcher (set_exit_info ip st n) = cn_switcher n"
  by (simp add: set_exit_info_def Let_def)

interpretation safe: node_rel safe_step
proof unfold_locales
  show "safe_step s t \<Longrightarrow> safe_step t u \<Longrightarrow> safe_step s u" for s t u :: "('a, 'b, 'c) client_node"
    unfolding safe_step_def using pins_trans by blast
  show "safe_step n (set_exit_info ip st n)" for n :: "('a, 'b, 'c) client_node" and ip st
    by (rule safe_stepI) (simp_all add: set_info_pins)
  show "safe_step n (n\<lparr>cn_settings := add_exits_to_exit_server_list exits (cn_settings n)\<rparr>)" for n :: "('a, 'b, 'c) client_node" and exits
    by (rule safe_stepI) (auto simp: pins_def intro: add_exits_keeps)
qed (rule safe_stepI; simp add: pins_def get_current_exit_def)+

interpretation same: node_rel same_selection
  by unfold_locales (simp_all add: same_selection_def get_current_exit_def)

lemma selection_from_list:
  assumes "sw_ok s" and "set_best_exit ready (get_routes_hashmap routes) s = Some (r, s')"
  shows "get_current_exit s' = get_current_exit s \<or> (\<exists>e \<in> set ready. get_current_exit s' = Some (mesh_ip e))"
proof (cases "get_routes_hashmap routes = []")
  case True
  then show ?thesis using assms(2) by (simp add: set_best_exit_def)
next
  case False
  let ?cs = "tick_exits ready (get_routes_hashmap routes) s"
  have listed: "\<exists>e \<in> set ready. b = mesh_ip e" if b: "(b, k) \<in> set ?cs" for b k
  proof -
    from b obtain e rt where e: "e \<in> set ready" "map_of (get_routes_hashmap routes) (mesh_ip e) = Some rt" "b = net_ip (rt_prefix rt)"
      by (auto simp: tick_exits_def considered_def List.map_filter_def split: option.splits if_splits)
    from e(2) have "(mesh_ip e, rt) \<in> set (get_routes_hashmap routes)" by (rule map_of_SomeD)
    then have "mesh_ip e = net_ip (rt_prefix rt)" by (auto simp: get_routes_hashmap_def)
    with e show ?thesis by metis
  qed
  from assms(1) False show ?thesis
  proof (cases rule: tick_result [where exits = ready])
    case (none s1)
    then show ?thesis using assms(2) by (simp add: get_current_exit_def)
  next
    case (down b k s1)
    then show ?thesis using assms(2) listed by auto
  next
    case (up m bl em code vec em' c b ip s1)
    then show ?thesis using assms(2) tick_metrics_facts(6) [OF up(3,4)] listed by (auto split: if_splits)
  qed
qed

lemma ready_configured: "e \<in> set (get_ready_to_switch_exits list exits) \<Longrightarrow> exits (mesh_ip e) \<noteq> None"
  by (auto simp: get_ready_to_switch_exits_def List.map_filter_def exit_identity_to_id_def split: option.splits exit_state.splits)

lemma choose_safe: "keeps safe_step (choose_exit routes)"
  unfolding keeps_def
proof (intro allI impI)
  fix n :: "('w, 'p, 'e) client_node" and r n'
  assume "choose_exit routes n = Some (r, n')"
  then obtain s' where s': "set_best_exit (get_ready_to_switch_exits (em_exit_list (cn_manager n)) (cl_exits (cn_settings n)))
      (get_routes_hashmap routes) (cn_switcher n) = Some (r, s')" and n': "n' = n\<lparr>cn_switcher := s'\<rparr>"
    by (auto simp: choose_exit_def on_switcher_def cget_def rbind_def split: option.splits)
  have "configured n'" if c: "configured n"
  proof -
    have ok: "sw_ok (cn_switcher n)" using c by (simp add: configured_def)
    have "sw_ok s'" using tick_keeps_ok [OF ok s'] by simp
    moreover from selection_from_list [OF ok s']
    have "case get_current_exit s' of None \<Rightarrow> True | Some ip \<Rightarrow> cl_exits (cn_settings n) ip \<noteq> None"
    proof
      assume "get_current_exit s' = get_current_exit (cn_switcher n)"
      then show ?thesis using c by (simp add: configured_def)
    next
      assume "\<exists>e \<in> set (get_ready_to_switch_exits (em_exit_list (cn_manager n)) (cl_exits (cn_settings n))).
        get_current_exit s' = Some (mesh_ip e)"
      then show ?thesis using ready_configured by fastforce
    qed
    ultimately show ?thesis by (cases "get_current_exit s'") (simp_all add: configured_def n')
  qed
  then show "safe_step n n'" by (simp add: safe_step_def pins_def n')
qed

lemma client_step_safe:
  assumes "client_step N E a n = Some m" and "\<not> adds_exits a"
  shows "safe_step n m"
proof (cases a)
  case (Select ip)
  from assms(1) obtain r where "select_exit ip n = Some (r, m)" by (auto simp: client_step_def Select)
  then have m: "m = n \<or> m = n\<lparr>cn_switcher := select_exit_id ip (cn_switcher n)\<rparr> \<and> cl_exits (cn_settings n) ip \<noteq> None"
    by (auto simp: select_exit_def cget_def cmodify_def rbind_def rret_def split: option.splits)
  then show ?thesis
  proof
    assume "m = n\<lparr>cn_switcher := select_exit_id ip (cn_switcher n)\<rparr> \<and> cl_exits (cn_settings n) ip \<noteq> None"
    then show ?thesis by (simp add: safe_step_def pins_def configured_def sw_ok_def select_exit_id_def get_current_exit_def)
  qed (simp add: safe.refl)
next
  case (Tick T)
  then show ?thesis
    using assms(1) keepsD [OF safe.keeps_tick [OF choose_safe]] by (auto simp: client_step_def)
qed (use assms in \<open>auto simp: client_step_def intro: keepsD [OF safe.keeps_register(1)] keepsD [OF safe.keeps_register(2)]
  keepsD [OF safe.keeps_reset]\<close>)

lemma client_step_configured:
  assumes "client_step N E a n = Some m" and "configured n"
  shows "configured m"
proof (cases "adds_exits a")
  case True
  then obtain new where a: "a = AddExits new" by (cases a) auto
  have "m = n\<lparr>cn_settings := (cn_settings n)\<lparr>cl_exits := cl_exits (cn_settings n) ++ new\<rparr>\<rparr>"
    using assms(1) by (simp add: client_step_def a add_exits_def cget_def cmodify_def rbind_def)
  then show ?thesis using assms(2) by (auto simp: configured_def map_add_def split: option.splits)
next
  case False
  then show ?thesis using client_step_safe [OF assms(1)] assms(2) by (simp add: safe_step_def)
qed

lemma client_step_unselected:
  assumes "client_step N E a n = Some m" and "\<not> selects a" and "get_current_exit (cn_switcher n) = None"
  shows "get_current_exit (cn_switcher m) = None"
proof -
  have "same_selection n m"
  proof (cases a)
    case (Tick T)
    then show ?thesis using assms(1) same.idle_tick [OF assms(3)] by (auto simp: client_step_def)
  next
    case (AddExits new)
    then show ?thesis
      using assms(1) by (auto simp: client_step_def add_exits_def cget_def cmodify_def rbind_def same_selection_def)
  qed (use assms in \<open>auto simp: client_step_def intro: keepsD [OF same.keeps_register(1)] keepsD [OF same.keeps_register(2)]
    keepsD [OF same.keeps_reset]\<close>)
  then show ?thesis using assms(3) by (simp add: same_selection_def)
qed

section \<open>Answers, addresses and the clock\<close>

abbreviation blacklist_of :: "('w, 'p, 'e) client_node \<Rightarrow> exit_blacklist" where
  "blacklist_of n \<equiv> sw_blacklist (cn_switcher n)"

text \<open>What is made of a reply, and what the blacklist is after it.\<close>

definition read_box :: "('w, 'f, 'p, 'e, 'c) client_env \<Rightarrow> (string \<Rightarrow> 'a option) \<Rightarrow> wg_key \<Rightarrow> wg_key \<Rightarrow> 'c \<Rightarrow> rita_client_error + 'a" where
  "read_box E rd k sk c = (case ce_open E c k sk of
     BoxClosed \<Rightarrow> Err ClientMiscStringError
   | BoxNotUtf8 \<Rightarrow> Err ClientFromUtf8Error
   | BoxText s \<Rightarrow> (case rd s of Some a \<Rightarrow> Ok a | None \<Rightarrow> Err SerdeJsonError))"

lemma open_text_reads:
  assumes "net_wg_private_key (network (cl_common (cn_settings n))) = Some sk"
  shows "open_text E rd c k n = Some (read_box E rd k sk c, n)"
  using assms by (simp add: open_text_def read_box_def cget_def cexpect_def rbind_def rret_def rraise_def
      split: box_text.splits option.splits)

definition judged :: "('w, 'f, 'p, 'e, 'c) client_env \<Rightarrow> (string \<Rightarrow> 'a option) \<Rightarrow> wg_key \<Rightarrow> wg_key \<Rightarrow> ip_addr \<Rightarrow> 'c http_reply
    \<Rightarrow> exit_blacklist \<Rightarrow> (rita_client_error + 'a) \<times> exit_blacklist" where
  "judged E rd k sk ip reply b = (case reply of
     HttpTimeout \<Rightarrow> (Err ClientSendRequestError, blacklist_strike_ip ip SoftWarning b)
   | HttpFailed \<Rightarrow> (Err ClientSendRequestError, b)
   | HttpBadJson \<Rightarrow> (Err ClientJsonPayloadError, reset_blacklist_warnings ip b)
   | HttpReply c \<Rightarrow> (read_box E rd k sk c, (case read_box E rd k sk c of
         Inl _ \<Rightarrow> blacklist_strike_ip ip HardWarning (reset_blacklist_warnings ip b)
       | Inr _ \<Rightarrow> reset_blacklist_warnings ip (reset_blacklist_warnings ip b))))"

lemma judge_outcome:
  assumes "net_wg_private_key (network (cl_common (cn_settings n))) = Some sk"
  shows "\<exists>n'. judge_reply ip k (open_text E rd) reply n = Some (fst (judged E rd k sk ip reply (blacklist_of n)), n')
    \<and> blacklist_of n' = snd (judged E rd k sk ip reply (blacklist_of n))"
proof (cases reply)
  case (HttpReply c)
  then show ?thesis
    using assms by (cases "read_box E rd k sk c")
      (simp_all add: judge_reply_def judged_def forgive_def strike_def cmodify_def rbind_def rattempt_def rret_def rraise_def open_text_reads)
qed (simp_all add: judge_reply_def judged_def forgive_def strike_def cmodify_def rbind_def rraise_def)

lemma ask_exit_judged:
  assumes "net_wg_public_key (network (cl_common (cn_settings n))) = Some pk"
    and "net_wg_private_key (network (cl_common (cn_settings n))) = Some sk"
    and "ce_seal E k sk ident (cn_world n) = (c, w1)"
    and "ce_post E (''http://['' @ show_ip ip @ '']:'' @ dec (unat port) @ path) pk c w1 = (reply, w2)"
  shows "\<exists>n'. ask_exit E path k ip port ident (open_text E rd) n = Some (fst (judged E rd k sk ip reply (blacklist_of n)), n')
    \<and> blacklist_of n' = snd (judged E rd k sk ip reply (blacklist_of n))"
proof -
  have "encrypt_exit_client_id E k ident n = Some (Inr (pk, c), n\<lparr>cn_world := w1\<rparr>)"
    using assms(1-3) by (simp add: encrypt_exit_client_id_def cget_def cexpect_def on_cworld_def rbind_def rret_def)
  then have "ask_exit E path k ip port ident (open_text E rd) n = judge_reply ip k (open_text E rd) reply (n\<lparr>cn_world := w2\<rparr>)"
    using assms(4) by (simp add: ask_exit_def rbind_def on_cworld_def)
  then show ?thesis using judge_outcome[of "n\<lparr>cn_world := w2\<rparr>" sk ip k E rd reply] assms(2) by simp
qed

text \<open>Timeouts in a row.\<close>

definition timeouts :: "ip_addr \<Rightarrow> nat \<Rightarrow> exit_blacklist \<Rightarrow> exit_blacklist" where
  "timeouts ip m = (blacklist_strike_ip ip SoftWarning) ^^ m"

lemma first_timeouts:
  assumes "m < 100" and "potential_blacklists b ip = None"
  shows "timeouts ip (Suc m) b = b\<lparr>potential_blacklists := (potential_blacklists b)(ip \<mapsto> word_of_nat (Suc m))\<rparr>"
  using assms(1)
proof (induction m)
  case 0
  then show ?case using assms(2) by (simp add: timeouts_def blacklist_strike_ip_def fun_upd_def)
next
  case (Suc m)
  have "unat (word_of_nat (Suc m) :: u16) = Suc m" using Suc.prems by (simp add: unat_of_nat take_bit_nat_eq_self del: of_nat_Suc)
  then have "\<not> (100 :: u16) \<le> word_of_nat (Suc m)" using Suc.prems by (simp add: word_le_nat_alt del: of_nat_Suc)
  moreover have "timeouts ip (Suc (Suc m)) b = blacklist_strike_ip ip SoftWarning (timeouts ip (Suc m) b)"
    by (simp add: timeouts_def)
  ultimately show ?case using Suc
    by (simp add: blacklist_strike_ip_def MAX_BLACKLIST_STRIKES_def add.commute fun_upd_def cong: if_cong)
qed

lemma timeouts_blacklist:
  assumes "ip \<notin> blacklisted_exits b" and "potential_blacklists b ip = None"
  shows "ip \<in> blacklisted_exits (timeouts ip m b) \<longleftrightarrow> 101 \<le> m"
proof (cases "m \<le> 100")
  case True
  then show ?thesis using first_timeouts[OF _ assms(2)] assms(1) by (cases m) (auto simp: timeouts_def[of _ 0])
next
  case False
  then have "101 \<le> m" by simp
  then have "ip \<in> blacklisted_exits (timeouts ip m b)"
  proof (induction m rule: dec_induct)
    case base
    have "timeouts ip 100 b = b\<lparr>potential_blacklists := (potential_blacklists b)(ip \<mapsto> word_of_nat 100)\<rparr>"
      using first_timeouts[of 99, OF _ assms(2)] by simp
    moreover have "(101 :: nat) = Suc 100" by simp
    then have "timeouts ip 101 b = blacklist_strike_ip ip SoftWarning (timeouts ip 100 b)"
      by (simp only: timeouts_def funpow.simps comp_apply)
    ultimately show ?case by (simp add: blacklist_strike_ip_def MAX_BLACKLIST_STRIKES_def)
  next
    case (step m)
    then show ?case by (auto simp: timeouts_def blacklist_strike_ip_def split: option.splits)
  qed
  with \<open>101 \<le> m\<close> show ?thesis by simp
qed

lemma rignore_no_error [simp]: "rignore m w \<noteq> Some (Inl e, w')"
  by (auto simp: rignore_def rattempt_def rbind_def rret_def split: option.splits)

lemma update_nat_result:
  assumes "update_nat E low free n = Some (r, n')"
  shows "(nat_setup (cn_manager n') \<longleftrightarrow> \<not> low \<or> free) \<and> cn_settings n' = cn_settings n"
  using assms unfolding update_nat_def
  by (auto simp: restore_nat_def remove_nat_def on_manager_def cget_def cmodify_def rbind_def rret_def on_cworld_def
      split: option.splits sum.splits bool.splits if_splits prod.splits)

text \<open>The rest of a tick leaves the manager and the configuration alone.\<close>

definition same_books :: "('w, 'p, 'e) client_node \<Rightarrow> ('w, 'p, 'e) client_node \<Rightarrow> bool" where
  "same_books n n' \<longleftrightarrow> cn_manager n' = cn_manager n \<and> cn_settings n' = cn_settings n"

interpretation books: preorder_rel same_books
  by unfold_locales (simp_all add: same_books_def)

lemma world_books: "keeps same_books (on_cworld m)"
  by (auto simp: keeps_def on_cworld_def same_books_def split: option.splits)

lemma cget_books: "keeps same_books (cget f)"
  by (simp add: keeps_def cget_def same_books_def)

lemma bill_books: "keeps same_books (bill_exit N E T exit gd routes)"
  by (auto simp: keeps_def bill_exit_def same_books_def split: option.splits)

lemma billing_books:
  "keeps same_books (if od = None then rret True else rbind (rattempt (babel_table E)) (\<lambda>routes. case routes of
     Inl _ \<Rightarrow> rret False | Inr routes \<Rightarrow> rbind (bill_exit N E T exit gd routes) (\<lambda>_. rret True)))"
  unfolding babel_table_def
  by (auto split: sum.splits intro!: books.keeps_rret books.keeps_rbind books.keeps_rattempt cget_books world_books bill_books)

text \<open>The part of a tick for the selected exit leaves the flag as the step that follows the balance sets it.\<close>

lemma tick_sets_nat_flag:
  assumes "after_selection N E T free_tier st exit gd selected n = Some (Ok True, n')"
  shows "nat_setup (cn_manager n') \<longleftrightarrow> \<not> low_balance (payment (cl_common (cn_settings n'))) (ti_oracle T) \<or> free_tier"
proof -
  let ?low = "\<lambda>n. low_balance (payment (cl_common (cn_settings n))) (ti_oracle T)"
  have "\<exists>m m'. update_nat E (?low m) free_tier m = Some (Inr (), m') \<and> same_books m' n'"
    using assms unfolding after_selection_def rbind_Some_iff
    apply (clarsimp simp: rbind_Some_iff)
    subgoal for w1 w2 x by (cases x) (auto simp: rbind_Some_iff cget_def rret_def [of False] dest: keepsD [OF billing_books])
    done
  then obtain m m' where "update_nat E (?low m) free_tier m = Some (Inr (), m')" and "same_books m' n'" by blast
  then show ?thesis using update_nat_result by (fastforce simp: same_books_def)
qed

section \<open>Properties\<close>

text \<open>A client with one new exit in its configuration, on a machine where nothing can be run or reached.\<close>

definition sample_exit_ip :: ip_addr where "sample_exit_ip = V6 0xfd000000000000000000000000001337"

definition sample_exit :: exit_server where
  "sample_exit = \<lparr>es_exit_id = \<lparr>mesh_ip = sample_exit_ip, eth_address = 1, wg_public_key = 2\<rparr>, es_registration_port = 4875,
     es_wg_exit_listen_port = 59998, es_info = New\<rparr>"

definition quiet_env :: "'w world \<Rightarrow> ('w, nat, u64, u64, unit) client_env" where
  "quiet_env W = \<lparr>ce_world = W, ce_files = (\<lambda>_ _. Inl RuntimeError), ce_float = (\<lambda>_. None), ce_network = (\<lambda>_. None),
     ce_inet_cap = (\<lambda>_. None), ce_inet6_caps = (\<lambda>_. []), ce_captures = (\<lambda>_. []), ce_show_key = (\<lambda>_. []),
     ce_parse_key = (\<lambda>_. None), ce_ipnet = std_ipnet, ce_texts = number_texts, ce_seal = (\<lambda>_ _ _ w. ((), w)),
     ce_post = (\<lambda>_ _ _ w. (HttpReply (), w)), ce_open = (\<lambda>_ _ _. BoxClosed), ce_read_state = (\<lambda>_. None),
     ce_read_list = (\<lambda>_. None), ce_get_time = (\<lambda>_ w. (None, w)), ce_ping = (\<lambda>_ _ w. (Inr False, w)),
     ce_order = (\<lambda>m. if m sample_exit_ip = None then [] else [sample_exit_ip])\<rparr>"

definition silent_env :: "(unit, nat, u64, u64, unit) client_env" where
  "silent_env = quiet_env dead_world"

definition sample_client :: "(unit, u64, u64) client_node" where
  "sample_client = \<lparr>cn_settings = \<lparr>cl_common = \<lparr>payment = payment_settings_default,
       network = network_settings_default\<lparr>net_wg_public_key := Some 3, net_wg_private_key := Some 4\<rparr>, settings_identity = None\<rparr>,
       cl_exits = [sample_exit_ip \<mapsto> sample_exit], cl_wg_listen_port = 59999, cl_contact_info = None\<rparr>,
     cn_switcher = switcher_new, cn_manager = exit_manager_default,
     cn_watch = \<lparr>last_read_input = 0, last_read_output = 0, last_exit_dest_price = 0\<rparr>,
     cn_debts = \<lparr>last_save = None, debt_data = Map.empty\<rparr>, cn_usage = (\<lparr>last_save_hour = 0, client_bandwidth = [], relay_bandwidth = [], exit_bandwidth = [], ut_payments = []\<rparr>,
       let d = \<lparr>last_sample_time = None, duration_of_this_sample = 0, bytes_used = 0\<rparr>
       in \<lparr>tp_client = d, tp_relay = d, tp_exit = d\<rparr>), cn_world = ()\<rparr>"

definition sample_tick :: tick_input where
  "sample_tick = \<lparr>ti_now = from_secs 1000, ti_system_time = from_secs 1000, ti_hour = None, ti_oracle = blockchain_oracle_new,
     ti_gateway = False, ti_debt = RequestFailed\<rparr>"

lemmas sample_client_defs = sample_client_def sample_tick_def silent_env_def quiet_env_def sample_exit_def switcher_new_def exit_manager_default_def
  select_exit_id_def get_current_exit_def

lemma sample_status:
  assumes "cl_contact_info (cn_settings n) = None" and "cl_exits (cn_settings n) ip = Some s"
  shows "rignore (exit_status_request E ip) n = Some (Inr (), n)"
  using assms
  by (simp add: exit_status_request_def request_identity_def cget_def rignore_def rattempt_def rbind_def rret_def rraise_def)

lemma sample_slaac:
  assumes "get_client_pub_ipv6 n = None"
  shows "setup_slaac E n = Some (Inr (), n)"
  using assms by (simp add: setup_slaac_def cget_def rbind_def rret_def)

text \<open>A tick of the sample asks the new exit for its state, in vain.\<close>

lemma sample_tick_run:
  assumes "cl_exits (cn_settings n) = [sample_exit_ip \<mapsto> sample_exit]" and "cl_contact_info (cn_settings n) = None"
    and "get_current_exit (cn_switcher n) \<in> {None, Some sample_exit_ip}"
  shows "exit_manager_tick N silent_env T n = Some (Inr (), n)"
proof -
  have servers: "exits_in_order silent_env (cl_exits (cn_settings n)) = [(sample_exit_ip, sample_exit)]"
    using assms(1) by (simp add: exits_in_order_def silent_env_def quiet_env_def List.map_filter_simps)
  have "rignore (exit_status_request silent_env sample_exit_ip) n = (Some (Inr (), n) :: ((rita_client_error + unit) \<times> _) option)"
    using assms by (intro sample_status) auto
  then have states: "request_states silent_env now n = Some (Inr (), n)" for now
    by (simp add: request_states_def rbind_def cget_def servers on_manager_def cmodify_def is_registered_def sample_exit_def rret_def)
  have "get_client_pub_ipv6 n = None"
    using assms by (auto simp: get_client_pub_ipv6_def get_selected_exit_server_def sample_exit_def)
  then have "rbind (request_states silent_env (ti_now T)) (\<lambda>_. setup_slaac silent_env) n = Some (Inr (), n)"
    using states sample_slaac by (simp add: rbind_def)
  then show ?thesis
    using assms by (auto simp: exit_manager_tick_def cget_def rbind_def rret_def sample_exit_def Let_def)
qed

abbreviation selected_client :: "(unit, u64, u64) client_node" where
  "selected_client \<equiv> sample_client\<lparr>cn_switcher := select_exit_id sample_exit_ip switcher_new\<rparr>"

lemma sample_select: "select_exit sample_exit_ip sample_client
  = Some (Inr True, selected_client)"
  by (simp add: select_exit_def sample_client_def cget_def cmodify_def rbind_def rret_def)

lemma selected_client_run:
  "client_run checked_num256 silent_env [Select sample_exit_ip, Tick sample_tick] sample_client = Some selected_client"
proof -
  have "exit_manager_tick checked_num256 silent_env sample_tick selected_client = Some (Inr (), selected_client)"
    by (rule sample_tick_run) (simp_all add: sample_client_def select_exit_id_def get_current_exit_def)
  then show ?thesis by (simp add: client_step_def sample_select)
qed

text \<open>C16: The keys of an exit are pinned by the configuration. Over every sequence of ticks and requests of the dashboard
  other than adding exits, an exit that is configured stays configured with the same address, keys and ports, whatever any
  exit answers: a list of exits that names another key for a known address changes nothing.\<close>

theorem exit_keys_are_pinned:
  fixes n n' :: "('w, 'p, 'e) client_node"
  assumes "client_run N E acts n = Some n'" and "\<not> list_ex adds_exits acts" and "cl_exits (cn_settings n) ip = Some s"
  shows "\<exists>t. cl_exits (cn_settings n') ip = Some t \<and> es_exit_id t = es_exit_id s
    \<and> es_registration_port t = es_registration_port s \<and> es_wg_exit_listen_port t = es_wg_exit_listen_port s"
proof -
  have "safe_step n n'"
    using assms(1)
  proof (rule client_run_induct)
    fix a and n m u :: "('w, 'p, 'e) client_node"
    assume "a \<in> set acts" and step: "client_step N E a n = Some m" and "safe_step m u"
    moreover have "\<not> adds_exits a" using calculation(1) assms(2) by (auto simp: list_ex_iff)
    ultimately show "safe_step n u" using safe.trans [OF client_step_safe [OF step]] by blast
  qed (rule safe.refl)
  then show ?thesis using assms(3) by (auto simp: safe_step_def pins_def same_exit_def)
qed

theorem exit_keys_are_pinned_witness:
  "\<exists>n' t. client_run checked_num256 silent_env [Select sample_exit_ip, Tick sample_tick] sample_client = Some n'
     \<and> cl_exits (cn_settings n') sample_exit_ip = Some t \<and> es_exit_id t = es_exit_id sample_exit"
proof -
  have "cl_exits (cn_settings sample_client) sample_exit_ip = Some sample_exit" by (simp add: sample_client_def)
  from exit_keys_are_pinned [OF selected_client_run _ this] show ?thesis using selected_client_run by auto
qed

text \<open>C17: The exit a client has selected is one of its configuration, and the switcher can go on from there. This holds over
  every sequence of ticks and requests from the start; so the tunnel is only set up to an exit whose key is known.\<close>

theorem selected_exit_is_configured:
  fixes n n' :: "('w, 'p, 'e) client_node"
  assumes "client_run N E acts n = Some n'" and "cn_switcher n = switcher_new"
    and "get_current_exit (cn_switcher n') = Some ip"
  shows "(\<exists>s. cl_exits (cn_settings n') ip = Some s) \<and> (\<exists>r s'. set_best_exit exits routes (cn_switcher n') = Some (r, s'))"
proof -
  have "configured n" using assms(2) by (simp add: configured_def sw_ok_def switcher_new_def get_current_exit_def)
  moreover have "configured n \<longrightarrow> configured n'"
    using assms(1)
  proof (rule client_run_induct)
    fix a and n m u :: "('w, 'p, 'e) client_node"
    assume "client_step N E a n = Some m" and "configured m \<longrightarrow> configured u"
    then show "configured n \<longrightarrow> configured u" using client_step_configured by blast
  qed simp
  ultimately have "configured n'" by simp
  then show ?thesis using assms(3) tick_returns [of "cn_switcher n'" exits routes] by (simp add: configured_def)
qed

theorem selected_exit_is_configured_witness:
  "\<exists>n' s. client_run checked_num256 silent_env [Select sample_exit_ip, Tick sample_tick] sample_client = Some n'
     \<and> get_current_exit (cn_switcher n') = Some sample_exit_ip \<and> cl_exits (cn_settings n') sample_exit_ip = Some s"
proof -
  have sel: "get_current_exit (cn_switcher selected_client) = Some sample_exit_ip" by (simp add: sample_client_defs)
  have start: "cn_switcher sample_client = switcher_new" by (simp add: sample_client_def)
  from selected_exit_is_configured [OF selected_client_run start sel] show ?thesis using selected_client_run sel by blast
qed

text \<open>C18: Without a selection in the dashboard no exit is ever selected. The loop calls the switcher only when an exit is
  selected already, and the selection is not part of the configuration that is saved; so after a start of the client no sequence
  of ticks, registrations and new exits connects it to an exit.\<close>

theorem unselected_client_stays_unconnected:
  fixes n n' :: "('w, 'p, 'e) client_node"
  assumes "client_run N E acts n = Some n'" and "get_current_exit (cn_switcher n) = None" and "\<not> list_ex selects acts"
  shows "get_current_exit (cn_switcher n') = None"
proof -
  have "get_current_exit (cn_switcher n) = None \<longrightarrow> get_current_exit (cn_switcher n') = None"
    using assms(1)
  proof (rule client_run_induct)
    fix a and n m u :: "('w, 'p, 'e) client_node"
    assume "a \<in> set acts" and "client_step N E a n = Some m"
      and "get_current_exit (cn_switcher m) = None \<longrightarrow> get_current_exit (cn_switcher u) = None"
    moreover have "\<not> selects a" using calculation(1) assms(3) by (auto simp: list_ex_iff)
    ultimately show "get_current_exit (cn_switcher n) = None \<longrightarrow> get_current_exit (cn_switcher u) = None"
      using client_step_unselected [of N E a n m] by simp
  qed simp
  then show ?thesis using assms(2) by simp
qed

theorem unselected_client_stays_unconnected_witness:
  "\<exists>n'. client_run checked_num256 silent_env [Tick sample_tick, Tick sample_tick] sample_client = Some n'
     \<and> get_current_exit (cn_switcher n') = None"
proof -
  have run: "client_run checked_num256 silent_env [Tick sample_tick, Tick sample_tick] sample_client = Some sample_client"
  proof -
    have "exit_manager_tick checked_num256 silent_env sample_tick sample_client = Some (Inr (), sample_client)"
      by (rule sample_tick_run) (simp_all add: sample_client_def switcher_new_def get_current_exit_def)
    then show ?thesis by (simp add: client_step_def)
  qed
  have "get_current_exit (cn_switcher sample_client) = None" by (simp add: sample_client_defs)
  from unselected_client_stays_unconnected [OF run this] show ?thesis using run by auto
qed

text \<open>C19: An exit is judged by its answer, exactly. A status request of a client that has its keys returns, and after it
  the exit is cleared of every warning when the answer was read, and also when the answer was not even JSON; it is
  blacklisted when the answer could not be decrypted or read; nothing changes when the request failed at once; and a
  timeout adds one to the count of the exit, or blacklists the exit and drops the count when it has come to a hundred. No other exit is
  affected. So an exit without warnings is blacklisted by timeouts in a row exactly when there are 101 of them.\<close>

theorem answers_judge_exits:
  assumes "net_wg_public_key (network (cl_common (cn_settings n))) = Some pk"
    and "net_wg_private_key (network (cl_common (cn_settings n))) = Some sk"
    and "ce_seal E k sk ident (cn_world n) = (c, w1)"
    and "ce_post E (''http://['' @ show_ip ip @ '']:'' @ dec (unat port) @ ''/secure_status'') pk c w1 = (reply, w2)"
  shows "\<exists>r n'. send_exit_status_request E k ip port ident n = Some (r, n')
    \<and> (let bad = blacklisted_exits (blacklist_of n); count = potential_blacklists (blacklist_of n);
           bad' = blacklisted_exits (blacklist_of n'); count' = potential_blacklists (blacklist_of n') in
       (case reply of
          HttpTimeout \<Rightarrow> r = Err ClientSendRequestError
            \<and> (case count ip of
                 None \<Rightarrow> count' ip = Some 1 \<and> bad' = bad
               | Some m \<Rightarrow> if 100 \<le> unat m then count' ip = None \<and> bad' = insert ip bad
                          else count' ip = Some (m + 1) \<and> bad' = bad)
        | HttpFailed \<Rightarrow> r = Err ClientSendRequestError \<and> count' ip = count ip \<and> bad' = bad
        | HttpBadJson \<Rightarrow> r = Err ClientJsonPayloadError \<and> count' ip = None \<and> bad' = bad - {ip}
        | HttpReply a \<Rightarrow> count' ip = None
            \<and> (case ce_open E a k sk of
                 BoxClosed \<Rightarrow> r = Err ClientMiscStringError \<and> bad' = insert ip bad
               | BoxNotUtf8 \<Rightarrow> r = Err ClientFromUtf8Error \<and> bad' = insert ip bad
               | BoxText s \<Rightarrow> (case ce_read_state E s of
                     None \<Rightarrow> r = Err SerdeJsonError \<and> bad' = insert ip bad
                   | Some st \<Rightarrow> r = Ok st \<and> bad' = bad - {ip})))
       \<and> (\<forall>j. j \<noteq> ip \<longrightarrow> count' j = count j))
    \<and> (ip \<in> blacklisted_exits (timeouts ip m (reset_blacklist_warnings ip (blacklist_of n))) \<longleftrightarrow> 101 \<le> m)"
proof -
  let ?j = "judged E (ce_read_state E) k sk ip reply (blacklist_of n)"
  obtain n' where run: "send_exit_status_request E k ip port ident n = Some (fst ?j, n')" and b: "blacklist_of n' = snd ?j"
    using ask_exit_judged[OF assms, of "ce_read_state E"] unfolding send_exit_status_request_def decrypt_exit_state_def by blast
  have late: "ip \<in> blacklisted_exits (timeouts ip m (reset_blacklist_warnings ip (blacklist_of n))) \<longleftrightarrow> 101 \<le> m"
    by (rule timeouts_blacklist) (simp_all add: reset_blacklist_warnings_def)
  show ?thesis
    by (rule exI [of _ "fst ?j"], rule exI [of _ n'], intro conjI run late, unfold b Let_def, cases reply)
      (auto simp: judged_def read_box_def blacklist_strike_ip_def reset_blacklist_warnings_def
        MAX_BLACKLIST_STRIKES_def word_le_nat_alt split: option.splits box_text.splits)
qed

text \<open>An exit whose answer does not decrypt.\<close>

definition client_request_sample :: exit_client_request where
  "client_request_sample = \<lparr>eq_global = es_exit_id sample_exit, eq_wg_port = 59999, eq_reg_details =
     \<lparr>rd_email = None, rd_email_code = None, rd_phone = None, rd_phone_code = None, rd_sequence_number = None\<rparr>\<rparr>"

lemma unit_world [simp]: "n\<lparr>cn_world := u\<rparr> = (n :: (unit, 'p, 'e) client_node)"
  by (cases n) simp

lemma silent_env_simps [simp]:
  "ce_post silent_env = (\<lambda>_ _ _ w. (HttpReply (), w))" "ce_open silent_env = (\<lambda>_ _ _. BoxClosed)"
  "ce_seal silent_env = (\<lambda>_ _ _ w. ((), w))" "ce_get_time silent_env = (\<lambda>_ w. (None, w))"
  by (simp_all add: silent_env_def quiet_env_def)

lemma sample_client_keys [simp]:
  "net_wg_public_key (network (cl_common (cn_settings sample_client))) = Some 3"
  "net_wg_private_key (network (cl_common (cn_settings sample_client))) = Some 4"
  by (simp_all add: sample_client_def)

definition warned_client :: "(unit, u64, u64) client_node" where
  "warned_client = sample_client\<lparr>cn_switcher :=
     switcher_new\<lparr>sw_blacklist := \<lparr>blacklisted_exits = {}, potential_blacklists = [sample_exit_ip \<mapsto> 100]\<rparr>\<rparr>\<rparr>"

theorem answers_judge_exits_witness:
  "(\<exists>n'. send_exit_status_request silent_env 2 sample_exit_ip 4875 client_request_sample sample_client
       = Some (Err ClientMiscStringError, n') \<and> sample_exit_ip \<in> blacklisted_exits (blacklist_of n'))
   \<and> (\<exists>n'. send_exit_status_request (silent_env\<lparr>ce_post := \<lambda>_ _ _ w. (HttpTimeout, w)\<rparr>) 2 sample_exit_ip 4875 client_request_sample
       sample_client = Some (Err ClientSendRequestError, n') \<and> blacklisted_exits (blacklist_of n') = {}
       \<and> potential_blacklists (blacklist_of n') sample_exit_ip = Some 1)
   \<and> (\<exists>n'. send_exit_status_request (silent_env\<lparr>ce_post := \<lambda>_ _ _ w. (HttpTimeout, w)\<rparr>) 2 sample_exit_ip 4875 client_request_sample
       warned_client = Some (Err ClientSendRequestError, n') \<and> blacklisted_exits (blacklist_of n') = {sample_exit_ip}
       \<and> potential_blacklists (blacklist_of n') sample_exit_ip = None)"
proof (intro conjI)
  let ?E = "silent_env\<lparr>ce_post := \<lambda>_ _ _ w. (HttpTimeout, w)\<rparr>"
  have b: "blacklist_of sample_client = \<lparr>blacklisted_exits = {}, potential_blacklists = Map.empty\<rparr>"
    by (simp add: sample_client_def switcher_new_def)
  have keys: "net_wg_public_key (network (cl_common (cn_settings warned_client))) = Some 3"
    "net_wg_private_key (network (cl_common (cn_settings warned_client))) = Some 4" by (simp_all add: warned_client_def)
  note judge = answers_judge_exits [where k = 2 and ip = sample_exit_ip and port = 4875 and ident = client_request_sample and m = 0]
  show "\<exists>n'. send_exit_status_request silent_env 2 sample_exit_ip 4875 client_request_sample sample_client
       = Some (Err ClientMiscStringError, n') \<and> sample_exit_ip \<in> blacklisted_exits (blacklist_of n')"
    using judge [OF sample_client_keys, of silent_env "()" "()" "HttpReply ()" "()"] by (auto simp: Let_def)
  show "\<exists>n'. send_exit_status_request ?E 2 sample_exit_ip 4875 client_request_sample sample_client
      = Some (Err ClientSendRequestError, n') \<and> blacklisted_exits (blacklist_of n') = {}
      \<and> potential_blacklists (blacklist_of n') sample_exit_ip = Some 1"
    using judge [OF sample_client_keys, of ?E "()" "()" HttpTimeout "()"] by (auto simp: Let_def b)
  show "\<exists>n'. send_exit_status_request ?E 2 sample_exit_ip 4875 client_request_sample warned_client
      = Some (Err ClientSendRequestError, n') \<and> blacklisted_exits (blacklist_of n') = {sample_exit_ip}
      \<and> potential_blacklists (blacklist_of n') sample_exit_ip = None"
    using judge [OF keys, of ?E "()" "()" HttpTimeout "()"] by (auto simp: Let_def warned_client_def)
qed

text \<open>C20: The users of the client are let through or rejected by its balance. Let \<open>rules\<close> be the rules of the firewall that reject
  what they send, on a machine with \<open>iptables\<close> or with \<open>nft\<close>, let there be at most one, and none while the manager believes the
  address translation to be set up. Then the step of a tick that follows the balance returns, and after it there is no
  such rule when the balance is not low or the free tier may be used, and exactly one otherwise, unless the address translation was
  not set up and nothing was rejected to begin with; the manager's flag agrees, so the assumptions hold again in the
  next tick. The machine is one on which the commands succeed: the code ignores their errors, and then sets the flag all the same.\<close>

theorem nat_follows_balance:
  assumes "iptables_firewall (ce_world E) rules \<or> nft_firewall (ce_world E) rules"
    and "length (rules (cn_world n)) \<le> 1" and "nat_setup (cn_manager n) \<longrightarrow> rules (cn_world n) = []"
  shows "\<exists>n'. update_nat E low free_tier n = Some (Ok (), n')
    \<and> (nat_setup (cn_manager n') \<longleftrightarrow> \<not> low \<or> free_tier)
    \<and> length (rules (cn_world n')) = (if \<not> low \<or> free_tier \<or> \<not> nat_setup (cn_manager n) \<and> rules (cn_world n) = [] then 0 else 1)"
proof -
  have gate: "lan_gate (block_client_nat (ce_world E)) (restore_client_nat (ce_world E)) rules"
    using assms(1) gate_of_iptables gate_of_nft by blast
  obtain wb where b: "rignore (block_client_nat (ce_world E)) (cn_world n) = Some (Inr () :: rita_client_error + unit, wb)"
    "length (rules wb) = max 1 (length (rules (cn_world n)))" using lan_gate.ignored_block[OF gate] by blast
  obtain wr where r: "rignore (restore_client_nat (ce_world E)) (cn_world n) = Some (Inr () :: rita_client_error + unit, wr)"
    "rules wr = tl (rules (cn_world n))" using lan_gate.ignored_restore[OF gate] by blast
  show ?thesis
    using assms(2,3) b r
    by (cases low; cases free_tier; cases "nat_setup (cn_manager n)"; cases "rules (cn_world n)")
      (simp_all add: update_nat_def remove_nat_def restore_nat_def on_manager_def cget_def cmodify_def on_cworld_def rbind_def rret_def)
qed

text \<open>A client whose balance is low, on either machine, first with the address translation set up and then with the users rejected.\<close>

definition gate_env :: "u32 list world \<Rightarrow> (u32 list, nat, u64, u64, unit) client_env" where
  "gate_env W = quiet_env W"

definition gate_client :: "bool \<Rightarrow> u32 list \<Rightarrow> (u32 list, u64, u64) client_node" where
  "gate_client flag hs = \<lparr>cn_settings = cn_settings sample_client, cn_switcher = switcher_new,
     cn_manager = exit_manager_default\<lparr>nat_setup := flag\<rparr>, cn_watch = cn_watch sample_client, cn_debts = cn_debts sample_client,
     cn_usage = cn_usage sample_client, cn_world = hs\<rparr>"

theorem nat_follows_balance_witness:
  "(\<exists>n'. update_nat (gate_env iptables_machine) True False (gate_client True []) = Some (Ok (), n') \<and> length (cn_world n') = 1)
   \<and> (\<exists>n'. update_nat (gate_env nft_machine) True False (gate_client True []) = Some (Ok (), n') \<and> length (cn_world n') = 1)
   \<and> (\<exists>n'. update_nat (gate_env nft_machine) False False (gate_client False [7]) = Some (Ok (), n') \<and> cn_world n' = []
         \<and> nat_setup (cn_manager n'))"
proof (intro conjI)
  have old: "iptables_firewall (ce_world (gate_env iptables_machine)) (\<lambda>hs. hs)"
    and new: "nft_firewall (ce_world (gate_env nft_machine)) (\<lambda>hs. hs)"
    using old_machine.iptables_firewall_axioms new_machine.nft_firewall_axioms by (simp_all add: gate_env_def quiet_env_def)
  show "\<exists>n'. update_nat (gate_env iptables_machine) True False (gate_client True []) = Some (Ok (), n') \<and> length (cn_world n') = 1"
    using nat_follows_balance [OF disjI1 [OF old], of "gate_client True []" True False] by (auto simp: gate_client_def)
  show "\<exists>n'. update_nat (gate_env nft_machine) True False (gate_client True []) = Some (Ok (), n') \<and> length (cn_world n') = 1"
    using nat_follows_balance [OF disjI2 [OF new], of "gate_client True []" True False] by (auto simp: gate_client_def)
  show "\<exists>n'. update_nat (gate_env nft_machine) False False (gate_client False [7]) = Some (Ok (), n') \<and> cn_world n' = []
      \<and> nat_setup (cn_manager n')"
    using nat_follows_balance [OF disjI2 [OF new], of "gate_client False [7]" False False] by (auto simp: gate_client_def)
qed

text \<open>C21: The clock is only set forward. Whatever holds of the machine and is kept by every other command, and by setting the
  clock to a time at least a minute after the present one, holds after the clock was compared with that of an exit: no other time
  is ever set.\<close>

theorem clock_only_moves_forward:
  assumes "maybe_set_local_to_exit_time E now exit n = Some (r, n')" and "I (cn_world n)"
    and commands: "\<And>prog args w. I w \<Longrightarrow> prog \<noteq> ''date'' \<or> (\<exists>secs \<ge> as_secs now + 60. args = [''-s'', ''@'' @ dec secs])
      \<Longrightarrow> I (snd (run_command (ce_world E) prog args w))"
    and exits: "\<And>url w. I w \<Longrightarrow> I (snd (ce_get_time E url w))"
  shows "I (cn_world n')"
proof -
  have later: "\<exists>secs \<ge> as_secs now + 60. as_secs t = secs" if "now \<le> t" "t - now > MAX_DIFF_LOCAL_EXIT_TIME" for t
  proof -
    have "now + 60 * 1000000000 \<le> t" using that by (simp add: MAX_DIFF_LOCAL_EXIT_TIME_def from_secs_def)
    then have "(now + 60 * 1000000000) div 1000000000 \<le> t div 1000000000" by (rule div_le_mono)
    then show ?thesis by (simp add: as_secs_def)
  qed
  let ?J = "\<lambda>w w'. I w \<longrightarrow> I w'"
  have pre: "preorder_rel ?J" by unfold_locales auto
  let ?K = "\<lambda>n n'. I (cn_world n) \<longrightarrow> I (cn_world n')"
  have pre': "preorder_rel ?K" by unfold_locales auto
  note intros = preorder_rel.keeps_rbind [OF pre'] preorder_rel.keeps_rret [OF pre']
  have lift: "keeps ?K (on_cworld m)" if "keeps ?J m" for m :: "('a, 'x, 'y) rio"
    using that by (auto simp: keeps_def on_cworld_def split: option.splits)
  have command: "keeps ?J (cmd (ce_world E) prog args)"
    if "prog \<noteq> ''date'' \<or> (\<exists>secs \<ge> as_secs now + 60. args = [''-s'', ''@'' @ dec secs])" for prog args
    using commands [OF _ that] by (auto simp: keeps_def cmd_def dest: sym [of "Some _"]) (metis snd_conv)
  have handshake: "keeps ?J (get_last_handshake_time (ce_world E) (ce_parse_key E) ''wg_exit'')"
    unfolding get_last_handshake_time_def
    by (intro preorder_rel.keeps_rbind [OF pre] command) (auto simp: keeps_def from_utf8_def rlift_def rret_def rraise_def split: option.splits)
  have hs: "keeps ?K (get_latest_exit_handshake E)"
    unfolding get_latest_exit_handshake_def by (intro intros lift preorder_rel.keeps_rattempt [OF pre] handshake)
  have date: "keeps ?J (rignore (set_local_time (ce_world E) t))" if "now \<le> t" "t - now > MAX_DIFF_LOCAL_EXIT_TIME" for t
    unfolding set_local_time_def using later [OF that] by (intro preorder_rel.keeps_rignore [OF pre] command) auto
  have time: "keeps ?K (get_exit_time E exit)"
    using exits by (auto simp: keeps_def get_exit_time_def cget_def cexpect_def rbind_def rret_def on_cworld_def
        split: option.splits prod.splits) (metis snd_conv)
  have "keeps ?K (maybe_set_local_to_exit_time E now exit)"
    unfolding maybe_set_local_to_exit_time_def
    by (intro intros(1) hs) (auto split: option.splits intro!: intros time lift date)
  from keepsD [OF this assms(1)] assms(2) show ?thesis by blast
qed

text \<open>A machine that only notes the commands it is given.\<close>

definition log_world :: "(string \<times> string list) list world" where
  "log_world = \<lparr>run_command = (\<lambda>prog args w. (Inl RuntimeError, w @ [(prog, args)])), sys_class_net = (\<lambda>_. Inl RuntimeError),
     proc_net_udp = (\<lambda>_. Inl RuntimeError), tcp_connect = (\<lambda>_ w. (Inl (), w)), tcp_write = (\<lambda>_ w. (Inl (), w)),
     tcp_read_op = (\<lambda>w. (ReadIoError, w))\<rparr>"

definition log_client :: "((string \<times> string list) list, u64, u64) client_node" where
  "log_client = \<lparr>cn_settings = cn_settings sample_client, cn_switcher = select_exit_id sample_exit_ip switcher_new,
     cn_manager = exit_manager_default, cn_watch = cn_watch sample_client, cn_debts = cn_debts sample_client,
     cn_usage = cn_usage sample_client, cn_world = []\<rparr>"

definition dates_after :: "nat \<Rightarrow> (string \<times> string list) list \<Rightarrow> bool" where
  "dates_after limit = list_all (\<lambda>(prog, args). prog \<noteq> ''date'' \<or> (\<exists>secs \<ge> limit. args = [''-s'', ''@'' @ dec secs]))"

theorem clock_only_moves_forward_witness:
  "\<exists>n'. maybe_set_local_to_exit_time ((quiet_env log_world)\<lparr>ce_get_time := \<lambda>_ w. (Some (from_secs 5000), w)\<rparr>) (from_secs 1000) sample_exit
       log_client = Some (Ok (), n')
     \<and> last (cn_world n') = (''date'', [''-s'', ''@'' @ dec 5000]) \<and> dates_after 1060 (cn_world n')"
  (is "\<exists>n'. maybe_set_local_to_exit_time ?E _ _ _ = _ \<and> _ \<and> _")
proof -
  have "\<exists>n'. maybe_set_local_to_exit_time ?E (from_secs 1000) sample_exit log_client = Some (Ok (), n')
      \<and> last (cn_world n') = (''date'', [''-s'', ''@'' @ dec 5000])"
    by (simp add: maybe_set_local_to_exit_time_def get_latest_exit_handshake_def get_last_handshake_time_def get_exit_time_def
        set_local_time_def cmd_def log_world_def quiet_env_def log_client_def select_exit_id_def get_current_exit_def recent_handshake_def
        MAX_DIFF_LOCAL_EXIT_TIME_def from_secs_def as_secs_def on_cworld_def cget_def cexpect_def rbind_def rattempt_def rignore_def rret_def)
  then obtain n' where run: "maybe_set_local_to_exit_time ?E (from_secs 1000) sample_exit log_client = Some (Ok (), n')"
    and date: "last (cn_world n') = (''date'', [''-s'', ''@'' @ dec 5000])" by blast
  have "dates_after 1060 (cn_world n')"
    by (rule clock_only_moves_forward [OF run, of "dates_after 1060"])
      (auto simp: dates_after_def log_client_def log_world_def quiet_env_def from_secs_def as_secs_def)
  then show ?thesis using run date by blast
qed

end
