(* ===== verification/Spec2Isabelle.thy ===== *)
theory Spec2Isabelle
  imports Debt_Traces Tunnel_Properties Babel_Properties Usage_Properties Chain_Properties
    Kernel_Properties Payment_Properties Endpoint_Properties Registration_Properties Exit_Setup Client_Properties
begin

text \<open>
  Rita, the routing and payment daemon of the Althea mesh network. A router forwards traffic over
  WireGuard tunnels to its neighbors, counts it, bills it at the prices the routing daemon Babel
  announces, pays its own debts on a block chain and limits the bandwidth of neighbors that do not
  pay. Exits connect the mesh to the internet and bill their clients; clients register at a
  registration server, which writes them into a contract on the chain.

  \<^bold>\<open>The parts and their theories.\<close>

  \<^item> Foundations. \<open>Rita_Prelude\<close> fixes the conventions (\<open>Result\<close> is a sum, a panic is \<open>None\<close>,
    instants are nanoseconds), \<open>Str_Util\<close> and \<open>Ip_Text\<close> model the part of the string and address
    library the sources use, \<open>Num256\<close> the interface of the crate \<open>num256\<close> as a record with the
    locale \<open>num256_laws\<close>, \<open>Althea_Types\<close> and \<open>Settings\<close> the shared data and the configuration
    (\<open>althea_types/src/interop.rs\<close>, \<open>settings/src\<close>), \<open>Regions\<close> the region tables of
    \<open>althea_types/src/regions.rs\<close>.
  \<^item> The operating system. \<open>Kernel_Interface\<close> (\<open>traffic_control.rs\<close>, \<open>interface_tools.rs\<close>,
    \<open>setup_wg_if.rs\<close>, \<open>udp_socket_table.rs\<close>) and \<open>Netfilter\<close> (\<open>netfilter.rs\<close>, \<open>iptables.rs\<close>,
    \<open>counter.rs\<close>, \<open>wg_iface_counter.rs\<close>) of \<open>althea_kernel_interface\<close>. Programs, files and sockets
    are the parameter \<open>world\<close>; an operation is a function on its state that issues the commands the
    sources issue and takes every error path they take. \<open>Kernel_Properties\<close> has their properties.
  \<^item> Routing. \<open>Babel_Monitor\<close> is the client of the routing daemon (\<open>babel_monitor/src\<close>), with its
    properties in \<open>Babel_Properties\<close>.
  \<^item> Tunnels. \<open>Tunnel_Manager\<close> (\<open>rita_common/src/tunnel_manager\<close>): the table of tunnels, payment
    state, garbage collection and shaping. \<open>Tunnel_Safety\<close> has the invariant of the table,
    \<open>Tunnel_Enforcement\<close> the effect on the queueing disciplines of the kernel, stated over the
    locale \<open>tc_laws\<close>, \<open>Tunnel_Properties\<close> the properties.
  \<^item> Money. \<open>Debt_Keeper\<close> (\<open>debt_keeper/mod.rs\<close>), \<open>Payment_Controller\<close>, \<open>Payment_Validator\<close>,
    \<open>Blockchain_Oracle\<close> and \<open>Simulated_Txfee\<close> model the modules of \<open>rita_common/src\<close> of these
    names. \<open>Debt_Safety\<close> and \<open>Debt_Traces\<close> give the closed forms of the debt keeper over exact
    integers and its behaviour over sequences of operations, \<open>Validator_Safety\<close> the invariant
    that a transaction counts once and that each credit on an Ethereum based chain is backed by a transfer to us, \<open>Payment_Properties\<close> the interplay of
    the three, \<open>Chain_Properties\<close> the oracle and the fee.
  \<^item> Billing. \<open>Traffic_Watcher\<close> (a relay) and \<open>Endpoint_Traffic\<close> (exit and client) turn counters into
    debts; \<open>Traffic_Properties\<close> and \<open>Endpoint_Properties\<close> show what a round bills as exact sums.
    \<open>Usage_Tracker\<close> and \<open>Usage_Properties\<close> are the usage and payment histories.
  \<^item> Registration. \<open>Althea_Db\<close> is the contract \<open>solidity/contracts/AltheaDB.sol\<close>, \<open>Db_Safety\<close> its
    specification as sets and the refinement, \<open>Client_Db\<close> the encoding and decoding of its calls
    (\<open>rita_client_registration/src/client_db.rs\<close>), \<open>Abi_Roundtrip\<close> their round trip over the locale
    \<open>clarity_laws\<close>, \<open>Registration\<close> the server and the batch loop, \<open>Registration_Properties\<close>
    the whole subsystem over the locale \<open>registration_node\<close>. \<open>Contact_Info\<close> is the contact of a client
    and its conversions (\<open>althea_types/src/contact_info.rs\<close>), with their round trip.
  \<^item> Routes and tunnels of the kernel. \<open>Kernel_Routes\<close> (\<open>ip_route.rs\<close>, \<open>get_neighbors.rs\<close>, \<open>open_tunnel.rs\<close>
    and the tools they use), \<open>Kernel_Exit\<close> (\<open>exit_server_tunnel.rs\<close>, \<open>exit_client_tunnel.rs\<close>, \<open>ip_addr.rs\<close>), and
    \<open>Ip_Nets\<close>, the interface of the crate \<open>ipnetwork\<close> with the locale \<open>ipnet_laws\<close>.
  \<^item> The exit. \<open>Exit_Database\<close> (\<open>rita_exit/src/database\<close>: addresses, signup, regions) and \<open>Exit_Loop\<close> (the setup and
    enforcement of clients, the main loop, the network endpoints). \<open>Exit_Safety\<close> has the relations every
    operation respects, by the locale \<open>preorder_rel\<close>; \<open>Exit_Properties\<close> shows that addresses are stable and unique,
    \<open>Exit_Setup\<close> whom the setup lets in.
  \<^item> The client. \<open>Exit_Switcher\<close> is the choice of an exit (\<open>exit_manager/exit_switcher.rs\<close>) and \<open>Switcher_Properties\<close> its
    properties over every run; \<open>Exit_Manager\<close> has the requests to exits, the tunnel, the clock and the endpoints of the
    dashboard (\<open>exit_manager/mod.rs\<close>, \<open>time_sync.rs\<close>, \<open>dashboard/exits.rs\<close>), \<open>Exit_Manager_Loop\<close> a tick of
    \<open>exit_loop.rs\<close>. \<open>Lan_Gate\<close> says what blocking and restoring the users does to the firewall: the locales
    \<open>iptables_firewall\<close> and \<open>nft_firewall\<close> for the programs give the contract \<open>lan_gate\<close> for the operations of
    \<open>exit_client_tunnel.rs\<close>. \<open>Client_Properties\<close> shows over every sequence of ticks and requests that the keys of exits are pinned,
    that the selected exit is a configured one and that none is selected without the dashboard, and how
    the blacklist, the firewall and the clock change.

  \<^bold>\<open>How code is represented.\<close> A struct is a record, an enum a datatype, an integer a word of its width
  or a natural number with the wrap-around written out. Handlers pass their state; those that talk to
  the operating system or a node live in the monad \<open>rio\<close> of \<open>Kernel_Interface\<close>, in which a \<open>Result\<close>
  and a panic are different outcomes. Every reading of the clock and every answer from the network is
  an argument. Hash maps are maps, or association lists in the order of iteration where the order
  shows, so that the theorems hold for every order. Errors that differ only in their message are one
  constructor.

  \<^bold>\<open>Parameters.\<close> Crates that are not in the repository (\<open>num256\<close>, \<open>clarity\<close>, \<open>web30\<close>, \<open>ipnetwork\<close>,
  \<open>serde\<close>, regular expressions, Base64 of keys), the operating system, the full nodes and HTTP peers
  are arguments of the definitions. What the code relies on is a locale or a named hypothesis, and
  each locale is interpreted on a concrete instance.

  \<^bold>\<open>Bounds.\<close> Loops are structural recursion, recursion with a termination proof
  (\<open>first_free_wg\<close>, \<open>update_metric_value\<close>) or recursion on the number of attempts the code allows (\<open>wg_retry\<close>). The
  reader of the routing daemon may wait for ever and is a \<open>partial_function (option)\<close>;
  \<open>read_babel_returns\<close> shows when it returns.

  \<^bold>\<open>Simplifications.\<close> Requests that the code awaits together run one after the other. The message of a
  denial by an exit and the nickname of an identity are left out. A panic ends the operation
  without a state; the watchdogs that start a thread again are not modelled.

  \<^bold>\<open>Not modelled.\<close> Contacting peers and the listener for their hellos, the network monitor, the
  composition of the fast and the slow loop, the forwarding protocol of antennas, the heartbeat, the operator
  fee, the operator updates, the token bridge, the dashboards but for the exits, the remaining tools of the kernel
  interface (UCI, firmware, hardware, DNS), the migration of old databases, reading and writing the configuration
  file, the start of the programs, logging, and the integration tests. The manifest says for each why.

  The map of the manifest names the definition that covers most of the code where several translate the same
  lines; helpers inside the lines of another definition are not listed again.
\<close>

end
